(* ===== verification/Prelude.thy ===== *)
theory Prelude
  imports Main
begin

text \<open>
  Shared vocabulary of the development: the types that stand for Python's \<open>str\<close>,
  \<open>bytes\<close> and exceptions, the error monad of the pure functions, and the generic list
  lemmas the component proofs use.

  \<^item> \<open>bytes\<close> is a list of \<open>char\<close>, HOL's 8-bit character: Python's \<open>bytes\<close> and
    C++'s \<open>std::string\<close> are both sequences of octets.
  \<^item> \<open>pystr\<close> is a list of code points: Python's \<open>str\<close> is a sequence of Unicode code
    points, and \<open>encode\<close>/\<open>decode\<close> move between the two.
  \<^item> \<open>pyexc\<close> has one constructor per exception that the modelled code can raise.
\<close>

type_synonym bytes = string
type_synonym pystr = "int list"

datatype pyexc =
    AssertionError pystr
  | TimeoutError pystr      \<comment> \<open>the harness's own class\<close>
  | SocketTimeout           \<comment> \<open>\<open>socket.timeout\<close>\<close>
  | IndexError
  | OverflowError
  | ValueError
  | TypeError
  | AttributeError
  | UnicodeEncodeError
  | UnicodeDecodeError
  | BrokenPipeError
  | ConnectionResetError
  | OSError

type_synonym 'a res = "pyexc + 'a"

named_theorems res_simps \<open>evaluation rules of the error monad\<close>
named_theorems wire_simps \<open>equations that unfold the wire format\<close>

text \<open>Sequencing of pure code that may raise: the first exception wins.\<close>

definition rbind :: "'a res \<Rightarrow> ('a \<Rightarrow> 'b res) \<Rightarrow> 'b res" where
  "rbind m f = (case m of Inl e \<Rightarrow> Inl e | Inr x \<Rightarrow> f x)"

lemma rbind_Inr [simp, res_simps]: "rbind (Inr x) f = f x"
  by (simp add: rbind_def)

lemma rbind_Inl [simp, res_simps]: "rbind (Inl e) f = Inl e"
  by (simp add: rbind_def)

lemma rbind_eq_Inr: "rbind m f = Inr y \<longleftrightarrow> (\<exists>x. m = Inr x \<and> f x = Inr y)"
  by (cases m) auto

lemma rbind_eq_Inl: "rbind m f = Inl e \<longleftrightarrow> m = Inl e \<or> (\<exists>x. m = Inr x \<and> f x = Inl e)"
  by (cases m) auto

lemma rbind_assoc: "rbind (rbind m f) g = rbind m (\<lambda>x. rbind (f x) g)"
  by (cases m) auto

lemma rbind_Inr_right: "rbind m Inr = m"
  by (cases m) auto

text \<open>A \<open>char\<close> as the integer Python reads from a \<open>bytes\<close> object, and back.\<close>

definition ord :: "char \<Rightarrow> int" where
  "ord c = of_char c"

definition chr8 :: "int \<Rightarrow> char" where
  "chr8 i = char_of i"

lemma ord_range [simp]: "0 \<le> ord c" "ord c < 256"
  by (simp_all add: ord_def of_char_def)

lemma chr8_ord [simp]: "chr8 (ord c) = c"
  by (simp add: chr8_def ord_def)

lemma ord_chr8 [simp]: "0 \<le> i \<Longrightarrow> i < 256 \<Longrightarrow> ord (chr8 i) = i"
  by (simp add: chr8_def ord_def)

lemma ord_inject [simp]: "ord a = ord b \<longleftrightarrow> a = b"
  by (metis chr8_ord)

text \<open>An ASCII literal of the source as a Python string.\<close>

definition lit :: "string \<Rightarrow> pystr" where
  "lit s = map ord s"

lemma lit_append [simp]: "lit (s @ t) = lit s @ lit t"
  by (simp add: lit_def)

lemma lit_Nil [simp]: "lit [] = []"
  by (simp add: lit_def)

lemma lit_inject: "lit s = lit t \<longleftrightarrow> s = t"
  by (simp add: lit_def inj_map_eq_map inj_def ord_inject)

lemma length_lit [simp]: "length (lit s) = length s"
  by (simp add: lit_def)

text \<open>The two-character line end \<open>"\r\n"\<close> of the protocol.\<close>

definition crlf :: bytes where
  "crlf = [CHR 0x0D, CHR 0x0A]"

end
