(* ===== verification/Py_Text.thy ===== *)
theory Py_Text
  imports Prelude
begin

text \<open>
  The part of Python's standard library that the harness uses on text and bytes:
  UTF-8 \<open>encode\<close>/\<open>decode\<close>, \<open>int.to_bytes\<close>/\<open>from_bytes\<close>, slicing and indexing,
  decimal formatting, and the \<open>str\<close> methods \<open>lower\<close>, \<open>split\<close>, \<open>join\<close>,
  \<open>count\<close>, \<open>strip\<close> and the \<open>in\<close> test. The main results are the UTF-8 and the
  big-endian round trips.
\<close>

section \<open>UTF-8\<close>

text \<open>Unicode scalar values: what \<open>str.encode()\<close> accepts (no surrogates).\<close>

definition scalar :: "int \<Rightarrow> bool" where
  "scalar c \<longleftrightarrow> 0 \<le> c \<and> c < 0x110000 \<and> \<not> (0xD800 \<le> c \<and> c < 0xE000)"

definition utf8_char :: "int \<Rightarrow> bytes" where
  "utf8_char c =
     (if c < 0x80 then [chr8 c]
      else if c < 0x800 then [chr8 (0xC0 + c div 64), chr8 (0x80 + c mod 64)]
      else if c < 0x10000 then
        [chr8 (0xE0 + c div 64 div 64), chr8 (0x80 + c div 64 mod 64), chr8 (0x80 + c mod 64)]
      else [chr8 (0xF0 + c div 64 div 64 div 64), chr8 (0x80 + c div 64 div 64 mod 64),
            chr8 (0x80 + c div 64 mod 64), chr8 (0x80 + c mod 64)])"

definition encode :: "pystr \<Rightarrow> bytes res" where
  "encode s = (if list_all scalar s then Inr (concat (map utf8_char s)) else Inl UnicodeEncodeError)"

definition cont :: "char \<Rightarrow> bool" where
  "cont b \<longleftrightarrow> 0x80 \<le> ord b \<and> ord b < 0xC0"

definition low6 :: "char \<Rightarrow> int" where
  "low6 b = ord b - 0x80"

text \<open>One step of the strict decoder: the first code point and the rest of the input.\<close>

definition utf8_step :: "bytes \<Rightarrow> (int \<times> bytes) option" where
  "utf8_step bs =
     (case bs of
        [] \<Rightarrow> None
      | a # r1 \<Rightarrow>
          if ord a < 0x80 then Some (ord a, r1)
          else if ord a < 0xC2 then None
          else if ord a < 0xE0 then
            (case r1 of
               b # r2 \<Rightarrow> if cont b then Some ((ord a - 0xC0) * 64 + low6 b, r2) else None
             | _ \<Rightarrow> None)
          else if ord a < 0xF0 then
            (case r1 of
               b # c # r3 \<Rightarrow>
                 let n = (ord a - 0xE0) * 4096 + low6 b * 64 + low6 c
                 in if cont b \<and> cont c \<and> 0x800 \<le> n \<and> scalar n then Some (n, r3) else None
             | _ \<Rightarrow> None)
          else if ord a < 0xF5 then
            (case r1 of
               b # c # d # r4 \<Rightarrow>
                 let n = (ord a - 0xF0) * 262144 + low6 b * 4096 + low6 c * 64 + low6 d
                 in if cont b \<and> cont c \<and> cont d \<and> 0x10000 \<le> n \<and> scalar n
                    then Some (n, r4) else None
             | _ \<Rightarrow> None)
          else None)"

lemma utf8_step_shorter: "utf8_step bs = Some (c, r) \<Longrightarrow> length r < length bs"
  by (auto simp: utf8_step_def Let_def split: list.splits if_splits)

function decode :: "bytes \<Rightarrow> pystr res" where
  "decode bs =
     (if bs = [] then Inr []
      else case utf8_step bs of
        None \<Rightarrow> Inl UnicodeDecodeError
      | Some (c, r) \<Rightarrow> rbind (decode r) (\<lambda>s. Inr (c # s)))"
  by pat_completeness auto
termination
  by (relation "measure length") (auto dest: utf8_step_shorter)

declare decode.simps [simp del]

lemma decode_Nil [simp]: "decode [] = Inr []"
  by (simp add: decode.simps)

lemma ord_chr8_add [simp]:
  "0 \<le> k \<Longrightarrow> 0 \<le> i \<Longrightarrow> k + i < 256 \<Longrightarrow> ord (chr8 (k + i)) = k + i"
  by simp

lemma utf8_step_2:
  assumes "2 \<le> a" "a < 32" "0 \<le> b" "b < 64"
  shows "utf8_step (chr8 (0xC0 + a) # chr8 (0x80 + b) # r) = Some (a * 64 + b, r)"
  using assms by (simp add: utf8_step_def cont_def low6_def)

lemma utf8_step_3:
  assumes "0 \<le> a" "a < 16" "0 \<le> b" "b < 64" "0 \<le> c" "c < 64"
    and "0x800 \<le> a * 4096 + b * 64 + c" "scalar (a * 4096 + b * 64 + c)"
  shows "utf8_step (chr8 (0xE0 + a) # chr8 (0x80 + b) # chr8 (0x80 + c) # r)
    = Some (a * 4096 + b * 64 + c, r)"
  using assms by (simp add: utf8_step_def cont_def low6_def)

lemma utf8_step_4:
  assumes "0 \<le> a" "a < 5" "0 \<le> b" "b < 64" "0 \<le> c" "c < 64" "0 \<le> d" "d < 64"
    and "0x10000 \<le> a * 262144 + b * 4096 + c * 64 + d"
    and "scalar (a * 262144 + b * 4096 + c * 64 + d)"
  shows "utf8_step (chr8 (0xF0 + a) # chr8 (0x80 + b) # chr8 (0x80 + c) # chr8 (0x80 + d) # r)
    = Some (a * 262144 + b * 4096 + c * 64 + d, r)"
  using assms by (simp add: utf8_step_def cont_def low6_def Let_def add.assoc)

lemma utf8_step_char:
  assumes "scalar c"
  shows "utf8_step (utf8_char c @ r) = Some (c, r)"
proof -
  have c: "0 \<le> c" "c < 0x110000" using assms by (auto simp: scalar_def)
  define p where "p = c div 64"
  define q where "q = p div 64"
  define t where "t = q div 64"
  have eqs: "c = p * 64 + c mod 64" "p = q * 64 + p mod 64" "q = t * 64 + q mod 64"
    by (simp_all add: p_def q_def t_def)
  have m: "0 \<le> c mod 64" "c mod 64 < 64" "0 \<le> p mod 64" "p mod 64 < 64" "0 \<le> q mod 64" "q mod 64 < 64"
    by simp_all
  consider "c < 0x80" | "0x80 \<le> c" "c < 0x800" | "0x800 \<le> c" "c < 0x10000" | "0x10000 \<le> c"
    by linarith
  then show ?thesis
  proof cases
    case 1
    then show ?thesis using c by (simp add: utf8_char_def utf8_step_def)
  next
    case 2
    have r: "2 \<le> p" "p < 32" using 2 eqs(1) m by linarith+
    have "utf8_char c = [chr8 (0xC0 + p), chr8 (0x80 + c mod 64)]"
      using 2 by (simp add: utf8_char_def p_def)
    then show ?thesis using utf8_step_2 [OF r m(1,2), of r] eqs(1) by simp
  next
    case 3
    have r: "0 \<le> q" "q < 16" using 3 eqs m by linarith+
    have n: "q * 4096 + p mod 64 * 64 + c mod 64 = c" using eqs by linarith
    have "utf8_char c = [chr8 (0xE0 + q), chr8 (0x80 + p mod 64), chr8 (0x80 + c mod 64)]"
      using 3 by (simp add: utf8_char_def p_def q_def)
    then show ?thesis
      using utf8_step_3 [OF r m(3,4) m(1,2), of r] n 3 assms by simp
  next
    case 4
    have r: "0 \<le> t" "t < 5" using 4 c eqs m by linarith+
    have n: "t * 262144 + q mod 64 * 4096 + p mod 64 * 64 + c mod 64 = c" using eqs by linarith
    have "utf8_char c = [chr8 (0xF0 + t), chr8 (0x80 + q mod 64), chr8 (0x80 + p mod 64),
        chr8 (0x80 + c mod 64)]"
      using 4 by (simp add: utf8_char_def p_def q_def t_def)
    then show ?thesis
      using utf8_step_4 [OF r m(5,6) m(3,4) m(1,2), of r] n 4 assms by simp
  qed
qed

lemma utf8_char_nonempty [simp]: "utf8_char c \<noteq> []"
  by (simp add: utf8_char_def)

lemma decode_utf8_char:
  assumes "scalar c"
  shows "decode (utf8_char c @ r) = rbind (decode r) (\<lambda>s. Inr (c # s))"
  using utf8_step_char [OF assms, of r] by (subst decode.simps) simp

lemma decode_encode_concat: "list_all scalar s \<Longrightarrow> decode (concat (map utf8_char s)) = Inr s"
  by (induction s) (simp_all add: decode_utf8_char)

text \<open>Encoding then decoding gives the string back.\<close>

lemma decode_encode: "encode s = Inr bs \<Longrightarrow> decode bs = Inr s"
  by (auto simp: encode_def decode_encode_concat split: if_splits)

lemma chr8_eq_nul: "0 \<le> i \<Longrightarrow> i < 256 \<Longrightarrow> chr8 i = CHR 0x00 \<longleftrightarrow> i = 0"
proof -
  assume "0 \<le> i" "i < 256"
  then have "chr8 i = CHR 0x00 \<longleftrightarrow> i = ord (CHR 0x00)" by (metis chr8_ord ord_chr8)
  then show ?thesis by (simp add: ord_def)
qed

lemma utf8_char_no_nul:
  assumes "scalar c" "c \<noteq> 0"
  shows "CHR 0x00 \<notin> set (utf8_char c)"
proof -
  have c: "0 < c" "c < 0x110000" using assms by (auto simp: scalar_def)
  have d: "c < 0x800 \<Longrightarrow> c div 64 < 32" "c < 0x10000 \<Longrightarrow> c div 64 div 64 < 16"
    "0 \<le> c div 64 div 64 div 64" "c div 64 div 64 div 64 < 5"
    using c by linarith+
  have nz: "CHR 0x00 = chr8 i \<longleftrightarrow> False" if "0 < i" "i < 256" for i
    using chr8_eq_nul [of i] that by auto
  have m: "128 + i mod 64 < 256" "0 < 128 + i mod 64" for i :: int
    using pos_mod_bound [of 64 i] pos_mod_sign [of 64 i] by linarith+
  show ?thesis
    using c d m by (auto simp: utf8_char_def nz pos_imp_zdiv_nonneg_iff add_pos_nonneg)
qed

lemma utf8_no_nul: "list_all scalar s \<Longrightarrow> 0 \<notin> set s \<Longrightarrow> CHR 0x00 \<notin> set (concat (map utf8_char s))"
  by (induction s) (auto dest: utf8_char_no_nul)

lemma encode_no_nul: "encode s = Inr bs \<Longrightarrow> 0 \<notin> set s \<Longrightarrow> CHR 0x00 \<notin> set bs"
  using utf8_no_nul by (auto simp: encode_def split: if_splits)

lemma encode_nul: "encode s = Inr bs \<Longrightarrow> CHR 0x00 \<notin> set bs \<Longrightarrow> 0 \<notin> set s"
proof
  assume "encode s = Inr bs" "CHR 0x00 \<notin> set bs" "0 \<in> set s"
  moreover have "CHR 0x00 \<in> set (utf8_char 0)" by code_simp
  ultimately show False by (auto simp: encode_def split: if_splits)
qed

text \<open>
  The strict decoder accepts only the shortest form: what it reads as one code point is that
  code point's encoding.
\<close>

lemma chr8_low6: "cont b \<Longrightarrow> chr8 (0x80 + low6 b) = b"
  by (simp add: low6_def)

lemma low6_range: "cont b \<Longrightarrow> 0 \<le> low6 b \<and> low6 b < 64"
  by (auto simp: low6_def cont_def)

lemma div_mod_64: "0 \<le> (j::int) \<Longrightarrow> j < 64 \<Longrightarrow> (k * 64 + j) div 64 = k \<and> (k * 64 + j) mod 64 = j"
  by simp

lemma utf8_char_2:
  assumes "2 \<le> k" "k < 32" "0 \<le> j" "j < 64"
  shows "utf8_char (k * 64 + j) = [chr8 (0xC0 + k), chr8 (0x80 + j)]"
  using assms by (simp add: utf8_char_def)

lemma utf8_char_3:
  assumes "0 \<le> i" "i < 64" "0 \<le> j" "j < 64" "0x800 \<le> k * 4096 + i * 64 + j" "k < 16"
  shows "utf8_char (k * 4096 + i * 64 + j) = [chr8 (0xE0 + k), chr8 (0x80 + i), chr8 (0x80 + j)]"
proof -
  have e: "k * 4096 + i * 64 + j = (k * 64 + i) * 64 + j" by simp
  have "k * 4096 + i * 64 + j < 0x10000" using assms by linarith
  then show ?thesis
    using assms(5) div_mod_64 [OF assms(3,4), of "k * 64 + i"] div_mod_64 [OF assms(1,2), of k]
    by (simp add: utf8_char_def e)
qed

lemma utf8_char_4:
  assumes "0 \<le> h" "h < 64" "0 \<le> i" "i < 64" "0 \<le> j" "j < 64"
    "0x10000 \<le> k * 262144 + h * 4096 + i * 64 + j"
  shows "utf8_char (k * 262144 + h * 4096 + i * 64 + j)
    = [chr8 (0xF0 + k), chr8 (0x80 + h), chr8 (0x80 + i), chr8 (0x80 + j)]"
proof -
  have e: "k * 262144 + h * 4096 + i * 64 + j = ((k * 64 + h) * 64 + i) * 64 + j" by simp
  then show ?thesis
    using assms(7) div_mod_64 [OF assms(5,6), of "(k * 64 + h) * 64 + i"]
      div_mod_64 [OF assms(3,4), of "k * 64 + h"] div_mod_64 [OF assms(1,2), of k]
    by (simp add: utf8_char_def e)
qed

lemma utf8_step_canonical:
  assumes "utf8_step bs = Some (c, r)"
  shows "scalar c \<and> bs = utf8_char c @ r"
proof -
  from assms obtain a r1 where bs: "bs = a # r1" by (auto simp: utf8_step_def split: list.splits)
  have a: "0 \<le> ord a" "ord a < 256" by simp_all
  consider "ord a < 0x80" | "0xC2 \<le> ord a" "ord a < 0xE0" | "0xE0 \<le> ord a" "ord a < 0xF0"
    | "0xF0 \<le> ord a" "ord a < 0xF5"
    using assms by (auto simp: utf8_step_def bs split: if_splits)
  then show ?thesis
  proof cases
    case 1
    with assms show ?thesis by (auto simp: utf8_step_def bs utf8_char_def scalar_def)
  next
    case 2
    with assms obtain b where r1: "r1 = b # r" "cont b" "c = (ord a - 0xC0) * 64 + low6 b"
      by (auto simp: utf8_step_def bs split: list.splits if_splits)
    with 2 low6_range [of b] utf8_char_2 [of "ord a - 0xC0" "low6 b"] show ?thesis
      by (auto simp: bs scalar_def chr8_low6)
  next
    case 3
    with assms obtain b d where r1: "r1 = b # d # r" "cont b" "cont d"
      "c = (ord a - 0xE0) * 4096 + low6 b * 64 + low6 d" "0x800 \<le> c" "scalar c"
      by (auto simp: utf8_step_def bs Let_def split: list.splits if_splits)
    have "utf8_char c = [a, b, d]"
      using r1 3 low6_range [of b] low6_range [of d]
        utf8_char_3 [of "low6 b" "low6 d" "ord a - 0xE0"] by (simp add: chr8_low6)
    with r1 show ?thesis by (simp add: bs)
  next
    case 4
    with assms obtain b d e where r1: "r1 = b # d # e # r" "cont b" "cont d" "cont e"
      "c = (ord a - 0xF0) * 262144 + low6 b * 4096 + low6 d * 64 + low6 e" "0x10000 \<le> c" "scalar c"
      by (auto simp: utf8_step_def bs Let_def split: list.splits if_splits)
    have "utf8_char c = [a, b, d, e]"
      using r1 low6_range [of b] low6_range [of d] low6_range [of e]
        utf8_char_4 [of "low6 b" "low6 d" "low6 e" "ord a - 0xF0"] by (simp add: chr8_low6)
    with r1 show ?thesis by (simp add: bs)
  qed
qed

lemma decode_canonical: "decode bs = Inr s \<Longrightarrow> list_all scalar s \<and> bs = concat (map utf8_char s)"
proof (induction bs arbitrary: s rule: decode.induct)
  case (1 bs)
  show ?case
  proof (cases "bs = []")
    case True
    with "1.prems" show ?thesis by simp
  next
    case False
    with "1.prems" obtain c r s' where st: "utf8_step bs = Some (c, r)" "decode r = Inr s'" "s = c # s'"
      by (auto simp: decode.simps [of bs] rbind_eq_Inr split: option.splits)
    with "1.IH" [OF False st(1) refl st(2)] utf8_step_canonical [OF st(1)] show ?thesis by simp
  qed
qed

lemma encode_error: "encode s = Inl e \<Longrightarrow> e = UnicodeEncodeError"
  by (auto simp: encode_def split: if_splits)

lemma encode_decode: "decode bs = Inr s \<Longrightarrow> encode s = Inr bs"
  by (auto dest: decode_canonical simp: encode_def)

lemma decode_error: "decode bs = Inl e \<Longrightarrow> e = UnicodeDecodeError"
proof (induction bs rule: decode.induct)
  case (1 bs)
  then show ?case
    by (auto simp: decode.simps [of bs] rbind_eq_Inl split: if_splits option.splits)
qed

section \<open>Integers\<close>

text \<open>\<open>n.to_bytes(2, 'big')\<close> raises \<open>OverflowError\<close> outside \<open>0 \<le> n < 65536\<close>.\<close>

definition to_bytes2 :: "int \<Rightarrow> bytes res" where
  "to_bytes2 n =
     (if 0 \<le> n \<and> n < 65536 then Inr [chr8 (n div 256), chr8 (n mod 256)] else Inl OverflowError)"

text \<open>\<open>int.from_bytes(b, byteorder="big")\<close> on a byte string of any length.\<close>

definition from_bytes :: "bytes \<Rightarrow> int" where
  "from_bytes bs = foldl (\<lambda>n b. n * 256 + ord b) 0 bs"

lemma from_bytes_Nil [simp]: "from_bytes [] = 0"
  by (simp add: from_bytes_def)

lemma to_bytes2_length: "to_bytes2 n = Inr bs \<Longrightarrow> length bs = 2"
  by (auto simp: to_bytes2_def split: if_splits)

lemma from_to_bytes2: "to_bytes2 n = Inr bs \<Longrightarrow> from_bytes bs = n"
  by (auto simp: to_bytes2_def from_bytes_def split: if_splits)

lemma to_from_bytes2: "length bs = 2 \<Longrightarrow> to_bytes2 (from_bytes bs) = Inr bs"
proof -
  assume "length bs = 2"
  then obtain a b where bs: "bs = [a, b]"
    by (auto simp: length_Suc_conv numeral_2_eq_2)
  have "(ord a * 256 + ord b) div 256 = ord a" "(ord a * 256 + ord b) mod 256 = ord b"
    by simp_all
  moreover have "0 \<le> ord a * 256 + ord b" "ord a * 256 + ord b < 65536"
    using ord_range [of a] ord_range [of b] by linarith+
  ultimately show ?thesis
    by (simp add: bs from_bytes_def to_bytes2_def)
qed

text \<open>\<open>bytes([n])\<close> raises \<open>ValueError\<close> outside the range of an octet.\<close>

definition bytes1 :: "int \<Rightarrow> bytes res" where
  "bytes1 n = (if 0 \<le> n \<and> n < 256 then Inr [chr8 n] else Inl ValueError)"

text \<open>Decimal formatting of an integer, as in an f-string.\<close>

function digits :: "int \<Rightarrow> pystr" where
  "digits n = (if n < 10 then [48 + n] else digits (n div 10) @ [48 + n mod 10])"
  by pat_completeness auto
termination
  by (relation "measure nat") auto

declare digits.simps [simp del]

definition str_of_int :: "int \<Rightarrow> pystr" where
  "str_of_int n = (if n < 0 then lit ''-'' @ digits (- n) else digits n)"

section \<open>Indexing and slicing\<close>

text \<open>
  \<open>data[p]\<close> and \<open>data[p : p + n]\<close> for a pointer \<open>p \<ge> 0\<close>: indexing past the end raises
  \<open>IndexError\<close>, slicing past the end silently gives what is there.
\<close>

definition index :: "'a list \<Rightarrow> nat \<Rightarrow> 'a res" where
  "index xs p = (if p < length xs then Inr (xs ! p) else Inl IndexError)"

definition slice :: "'a list \<Rightarrow> nat \<Rightarrow> nat \<Rightarrow> 'a list" where
  "slice xs p q = take (q - p) (drop p xs)"

lemma index_0_Cons [simp]: "index (x # xs) 0 = Inr x"
  by (simp add: index_def)

lemma index_append [simp]: "index (xs @ y # ys) (length xs) = Inr y"
  by (simp add: index_def)

section \<open>String methods\<close>

text \<open>\<open>x in y\<close> on strings: \<open>x\<close> occurs in \<open>y\<close> as a contiguous part.\<close>

fun starts_with :: "'a list \<Rightarrow> 'a list \<Rightarrow> bool" where
  "starts_with [] ys = True"
| "starts_with (x # xs) [] = False"
| "starts_with (x # xs) (y # ys) = (x = y \<and> starts_with xs ys)"

fun occurs_in :: "'a list \<Rightarrow> 'a list \<Rightarrow> bool" where
  "occurs_in xs [] = (xs = [])"
| "occurs_in xs (y # ys) = (starts_with xs (y # ys) \<or> occurs_in xs ys)"

lemma starts_with_iff: "starts_with xs ys \<longleftrightarrow> (\<exists>zs. ys = xs @ zs)"
  by (induction xs ys rule: starts_with.induct) auto

lemma occurs_in_iff: "occurs_in xs ys \<longleftrightarrow> (\<exists>us vs. ys = us @ xs @ vs)"
proof (induction ys)
  case Nil
  then show ?case by auto
next
  case (Cons y ys)
  have "(\<exists>us vs. y # ys = us @ xs @ vs) \<longleftrightarrow>
        (\<exists>vs. y # ys = xs @ vs) \<or> (\<exists>us vs. ys = us @ xs @ vs)"
    by (auto simp: Cons_eq_append_conv)
  then show ?case using Cons by (simp add: starts_with_iff)
qed

text \<open>\<open>s.split("\n")\<close>: the pieces between the separators, at least one.\<close>

fun split_on :: "'a \<Rightarrow> 'a list \<Rightarrow> 'a list list" where
  "split_on c [] = [[]]"
| "split_on c (x # xs) =
     (if x = c then [] # split_on c xs
      else case split_on c xs of [] \<Rightarrow> [[x]] | p # ps \<Rightarrow> (x # p) # ps)"

text \<open>\<open>sep.join(parts)\<close>.\<close>

fun join_with :: "'a list \<Rightarrow> 'a list list \<Rightarrow> 'a list" where
  "join_with sep [] = []"
| "join_with sep [p] = p"
| "join_with sep (p # q # ps) = p @ sep @ join_with sep (q # ps)"

lemma split_on_nonempty [simp]: "split_on c xs \<noteq> []"
  by (cases xs) (auto split: list.splits)

lemma join_split_on: "join_with [c] (split_on c xs) = xs"
proof (induction xs)
  case Nil
  then show ?case by simp
next
  case (Cons x xs)
  then show ?case
    by (cases "split_on c xs"; cases "tl (split_on c xs)") auto
qed

text \<open>\<open>s.lower()\<close> on the ASCII letters (the only letters the sources lower).\<close>

definition lower :: "pystr \<Rightarrow> pystr" where
  "lower s = map (\<lambda>c. if 65 \<le> c \<and> c \<le> 90 then c + 32 else c) s"

text \<open>\<open>s.strip()\<close>: white space removed at both ends.\<close>

definition is_space :: "int \<Rightarrow> bool" where
  "is_space c \<longleftrightarrow> c = 32 \<or> 9 \<le> c \<and> c \<le> 13 \<or> 28 \<le> c \<and> c \<le> 31 \<or> c = 0x85 \<or> c = 0xA0
     \<or> c = 0x1680 \<or> 0x2000 \<le> c \<and> c \<le> 0x200A \<or> c = 0x2028 \<or> c = 0x2029
     \<or> c = 0x202F \<or> c = 0x205F \<or> c = 0x3000"

definition strip :: "pystr \<Rightarrow> pystr" where
  "strip s = rev (dropWhile is_space (rev (dropWhile is_space s)))"

text \<open>\<open>s.count(t)\<close> for a non-empty \<open>t\<close>: non-overlapping occurrences from the left.\<close>

function count_occ :: "'a list \<Rightarrow> 'a list \<Rightarrow> nat" where
  "count_occ t s =
     (if s = [] \<or> t = [] then 0
      else if starts_with t s then Suc (count_occ t (drop (length t) s))
      else count_occ t (tl s))"
  by pat_completeness auto
termination
  by (relation "measure (\<lambda>(t, s). length s)") auto

declare count_occ.simps [simp del]

end
