(* ===== verification/UDP_Messages.thy ===== *)
theory UDP_Messages
  imports Py_Text
begin

text \<open>
  The encoders of \<open>UDPMessages.py\<close>: one function per message type of the UDP variant of the
  IPK25-CHAT protocol, each raising what Python raises (\<open>OverflowError\<close> for an identifier
  that does not fit two octets, \<open>ValueError\<close> for a result that does not fit one,
  \<open>UnicodeEncodeError\<close> for a lone surrogate). The two copies of the file agree except for
  \<open>bye\<close> (the older copy sends no display name) and \<open>ping\<close> (only in the newer one).
\<close>

section \<open>Fields\<close>

text \<open>\<open>s.encode() + b'\x00'\<close>, the variable-length field of every message.\<close>

definition zstring :: "pystr \<Rightarrow> bytes res" where
  "zstring s = rbind (encode s) (\<lambda>b. Inr (b @ [CHR 0x00]))"

section \<open>Messages\<close>

definition confirm :: "bytes \<Rightarrow> bytes" where
  "confirm ref_message_id = [CHR 0x00] @ ref_message_id"

definition reply :: "int \<Rightarrow> int \<Rightarrow> bytes \<Rightarrow> pystr \<Rightarrow> bytes res" where
  "reply message_id result ref_message_id message_contents =
     rbind (to_bytes2 message_id) (\<lambda>message_id_bytes.
     rbind (bytes1 result) (\<lambda>result_byte.
     rbind (zstring message_contents) (\<lambda>message_contents_bytes.
     Inr ([CHR 0x01] @ message_id_bytes @ result_byte @ ref_message_id @ message_contents_bytes))))"

definition auth :: "int \<Rightarrow> pystr \<Rightarrow> pystr \<Rightarrow> pystr \<Rightarrow> bytes res" where
  "auth message_id username display_name secret =
     rbind (to_bytes2 message_id) (\<lambda>message_id_bytes.
     rbind (zstring username) (\<lambda>username_bytes.
     rbind (zstring display_name) (\<lambda>display_name_bytes.
     rbind (zstring secret) (\<lambda>secret_bytes.
     Inr ([CHR 0x02] @ message_id_bytes @ username_bytes @ display_name_bytes @ secret_bytes)))))"

definition join :: "int \<Rightarrow> pystr \<Rightarrow> pystr \<Rightarrow> bytes res" where
  "join message_id channel_id display_name =
     rbind (to_bytes2 message_id) (\<lambda>message_id_bytes.
     rbind (zstring channel_id) (\<lambda>channel_id_bytes.
     rbind (zstring display_name) (\<lambda>display_name_bytes.
     Inr ([CHR 0x03] @ message_id_bytes @ channel_id_bytes @ display_name_bytes))))"

definition msg :: "int \<Rightarrow> pystr \<Rightarrow> pystr \<Rightarrow> bytes res" where
  "msg message_id display_name message_contents =
     rbind (to_bytes2 message_id) (\<lambda>message_id_bytes.
     rbind (zstring display_name) (\<lambda>display_name_bytes.
     rbind (zstring message_contents) (\<lambda>message_contents_bytes.
     Inr ([CHR 0x04] @ message_id_bytes @ display_name_bytes @ message_contents_bytes))))"

definition err :: "int \<Rightarrow> pystr \<Rightarrow> pystr \<Rightarrow> bytes res" where
  "err message_id display_name message_contents =
     rbind (to_bytes2 message_id) (\<lambda>message_id_bytes.
     rbind (zstring display_name) (\<lambda>display_name_bytes.
     rbind (zstring message_contents) (\<lambda>message_contents_bytes.
     Inr ([CHR 0xFE] @ message_id_bytes @ display_name_bytes @ message_contents_bytes))))"

definition bye :: "int \<Rightarrow> pystr \<Rightarrow> bytes res" where
  "bye message_id display_name =
     rbind (zstring display_name) (\<lambda>display_name_bytes.
     rbind (to_bytes2 message_id) (\<lambda>message_id_bytes.
     Inr ([CHR 0xFF] @ message_id_bytes @ display_name_bytes)))"

definition hobza_bye :: "int \<Rightarrow> bytes res" where
  "hobza_bye message_id =
     rbind (to_bytes2 message_id) (\<lambda>message_id_bytes. Inr ([CHR 0xFF] @ message_id_bytes))"

definition ping :: "int \<Rightarrow> bytes res" where
  "ping message_id =
     rbind (to_bytes2 message_id) (\<lambda>message_id_bytes. Inr ([CHR 0xFD] @ message_id_bytes))"

lemmas message_defs [wire_simps] =
  confirm_def reply_def auth_def join_def msg_def err_def bye_def hobza_bye_def ping_def zstring_def

section \<open>When the encoders succeed\<close>

definition valid_id :: "int \<Rightarrow> bool" where
  "valid_id n \<longleftrightarrow> 0 \<le> n \<and> n < 65536"

definition encodable :: "pystr \<Rightarrow> bool" where
  "encodable s \<longleftrightarrow> list_all scalar s"

lemma to_bytes2_ok: "valid_id n \<Longrightarrow> to_bytes2 n = Inr [chr8 (n div 256), chr8 (n mod 256)]"
  by (simp add: to_bytes2_def valid_id_def)

lemma encode_ok: "encodable s \<Longrightarrow> encode s = Inr (concat (map utf8_char s))"
  by (simp add: encode_def encodable_def)

lemma to_bytes2_isl: "isl (to_bytes2 n) \<longleftrightarrow> \<not> valid_id n"
  by (simp add: to_bytes2_def valid_id_def)

lemma zstring_isl: "isl (zstring s) \<longleftrightarrow> \<not> encodable s"
  by (simp add: zstring_def encode_def encodable_def)

lemma isl_rbind: "isl (rbind m f) \<longleftrightarrow> isl m \<or> (\<exists>x. m = Inr x \<and> isl (f x))"
  by (cases m) auto

lemma zstring_cases:
  obtains (ok) b where "encodable s" "zstring s = Inr (b @ [CHR 0x00])" "encode s = Inr b"
  | (fail) "\<not> encodable s" "zstring s = Inl UnicodeEncodeError"
  by (cases "encodable s") (auto simp: zstring_def encode_def encodable_def)

end
