(* ===== verification/UDP_Translator.thy ===== *)
theory UDP_Translator
  imports UDP_Messages
begin

text \<open>
  The decoder of \<open>UDPTranslator.py\<close>: it reads a datagram with an explicit pointer and renders
  it as the text of the TCP variant, so that the test cases can compare with a string. The two
  copies of the file differ only in the last branch (\<open>BYE\<close>). The results are that the decoder
  inverts every encoder of \<open>UDPMessages.py\<close>, what it does with truncated and unknown
  datagrams, and that a \<open>CONFIRM\<close> is always rendered with identifier 0.
\<close>

section \<open>Reading\<close>

definition MESSAGE_TYPES :: "(int \<times> string) list" where
  "MESSAGE_TYPES =
     [(0x00, ''CONFIRM''), (0x01, ''REPLY''), (0x02, ''AUTH''), (0x03, ''JOIN''),
      (0x04, ''MSG''), (0xFE, ''ERR''), (0xFF, ''BYE'')]"

definition read_byte :: "bytes \<Rightarrow> nat \<Rightarrow> (int \<times> nat) res" where
  "read_byte data pointer = rbind (index data pointer) (\<lambda>byte. Inr (ord byte, pointer + 1))"

definition read_bytes :: "bytes \<Rightarrow> nat \<Rightarrow> nat \<Rightarrow> bytes \<times> nat" where
  "read_bytes data pointer num_bytes = (slice data pointer (pointer + num_bytes), pointer + num_bytes)"

definition getMessageId :: "bytes \<Rightarrow> bytes" where
  "getMessageId data = (let pointer = 1; (message_id, pointer) = read_bytes data pointer 2 in message_id)"

lemma read_byte_Inr: "read_byte data p = Inr (b, q) \<longleftrightarrow> p < length data \<and> b = ord (data ! p) \<and> q = p + 1"
  by (auto simp: read_byte_def index_def rbind_eq_Inr)

text \<open>
  The loop of \<open>read_variable_length_string\<close>. It stops because each round that does not raise
  moves the pointer closer to the end of the datagram.
\<close>

function read_string_loop :: "bytes \<Rightarrow> nat \<Rightarrow> bytes \<Rightarrow> (bytes \<times> nat) res" where
  "read_string_loop data pointer string =
     (case read_byte data pointer of
        Inl e \<Rightarrow> Inl e
      | Inr (byte, pointer') \<Rightarrow>
          if byte = 0 then Inr (string, pointer')
          else read_string_loop data pointer' (string @ [chr8 byte]))"
  by pat_completeness auto
termination
  by (relation "measure (\<lambda>(data, pointer, string). length data - pointer)")
     (auto simp: read_byte_Inr)

declare read_string_loop.simps [simp del]

definition read_variable_length_string :: "bytes \<Rightarrow> nat \<Rightarrow> (pystr \<times> nat) res" where
  "read_variable_length_string data pointer =
     rbind (read_string_loop data pointer []) (\<lambda>(string, pointer).
     rbind (decode string) (\<lambda>text. Inr (text, pointer)))"

section \<open>Translation\<close>

definition translate_body :: "(bytes \<Rightarrow> nat \<Rightarrow> pystr res) \<Rightarrow> bytes \<Rightarrow> pystr res" where
  "translate_body bye_branch data =
     rbind (read_byte data 0) (\<lambda>(message_type, pointer).
     if message_type \<notin> set (map fst MESSAGE_TYPES) then Inr (lit ''Unknown message type'')
     else
     let (message_id, pointer) = read_bytes data pointer 2 in
     if message_type = 0x00 then
       let (ref_message_id, pointer) = read_bytes data pointer 2 in
       Inr (lit ''REPLY IS '' @ str_of_int (from_bytes ref_message_id) @ lit crlf)
     else if message_type = 0x01 then
       rbind (read_byte data pointer) (\<lambda>(result, pointer).
       let (ref_message_id, pointer) = read_bytes data pointer 2 in
       rbind (read_variable_length_string data pointer) (\<lambda>(message_contents, pointer).
       Inr (lit ''REPLY '' @ lit (if result = 1 then ''OK'' else ''NOK'') @ lit '' IS ''
            @ str_of_int (from_bytes ref_message_id) @ lit '' AS '' @ message_contents @ lit crlf)))
     else if message_type = 0x02 then
       rbind (read_variable_length_string data pointer) (\<lambda>(username, pointer).
       rbind (read_variable_length_string data pointer) (\<lambda>(display_name, pointer).
       rbind (read_variable_length_string data pointer) (\<lambda>(secret, pointer).
       Inr (lit ''AUTH IS '' @ username @ lit '' AS '' @ display_name @ lit '' USING '' @ secret @ lit crlf))))
     else if message_type = 0x03 then
       rbind (read_variable_length_string data pointer) (\<lambda>(channel_id, pointer).
       rbind (read_variable_length_string data pointer) (\<lambda>(display_name, pointer).
       Inr (lit ''JOIN IS '' @ channel_id @ lit '' AS '' @ display_name @ lit crlf)))
     else if message_type = 0x04 then
       rbind (read_variable_length_string data pointer) (\<lambda>(display_name, pointer).
       rbind (read_variable_length_string data pointer) (\<lambda>(message_contents, pointer).
       Inr (lit ''MSG FROM '' @ display_name @ lit '' IS '' @ message_contents @ lit crlf)))
     else if message_type = 0xFE then
       rbind (read_variable_length_string data pointer) (\<lambda>(display_name, pointer).
       rbind (read_variable_length_string data pointer) (\<lambda>(message_contents, pointer).
       Inr (lit ''ERR FROM '' @ display_name @ lit '' IS '' @ message_contents @ lit crlf)))
     else bye_branch data pointer)"

definition translateMessage :: "bytes \<Rightarrow> pystr res" where
  "translateMessage = translate_body (\<lambda>data pointer.
     rbind (read_variable_length_string data pointer) (\<lambda>(display_name, pointer).
     Inr (lit ''BYE FROM '' @ display_name @ lit crlf)))"

definition hobza_translateMessage :: "bytes \<Rightarrow> pystr res" where
  "hobza_translateMessage = translate_body (\<lambda>data pointer. Inr (lit ''BYE'' @ lit crlf))"

section \<open>The contract between an encoder and a reader\<close>

text \<open>
  A field of the wire format: a writer that may raise and a reader that takes the datagram and
  a pointer. The contract is that the reader, placed where the writer wrote, returns the value
  and moves the pointer just behind it. Reading a sequence of fields follows from it.
\<close>

locale wire_field =
  fixes put :: "'a \<Rightarrow> bytes res"
    and get_at :: "bytes \<Rightarrow> nat \<Rightarrow> ('a \<times> nat) res"
    and ok :: "'a \<Rightarrow> bool"
  assumes put_get: "ok x \<Longrightarrow> put x = Inr b \<Longrightarrow> drop n data = b @ post \<Longrightarrow> b \<noteq> [] \<and> get_at data n = Inr (x, n + length b)"
begin

lemma rest: "drop n data = b @ post \<Longrightarrow> drop (n + length b) data = post"
  by (metis add.commute append_eq_conv_conj drop_drop)

lemma one:
  assumes "ok x" "put x = Inr b" "drop n data = b @ post"
  obtains p where "get_at data n = Inr (x, p)" "drop p data = post"
  using put_get [OF assms] rest [OF assms(3)] by (metis that)

lemma two:
  assumes "ok x" "put x = Inr b" "ok y" "put y = Inr c" "drop n data = b @ c @ post"
  obtains p q where "get_at data n = Inr (x, p)" "get_at data p = Inr (y, q)" "drop q data = post"
  using one [OF assms(1,2,5)] one [OF assms(3,4)] by (metis that)

lemma three:
  assumes "ok x" "put x = Inr b" "ok y" "put y = Inr c" "ok z" "put z = Inr d"
    and "drop n data = b @ c @ d @ post"
  obtains p q r where "get_at data n = Inr (x, p)" "get_at data p = Inr (y, q)"
    "get_at data q = Inr (z, r)" "drop r data = post"
  using two [OF assms(1-4) assms(7)] one [OF assms(5,6)] by (metis that)

end

section \<open>What the reader does with a well-formed field\<close>

lemma read_string_loop_field:
  assumes "CHR 0x00 \<notin> set s"
  shows "read_string_loop (pre @ s @ CHR 0x00 # post) (length pre) acc
    = Inr (acc @ s, length pre + length s + 1)"
  using assms
proof (induction s arbitrary: pre acc)
  case Nil
  have "ord (CHR 0x00) = 0" by (simp add: ord_def)
  then show ?case
    by (subst read_string_loop.simps) (simp add: read_byte_def)
next
  case (Cons x s)
  have nz: "ord x \<noteq> 0"
    using Cons.prems by (metis chr8_eq_nul chr8_ord list.set_intros(1) order_refl zero_less_numeral)
  have rb: "read_byte (pre @ (x # s) @ CHR 0x00 # post) (length pre) = Inr (ord x, length pre + 1)"
    by (simp add: read_byte_def)
  have "read_string_loop ((pre @ [x]) @ s @ CHR 0x00 # post) (length (pre @ [x])) (acc @ [x])
      = Inr ((acc @ [x]) @ s, length (pre @ [x]) + length s + 1)"
    using Cons.prems by (intro Cons.IH) simp
  then show ?case
    by (subst read_string_loop.simps) (simp only: rb, simp add: nz)
qed

text \<open>A field that is not terminated runs off the end of the datagram.\<close>

lemma read_string_loop_unterminated:
  assumes "CHR 0x00 \<notin> set (drop p data)"
  shows "read_string_loop data p acc = Inl IndexError"
  using assms
proof (induction data p acc rule: read_string_loop.induct)
  case (1 data p acc)
  show ?case
  proof (cases "p < length data")
    case True
    then have "data ! p \<in> set (drop p data)"
      by (metis Cons_nth_drop_Suc list.set_intros(1))
    then have nz: "ord (data ! p) \<noteq> 0"
      using "1.prems" by (metis chr8_eq_nul chr8_ord order_refl zero_less_numeral)
    have rb: "read_byte data p = Inr (ord (data ! p), p + 1)"
      using True by (simp add: read_byte_Inr)
    have "CHR 0x00 \<notin> set (drop (p + 1) data)"
      using "1.prems" by (metis add.commute drop_drop in_set_dropD)
    then show ?thesis
      using "1.IH" [OF rb] nz by (subst read_string_loop.simps) (simp add: rb)
  next
    case False
    then show ?thesis
      by (subst read_string_loop.simps) (simp add: read_byte_def index_def)
  qed
qed

definition field_text :: "pystr \<Rightarrow> bool" where
  "field_text s \<longleftrightarrow> encodable s \<and> 0 \<notin> set s"

text \<open>
  A chain of fields is read by looking at what is left after the pointer: the field at the
  front is returned, and the pointer moves to the rest.
\<close>

lemma drop_after_field: "drop n data = b @ c # post \<Longrightarrow> drop (n + length b + 1) data = post"
proof -
  assume "drop n data = b @ c # post"
  then have "drop (length b + 1) (drop n data) = post" by simp
  then show ?thesis by (simp add: drop_drop add.commute add.left_commute)
qed

lemma read_field:
  assumes "encode s = Inr b" "0 \<notin> set s" "drop n data = b @ CHR 0x00 # post"
  shows "read_variable_length_string data n = Inr (s, n + length b + 1)"
proof -
  have data: "data = take n data @ b @ CHR 0x00 # post"
    using assms(3) by (metis append_take_drop_id)
  have n: "length (take n data) = n"
    using assms(3) by (metis append_is_Nil_conv drop_all length_take list.distinct(1) min.absorb2 nle_le)
  have "CHR 0x00 \<notin> set b" using assms(1,2) by (rule encode_no_nul)
  from read_string_loop_field [OF this, of "take n data" post "[]"]
  have "read_string_loop data n [] = Inr (b, n + length b + 1)"
    using data n by simp
  then show ?thesis
    by (simp add: read_variable_length_string_def decode_encode [OF assms(1)])
qed

lemma read_field_unterminated:
  "CHR 0x00 \<notin> set (drop n data) \<Longrightarrow> read_variable_length_string data n = Inl IndexError"
  by (simp add: read_variable_length_string_def read_string_loop_unterminated)

text \<open>The header: a type octet and two identifier octets.\<close>

lemma read_header [simp]:
  "read_byte (t # data) 0 = Inr (ord t, 1)"
  "read_bytes (t # i # j # data) 1 2 = ([i, j], 3)"
  "read_bytes (t # i # j # data) (Suc 0) 2 = ([i, j], 3)"
  by (simp_all add: read_byte_def read_bytes_def slice_def)

lemma id_bytes:
  assumes "to_bytes2 n = Inr b"
  obtains i j where "b = [i, j]" "from_bytes [i, j] = n"
proof -
  from assms have "b = [chr8 (n div 256), chr8 (n mod 256)]"
    by (auto simp: to_bytes2_def split: if_splits)
  with from_to_bytes2 [OF assms] show thesis by (metis that)
qed

lemma ord_types [simp]:
  "ord (CHR 0x00) = 0" "ord (CHR 0x01) = 1" "ord (CHR 0x02) = 2" "ord (CHR 0x03) = 3"
  "ord (CHR 0x04) = 4" "ord (CHR 0xFD) = 253" "ord (CHR 0xFE) = 254" "ord (CHR 0xFF) = 255"
  by (simp_all add: ord_def)

lemma zstringE:
  assumes "zstring s = Inr z"
  obtains b where "z = b @ [CHR 0x00]" "encode s = Inr b"
  using assms by (auto simp: zstring_def rbind_eq_Inr)

interpretation text_field: wire_field zstring read_variable_length_string "\<lambda>s. 0 \<notin> set s"
proof unfold_locales
  fix x z n data post
  assume x: "0 \<notin> set (x :: pystr)" and z: "zstring x = Inr z" and d: "drop n data = z @ post"
  from z obtain b where zb: "z = b @ [CHR 0x00]" and b: "encode x = Inr b" by (rule zstringE)
  from d zb have "drop n data = b @ CHR 0x00 # post" by simp
  from read_field [OF b x this] zb
  show "z \<noteq> [] \<and> read_variable_length_string data n = Inr (x, n + length z)" by simp
qed

text \<open>The two-octet identifier, read as \<open>translateMessage\<close> reads the reference of a \<open>REPLY\<close>.\<close>

definition read_id :: "bytes \<Rightarrow> nat \<Rightarrow> (int \<times> nat) res" where
  "read_id data n = (case read_bytes data n 2 of (b, p) \<Rightarrow> Inr (from_bytes b, p))"

interpretation id_field: wire_field to_bytes2 read_id "\<lambda>_. True"
proof unfold_locales
  fix x b n data post
  assume b: "to_bytes2 x = Inr b" and d: "drop n data = b @ post"
  from b have "length b = 2" "from_bytes b = x" by (auto dest: to_bytes2_length from_to_bytes2)
  with d show "b \<noteq> [] \<and> read_id data n = Inr (x, n + length b)"
    by (auto simp: read_id_def read_bytes_def slice_def)
qed

section \<open>The decoder inverts the encoders\<close>

lemma translate_two_fields:
  assumes "data = t # i # j # y @ z" "ord t \<in> {3, 4, 254}"
    and "zstring a = Inr y" "zstring b = Inr z" "0 \<notin> set a" "0 \<notin> set b"
  shows "translate_body f data = Inr
    (if ord t = 3 then lit ''JOIN IS '' @ a @ lit '' AS '' @ b @ lit crlf
     else if ord t = 4 then lit ''MSG FROM '' @ a @ lit '' IS '' @ b @ lit crlf
     else lit ''ERR FROM '' @ a @ lit '' IS '' @ b @ lit crlf)"
proof -
  have "drop 3 data = y @ z @ []" using assms(1) by simp
  from text_field.two [OF assms(5,3,6,4) this] obtain p q
    where "read_variable_length_string data 3 = Inr (a, p)"
      "read_variable_length_string data p = Inr (b, q)" by metis
  then show ?thesis
    using assms(2) by (auto simp: translate_body_def MESSAGE_TYPES_def assms(1))
qed

lemma translate_msg:
  assumes "msg n a b = Inr data" "0 \<notin> set a" "0 \<notin> set b"
  shows "translate_body f data = Inr (lit ''MSG FROM '' @ a @ lit '' IS '' @ b @ lit crlf)"
proof -
  from assms(1) obtain u y z where "to_bytes2 n = Inr u" and yz: "zstring a = Inr y" "zstring b = Inr z"
    and "data = CHR 0x04 # u @ y @ z"
    by (auto simp: msg_def rbind_eq_Inr)
  then obtain i j where "data = CHR 0x04 # i # j # y @ z" by (metis append_Cons append_Nil id_bytes)
  from translate_two_fields [OF this _ yz assms(2,3)] show ?thesis by simp
qed

lemma translate_err:
  assumes "err n a b = Inr data" "0 \<notin> set a" "0 \<notin> set b"
  shows "translate_body f data = Inr (lit ''ERR FROM '' @ a @ lit '' IS '' @ b @ lit crlf)"
proof -
  from assms(1) obtain u y z where "to_bytes2 n = Inr u" and yz: "zstring a = Inr y" "zstring b = Inr z"
    and "data = CHR 0xFE # u @ y @ z"
    by (auto simp: err_def rbind_eq_Inr)
  then obtain i j where "data = CHR 0xFE # i # j # y @ z" by (metis append_Cons append_Nil id_bytes)
  from translate_two_fields [OF this _ yz assms(2,3)] show ?thesis by simp
qed

lemma translate_join:
  assumes "join n a b = Inr data" "0 \<notin> set a" "0 \<notin> set b"
  shows "translate_body f data = Inr (lit ''JOIN IS '' @ a @ lit '' AS '' @ b @ lit crlf)"
proof -
  from assms(1) obtain u y z where "to_bytes2 n = Inr u" and yz: "zstring a = Inr y" "zstring b = Inr z"
    and "data = CHR 0x03 # u @ y @ z"
    by (auto simp: join_def rbind_eq_Inr)
  then obtain i j where "data = CHR 0x03 # i # j # y @ z" by (metis append_Cons append_Nil id_bytes)
  from translate_two_fields [OF this _ yz assms(2,3)] show ?thesis by simp
qed

lemma translate_auth:
  assumes "auth n a b c = Inr data" "0 \<notin> set a" "0 \<notin> set b" "0 \<notin> set c"
  shows "translate_body f data =
    Inr (lit ''AUTH IS '' @ a @ lit '' AS '' @ b @ lit '' USING '' @ c @ lit crlf)"
proof -
  from assms(1) obtain u x y z where u: "to_bytes2 n = Inr u"
    and xyz: "zstring a = Inr x" "zstring b = Inr y" "zstring c = Inr z"
    and d: "data = CHR 0x02 # u @ x @ y @ z"
    by (auto simp: auth_def rbind_eq_Inr)
  from u obtain i j where "u = [i, j]" by (rule id_bytes)
  with d have d: "data = CHR 0x02 # i # j # x @ y @ z" by simp
  then have "drop 3 data = x @ y @ z @ []" by simp
  from text_field.three [OF assms(2) xyz(1) assms(3) xyz(2) assms(4) xyz(3) this] obtain p q k
    where "read_variable_length_string data 3 = Inr (a, p)"
      "read_variable_length_string data p = Inr (b, q)"
      "read_variable_length_string data q = Inr (c, k)" by metis
  then show ?thesis
    by (simp add: translate_body_def MESSAGE_TYPES_def d)
qed

lemma translate_reply:
  assumes "reply n r ref c = Inr data" "length ref = 2" "0 \<notin> set c"
  shows "translate_body f data =
    Inr (lit ''REPLY '' @ lit (if r = 1 then ''OK'' else ''NOK'') @ lit '' IS ''
         @ str_of_int (from_bytes ref) @ lit '' AS '' @ c @ lit crlf)"
proof -
  from assms(1) obtain u v z where u: "to_bytes2 n = Inr u" and v: "bytes1 r = Inr v"
    and z: "zstring c = Inr z" and d: "data = CHR 0x01 # u @ v @ ref @ z"
    by (auto simp: reply_def rbind_eq_Inr)
  from u obtain i j where ij: "u = [i, j]" by (rule id_bytes)
  from v have r: "v = [chr8 r]" "0 \<le> r" "r < 256" by (auto simp: bytes1_def split: if_splits)
  from assms(2) obtain k l where kl: "ref = [k, l]" by (auto simp: length_Suc_conv numeral_2_eq_2)
  from d ij r kl have d: "data = CHR 0x01 # i # j # chr8 r # k # l # z" by simp
  then have "drop 6 data = z @ []" by simp
  from text_field.one [OF assms(3) z this] obtain q
    where "read_variable_length_string data 6 = Inr (c, q)" by metis
  moreover have "read_byte data 3 = Inr (r, 4)" "read_bytes data 4 2 = ([k, l], 6)"
    using r by (simp_all add: d read_byte_def index_def read_bytes_def slice_def)
  ultimately show ?thesis
    by (simp add: translate_body_def MESSAGE_TYPES_def d kl)
qed

lemma translate_bye:
  assumes "bye n a = Inr data" "0 \<notin> set a"
  shows "translateMessage data = Inr (lit ''BYE FROM '' @ a @ lit crlf)"
proof -
  from assms(1) obtain u y where u: "to_bytes2 n = Inr u" and y: "zstring a = Inr y"
    and d: "data = CHR 0xFF # u @ y"
    by (auto simp: bye_def rbind_eq_Inr)
  from u obtain i j where "u = [i, j]" by (rule id_bytes)
  with d have d: "data = CHR 0xFF # i # j # y" by simp
  then have "drop 3 data = y @ []" by simp
  from text_field.one [OF assms(2) y this] obtain q
    where "read_variable_length_string data 3 = Inr (a, q)" by metis
  then show ?thesis
    by (simp add: translateMessage_def translate_body_def MESSAGE_TYPES_def d)
qed

lemma translate_confirm:
  "length ref = 2 \<Longrightarrow> translate_body f (confirm ref) = Inr (lit ''REPLY IS 0'' @ lit crlf)"
  by (auto simp: length_Suc_conv numeral_2_eq_2 confirm_def translate_body_def MESSAGE_TYPES_def
    read_bytes_def slice_def str_of_int_def digits.simps lit_def ord_def)

lemma translate_ping:
  assumes "ping n = Inr data"
  shows "translate_body f data = Inr (lit ''Unknown message type'')"
proof -
  from assms obtain u where "data = CHR 0xFD # u" by (auto simp: ping_def rbind_eq_Inr)
  then show ?thesis by (simp add: translate_body_def MESSAGE_TYPES_def)
qed

lemma translate_truncated:
  assumes "ord t \<in> {2, 3, 4, 254}" "CHR 0x00 \<notin> set (drop 2 data)"
  shows "translate_body f (t # data) = Inl IndexError"
proof -
  have "read_variable_length_string (t # data) 3 = Inl IndexError"
    using assms(2) by (intro read_field_unterminated) simp
  then have r: "read_variable_length_string (t # data) (Suc (Suc (Suc 0))) = Inl IndexError"
    by (simp only: numeral_3_eq_3)
  show ?thesis
    using assms(1) by (auto simp: translate_body_def MESSAGE_TYPES_def read_bytes_def r)
qed

end
