(* ===== verification/Codec.thy ===== *)
theory Codec
  imports UDP_Translator
begin

text \<open>
  What the two codec files promise together. \<open>chat_msg\<close> is the abstract message, \<open>render\<close> its
  text, \<open>encode_msg\<close> the call of the matching encoder of \<open>UDPMessages.py\<close>. The refinement
  statement is that translating an encoded message gives its rendering.
\<close>

section \<open>Abstract messages\<close>

datatype chat_msg =
    Reply int int int pystr
  | Auth int pystr pystr pystr
  | Join int pystr pystr
  | Msg int pystr pystr
  | Err int pystr pystr
  | Bye int pystr

fun render :: "chat_msg \<Rightarrow> pystr" where
  "render (Reply n r ref c) = lit ''REPLY '' @ lit (if r = 1 then ''OK'' else ''NOK'') @ lit '' IS ''
     @ str_of_int ref @ lit '' AS '' @ c @ lit crlf"
| "render (Auth n u d s) = lit ''AUTH IS '' @ u @ lit '' AS '' @ d @ lit '' USING '' @ s @ lit crlf"
| "render (Join n ch d) = lit ''JOIN IS '' @ ch @ lit '' AS '' @ d @ lit crlf"
| "render (Msg n d c) = lit ''MSG FROM '' @ d @ lit '' IS '' @ c @ lit crlf"
| "render (Err n d c) = lit ''ERR FROM '' @ d @ lit '' IS '' @ c @ lit crlf"
| "render (Bye n d) = lit ''BYE FROM '' @ d @ lit crlf"

fun msg_id :: "chat_msg \<Rightarrow> int" where
  "msg_id (Reply n r ref c) = n"
| "msg_id (Auth n u d s) = n"
| "msg_id (Join n ch d) = n"
| "msg_id (Msg n d c) = n"
| "msg_id (Err n d c) = n"
| "msg_id (Bye n d) = n"

fun msg_texts :: "chat_msg \<Rightarrow> pystr list" where
  "msg_texts (Reply n r ref c) = [c]"
| "msg_texts (Auth n u d s) = [u, d, s]"
| "msg_texts (Join n ch d) = [ch, d]"
| "msg_texts (Msg n d c) = [d, c]"
| "msg_texts (Err n d c) = [d, c]"
| "msg_texts (Bye n d) = [d]"

fun msg_numbers_ok :: "chat_msg \<Rightarrow> bool" where
  "msg_numbers_ok (Reply n r ref c) = (valid_id n \<and> valid_id ref \<and> 0 \<le> r \<and> r < 256)"
| "msg_numbers_ok m = valid_id (msg_id m)"

fun encode_msg :: "chat_msg \<Rightarrow> bytes res" where
  "encode_msg (Reply n r ref c) = rbind (to_bytes2 ref) (\<lambda>b. reply n r b c)"
| "encode_msg (Auth n u d s) = auth n u d s"
| "encode_msg (Join n ch d) = join n ch d"
| "encode_msg (Msg n d c) = msg n d c"
| "encode_msg (Err n d c) = err n d c"
| "encode_msg (Bye n d) = bye n d"

section \<open>When a message can be sent\<close>

lemma zstring_ok: "encodable s \<Longrightarrow> \<exists>z. zstring s = Inr z"
  by (simp add: zstring_def encode_ok)

lemma isl_bytes1: "isl (bytes1 r) \<longleftrightarrow> \<not> (0 \<le> r \<and> r < 256)"
  by (simp add: bytes1_def)

lemma ex_Inr: "(\<exists>x. m = Inr x) \<longleftrightarrow> \<not> isl m"
  by (cases m) auto

lemma encode_msg_fails_iff:
  "isl (encode_msg m) \<longleftrightarrow> \<not> (msg_numbers_ok m \<and> list_all encodable (msg_texts m))"
  by (cases m)
     (auto simp: reply_def auth_def join_def msg_def err_def bye_def isl_rbind ex_Inr
       to_bytes2_isl zstring_isl isl_bytes1)

text \<open>Every encoder writes the identifier where \<open>getMessageId\<close> reads it.\<close>

lemma encode_msg_id:
  assumes "encode_msg m = Inr d"
  shows "to_bytes2 (msg_id m) = Inr (getMessageId d)"
proof -
  obtain u t r where u: "to_bytes2 (msg_id m) = Inr u" and d: "d = t # u @ r"
    using assms by (cases m) (auto simp: reply_def auth_def join_def msg_def err_def bye_def rbind_eq_Inr)
  have "length u = 2" using u by (rule to_bytes2_length)
  then show ?thesis using u by (simp add: d getMessageId_def read_bytes_def slice_def)
qed

lemma translate_encode_msg:
  assumes e: "encode_msg m = Inr d" and nul: "\<forall>s \<in> set (msg_texts m). 0 \<notin> set s"
  shows "translateMessage d = Inr (render m)"
proof (cases m)
  case (Reply n r ref c)
  with e obtain b where b: "to_bytes2 ref = Inr b" "reply n r b c = Inr d"
    by (auto simp: rbind_eq_Inr)
  have "length b = 2" "from_bytes b = ref"
    using b(1) by (auto dest: to_bytes2_length from_to_bytes2)
  with translate_reply [OF b(2)] nul Reply show ?thesis by (simp add: translateMessage_def)
next
  case (Auth n u dn s)
  with e nul translate_auth [of n u dn s d] show ?thesis by (simp add: translateMessage_def)
next
  case (Join n ch dn)
  with e nul translate_join [of n ch dn d] show ?thesis by (simp add: translateMessage_def)
next
  case (Msg n dn c)
  with e nul translate_msg [of n dn c d] show ?thesis by (simp add: translateMessage_def)
next
  case (Err n dn c)
  with e nul translate_err [of n dn c d] show ?thesis by (simp add: translateMessage_def)
next
  case (Bye n dn)
  with e nul translate_bye [of n dn d] show ?thesis by simp
qed

section \<open>Reading back\<close>

lemma read_string_loop_returned:
  "read_string_loop data p acc = Inr (s, q) \<Longrightarrow>
   \<exists>b. s = acc @ b \<and> drop p data = b @ CHR 0x00 # drop q data \<and> CHR 0x00 \<notin> set b
     \<and> q = p + length b + 1"
proof (induction data p acc rule: read_string_loop.induct)
  case (1 data p acc)
  show ?case
  proof (cases "p < length data")
    case False
    with "1.prems" show ?thesis
      by (subst (asm) read_string_loop.simps) (simp add: read_byte_def index_def)
  next
    case True
    then have rb: "read_byte data p = Inr (ord (data ! p), p + 1)" by (simp add: read_byte_def index_def)
    have step: "drop p data = data ! p # drop (p + 1) data" using True by (simp add: Cons_nth_drop_Suc)
    show ?thesis
    proof (cases "ord (data ! p) = 0")
      case True
      then have "data ! p = CHR 0x00" by (metis ord_inject ord_types(1))
      with "1.prems" rb True step show ?thesis
        by (subst (asm) read_string_loop.simps) simp
    next
      case False
      with "1.prems" rb have "read_string_loop data (p + 1) (acc @ [data ! p]) = Inr (s, q)"
        by (subst (asm) read_string_loop.simps) simp
      from "1.IH" [OF rb _ False] this obtain b where
        "s = (acc @ [data ! p]) @ b" "drop (p + 1) data = b @ CHR 0x00 # drop q data" "CHR 0x00 \<notin> set b"
        "q = p + 1 + length b + 1"
        by auto
      moreover have "data ! p \<noteq> CHR 0x00" using False by auto
      ultimately show ?thesis using step by (intro exI [of _ "data ! p # b"]) simp
    qed
  qed
qed

lemma read_returned:
  assumes "read_variable_length_string data p = Inr (t, q)"
  obtains b where "encode t = Inr b" "drop p data = b @ CHR 0x00 # drop q data" "CHR 0x00 \<notin> set b"
    "q = p + length b + 1"
proof -
  from assms obtain s where "read_string_loop data p [] = Inr (s, q)" "decode s = Inr t"
    by (auto simp: read_variable_length_string_def rbind_eq_Inr)
  with read_string_loop_returned [of data p "[]" s q] encode_decode [of s t] show thesis
    by (auto intro: that)
qed

section \<open>Properties of the codec\<close>

text \<open>
  C1. Round trip of the UDP codec: every message whose numbers fit and whose texts are Unicode
  without NUL can be encoded, its datagram carries the identifier where \<open>getMessageId\<close> looks for
  it, and \<open>translateMessage\<close> of the datagram is the rendering of the message.
\<close>

theorem codec_round_trip:
  assumes "msg_numbers_ok m" "list_all field_text (msg_texts m)"
  shows "\<exists>d. encode_msg m = Inr d \<and> from_bytes (getMessageId d) = msg_id m
    \<and> translateMessage d = Inr (render m)"
proof -
  have "list_all encodable (msg_texts m)" "\<forall>s \<in> set (msg_texts m). 0 \<notin> set s"
    using assms(2) by (auto simp: list_all_iff field_text_def)
  moreover from this have "\<not> isl (encode_msg m)"
    using assms(1) by (simp add: encode_msg_fails_iff)
  then obtain d where d: "encode_msg m = Inr d" by (cases "encode_msg m") auto
  moreover have "from_bytes (getMessageId d) = msg_id m"
    using encode_msg_id [OF d] by (rule from_to_bytes2)
  ultimately show ?thesis using translate_encode_msg by blast
qed

theorem codec_round_trip_witness:
  "\<exists>d. encode_msg (Reply 1 1 258 (lit ''ok'')) = Inr d \<and> from_bytes (getMessageId d) = 1
    \<and> translateMessage d = Inr (render (Reply 1 1 258 (lit ''ok'')))"
  using codec_round_trip [of "Reply 1 1 258 (lit ''ok'')"]
  by (simp add: valid_id_def field_text_def encodable_def lit_def ord_def scalar_def)

text \<open>
  C25. The encoders raise exactly when a number does not fit its field or a text has a code point
  that UTF-8 cannot encode.
\<close>

theorem encoders_raise_iff:
  "(\<exists>e. encode_msg m = Inl e) \<longleftrightarrow> \<not> (msg_numbers_ok m \<and> list_all encodable (msg_texts m))"
proof -
  have "(\<exists>e. encode_msg m = Inl e) \<longleftrightarrow> isl (encode_msg m)" by (cases "encode_msg m") auto
  then show ?thesis by (simp add: encode_msg_fails_iff)
qed

text \<open>
  A \<open>CONFIRM\<close> datagram is rendered as \<open>REPLY IS 0\<close> whatever identifier it confirms: the
  decoder reads the identifier once as the message id and then looks for a second one, which a
  three-octet \<open>CONFIRM\<close> does not have. Both copies of the decoder do this.
\<close>

theorem confirm_loses_identifier:
  assumes "length ref = 2"
  shows "translateMessage (confirm ref) = Inr (lit ''REPLY IS 0'' @ lit crlf)
    \<and> hobza_translateMessage (confirm ref) = Inr (lit ''REPLY IS 0'' @ lit crlf)"
  using assms by (simp add: translateMessage_def hobza_translateMessage_def translate_confirm)

theorem confirm_loses_identifier_witness:
  "translateMessage (confirm [CHR 0x12, CHR 0x34]) = Inr (lit ''REPLY IS 0'' @ lit crlf)
    \<and> hobza_translateMessage (confirm [CHR 0x12, CHR 0x34]) = Inr (lit ''REPLY IS 0'' @ lit crlf)"
  by (rule confirm_loses_identifier) simp

text \<open>
  A datagram of a text message that ends before the terminator of its first text makes the
  decoder raise \<open>IndexError\<close>; it never invents text.
\<close>

theorem truncated_datagram_raises:
  assumes "t \<in> {CHR 0x02, CHR 0x03, CHR 0x04, CHR 0xFE}" "CHR 0x00 \<notin> set (drop 2 data)"
  shows "translateMessage (t # data) = Inl IndexError"
  unfolding translateMessage_def using assms by (intro translate_truncated) auto

theorem truncated_datagram_raises_witness:
  "translateMessage [CHR 0x04, CHR 0x00, CHR 0x01, CHR ''c''] = Inl IndexError"
  by (rule truncated_datagram_raises) simp_all

text \<open>
  C22. The reader of a variable-length string is exact: it returns a text exactly when, at the
  pointer, the octets of that text in UTF-8 are followed by a NUL, the first one; the pointer is
  then just behind it. So a text that was read determines the octets it came from.
\<close>

theorem read_string_exact:
  "read_variable_length_string data p = Inr (t, q) \<longleftrightarrow>
     (\<exists>b post. encode t = Inr b \<and> CHR 0x00 \<notin> set b \<and> drop p data = b @ CHR 0x00 # post
        \<and> q = p + length b + 1)"
proof
  assume "read_variable_length_string data p = Inr (t, q)"
  then show "\<exists>b post. encode t = Inr b \<and> CHR 0x00 \<notin> set b \<and> drop p data = b @ CHR 0x00 # post
        \<and> q = p + length b + 1"
    by (metis read_returned)
next
  assume "\<exists>b post. encode t = Inr b \<and> CHR 0x00 \<notin> set b \<and> drop p data = b @ CHR 0x00 # post
        \<and> q = p + length b + 1"
  then obtain b post where b: "encode t = Inr b" "CHR 0x00 \<notin> set b" "drop p data = b @ CHR 0x00 # post"
    "q = p + length b + 1" by blast
  have "0 \<notin> set t" using b(1,2) by (rule encode_nul)
  from read_field [OF b(1) this b(3)] b(4) show "read_variable_length_string data p = Inr (t, q)" by simp
qed

end
