(* ===== verification/World.thy ===== *)
theory World
  imports UDP_Translator
begin

text \<open>
  What the harness runs on: the operating system as far as \<open>ExecutableTester\<close> uses it
  (loopback sockets, one child process with its pipes, a clock), the attributes of the
  \<open>ExecutableTester\<close> object, and the monad of harness code.

  The child process is a parameter: a \<open>program\<close> says what the executable does with its
  arguments and with each event. Time is counted in milliseconds. A message handed to the
  kernel is handled by the child at once; \<open>SIGTERM\<close> ends the child; a child timer fires exactly at its deadline while the
  harness sleeps or waits; a hung-up standard input (level-triggered in \<open>epoll\<close>) is reported
  to the child again every millisecond.
\<close>

section \<open>The child process\<close>

text \<open>Events the child's event loop sees.\<close>

datatype event =
    EvStdin bytes        \<comment> \<open>bytes became readable on standard input\<close>
  | EvHup                \<comment> \<open>the write end of standard input is closed\<close>
  | EvDgram int bytes    \<comment> \<open>a datagram and the port it came from\<close>
  | EvStream bytes       \<comment> \<open>bytes of the TCP stream\<close>
  | EvStreamEof          \<comment> \<open>the server closed the TCP connection\<close>
  | EvTimer              \<comment> \<open>the timer expired\<close>
  | EvSigint

text \<open>What the child does in response.\<close>

datatype action =
    WriteOut bytes
  | WriteErr bytes
  | SendTo int bytes     \<comment> \<open>a datagram to a port of the server host\<close>
  | SendStream bytes
  | Connect int          \<comment> \<open>a TCP connection to a listening port was established\<close>
  | ArmTimer int         \<comment> \<open>one-shot timer in milliseconds; 0 disarms it\<close>
  | StdinEvents bool     \<comment> \<open>standard input is polled or not\<close>
  | Exit int

record 'c program =
  p_boot :: "pystr list \<Rightarrow> (int \<Rightarrow> bool) \<Rightarrow> 'c \<times> action list"
  p_handle :: "event \<Rightarrow> 'c \<Rightarrow> 'c \<times> action list"

record 'c proc =
  p_state :: 'c
  p_exit :: "int option"
  p_timer :: "int option"   \<comment> \<open>absolute deadline\<close>
  p_polls_stdin :: bool
  p_stdin_pipe :: bytes
  p_stdin_closed :: bool
  p_out_tail :: "bytes option"  \<comment> \<open>output after the last line end; \<open>None\<close>: its reader died\<close>
  p_err_tail :: "bytes option"

section \<open>Sockets\<close>

datatype sock = UnboundSocket | UdpSocket int | TcpListener int

record conn =
  c_unread :: bytes         \<comment> \<open>sent by the child, not yet received by the harness\<close>
  c_peer_closed :: bool
  c_reset :: bool

section \<open>The tester object and the world\<close>

text \<open>The attributes of \<open>ExecutableTester\<close> in the order of its \<open>__init__\<close>.\<close>

record 'c tester =
  executable_path :: pystr
  process :: "'c proc option"
  stdout_queue :: "pystr list"
  stderr_queue :: "pystr list"
  return_code :: "int option"
  server_socket :: "sock option"
  connection_socket :: "conn option"
  client_address :: "int option"
  send_confirm :: bool
  history :: pystr
  accept_thread :: "unit option"

text \<open>
  The rest of the world: the executables by path, the clock, the bound UDP sockets with their
  queues of \<open>(source port, payload)\<close>, the listening TCP ports, the width of the terminal
  (\<open>None\<close> when standard output is none), the text Python gives an exception, and what the
  harness printed (text and colour).
\<close>

record 'c world = "'c tester" +
  executable :: "pystr \<Rightarrow> 'c program"
  clock :: int
  udp_sockets :: "(int \<times> (int \<times> bytes) list) list"
  tcp_listening :: "int list"
  columns :: "int option"
  exc_text :: "pyexc \<Rightarrow> pystr"
  console :: "(pystr \<times> string) list"

text \<open>The local port of the child's UDP socket (an ephemeral port chosen by the kernel).\<close>

definition client_port :: int where
  "client_port = 50000"

text \<open>
  The world in which the script starts: nothing bound, nothing printed, and one program behind
  every path. \<open>silent\<close> is a program that never does anything.
\<close>

definition initial_world :: "'c program \<Rightarrow> int option \<Rightarrow> 'c world" where
  "initial_world prog cols =
     \<lparr>executable_path = [], process = None, stdout_queue = [], stderr_queue = [],
       return_code = None, server_socket = None, connection_socket = None, client_address = None,
       send_confirm = True, history = [], accept_thread = None, executable = (\<lambda>_. prog), clock = 0,
       udp_sockets = [], tcp_listening = [], columns = cols, exc_text = (\<lambda>_. []), console = []\<rparr>"

definition silent :: "unit program" where
  "silent = \<lparr>p_boot = (\<lambda>_ _. ((), [])), p_handle = (\<lambda>_ _. ((), []))\<rparr>"

text \<open>What \<open>receive_message\<close> may return: nothing, text (TCP) or octets (UDP).\<close>

datatype pyval = VNone | VStr pystr | VBytes bytes

section \<open>Harness code\<close>

text \<open>
  Harness code returns a value, raises, or blocks for ever in a system call. The world is kept
  in all three cases.
\<close>

datatype 'a outcome = Ret 'a | Raise pyexc | Hang

type_synonym ('c, 'a) T = "'c world \<Rightarrow> 'a outcome \<times> 'c world"

definition ret :: "'a \<Rightarrow> ('c, 'a) T" where
  "ret x w = (Ret x, w)"

definition throw :: "pyexc \<Rightarrow> ('c, 'a) T" where
  "throw e w = (Raise e, w)"

definition bind :: "('c, 'a) T \<Rightarrow> ('a \<Rightarrow> ('c, 'b) T) \<Rightarrow> ('c, 'b) T" where
  "bind m f w = (case m w of
     (Ret x, w') \<Rightarrow> f x w'
   | (Raise e, w') \<Rightarrow> (Raise e, w')
   | (Hang, w') \<Rightarrow> (Hang, w'))"

definition get :: "('c world \<Rightarrow> 'a) \<Rightarrow> ('c, 'a) T" where
  "get f w = (Ret (f w), w)"

definition modify :: "('c world \<Rightarrow> 'c world) \<Rightarrow> ('c, unit) T" where
  "modify f w = (Ret (), f w)"

text \<open>Statements in sequence, then the rest of the body.\<close>

fun seq :: "('c, unit) T list \<Rightarrow> ('c, 'b) T \<Rightarrow> ('c, 'b) T" where
  "seq [] k = k"
| "seq (m # ms) k = bind m (\<lambda>_. seq ms k)"

text \<open>A pure computation that may raise, and \<open>assert cond, message\<close>.\<close>

definition lift :: "'a res \<Rightarrow> ('c, 'a) T" where
  "lift r = (case r of Inl e \<Rightarrow> throw e | Inr x \<Rightarrow> ret x)"

definition assert_that :: "bool \<Rightarrow> pystr \<Rightarrow> ('c, unit) T" where
  "assert_that b m = (if b then ret () else throw (AssertionError m))"

lemma bind_ret [simp]: "bind (ret x) f = f x"
  by (simp add: bind_def ret_def fun_eq_iff)

lemma bind_ret_right [simp]: "bind m ret = m"
  by (auto simp: bind_def ret_def fun_eq_iff split: prod.splits outcome.splits)

lemma bind_throw [simp]: "bind (throw e) f = throw e"
  by (simp add: bind_def throw_def fun_eq_iff)

lemma bind_assoc: "bind (bind m f) g = bind m (\<lambda>x. bind (f x) g)"
  by (auto simp: bind_def fun_eq_iff split: prod.splits outcome.splits)

lemma lift_Inr [simp]: "lift (Inr x) = ret x"
  by (simp add: lift_def)

lemma lift_Inl [simp]: "lift (Inl e) = throw e"
  by (simp add: lift_def)

lemma assert_True [simp]: "assert_that True m = ret ()"
  by (simp add: assert_that_def)

lemma assert_False [simp]: "assert_that False m = throw (AssertionError m)"
  by (simp add: assert_that_def)

end
