(* ===== verification/Os.thy ===== *)
theory Os
  imports World
begin

text \<open>
  The operating-system side of the harness: how the child's output reaches the queues, how an
  event is handed to the child and its actions take effect, how time passes, and the socket
  calls the harness makes. Facts proved here: the clock never runs backwards, waiting ends, and
  which parts of the world the child can touch.
\<close>

section \<open>Reader threads\<close>

text \<open>
  \<open>read_stdout\<close> and \<open>read_stderr\<close> put each line of the text-mode pipe into a queue. Text
  mode means universal newlines (\<open>\r\n\<close> and \<open>\r\<close> are read as \<open>\n\<close>) and strict UTF-8; a
  decoding error ends the thread.
\<close>

definition newline :: char where
  "newline = CHR 0x0A"

definition carriage_return :: char where
  "carriage_return = CHR 0x0D"

fun cut_lines :: "bytes \<Rightarrow> bytes \<Rightarrow> bytes list \<times> bytes" where
  "cut_lines acc [] = ([], acc)"
| "cut_lines acc [c] =
     (if c = newline then ([acc @ [newline]], []) else ([], acc @ [c]))"
| "cut_lines acc (c # d # cs) =
     (if c = newline then apfst (Cons (acc @ [newline])) (cut_lines [] (d # cs))
      else if c = carriage_return then
        (if d = newline then apfst (Cons (acc @ [newline])) (cut_lines [] cs)
         else apfst (Cons (acc @ [newline])) (cut_lines [] (d # cs)))
      else cut_lines (acc @ [c]) (d # cs))"

fun decode_all :: "bytes list \<Rightarrow> pystr list res" where
  "decode_all [] = Inr []"
| "decode_all (l # ls) = rbind (decode l) (\<lambda>s. rbind (decode_all ls) (\<lambda>ss. Inr (s # ss)))"

definition feed_reader :: "bytes option \<Rightarrow> bytes \<Rightarrow> pystr list \<times> bytes option" where
  "feed_reader tail b = (case tail of
     None \<Rightarrow> ([], None)
   | Some t \<Rightarrow> (case cut_lines [] (t @ b) of (ls, t') \<Rightarrow>
       (case decode_all ls of Inl e \<Rightarrow> ([], None) | Inr qs \<Rightarrow> (qs, Some t'))))"

text \<open>At end of file the rest, if any, is delivered as a last line.\<close>

definition flush_reader :: "bytes option \<Rightarrow> pystr list" where
  "flush_reader tail = (case tail of
     None \<Rightarrow> []
   | Some t \<Rightarrow> if t = [] then []
       else (case decode (map (\<lambda>c. if c = carriage_return then newline else c) t) of
               Inl e \<Rightarrow> [] | Inr q \<Rightarrow> [q]))"

section \<open>Actions of the child\<close>

definition enqueue :: "int \<Rightarrow> int \<times> bytes \<Rightarrow> (int \<times> (int \<times> bytes) list) list
    \<Rightarrow> (int \<times> (int \<times> bytes) list) list" where
  "enqueue port d socks = map (\<lambda>(p, q). if p = port then (p, q @ [d]) else (p, q)) socks"

definition with_proc :: "('c proc \<Rightarrow> 'c proc) \<Rightarrow> 'c world \<Rightarrow> 'c world" where
  "with_proc f w = w\<lparr>process := map_option f (process w)\<rparr>"

definition running :: "'c world \<Rightarrow> bool" where
  "running w = (case process w of None \<Rightarrow> False | Some p \<Rightarrow> p_exit p = None)"

text \<open>The body of the accepting thread, which \<open>start_server\<close> leaves waiting.\<close>

definition accept_connection :: "'c world \<Rightarrow> 'c world" where
  "accept_connection w =
     w\<lparr>connection_socket := Some \<lparr>c_unread = [], c_peer_closed = False, c_reset = False\<rparr>\<rparr>"

fun apply_action :: "action \<Rightarrow> 'c world \<Rightarrow> 'c world" where
  "apply_action (WriteOut b) w = (case process w of
     None \<Rightarrow> w
   | Some p \<Rightarrow> (case feed_reader (p_out_tail p) b of (qs, t) \<Rightarrow>
       w\<lparr>process := Some (p\<lparr>p_out_tail := t\<rparr>), stdout_queue := stdout_queue w @ qs\<rparr>))"
| "apply_action (WriteErr b) w = (case process w of
     None \<Rightarrow> w
   | Some p \<Rightarrow> (case feed_reader (p_err_tail p) b of (qs, t) \<Rightarrow>
       w\<lparr>process := Some (p\<lparr>p_err_tail := t\<rparr>), stderr_queue := stderr_queue w @ qs\<rparr>))"
| "apply_action (SendTo port b) w = w\<lparr>udp_sockets := enqueue port (client_port, b) (udp_sockets w)\<rparr>"
| "apply_action (SendStream b) w =
     w\<lparr>connection_socket := map_option (\<lambda>c. c\<lparr>c_unread := c_unread c @ b\<rparr>) (connection_socket w)\<rparr>"
| "apply_action (Connect port) w =
     (if port \<in> set (tcp_listening w) \<and> connection_socket w = None then accept_connection w else w)"
| "apply_action (ArmTimer ms) w =
     with_proc (\<lambda>p. p\<lparr>p_timer := (if ms \<le> 0 then None else Some (clock w + ms))\<rparr>) w"
| "apply_action (StdinEvents b) w = with_proc (\<lambda>p. p\<lparr>p_polls_stdin := b\<rparr>) w"
| "apply_action (Exit n) w = (case process w of
     None \<Rightarrow> w
   | Some p \<Rightarrow>
       w\<lparr>process := Some (p\<lparr>p_exit := Some n, p_timer := None\<rparr>),
         stdout_queue := stdout_queue w @ flush_reader (p_out_tail p),
         stderr_queue := stderr_queue w @ flush_reader (p_err_tail p),
         connection_socket := map_option (\<lambda>c. c\<lparr>c_peer_closed := True\<rparr>) (connection_socket w)\<rparr>)"

fun apply_actions :: "action list \<Rightarrow> 'c world \<Rightarrow> 'c world" where
  "apply_actions [] w = w"
| "apply_actions (a # as) w =
     (if running w then apply_actions as (apply_action a w) else w)"

section \<open>Handing an event to the child\<close>

definition run_child :: "event \<Rightarrow> 'c world \<Rightarrow> 'c world" where
  "run_child ev w = (case process w of
     None \<Rightarrow> w
   | Some p \<Rightarrow> if p_exit p \<noteq> None then w
       else (case p_handle (executable w (executable_path w)) ev (p_state p) of (c, acts) \<Rightarrow>
         apply_actions acts (w\<lparr>process := Some (p\<lparr>p_state := c\<rparr>)\<rparr>)))"

text \<open>
  Input that waited in the pipe is read once the child polls standard input again. Once the
  pipe is closed, the hang-up is reported with every event on standard input.
\<close>

definition poll_stdin :: "'c world \<Rightarrow> 'c world" where
  "poll_stdin w = (case process w of
     None \<Rightarrow> w
   | Some p \<Rightarrow> if p_polls_stdin p \<and> p_stdin_pipe p \<noteq> [] \<and> \<not> p_stdin_closed p
       then run_child (EvStdin (p_stdin_pipe p)) (w\<lparr>process := Some (p\<lparr>p_stdin_pipe := []\<rparr>)\<rparr>)
       else w)"

definition deliver :: "event \<Rightarrow> 'c world \<Rightarrow> 'c world" where
  "deliver ev w = poll_stdin (run_child ev w)"

lemma clock_with_proc [simp]: "clock (with_proc f w) = clock w"
  by (simp add: with_proc_def)

lemma clock_apply_action [simp]: "clock (apply_action a w) = clock w"
  by (cases a) (auto simp: accept_connection_def split: option.splits prod.splits)

lemma clock_apply_actions [simp]: "clock (apply_actions as w) = clock w"
  by (induction as arbitrary: w) auto

lemma clock_run_child [simp]: "clock (run_child ev w) = clock w"
  by (auto simp: run_child_def split: option.splits prod.splits)

lemma clock_poll_stdin [simp]: "clock (poll_stdin w) = clock w"
  by (auto simp: poll_stdin_def split: option.splits)

lemma clock_deliver [simp]: "clock (deliver ev w) = clock w"
  by (simp add: deliver_def)

section \<open>Time\<close>

text \<open>
  The next moment, strictly in the future, at which the child has something to do by itself:
  its timer, or the level-triggered hang-up of its standard input.
\<close>

definition next_wakeup :: "'c world \<Rightarrow> int option" where
  "next_wakeup w = (case process w of
     None \<Rightarrow> None
   | Some p \<Rightarrow> if p_exit p \<noteq> None then None
       else if p_stdin_closed p then Some (clock w + 1)
       else map_option (max (clock w + 1)) (p_timer p))"

definition wake :: "int \<Rightarrow> 'c world \<Rightarrow> 'c world" where
  "wake t w = (case process w of
     None \<Rightarrow> w\<lparr>clock := t\<rparr>
   | Some p \<Rightarrow> (case p_timer p of
       Some d \<Rightarrow> if d \<le> t then deliver EvTimer (w\<lparr>clock := t, process := Some (p\<lparr>p_timer := None\<rparr>)\<rparr>)
                 else deliver EvHup (w\<lparr>clock := t\<rparr>)
     | None \<Rightarrow> deliver EvHup (w\<lparr>clock := t\<rparr>)))"

lemma clock_wake [simp]: "clock (wake t w) = t"
  by (auto simp: wake_def split: option.splits)

lemma next_wakeup_future: "next_wakeup w = Some t \<Longrightarrow> clock w < t"
  by (auto simp: next_wakeup_def split: option.splits if_splits)

function advance :: "int \<Rightarrow> 'c world \<Rightarrow> 'c world" where
  "advance until w = (case next_wakeup w of
     None \<Rightarrow> w\<lparr>clock := max until (clock w)\<rparr>
   | Some t \<Rightarrow> if t \<le> until then advance until (wake t w)
               else w\<lparr>clock := max until (clock w)\<rparr>)"
  by pat_completeness auto
termination
  by (relation "measure (\<lambda>(until, w). nat (until - clock w))") (auto dest: next_wakeup_future)

declare advance.simps [simp del]

lemma clock_advance: "clock (advance until w) = max until (clock w)"
proof (induction until w rule: advance.induct)
  case (1 until w)
  show ?case
  proof (cases "next_wakeup w")
    case None
    then show ?thesis by (simp add: advance.simps [of until w])
  next
    case (Some t)
    with next_wakeup_future [OF Some] "1.IH" [OF Some] show ?thesis
      by (auto simp: advance.simps [of until w])
  qed
qed

definition sleep :: "int \<Rightarrow> ('c, unit) T" where
  "sleep ms w = (Ret (), advance (clock w + ms) w)"

section \<open>Socket calls\<close>

definition bound_udp :: "int \<Rightarrow> 'c world \<Rightarrow> bool" where
  "bound_udp port w \<longleftrightarrow> port \<in> fst ` set (udp_sockets w)"

text \<open>\<open>socket(AF_INET, SOCK_DGRAM)\<close> and \<open>bind(("localhost", port))\<close>.\<close>

definition udp_bind :: "int \<Rightarrow> ('c, sock) T" where
  "udp_bind port w =
     (if bound_udp port w then (Raise OSError, w)
      else (Ret (UdpSocket port), w\<lparr>udp_sockets := (port, []) # udp_sockets w\<rparr>))"

text \<open>\<open>socket(AF_INET, SOCK_STREAM)\<close>, \<open>SO_REUSEADDR\<close>, \<open>bind\<close>, \<open>listen(1)\<close>.\<close>

definition tcp_listen :: "int \<Rightarrow> ('c, sock) T" where
  "tcp_listen port w =
     (if port \<in> set (tcp_listening w) then (Raise OSError, w)
      else (Ret (TcpListener port), w\<lparr>tcp_listening := port # tcp_listening w\<rparr>))"

definition close_sock :: "sock \<Rightarrow> 'c world \<Rightarrow> 'c world" where
  "close_sock s w = (case s of
     UnboundSocket \<Rightarrow> w
   | UdpSocket port \<Rightarrow> w\<lparr>udp_sockets := filter (\<lambda>(p, q). p \<noteq> port) (udp_sockets w)\<rparr>
   | TcpListener port \<Rightarrow> w\<lparr>tcp_listening := filter (\<lambda>p. p \<noteq> port) (tcp_listening w)\<rparr>)"

definition udp_queue :: "int \<Rightarrow> 'c world \<Rightarrow> (int \<times> bytes) list" where
  "udp_queue port w = (case map_of (udp_sockets w) port of None \<Rightarrow> [] | Some q \<Rightarrow> q)"

definition set_udp_queue :: "int \<Rightarrow> (int \<times> bytes) list \<Rightarrow> 'c world \<Rightarrow> 'c world" where
  "set_udp_queue port q w =
     w\<lparr>udp_sockets := map (\<lambda>(p, q'). if p = port then (p, q) else (p, q')) (udp_sockets w)\<rparr>"

text \<open>
  \<open>recvfrom(1024)\<close> under a timeout: the first queued datagram cut to 1024 octets and its
  source, or \<open>socket.timeout\<close> at the deadline. Each round without a datagram moves the clock.
\<close>

function udp_recvfrom :: "int \<Rightarrow> int \<Rightarrow> ('c, bytes \<times> int) T" where
  "udp_recvfrom port deadline w = (case udp_queue port w of
     (src, d) # q \<Rightarrow> (Ret (take 1024 d, src), set_udp_queue port q w)
   | [] \<Rightarrow> (case next_wakeup w of
       Some t \<Rightarrow> if t \<le> deadline then udp_recvfrom port deadline (wake t w)
                 else (Raise SocketTimeout, w\<lparr>clock := max deadline (clock w)\<rparr>)
     | None \<Rightarrow> (Raise SocketTimeout, w\<lparr>clock := max deadline (clock w)\<rparr>)))"
  by pat_completeness auto
termination
  by (relation "measure (\<lambda>(port, deadline, w). nat (deadline - clock w))")
     (auto dest: next_wakeup_future)

declare udp_recvfrom.simps [simp del]

text \<open>\<open>sendto(message, (host, addr))\<close>: only the child listens on \<open>client_port\<close>.\<close>

definition udp_sendto :: "int \<Rightarrow> bytes \<Rightarrow> int \<Rightarrow> 'c world \<Rightarrow> 'c world" where
  "udp_sendto port d addr w = (if addr = client_port then deliver (EvDgram port d) w else w)"

text \<open>
  \<open>connection_socket.recv(1024)\<close>. The accepted socket is in blocking mode: with nothing to
  read it waits as long as the child may still act, at most \<open>recv_rounds\<close> wake-ups, and
  otherwise never returns.
\<close>

fun tcp_recv :: "nat \<Rightarrow> ('c, bytes) T" where
  "tcp_recv fuel w = (case connection_socket w of
     None \<Rightarrow> (Raise AttributeError, w)
   | Some c \<Rightarrow>
       if c_reset c then (Raise ConnectionResetError, w)
       else if c_unread c \<noteq> [] then
         (Ret (take 1024 (c_unread c)),
          w\<lparr>connection_socket := Some (c\<lparr>c_unread := drop 1024 (c_unread c)\<rparr>)\<rparr>)
       else if c_peer_closed c then (Ret [], w)
       else (case fuel of
         0 \<Rightarrow> (Hang, w)
       | Suc n \<Rightarrow> (case next_wakeup w of None \<Rightarrow> (Hang, w) | Some t \<Rightarrow> tcp_recv n (wake t w))))"

declare tcp_recv.simps [simp del]

definition recv_rounds :: nat where
  "recv_rounds = 10000"

text \<open>\<open>sendall\<close>: the first write after the peer closed is answered by a reset.\<close>

definition tcp_sendall :: "bytes \<Rightarrow> ('c, unit) T" where
  "tcp_sendall b w = (case connection_socket w of
     None \<Rightarrow> (Raise AttributeError, w)
   | Some c \<Rightarrow>
       if c_reset c then (Raise BrokenPipeError, w)
       else if c_peer_closed c then (Ret (), w\<lparr>connection_socket := Some (c\<lparr>c_reset := True\<rparr>)\<rparr>)
       else (Ret (), if b = [] then w else deliver (EvStream b) w))"

section \<open>What the child cannot touch\<close>

text \<open>
  The interface between the child and the harness. Let the program only ever perform \<open>good\<close>
  actions. A property \<open>P\<close> of the world that every good action keeps, and that does not depend on
  the child's own state, on the clock and on what was taken from a queue, is kept by everything
  that runs the child.
\<close>

locale child_invariant =
  fixes P :: "'c world \<Rightarrow> bool" and good :: "action \<Rightarrow> bool"
  assumes inv_handle: "P w \<Longrightarrow> list_all good (snd (p_handle (executable w (executable_path w)) ev c))"
    and inv_action: "P w \<Longrightarrow> good a \<Longrightarrow> P (apply_action a w)"
    and inv_process: "P w \<Longrightarrow> process w \<noteq> None \<Longrightarrow> P (w\<lparr>process := Some p\<rparr>)"
    and inv_clock: "P w \<Longrightarrow> P (w\<lparr>clock := t\<rparr>)"
begin

lemma inv_actions: "P w \<Longrightarrow> list_all good as \<Longrightarrow> P (apply_actions as w)"
  by (induction as arbitrary: w) (simp_all add: inv_action)

lemma inv_run_child:
  assumes "P w"
  shows "P (run_child ev w)"
proof (cases "process w")
  case (Some p)
  obtain c acts where h: "p_handle (executable w (executable_path w)) ev (p_state p) = (c, acts)"
    by fastforce
  have "list_all good acts"
    using inv_handle [OF assms, of ev "p_state p"] h by simp
  with Some h assms show ?thesis
    by (simp add: run_child_def inv_actions inv_process)
qed (simp add: run_child_def assms)

lemma inv_poll_stdin: "P w \<Longrightarrow> P (poll_stdin w)"
  by (auto simp: poll_stdin_def intro: inv_run_child inv_process split: option.splits)

lemma inv_deliver: "P w \<Longrightarrow> P (deliver ev w)"
  by (simp add: deliver_def inv_run_child inv_poll_stdin)

lemma inv_wake: "P w \<Longrightarrow> P (wake t w)"
  using inv_process [of "w\<lparr>clock := t\<rparr>"] inv_clock [of w t]
  by (auto simp: wake_def intro: inv_deliver split: option.splits)

lemma inv_advance: "P w \<Longrightarrow> P (advance until w)"
proof (induction until w rule: advance.induct)
  case (1 until w)
  then show ?case
    by (auto simp: advance.simps [of until w] intro: inv_clock inv_wake split: option.splits)
qed

lemma inv_sleep: "P w \<Longrightarrow> P (snd (sleep ms w))"
  by (simp add: sleep_def inv_advance)

lemma inv_udp_sendto: "P w \<Longrightarrow> P (udp_sendto port d addr w)"
  by (simp add: udp_sendto_def inv_deliver)

lemma inv_udp_recvfrom:
  assumes "\<And>port ds w. P w \<Longrightarrow> set ds \<subseteq> set (udp_queue port w) \<Longrightarrow> P (set_udp_queue port ds w)"
  shows "P w \<Longrightarrow> P (snd (udp_recvfrom port deadline w))"
proof (induction port deadline w rule: udp_recvfrom.induct)
  case (1 port deadline w)
  have "P (set_udp_queue port q w)" if "udp_queue port w = d # q" for d q
    using assms [OF "1.prems", of q port] that by auto
  then show ?case using "1.IH" inv_wake [OF "1.prems"] inv_clock [OF "1.prems"]
    by (auto simp: udp_recvfrom.simps [of port deadline w] split: option.splits list.splits)
qed

lemma inv_tcp_recv:
  assumes "\<And>c w. P w \<Longrightarrow> connection_socket w \<noteq> None \<Longrightarrow> P (w\<lparr>connection_socket := Some c\<rparr>)"
  shows "P w \<Longrightarrow> P (snd (tcp_recv n w))"
proof (induction n arbitrary: w)
  case 0
  then show ?case by (auto simp: tcp_recv.simps [of 0] assms split: option.splits)
next
  case (Suc n)
  then show ?case
    using inv_wake [OF Suc.prems]
    by (auto simp: tcp_recv.simps [of "Suc n"] assms split: option.splits)
qed

lemma inv_tcp_sendall:
  assumes "\<And>c w. P w \<Longrightarrow> connection_socket w \<noteq> None \<Longrightarrow> P (w\<lparr>connection_socket := Some c\<rparr>)"
  shows "P w \<Longrightarrow> P (snd (tcp_sendall b w))"
  by (auto simp: tcp_sendall_def intro: inv_deliver assms split: option.splits)

lemmas invs = inv_process inv_clock inv_run_child inv_poll_stdin inv_deliver inv_wake inv_advance
  inv_sleep inv_udp_sendto

end

text \<open>
  The special case of an observation \<open>f\<close> that no action at all can alter: every attribute that
  only the harness writes is such an observation.
\<close>

locale child_frame =
  fixes f :: "'c world \<Rightarrow> 'x"
  assumes frame_process: "f (w\<lparr>process := p\<rparr>) = f w"
    and frame_clock: "f (w\<lparr>clock := t\<rparr>) = f w"
    and frame_stdout: "f (w\<lparr>stdout_queue := q\<rparr>) = f w"
    and frame_stderr: "f (w\<lparr>stderr_queue := q\<rparr>) = f w"
    and frame_conn: "f (w\<lparr>connection_socket := c\<rparr>) = f w"
    and frame_enqueue: "f (w\<lparr>udp_sockets := enqueue port d (udp_sockets w)\<rparr>) = f w"
    and frame_dequeue: "f (set_udp_queue port ds w) = f w"
begin

lemma frame_action: "f (apply_action a w) = f w"
proof (cases a)
  case (WriteOut b)
  have "f (w\<lparr>process := p, stdout_queue := q\<rparr>) = f w" for p q
    using frame_process [of p w] frame_stdout [of q "w\<lparr>process := p\<rparr>"] by simp
  with WriteOut show ?thesis by (auto split: option.splits prod.splits)
next
  case (WriteErr b)
  have "f (w\<lparr>process := p, stderr_queue := q\<rparr>) = f w" for p q
    using frame_process [of p w] frame_stderr [of q "w\<lparr>process := p\<rparr>"] by simp
  with WriteErr show ?thesis by (auto split: option.splits prod.splits)
next
  case (Exit n)
  have "f (w\<lparr>process := p, stdout_queue := q, stderr_queue := r, connection_socket := c\<rparr>) = f w"
    for p q r c
    using frame_process [of p w] frame_stdout [of q "w\<lparr>process := p\<rparr>"]
      frame_stderr [of r "w\<lparr>process := p, stdout_queue := q\<rparr>"]
      frame_conn [of c "w\<lparr>process := p, stdout_queue := q, stderr_queue := r\<rparr>"] by simp
  with Exit show ?thesis by (auto split: option.splits)
qed (simp_all add: frame_enqueue frame_conn accept_connection_def with_proc_def frame_process)

end

sublocale child_frame \<subseteq> kept: child_invariant "\<lambda>w. f w = x" "\<lambda>_. True" for x
  by unfold_locales (simp_all add: list_all_iff frame_action frame_process frame_clock)

context child_frame
begin

lemma frame_actions: "f (apply_actions as w) = f w"
  by (rule kept.inv_actions) (simp_all add: list_all_iff)

lemma frame_run_child: "f (run_child ev w) = f w"
  by (rule kept.inv_run_child) simp

lemma frame_poll_stdin: "f (poll_stdin w) = f w"
  by (rule kept.inv_poll_stdin) simp

lemma frame_deliver: "f (deliver ev w) = f w"
  by (rule kept.inv_deliver) simp

lemma frame_wake: "f (wake t w) = f w"
  by (rule kept.inv_wake) simp

lemma frame_advance: "f (advance until w) = f w"
  by (rule kept.inv_advance) simp

lemma frame_sleep: "f (snd (sleep ms w)) = f w"
  by (rule kept.inv_sleep) simp

lemma frame_udp_recvfrom: "f (snd (udp_recvfrom port deadline w)) = f w"
  by (rule kept.inv_udp_recvfrom) (simp_all add: frame_dequeue)

lemma frame_udp_sendto: "f (udp_sendto port d addr w) = f w"
  by (rule kept.inv_udp_sendto) simp

lemma frame_tcp_recv: "f (snd (tcp_recv n w)) = f w"
  by (rule kept.inv_tcp_recv) (simp_all add: frame_conn)

lemma frame_tcp_sendall: "f (snd (tcp_sendall b w)) = f w"
  by (rule kept.inv_tcp_sendall) (simp_all add: frame_conn)

lemmas frames = frame_process frame_clock frame_stdout frame_stderr frame_conn frame_dequeue
  frame_action frame_actions frame_run_child frame_poll_stdin frame_deliver frame_wake
  frame_advance frame_sleep frame_udp_recvfrom frame_udp_sendto frame_tcp_recv frame_tcp_sendall

end

interpretation fr_server: child_frame server_socket
  by unfold_locales (simp_all add: set_udp_queue_def)

interpretation fr_address: child_frame client_address
  by unfold_locales (simp_all add: set_udp_queue_def)

interpretation fr_accept: child_frame accept_thread
  by unfold_locales (simp_all add: set_udp_queue_def)

interpretation fr_return_code: child_frame return_code
  by unfold_locales (simp_all add: set_udp_queue_def)

interpretation fr_send_confirm: child_frame send_confirm
  by unfold_locales (simp_all add: set_udp_queue_def)

interpretation fr_columns: child_frame columns
  by unfold_locales (simp_all add: set_udp_queue_def)

interpretation fr_console: child_frame console
  by unfold_locales (simp_all add: set_udp_queue_def)

interpretation fr_history: child_frame history
  by unfold_locales (simp_all add: set_udp_queue_def)

interpretation fr_path: child_frame executable_path
  by unfold_locales (simp_all add: set_udp_queue_def)

interpretation fr_executable: child_frame executable
  by unfold_locales (simp_all add: set_udp_queue_def)

interpretation fr_listening: child_frame tcp_listening
  by unfold_locales (simp_all add: set_udp_queue_def)

text \<open>The child fills the queues of the bound sockets but neither binds nor closes one.\<close>

definition bound_ports :: "'c world \<Rightarrow> int list" where
  "bound_ports w = map fst (udp_sockets w)"

lemma map_fst_enqueue: "map fst (enqueue port d socks) = map fst socks"
  by (auto simp: enqueue_def)

interpretation fr_ports: child_frame bound_ports
proof unfold_locales
  fix w :: "'c world" and port ds
  show "bound_ports (set_udp_queue port ds w) = bound_ports w"
    by (auto simp: bound_ports_def set_udp_queue_def)
qed (simp_all add: bound_ports_def map_fst_enqueue)

lemmas child_frames [simp] =
  fr_server.frames fr_address.frames fr_accept.frames fr_return_code.frames fr_send_confirm.frames
  fr_columns.frames fr_console.frames fr_history.frames fr_path.frames fr_executable.frames
  fr_listening.frames fr_ports.frames

text \<open>A started process stays in place, running or ended.\<close>

lemma apply_action_alive: "process w \<noteq> None \<Longrightarrow> process (apply_action a w) \<noteq> None"
  by (cases a) (auto simp: accept_connection_def with_proc_def split: option.splits prod.splits)

interpretation alive: child_invariant "\<lambda>w. process w \<noteq> None" "\<lambda>_. True"
  by unfold_locales (simp_all add: apply_action_alive list_all_iff)

end
