(* ===== verification/Executable_Tester.thy ===== *)
theory Executable_Tester
  imports Os
begin

text \<open>
  The class \<open>ExecutableTester\<close> of \<open>testo.py\<close> and \<open>hobza.py\<close>, one definition per method,
  on the world of \<open>World.thy\<close>. The two files share the class except for \<open>receive_message\<close>
  (the older file always confirms a datagram), \<open>get_stderr\<close> and \<open>dump\<close>.
\<close>

section \<open>Construction\<close>

definition ExecutableTester :: "pystr \<Rightarrow> 'c world \<Rightarrow> 'c world" where
  "ExecutableTester path w =
     w\<lparr>executable_path := path, process := None, stdout_queue := [], stderr_queue := [],
       return_code := None, server_socket := None, connection_socket := None,
       client_address := None, send_confirm := True, history := [], accept_thread := None\<rparr>"

section \<open>Server side\<close>

text \<open>
  Rebinding \<open>self.server_socket\<close> drops the last reference to an earlier UDP socket, which closes
  it; an earlier TCP listener lives on, held by its accepting thread.
\<close>

definition fresh_socket :: "'c world \<Rightarrow> 'c world" where
  "fresh_socket w =
     (case server_socket w of Some (UdpSocket p) \<Rightarrow> close_sock (UdpSocket p) w | _ \<Rightarrow> w)
       \<lparr>server_socket := Some UnboundSocket\<rparr>"

definition start_server :: "pystr \<Rightarrow> int \<Rightarrow> ('c, unit) T" where
  "start_server protocol port =
     (if lower protocol = lit ''tcp'' then
        seq [modify fresh_socket]
        (bind (tcp_listen port) (\<lambda>s. modify (\<lambda>w. w\<lparr>server_socket := Some s\<rparr>)))
      else if lower protocol = lit ''udp'' then
        seq [modify fresh_socket]
        (bind (udp_bind port) (\<lambda>s. modify (\<lambda>w. w\<lparr>server_socket := Some s\<rparr>)))
      else ret ())"

definition stop_server :: "('c, unit) T" where
  "stop_server w =
     (let w1 = (if connection_socket w \<noteq> None then deliver EvStreamEof w else w);
          w2 = (case server_socket w1 of None \<Rightarrow> w1 | Some s \<Rightarrow> close_sock s w1)
      in (Ret (), case accept_thread w2 of None \<Rightarrow> w2 | Some t \<Rightarrow> w2))"

definition send_message :: "pyval \<Rightarrow> ('c, unit) T" where
  "send_message message w =
     (if connection_socket w \<noteq> None then
        (case message of
           VStr s \<Rightarrow> bind (lift (encode s)) tcp_sendall w
         | _ \<Rightarrow> (Raise AttributeError, w))
      else (case (server_socket w, client_address w) of
          (Some s, Some addr) \<Rightarrow>
            (case message of
               VBytes d \<Rightarrow>
                 (case s of
                    UdpSocket port \<Rightarrow> (Ret (), udp_sendto port d addr w)
                  | _ \<Rightarrow> (Raise OSError, w))
             | _ \<Rightarrow> (Raise TypeError, w))
        | _ \<Rightarrow> (Ret (), w)))"

text \<open>\<open>getMessageId\<close> and \<open>translateMessage\<close> on whatever \<open>receive_message\<close> returned.\<close>

definition message_id_of :: "pyval \<Rightarrow> pyval res" where
  "message_id_of v = (case v of
     VNone \<Rightarrow> Inl TypeError
   | VStr s \<Rightarrow> Inr (VStr (slice s 1 3))
   | VBytes d \<Rightarrow> Inr (VBytes (getMessageId d)))"

definition translate_with :: "(bytes \<Rightarrow> pystr res) \<Rightarrow> pyval \<Rightarrow> pystr res" where
  "translate_with tr v = (case v of
     VNone \<Rightarrow> Inl TypeError
   | VStr s \<Rightarrow> rbind (index s 0) (\<lambda>_. Inr (lit ''Unknown message type''))
   | VBytes d \<Rightarrow> tr d)"

text \<open>\<open>b"\x00" + getMessageId(message)\<close>, sent back to the client.\<close>

definition confirm_message :: "pyval \<Rightarrow> ('c, unit) T" where
  "confirm_message message = bind (lift (message_id_of message)) (\<lambda>i. case i of
     VBytes d \<Rightarrow> send_message (VBytes ([CHR 0x00] @ d))
   | _ \<Rightarrow> throw TypeError)"

text \<open>The UDP branch of \<open>receive_message\<close>, and its handler of \<open>socket.timeout\<close>.\<close>

definition receive_datagram :: "bool \<Rightarrow> int \<Rightarrow> int \<Rightarrow> ('c, pyval) T" where
  "receive_datagram confirms port timeout w = (case udp_recvfrom port (clock w + timeout) w of
     (Ret (message, addr), w1) \<Rightarrow>
       bind (lift (index message 0)) (\<lambda>first.
         seq (if ord first \<noteq> 0 \<and> confirms then [confirm_message (VBytes message)] else [])
         (ret (VBytes message))) (w1\<lparr>client_address := Some addr\<rparr>)
   | (Raise SocketTimeout, w1) \<Rightarrow> (Raise (TimeoutError (lit ''Socket timed out.'')), w1)
   | (Raise e, w1) \<Rightarrow> (Raise e, w1)
   | (Hang, w1) \<Rightarrow> (Hang, w1))"

definition receive_with :: "bool \<Rightarrow> int \<Rightarrow> ('c, pyval) T" where
  "receive_with confirms timeout w = (case server_socket w of
     None \<Rightarrow> (Ret VNone, w)
   | Some s \<Rightarrow>
       if connection_socket w \<noteq> None then
         bind (tcp_recv recv_rounds) (\<lambda>d. bind (lift (decode d)) (\<lambda>t. ret (VStr t))) w
       else (case s of
           UdpSocket port \<Rightarrow> receive_datagram confirms port timeout w
         | _ \<Rightarrow> (Raise OSError, w)))"

definition receive_message :: "int \<Rightarrow> ('c, pyval) T" where
  "receive_message timeout w = receive_with (send_confirm w) timeout w"

definition hobza_receive_message :: "int \<Rightarrow> ('c, pyval) T" where
  "hobza_receive_message timeout = receive_with True timeout"

section \<open>The process\<close>

definition terminate_process :: "'c proc \<Rightarrow> 'c world \<Rightarrow> 'c world" where
  "terminate_process p w = (case p_exit p of
     Some n \<Rightarrow> w\<lparr>return_code := Some n, process := None\<rparr>
   | None \<Rightarrow> (apply_action (Exit (-15)) w)\<lparr>return_code := Some (-15), process := None\<rparr>)"

definition teardown :: "('c, unit) T" where
  "teardown w =
     (let w1 = (case process w of None \<Rightarrow> w | Some p \<Rightarrow> terminate_process p w)
      in seq [stop_server, modify (\<lambda>w. w\<lparr>server_socket := None\<rparr>)]
         (modify (\<lambda>w. w\<lparr>connection_socket := None\<rparr>)) w1)"

text \<open>\<open>subprocess.Popen\<close> and the two reader threads.\<close>

definition popen :: "pystr list \<Rightarrow> 'c world \<Rightarrow> 'c world" where
  "popen args w =
     (case p_boot (executable w (executable_path w)) args (\<lambda>p. p \<in> set (tcp_listening w)) of (c, acts) \<Rightarrow>
       apply_actions acts
         (w\<lparr>process := Some \<lparr>p_state = c, p_exit = None, p_timer = None, p_polls_stdin = True,
             p_stdin_pipe = [], p_stdin_closed = False, p_out_tail = Some [], p_err_tail = Some []\<rparr>\<rparr>))"

definition setup_tester :: "pystr list \<Rightarrow> ('c, unit) T" where
  "setup_tester args w =
     seq [if process w \<noteq> None then teardown else ret (),
          modify (\<lambda>w. w\<lparr>stdout_queue := [], stderr_queue := []\<rparr>),
          modify (popen args),
          modify (\<lambda>w. w\<lparr>return_code := None\<rparr>)]
     (sleep 200) w"

text \<open>\<open>self.process.stdin.write(text); flush()\<close> and \<open>close()\<close>.\<close>

definition stdin_write :: "pystr \<Rightarrow> ('c, unit) T" where
  "stdin_write text w = (case process w of
     None \<Rightarrow> (Raise AttributeError, w)
   | Some p \<Rightarrow>
       if p_stdin_closed p then (Raise ValueError, w)
       else (case encode text of
           Inl e \<Rightarrow> (Raise e, w)
         | Inr b \<Rightarrow>
             if p_exit p \<noteq> None then (Raise BrokenPipeError, w)
             else (Ret (), poll_stdin (w\<lparr>process := Some (p\<lparr>p_stdin_pipe := p_stdin_pipe p @ b\<rparr>)\<rparr>))))"

definition stdin_close :: "('c, unit) T" where
  "stdin_close w = (case process w of
     None \<Rightarrow> (Raise AttributeError, w)
   | Some p \<Rightarrow>
       if p_stdin_closed p then (Ret (), w)
       else (Ret (), deliver EvHup (w\<lparr>process := Some (p\<lparr>p_stdin_closed := True\<rparr>)\<rparr>)))"

definition execute :: "pystr \<Rightarrow> ('c, unit) T" where
  "execute input_data =
     seq [modify (\<lambda>w. w\<lparr>history := history w @ lit ''stdin:'' @ input_data @ [10]\<rparr>),
          stdin_write (input_data @ [10])]
     (sleep 200)"

definition get_stdout :: "('c, pystr) T" where
  "get_stdout w =
     (let out = stdout_queue w
      in (Ret (join_with [] out),
          w\<lparr>stdout_queue := [], history := history w @ join_with (lit ''stdout:'') out\<rparr>))"

definition get_stderr :: "('c, pystr) T" where
  "get_stderr w = (Ret (join_with [] (stderr_queue w)), w\<lparr>stderr_queue := []\<rparr>)"

definition hobza_get_stderr :: "('c, pystr) T" where
  "hobza_get_stderr w =
     (let out = stderr_queue w
      in (Ret (join_with [] out),
          w\<lparr>stderr_queue := [], history := history w @ join_with (lit ''stderr:'') out\<rparr>))"

definition get_return_code :: "('c, int option) T" where
  "get_return_code = get return_code"

definition send_sigint :: "('c, unit) T" where
  "send_sigint w = (case process w of
     None \<Rightarrow> (Raise AttributeError, w)
   | Some p \<Rightarrow> (Ret (), deliver EvSigint w))"

definition send_eof :: "('c, unit) T" where
  "send_eof = stdin_close"

definition setClientAddress :: "int \<Rightarrow> ('c, unit) T" where
  "setClientAddress addr = modify (\<lambda>w. w\<lparr>client_address := Some addr\<rparr>)"

text \<open>\<open>process.poll()\<close>.\<close>

definition poll :: "('c, int option) T" where
  "poll w = (case process w of None \<Rightarrow> (Raise AttributeError, w) | Some p \<Rightarrow> (Ret (p_exit p), w))"

section \<open>Output of the harness\<close>

definition print_coloured :: "string \<Rightarrow> pystr \<Rightarrow> ('c, unit) T" where
  "print_coloured colour text = modify (\<lambda>w. w\<lparr>console := console w @ [(text, colour)]\<rparr>)"

definition print_plain :: "pystr \<Rightarrow> ('c, unit) T" where
  "print_plain text = print_coloured '''' text"

definition dump :: "('c, unit) T" where
  "dump =
     seq [print_coloured ''magenta'' (lit ''stdout now''), bind get_stdout print_plain,
          print_coloured ''magenta'' (lit ''stdout''), bind get_stdout print_plain,
          print_coloured ''magenta'' (lit ''stderr''), bind get_stderr print_plain,
          print_coloured ''magenta'' (lit ''History'')]
     (bind (get history) print_plain)"

definition hobza_dump :: "('c, unit) T" where
  "hobza_dump =
     seq [print_coloured ''magenta'' (lit ''stdout now''), bind get_stdout print_plain,
          print_coloured ''magenta'' (lit ''stderr''), bind hobza_get_stderr print_plain,
          print_coloured ''magenta'' (lit ''History'')]
     (bind (get history) print_plain)"

end
