(* ===== verification/Test_Runner.thy ===== *)
theory Test_Runner
  imports Executable_Tester
begin

text \<open>
  The parts of \<open>testo.py\<close> around the test cases: the \<open>testcase\<close> decorator (verdict, clean-up
  and registration), \<open>run_tests\<close>, and the command line. A test case is harness code without a
  result; the decorated test case returns whether it passed.
\<close>

section \<open>The decorator\<close>

type_synonym 'c test = "pystr \<times> ('c, bool) T"

definition banner :: "int \<Rightarrow> pystr \<Rightarrow> pystr" where
  "banner cols name =
     (let title = lit '' '' @ [0x23F3] @ lit '' Starting test '' @ [39] @ name @ [39] @ lit '' '';
          start_sep = replicate (nat ((cols - int (length title) - 1) div 2)) 61;
          end_sep = replicate (nat (cols - int (length start_sep + length title) - 1)) 61
      in [10] @ start_sep @ title @ end_sep)"

definition verdict_line :: "int \<Rightarrow> pystr \<Rightarrow> pystr \<Rightarrow> pystr" where
  "verdict_line mark name text =
     [mark] @ lit '' Test '' @ [39] @ name @ [39] @ lit '': '' @ text"

text \<open>The \<open>try\<close> statement: how the body ended decides the verdict and what is printed.\<close>

definition judge :: "('c, unit) T \<Rightarrow> pystr \<Rightarrow> ('c, unit) T \<Rightarrow> ('c, bool) T" where
  "judge dump_state name func w = (case func w of
     (Ret _, w') \<Rightarrow>
       seq [print_coloured ''green'' (verdict_line 0x2705 name (lit ''PASSED''))] (ret True) w'
   | (Raise (AssertionError e), w') \<Rightarrow>
       seq [print_coloured ''red'' (verdict_line 0x274C name (lit ''FAILED - '' @ e)), dump_state]
       (ret False) w'
   | (Raise (TimeoutError e), w') \<Rightarrow>
       seq [print_coloured ''red'' (verdict_line 0x274C name (lit ''FAILED - Timeout - '' @ e)), dump_state]
       (ret False) w'
   | (Raise e, w') \<Rightarrow>
       seq [print_coloured ''red'' (verdict_line 0x274C name (lit ''ERROR - '' @ exc_text w' e))]
       (ret False) w'
   | (Hang, w') \<Rightarrow> (Hang, w'))"

definition wrapper :: "('c, unit) T \<Rightarrow> pystr \<Rightarrow> ('c, unit) T \<Rightarrow> ('c, bool) T" where
  "wrapper dump_state name func w = (case columns w of
     None \<Rightarrow> (Raise OSError, w)
   | Some cols \<Rightarrow>
     seq [print_coloured ''yellow'' (banner cols name)]
     (bind (judge dump_state name func) (\<lambda>passed.
     seq [print_coloured ''yellow'' (lit ''Test '' @ [39] @ name @ [39] @ lit '' finished''), teardown]
     (ret passed))) w)"

record 'c registry =
  udp_test_cases :: "'c test list"
  tcp_test_cases :: "'c test list"

definition empty_registry :: "'c registry" where
  "empty_registry = \<lparr>udp_test_cases = [], tcp_test_cases = []\<rparr>"

definition testcase :: "('c, unit) T \<Rightarrow> pystr \<times> ('c, unit) T \<Rightarrow> 'c registry \<Rightarrow> 'c registry" where
  "testcase dump_state f reg = (case f of (name, func) \<Rightarrow>
     let wrapper_func = (name, wrapper dump_state name func) in
     if occurs_in (lit ''udp'') name
     then reg\<lparr>udp_test_cases := udp_test_cases reg @ [wrapper_func]\<rparr>
     else if occurs_in (lit ''tcp'') name
     then reg\<lparr>tcp_test_cases := tcp_test_cases reg @ [wrapper_func]\<rparr>
     else reg)"

text \<open>Loading the module decorates its test functions in order.\<close>

definition load :: "('c, unit) T \<Rightarrow> (pystr \<times> ('c, unit) T) list \<Rightarrow> 'c registry" where
  "load dump_state fs = fold (testcase dump_state) fs empty_registry"

section \<open>Running\<close>

fun run_all :: "pystr \<Rightarrow> 'c test list \<Rightarrow> nat \<Rightarrow> ('c, nat) T" where
  "run_all path [] passed = ret passed"
| "run_all path ((name, test) # ts) passed =
     seq [modify (ExecutableTester path)]
     (bind test (\<lambda>ok. run_all path ts (passed + (if ok then 1 else 0))))"

definition report :: "nat \<Rightarrow> nat \<Rightarrow> ('c, unit) T" where
  "report passed total_cases =
     print_coloured (if passed = total_cases then ''green'' else ''red'')
       ([10] @ [if passed = total_cases then 0x2705 else 0x274C] @ lit '' '' @ str_of_int (int passed)
        @ lit ''/'' @ str_of_int (int total_cases) @ lit '' test cases passed'')"

fun find_test :: "pystr \<Rightarrow> 'c test list \<Rightarrow> 'c test option" where
  "find_test name [] = None"
| "find_test name (t # ts) = (if fst t = name then Some t else find_test name ts)"

definition run_named :: "'c test \<Rightarrow> ('c, unit) T" where
  "run_named t = bind (snd t) (\<lambda>ok. report (if ok then 1 else 0) 1)"

definition run_tests :: "'c registry \<Rightarrow> pystr \<Rightarrow> bool \<Rightarrow> bool \<Rightarrow> pystr option \<Rightarrow> ('c, unit) T" where
  "run_tests reg path udp tcp test_case =
     seq [modify (ExecutableTester path)]
     (case test_case of
        None \<Rightarrow>
          bind (if udp then run_all path (udp_test_cases reg) 0 else ret 0) (\<lambda>p1.
          bind (if tcp then run_all path (tcp_test_cases reg) p1 else ret p1) (\<lambda>p2.
          report p2 ((if udp then length (udp_test_cases reg) else 0)
                     + (if tcp then length (tcp_test_cases reg) else 0))))
      | Some name \<Rightarrow>
          (case (if udp then find_test name (udp_test_cases reg) else None) of
             Some t \<Rightarrow> run_named t
           | None \<Rightarrow>
             (case (if tcp then find_test name (tcp_test_cases reg) else None) of
                Some t \<Rightarrow> run_named t
              | None \<Rightarrow> print_plain (lit ''Error: Test case '' @ [39] @ name @ [39]
                          @ lit '' not found in the specified protocol tests.''))))"

section \<open>Command line\<close>

record settings =
  set_debug :: bool
  set_udp :: bool
  set_tcp :: bool
  set_test_case :: "pystr option"
  set_path :: "pystr option"

definition default_settings :: settings where
  "default_settings =
     \<lparr>set_debug = False, set_udp = True, set_tcp = True, set_test_case = None, set_path = None\<rparr>"

datatype cli = CliExit int pystr | CliRun settings

text \<open>The \<open>for\<close> loop over the argument iterator; \<open>-t\<close> and \<open>-p\<close> take the next argument.\<close>

fun parse_args :: "pystr list \<Rightarrow> pystr list \<Rightarrow> settings \<Rightarrow> cli" where
  "parse_args names [] s = CliRun s"
| "parse_args names (arg # args) s =
     (if arg = lit ''-d'' then parse_args names args (s\<lparr>set_debug := True\<rparr>)
      else if arg = lit ''-t'' then
        (case args of
           [] \<Rightarrow> CliExit 1 (lit ''Error: -t requires a test case name.'')
         | name # rest \<Rightarrow>
             if name \<notin> set names
             then CliExit 1 (lit ''Error: Test case '' @ [39] @ name @ [39] @ lit '' not recognized.'')
             else parse_args names rest (s\<lparr>set_test_case := Some name\<rparr>))
      else if arg = lit ''-p'' then
        (case args of
           [] \<Rightarrow> CliExit 1 (lit ''Error: -p requires a protocol name (udp or tcp).'')
         | p # rest \<Rightarrow>
             if lower p = lit ''udp'' then parse_args names rest (s\<lparr>set_tcp := False\<rparr>)
             else if lower p = lit ''tcp'' then parse_args names rest (s\<lparr>set_udp := False\<rparr>)
             else CliExit 1 (lit ''Error: Protocol must be either '' @ [39] @ lit ''udp'' @ [39]
                             @ lit '' or '' @ [39] @ lit ''tcp'' @ [39] @ lit ''.''))
      else (case set_path s of
           None \<Rightarrow> parse_args names args (s\<lparr>set_path := Some arg\<rparr>)
         | Some _ \<Rightarrow> CliExit 1 (lit ''Error: Unexpected argument or executable path already set.'')))"

definition test_names :: "'c registry \<Rightarrow> pystr list" where
  "test_names reg = map fst (udp_test_cases reg) @ map fst (tcp_test_cases reg)"

definition usage :: pystr where
  "usage = lit ''Usage: python test_executable.py <path_to_executable> [-d: debug] [-t <testcase_name>] [-p <udp|tcp>]''"

definition command_line :: "pystr list \<Rightarrow> pystr list \<Rightarrow> cli" where
  "command_line names argv =
     (if lit ''-h'' \<in> set argv then CliExit 0 usage
      else (case parse_args names (drop 1 argv) default_settings of
          CliExit n m \<Rightarrow> CliExit n m
        | CliRun s \<Rightarrow> (case set_path s of
            None \<Rightarrow> CliExit 1 (lit ''Error: Path to executable is required.'')
          | Some _ \<Rightarrow> CliRun s)))"

text \<open>The main program; its result is the exit status.\<close>

definition main :: "'c registry \<Rightarrow> pystr list \<Rightarrow> ('c, int) T" where
  "main reg argv = (case command_line (test_names reg) argv of
     CliExit n m \<Rightarrow> seq [print_plain m] (ret n)
   | CliRun s \<Rightarrow> (case set_path s of
       None \<Rightarrow> ret 1
     | Some path \<Rightarrow> seq [run_tests reg path (set_udp s) (set_tcp s) (set_test_case s)] (ret 0)))"

end
