(* ===== verification/Test_Runner_Idioms.thy ===== *)
theory Test_Runner_Idioms
  imports Test_Runner
begin

text \<open>
  Expressions that the test cases of both files repeat: the argument vectors of the client, the
  searches in its output, replies built from a received message, the exception handlers, and the
  regular expression for an \<open>ERR\<close> message.
\<close>

definition client_args :: "string \<Rightarrow> string \<Rightarrow> pystr list" where
  "client_args protocol port = map lit [''-t'', protocol, ''-s'', ''localhost'', ''-p'', port]"

definition any_line_has :: "string \<Rightarrow> pystr \<Rightarrow> bool" where
  "any_line_has t stdout = list_ex (occurs_in (lit t)) (split_on 10 stdout)"

definition any_line_is :: "string \<Rightarrow> pystr \<Rightarrow> bool" where
  "any_line_is t stdout = list_ex (\<lambda>line. lit t = line) (split_on 10 stdout)"

definition translate :: "pyval \<Rightarrow> pystr res" where
  "translate = translate_with translateMessage"

definition hobza_translate :: "pyval \<Rightarrow> pystr res" where
  "hobza_translate = translate_with hobza_translateMessage"

text \<open>\<open>reply(id, result, getMessageId(message), text)\<close>: octets and text do not concatenate.\<close>

definition reply_to :: "int \<Rightarrow> int \<Rightarrow> pyval \<Rightarrow> pystr \<Rightarrow> bytes res" where
  "reply_to message_id result ref text = (case ref of
     VBytes d \<Rightarrow> reply message_id result d text
   | _ \<Rightarrow> Inl TypeError)"

text \<open>\<open>try: body except TimeoutError: handler\<close>, for the exception class of the harness.\<close>

definition catch_timeout :: "('c, 'a) T \<Rightarrow> ('c, 'a) T \<Rightarrow> ('c, 'a) T" where
  "catch_timeout body handler w = (case body w of
     (Raise (TimeoutError e), w') \<Rightarrow> handler w'
   | r \<Rightarrow> r)"

text \<open>A local UDP socket, closed when the function that owns it is left.\<close>

definition with_udp_socket :: "int \<Rightarrow> ('c, 'a) T \<Rightarrow> ('c, 'a) T" where
  "with_udp_socket port body = bind (udp_bind port) (\<lambda>s. \<lambda>w.
     (case body w of (r, w') \<Rightarrow> (r, close_sock s w')))"

definition recvfrom_within :: "int \<Rightarrow> int \<Rightarrow> ('c, bytes \<times> int) T" where
  "recvfrom_within port timeout w = udp_recvfrom port (clock w + timeout) w"

text \<open>The loop that receives up to \<open>n\<close> parts and stops at a timeout.\<close>

fun collect_parts :: "nat \<Rightarrow> pystr \<Rightarrow> ('c, pystr) T" where
  "collect_parts 0 received = ret received"
| "collect_parts (Suc n) received = (\<lambda>w. (case receive_message 500 w of
     (Ret VNone, w') \<Rightarrow> collect_parts n received w'
   | (Ret (VStr part), w') \<Rightarrow> collect_parts n (received @ part) w'
   | (Ret (VBytes part), w') \<Rightarrow>
       if part = [] then collect_parts n received w' else (Raise TypeError, w')
   | (Raise (TimeoutError e), w') \<Rightarrow> (Ret received, w')
   | (Raise e, w') \<Rightarrow> (Raise e, w')
   | (Hang, w') \<Rightarrow> (Hang, w')))"

text \<open>The pattern \<open>ERR FROM c IS [ -~]+\r\n\<close> at the start of a string, and anywhere in it.\<close>

definition match_err_pattern :: "pystr \<Rightarrow> bool" where
  "match_err_pattern s =
     (let rest = drop 14 s; text = takeWhile (\<lambda>c. 32 \<le> c \<and> c \<le> 126) rest
      in starts_with (lit ''ERR FROM c IS '') s \<and> text \<noteq> []
         \<and> starts_with (lit crlf) (drop (length text) rest))"

fun search_err_pattern :: "pystr \<Rightarrow> bool" where
  "search_err_pattern [] = False"
| "search_err_pattern (c # s) = (match_err_pattern (c # s) \<or> search_err_pattern s)"

definition match_err_message :: "pyval \<Rightarrow> bool res" where
  "match_err_message v = (case v of VStr s \<Rightarrow> Inr (match_err_pattern s) | _ \<Rightarrow> Inl TypeError)"

end
