(* ===== verification/Testo_Udp_Cases.thy ===== *)
theory Testo_Udp_Cases
  imports Test_Runner_Idioms
begin

text \<open>
  The test cases of \<open>testo.py\<close> for the command line and the UDP variant, in the order of the
  file (the helper \<open>auth_and_reply\<close> first).
\<close>

definition auth_and_reply :: "('c, unit) T" where
  "auth_and_reply =
     seq [start_server (lit ''udp'') 4567,
          setup_tester (client_args ''udp'' ''4567''),
          execute (lit ''/auth a b c'')]
     (bind (receive_message 5000) (\<lambda>message.
     bind (lift (translate message)) (\<lambda>tMessage.
     seq [assert_that (tMessage = lit (''AUTH IS a AS c USING b'' @ crlf))
           (lit ''Incoming message does not match expected AUTH message.'')]
     (bind (lift (message_id_of message)) (\<lambda>ref.
     bind (lift (reply_to 0 1 ref (lit ''jojo''))) (\<lambda>data.
     seq [send_message (VBytes data),
          sleep 200]
     (bind get_stdout (\<lambda>stdout.
     seq [assert_that (any_line_has ''Action Success: jojo'' stdout)
           (lit (''Output does not match expected '' @ [CHR 0x27] @ ''Action Success: jojo'' @ [CHR 0x27] @ '' output.''))]
     (bind (receive_message 5000) (\<lambda>message.
     assert_that (message = VBytes [CHR 0x00, CHR 0x00, CHR 0x00])
           (lit ''Incoming message does not match expected CONFIRM message.'')))))))))))"

definition no_args :: "('c, unit) T" where
  "no_args =
     seq [setup_tester (map lit [])]
     (bind get_return_code (\<lambda>code.
     assert_that (code \<noteq> Some 0) (lit ''Expected non-zero exit code.'')))"

definition no_type_arg :: "('c, unit) T" where
  "no_type_arg =
     seq [setup_tester (map lit [''-s'', ''localhost''])]
     (bind get_return_code (\<lambda>code.
     assert_that (code \<noteq> Some 0) (lit ''Expected non-zero exit code.'')))"

definition no_hostname :: "('c, unit) T" where
  "no_hostname =
     seq [setup_tester (map lit [''-t'', ''udp''])]
     (bind get_return_code (\<lambda>code.
     assert_that (code \<noteq> Some 0) (lit ''Expected non-zero exit code.'')))"

definition all_args :: "('c, unit) T" where
  "all_args =
     seq [setup_tester (client_args ''udp'' ''4567''),
          send_eof]
     (bind get_return_code (\<lambda>code.
     assert_that (code = None) (lit ''Expected zero exit code.'')))"

definition udp_help_command :: "('c, unit) T" where
  "udp_help_command =
     seq [auth_and_reply,
          execute (lit ''/help''),
          sleep 200]
     (bind get_stdout (\<lambda>stdout.
     assert_that (0 < length (strip stdout)) (lit ''Expected some output for /help command.'')))"

definition udp_hello :: "('c, unit) T" where
  "udp_hello =
     seq [setup_tester (client_args ''udp'' ''4567''),
          execute (lit ''Hello'')]
     (bind get_stdout (\<lambda>stdout.
     assert_that (occurs_in (lit ''ERROR: '') stdout)
           (lit ''Output does not match expected output.'')))"

definition udp_not_auth :: "('c, unit) T" where
  "udp_not_auth =
     seq [start_server (lit ''udp'') 4567,
          setup_tester (client_args ''udp'' ''4567''),
          execute (lit ''/join'')]
     (bind get_stdout (\<lambda>stdout.
     assert_that (any_line_has ''ERROR:'' stdout)
           (lit ''Output does not match expected error message.'')))"

definition udp_invalid_command :: "('c, unit) T" where
  "udp_invalid_command =
     seq [setup_tester (client_args ''udp'' ''4567''),
          execute (lit ''/pepe'')]
     (bind get_stdout (\<lambda>stdout.
     assert_that (occurs_in (lit ''ERROR:'') stdout)
           (lit ''Output does not match expected output.'')))"

definition udp_auth :: "('c, unit) T" where
  "udp_auth =
     seq [start_server (lit ''udp'') 4567,
          setup_tester (client_args ''udp'' ''4567''),
          execute (lit ''/auth a b c'')]
     (bind (receive_message 5000) (\<lambda>message.
     bind (lift (translate message)) (\<lambda>tMessage.
     assert_that (tMessage = lit (''AUTH IS a AS c USING b'' @ crlf))
           (lit ''Incoming message does not match expected message.''))))"

definition udp_auth_port :: "('c, unit) T" where
  "udp_auth_port =
     seq [start_server (lit ''udp'') 1234,
          setup_tester (client_args ''udp'' ''1234''),
          execute (lit ''/auth a b c'')]
     (bind (receive_message 5000) (\<lambda>message.
     bind (lift (translate message)) (\<lambda>tMessage.
     assert_that (tMessage = lit (''AUTH IS a AS c USING b'' @ crlf))
           (lit ''Incoming message does not match expected message.''))))"

definition udp_auth_nok :: "('c, unit) T" where
  "udp_auth_nok =
     seq [start_server (lit ''udp'') 4567,
          setup_tester (client_args ''udp'' ''4567''),
          execute (lit ''/auth a b c'')]
     (bind (receive_message 5000) (\<lambda>message.
     bind (lift (translate message)) (\<lambda>tMessage.
     seq [assert_that (tMessage = lit (''AUTH IS a AS c USING b'' @ crlf))
           (lit ''Incoming message does not match expected AUTH message.'')]
     (bind (lift (message_id_of message)) (\<lambda>ref.
     bind (lift (reply_to 0 0 ref (lit ''nene''))) (\<lambda>data.
     seq [send_message (VBytes data),
          sleep 200]
     (bind get_stdout (\<lambda>stdout.
     seq [assert_that (any_line_has ''Action Failure: nene'' stdout)
           (lit (''Output does not match expected '' @ [CHR 0x27] @ ''Action Failure: nene'' @ [CHR 0x27] @ '' output.''))]
     (bind (receive_message 5000) (\<lambda>message.
     assert_that (message = VBytes [CHR 0x00, CHR 0x00, CHR 0x00])
           (lit ''Incoming message does not match expected CONFIRM message.'')))))))))))"

definition udp_rename_multiple :: "('c, unit) T" where
  "udp_rename_multiple =
     seq [auth_and_reply,
          execute (lit ''/rename user1''),
          sleep 200,
          execute (lit ''/rename user2''),
          sleep 200,
          execute (lit ''message after rename'')]
     (bind (receive_message 5000) (\<lambda>message.
     bind (lift (translate message)) (\<lambda>tMessage.
     assert_that (tMessage = lit (''MSG FROM user2 IS message after rename'' @ crlf))
           (lit (''Message should be sent with the latest display name '' @ [CHR 0x27] @ ''user2'' @ [CHR 0x27] @ ''.'')))))"

definition udp_auth_nok_ok :: "('c, unit) T" where
  "udp_auth_nok_ok =
     seq [start_server (lit ''udp'') 4567,
          setup_tester (client_args ''udp'' ''4567''),
          execute (lit ''/auth a b c'')]
     (bind (receive_message 5000) (\<lambda>message.
     bind (lift (translate message)) (\<lambda>tMessage.
     seq [assert_that (tMessage = lit (''AUTH IS a AS c USING b'' @ crlf))
           (lit ''Incoming message does not match expected AUTH message.'')]
     (bind (lift (message_id_of message)) (\<lambda>ref.
     bind (lift (reply_to 0 0 ref (lit ''nene''))) (\<lambda>data.
     seq [send_message (VBytes data),
          sleep 200]
     (bind get_stdout (\<lambda>stdout.
     seq [assert_that (any_line_has ''Action Failure: nene'' stdout)
           (lit (''Output does not match expected '' @ [CHR 0x27] @ ''Action Failure: nene'' @ [CHR 0x27] @ '' output.''))]
     (bind (receive_message 5000) (\<lambda>message.
     seq [assert_that (message = VBytes [CHR 0x00, CHR 0x00, CHR 0x00])
           (lit ''Incoming message does not match expected CONFIRM message.''),
          execute (lit ''/auth a b c'')]
     (bind (receive_message 5000) (\<lambda>message.
     bind (lift (translate message)) (\<lambda>tMessage.
     seq [assert_that (tMessage = lit (''AUTH IS a AS c USING b'' @ crlf))
           (lit ''Incoming message does not match expected AUTH message.'')]
     (bind (lift (message_id_of message)) (\<lambda>ref.
     bind (lift (reply_to 1 1 ref (lit ''yes''))) (\<lambda>data.
     seq [send_message (VBytes data),
          sleep 200]
     (bind get_stdout (\<lambda>stdout.
     seq [assert_that (any_line_has ''Action Success: yes'' stdout)
           (lit (''Output does not match expected '' @ [CHR 0x27] @ ''Action Success: yes'' @ [CHR 0x27] @ '' output.''))]
     (bind (receive_message 5000) (\<lambda>message.
     assert_that (message = VBytes [CHR 0x00, CHR 0x00, CHR 0x01])
           (lit ''Incoming message does not match expected CONFIRM message.'')))))))))))))))))))))"

definition udp_auth_port_change :: "('c, unit) T" where
  "udp_auth_port_change =
     with_udp_socket 1234
     (seq [start_server (lit ''udp'') 4567,
          setup_tester (client_args ''udp'' ''1234''),
          execute (lit ''/auth a b c'')]
     (bind (recvfrom_within 1234 10000) (\<lambda>(message, address).
     seq [modify (udp_sendto 1234 ([CHR 0x00] @ getMessageId message) address)]
     (bind (lift (translateMessage message)) (\<lambda>tMessage.
     seq [assert_that (tMessage = lit (''AUTH IS a AS c USING b'' @ crlf))
           (lit ''Incoming message does not match expected AUTH message.''),
          setClientAddress address]
     (bind (lift (reply 0 1 (getMessageId message) (lit ''jojo''))) (\<lambda>data.
     seq [send_message (VBytes data),
          sleep 200]
     (bind get_stdout (\<lambda>stdout.
     seq [assert_that (any_line_has ''Action Success: jojo'' stdout)
           (lit (''Output does not match expected '' @ [CHR 0x27] @ ''Action Success: jojo'' @ [CHR 0x27] @ '' output.''))]
     (bind (receive_message 5000) (\<lambda>message.
     assert_that (message = VBytes [CHR 0x00, CHR 0x00, CHR 0x00])
           (lit ''Incoming message does not match expected CONFIRM message.''))))))))))))"

definition udp_auth_ok :: "('c, unit) T" where
  "udp_auth_ok =
     auth_and_reply"

definition udp_msg :: "('c, unit) T" where
  "udp_msg =
     seq [auth_and_reply,
          execute (lit ''ahojky'')]
     (bind (receive_message 5000) (\<lambda>message.
     bind (lift (translate message)) (\<lambda>tMessage.
     assert_that (tMessage = lit (''MSG FROM c IS ahojky'' @ crlf))
           (lit ''Incoming message does not match expected MSG message.''))))"

definition udp_svr_msg :: "('c, unit) T" where
  "udp_svr_msg =
     seq [auth_and_reply]
     (bind (lift (msg 1 (lit ''smrt'') (lit ''ahojky''))) (\<lambda>data.
     seq [send_message (VBytes data),
          sleep 200]
     (bind get_stdout (\<lambda>stdout.
     seq [assert_that (any_line_has ''smrt: ahojky'' stdout)
           (lit ''Output does not match expected output.'')]
     (bind (receive_message 5000) (\<lambda>message.
     assert_that (message = VBytes [CHR 0x00, CHR 0x00, CHR 0x01])
           (lit ''Incoming message does not match expected CONFIRM message.'')))))))"

definition udp_ping :: "('c, unit) T" where
  "udp_ping =
     seq [auth_and_reply]
     (bind (lift (ping 1)) (\<lambda>data.
     seq [send_message (VBytes data)]
     (bind (receive_message 5000) (\<lambda>message.
     assert_that (message = VBytes [CHR 0x00, CHR 0x00, CHR 0x01])
           (lit ''Incoming message does not match expected CONFIRM message.'')))))"

definition udp_bye1 :: "('c, unit) T" where
  "udp_bye1 =
     seq [auth_and_reply,
          send_sigint]
     (bind (receive_message 5000) (\<lambda>message.
     bind (lift (translate message)) (\<lambda>tMessage.
     assert_that (tMessage = lit (''BYE FROM c'' @ crlf))
           (lit ''Incoming message does not match expected BYE message.''))))"

definition udp_bye2 :: "('c, unit) T" where
  "udp_bye2 =
     seq [auth_and_reply,
          stdin_close]
     (bind (receive_message 5000) (\<lambda>message.
     bind (lift (translate message)) (\<lambda>tMessage.
     assert_that (tMessage = lit (''BYE FROM c'' @ crlf))
           (lit ''Incoming message does not match expected BYE message.''))))"

definition udp_server_bye :: "('c, unit) T" where
  "udp_server_bye =
     seq [auth_and_reply]
     (bind (lift (bye 1 (lit ''c''))) (\<lambda>data.
     seq [send_message (VBytes data),
          sleep 200]
     (bind poll (\<lambda>code.
     seq [assert_that (code \<noteq> None)
           (lit ''Client process should terminate after receiving BYE.'')]
     (bind (receive_message 5000) (\<lambda>message.
     assert_that (message = VBytes [CHR 0x00, CHR 0x00, CHR 0x01])
           (lit ''Incoming message does not match expected CONFIRM message for BYE.'')))))))"

definition udp_send_receive_multiple :: "('c, unit) T" where
  "udp_send_receive_multiple =
     seq [auth_and_reply,
          execute (lit ''client msg 1'')]
     (bind (receive_message 5000) (\<lambda>message.
     bind (lift (translate message)) (\<lambda>tMessage.
     seq [assert_that (occurs_in (lit (''MSG FROM c IS client msg 1'' @ crlf)) tMessage)
           (lit ''Expected client msg 1'')]
     (bind (lift (msg 1 (lit ''server'') (lit ''server msg 1''))) (\<lambda>data.
     seq [send_message (VBytes data),
          sleep 200]
     (bind get_stdout (\<lambda>stdout.
     seq [assert_that (occurs_in (lit ''server: server msg 1'') stdout)
           (lit ''Expected server msg 1 in output'')]
     (bind (receive_message 5000) (\<lambda>message.
     seq [assert_that (message = VBytes [CHR 0x00, CHR 0x00, CHR 0x01])
           (lit ''Expected confirm for server msg 1''),
          execute (lit ''client msg 2'')]
     (bind (receive_message 5000) (\<lambda>message.
     bind (lift (translate message)) (\<lambda>tMessage.
     seq [assert_that (occurs_in (lit (''MSG FROM c IS client msg 2'' @ crlf)) tMessage)
           (lit ''Expected client msg 2'')]
     (bind (lift (msg 2 (lit ''server'') (lit ''server msg 2''))) (\<lambda>data.
     seq [send_message (VBytes data),
          sleep 200]
     (bind get_stdout (\<lambda>stdout.
     seq [assert_that (occurs_in (lit ''server: server msg 2'') stdout)
           (lit ''Expected server msg 2 in output'')]
     (bind (receive_message 5000) (\<lambda>message.
     assert_that (message = VBytes [CHR 0x00, CHR 0x00, CHR 0x02])
           (lit ''Expected confirm for server msg 2'')))))))))))))))))))"

definition udp_retransmit_missing_confirm1 :: "('c, unit) T" where
  "udp_retransmit_missing_confirm1 =
     seq [auth_and_reply,
          modify (\<lambda>w. w\<lparr>send_confirm := False\<rparr>),
          execute (lit ''test retransmit message'')]
     (bind (receive_message 1000) (\<lambda>message1.
     bind (lift (message_id_of message1)) (\<lambda>msg_id1.
     bind (lift (translate message1)) (\<lambda>tMessage.
     seq [assert_that (occurs_in (lit (''MSG FROM c IS test retransmit message'' @ crlf)) tMessage)
           (lit ''Expected first message'')]
     (catch_timeout
       (bind (receive_message 3000) (\<lambda>message2.
        bind (lift (message_id_of message2)) (\<lambda>msg_id2.
        bind (lift (translate message2)) (\<lambda>tMessage.
        seq [assert_that (occurs_in (lit (''MSG FROM c IS test retransmit message'' @ crlf)) tMessage)
              (lit ''Expected retransmitted message''),
             assert_that (msg_id1 = msg_id2) (lit ''Retransmitted message ID should be the same'')]
        (confirm_message message2)))))
       (assert_that False (lit ''Client did not retransmit the message within the timeout period.'')))))))"

definition udp_retransmit_missing_confirm2 :: "('c, unit) T" where
  "udp_retransmit_missing_confirm2 =
     seq [start_server (lit ''udp'') 4567,
          setup_tester (client_args ''udp'' ''4567''),
          execute (lit ''/auth a b c''),
          modify (\<lambda>w. w\<lparr>send_confirm := False\<rparr>)]
     (bind (receive_message 1000) (\<lambda>message1.
     bind (lift (message_id_of message1)) (\<lambda>msg_id1.
     bind (lift (translate message1)) (\<lambda>tMessage.
     seq [assert_that (occurs_in (lit (''AUTH IS a AS c USING b'' @ crlf)) tMessage)
           (lit ''Expected AUTH message'')]
     (catch_timeout
       (bind (receive_message 3000) (\<lambda>message2.
        bind (lift (message_id_of message2)) (\<lambda>msg_id2.
        bind (lift (translate message2)) (\<lambda>tMessage.
        seq [assert_that (occurs_in (lit (''AUTH IS a AS c USING b'' @ crlf)) tMessage)
              (lit ''Expected retransmitted AUTH message''),
             assert_that (msg_id1 = msg_id2) (lit ''Retransmitted message ID should be the same'')]
        (confirm_message message2)))))
       (assert_that False (lit ''Client did not retransmit the message within the timeout period.'')))))))"

definition udp_ignore_duplicate_server_msg :: "('c, unit) T" where
  "udp_ignore_duplicate_server_msg =
     seq [auth_and_reply]
     (bind (lift (msg 1 (lit ''server'') (lit ''duplicate test''))) (\<lambda>server_message.
     seq [send_message (VBytes server_message),
          sleep 200,
          send_message (VBytes server_message),
          sleep 200]
     (bind get_stdout (\<lambda>stdout.
     (let occurrences = count_occ (lit ''server: duplicate test'') stdout in
     seq [assert_that (occurrences = 1)
           (lit ''Expected message to appear once in output, found '' @ str_of_int (int occurrences) @ lit '' times.'')]
     (bind (receive_message 5000) (\<lambda>confirm1.
     seq [assert_that (confirm1 = VBytes [CHR 0x00, CHR 0x00, CHR 0x01])
           (lit ''Expected confirm for first message'')]
     (bind (receive_message 5000) (\<lambda>confirm2.
     assert_that (confirm2 = VBytes [CHR 0x00, CHR 0x00, CHR 0x01])
           (lit ''Expected confirm for duplicate message''))))))))))"

definition udp_server_err1 :: "('c, unit) T" where
  "udp_server_err1 =
     seq [start_server (lit ''udp'') 4567,
          setup_tester (client_args ''udp'' ''4567''),
          execute (lit ''/auth a b c'')]
     (bind (receive_message 5000) (\<lambda>message.
     bind (lift (translate message)) (\<lambda>tMessage.
     seq [assert_that (tMessage = lit (''AUTH IS a AS c USING b'' @ crlf))
           (lit ''Incoming message does not match expected AUTH message.''),
          sleep 200]
     (bind (lift (err 0 (lit ''server'') (lit ''chyba''))) (\<lambda>data.
     seq [send_message (VBytes data),
          sleep 200]
     (bind get_stdout (\<lambda>stdout.
     seq [assert_that (any_line_has ''ERROR FROM server: chyba'' stdout)
           (lit ''Output does not match expected error message.'')]
     (bind (receive_message 5000) (\<lambda>message.
     assert_that (message = VBytes [CHR 0x00, CHR 0x00, CHR 0x00])
           (lit ''Incoming message does not match expected CONFIRM message.''))))))))))"

definition udp_server_err2 :: "('c, unit) T" where
  "udp_server_err2 =
     seq [auth_and_reply]
     (bind (lift (err 1 (lit ''server'') (lit ''chyba''))) (\<lambda>data.
     seq [send_message (VBytes data),
          sleep 200]
     (bind get_stdout (\<lambda>stdout.
     seq [assert_that (any_line_has ''ERROR FROM server: chyba'' stdout)
           (lit ''Output does not match expected error message.'')]
     (bind (receive_message 5000) (\<lambda>message.
     assert_that (message = VBytes [CHR 0x00, CHR 0x00, CHR 0x01])
           (lit ''Incoming message does not match expected CONFIRM message.'')))))))"

definition udp_join_ok :: "('c, unit) T" where
  "udp_join_ok =
     seq [auth_and_reply,
          execute (lit ''/rename user''),
          execute (lit ''/join channel'')]
     (bind (receive_message 5000) (\<lambda>message.
     bind (lift (translate message)) (\<lambda>tMessage.
     seq [assert_that (tMessage = lit (''JOIN IS channel AS user'' @ crlf))
           (lit ''Incoming message does not match expected JOIN message.'')]
     (bind (lift (message_id_of message)) (\<lambda>ref.
     bind (lift (reply_to 1 1 ref (lit ''jojo''))) (\<lambda>data.
     seq [send_message (VBytes data),
          sleep 200]
     (bind get_stdout (\<lambda>stdout.
     seq [assert_that (any_line_has ''Action Success: jojo'' stdout)
           (lit (''Output does not match expected '' @ [CHR 0x27] @ ''Action Success: jojo'' @ [CHR 0x27] @ '' output.''))]
     (bind (receive_message 5000) (\<lambda>message.
     assert_that (message = VBytes [CHR 0x00, CHR 0x00, CHR 0x01])
           (lit ''Incoming message does not match expected CONFIRM message.'')))))))))))"

definition udp_join_nok :: "('c, unit) T" where
  "udp_join_nok =
     seq [auth_and_reply,
          execute (lit ''/rename user''),
          execute (lit ''/join channel'')]
     (bind (receive_message 5000) (\<lambda>message.
     bind (lift (translate message)) (\<lambda>tMessage.
     seq [assert_that (tMessage = lit (''JOIN IS channel AS user'' @ crlf))
           (lit ''Incoming message does not match expected JOIN message.'')]
     (bind (lift (message_id_of message)) (\<lambda>ref.
     bind (lift (reply_to 1 0 ref (lit ''nene''))) (\<lambda>data.
     seq [send_message (VBytes data),
          sleep 200]
     (bind get_stdout (\<lambda>stdout.
     seq [assert_that (any_line_has ''Action Failure: nene'' stdout)
           (lit (''Output does not match expected '' @ [CHR 0x27] @ ''Action Failure: nene'' @ [CHR 0x27] @ '' output.''))]
     (bind (receive_message 5000) (\<lambda>message.
     assert_that (message = VBytes [CHR 0x00, CHR 0x00, CHR 0x01])
           (lit ''Incoming message does not match expected CONFIRM message.'')))))))))))"

definition udp_multiple_auth :: "('c, unit) T" where
  "udp_multiple_auth =
     seq [auth_and_reply,
          execute (lit ''/auth d e f''),
          sleep 200]
     (bind get_stdout (\<lambda>stdout.
     assert_that (any_line_has ''ERROR: '' stdout)
           (lit (''Output does not match expected '' @ [CHR 0x27] @ ''ERROR: '' @ [CHR 0x27] @ '' output.''))))"

definition udp_invalid_msg :: "('c, unit) T" where
  "udp_invalid_msg =
     seq [auth_and_reply,
          send_message (VBytes [CHR 0x06, CHR 0x00, CHR 0x01]),
          sleep 200]
     (bind get_stdout (\<lambda>stdout.
     seq [assert_that (any_line_has ''ERROR: '' stdout)
           (lit (''Output does not match expected '' @ [CHR 0x27] @ ''ERROR: '' @ [CHR 0x27] @ '' output.''))]
     (bind (receive_message 5000) (\<lambda>message.
     bind (lift (translate message)) (\<lambda>tMessage.
     assert_that (occurs_in (lit ''ERR FROM c IS'') tMessage)
           (lit ''Incoming message does not match expected ERR message.''))))))"

definition udp_auth_err :: "('c, unit) T" where
  "udp_auth_err =
     seq [start_server (lit ''udp'') 4567,
          setup_tester (client_args ''udp'' ''4567''),
          execute (lit ''/auth a b c'')]
     (bind (receive_message 5000) (\<lambda>message.
     bind (lift (translate message)) (\<lambda>tMessage.
     seq [assert_that (tMessage = lit (''AUTH IS a AS c USING b'' @ crlf))
           (lit ''Incoming message does not match expected AUTH message.'')]
     (bind (lift (err 1 (lit ''server'') (lit ''ajaj''))) (\<lambda>data.
     seq [send_message (VBytes data),
          sleep 200]
     (bind get_stdout (\<lambda>stdout.
     seq [assert_that (any_line_has ''ERROR FROM server: ajaj'' stdout)
           (lit ''Output does not match expected error message.'')]
     (bind (receive_message 5000) (\<lambda>message.
     assert_that (message = VBytes [CHR 0x00, CHR 0x00, CHR 0x01])
           (lit ''Incoming message does not match expected CONFIRM message.''))))))))))"

definition udp_reports_error_when_missing_confirmation :: "('c, unit) T" where
  "udp_reports_error_when_missing_confirmation =
     seq [auth_and_reply,
          modify (\<lambda>w. w\<lparr>send_confirm := False\<rparr>),
          execute (lit ''Hello!''),
          sleep 2000]
     (bind get_stdout (\<lambda>stdout.
     assert_that (any_line_has ''ERROR: '' stdout)
           (lit (''Output does not match expected '' @ [CHR 0x27] @ ''ERROR: '' @ [CHR 0x27] @ '' output.''))))"

definition udp_reply_5_sec_error_auth :: "('c, unit) T" where
  "udp_reply_5_sec_error_auth =
     seq [start_server (lit ''udp'') 4567,
          setup_tester (client_args ''udp'' ''4567''),
          execute (lit ''/auth a b c'')]
     (bind (receive_message 5000) (\<lambda>message.
     bind (lift (translate message)) (\<lambda>tMessage.
     seq [assert_that (tMessage = lit (''AUTH IS a AS c USING b'' @ crlf))
           (lit ''Incoming message does not match expected AUTH message.''),
          sleep 5100]
     (bind get_stdout (\<lambda>stdout.
     seq [assert_that (any_line_has ''ERROR: '' stdout)
           (lit (''Output does not match expected '' @ [CHR 0x27] @ ''ERROR: '' @ [CHR 0x27] @ '' output.''))]
     (bind (receive_message 5000) (\<lambda>message.
     bind (lift (translate message)) (\<lambda>tMessage.
     assert_that (occurs_in (lit ''ERR FROM c IS'') tMessage)
           (lit ''Incoming message does not match expected ERR message.'')))))))))"

definition udp_reply_5_sec_error_join :: "('c, unit) T" where
  "udp_reply_5_sec_error_join =
     seq [auth_and_reply,
          execute (lit ''/join abc'')]
     (bind (receive_message 5000) (\<lambda>message.
     bind (lift (translate message)) (\<lambda>tMessage.
     seq [assert_that (tMessage = lit (''JOIN IS abc AS c'' @ crlf))
           (lit ''Incoming message does not match expected JOIN message.''),
          sleep 5100]
     (bind (receive_message 5000) (\<lambda>message.
     bind (lift (translate message)) (\<lambda>tMessage.
     seq [assert_that (occurs_in (lit ''ERR FROM c IS'') tMessage)
           (lit ''Incoming message does not match expected ERR message.'')]
     (bind get_stdout (\<lambda>stdout.
     assert_that (any_line_has ''ERROR: '' stdout)
           (lit (''Output does not match expected '' @ [CHR 0x27] @ ''ERROR: '' @ [CHR 0x27] @ '' output.''))))))))))"

end
