(* ===== verification/Testo_Tcp_Cases.thy ===== *)
theory Testo_Tcp_Cases
  imports Testo_Udp_Cases
begin

text \<open>
  The test cases of \<open>testo.py\<close> for the TCP variant (the helper \<open>tcp_auth_and_reply\<close> first), and
  the list of all decorated functions of the file in source order.
\<close>

definition tcp_auth_and_reply :: "('c, unit) T" where
  "tcp_auth_and_reply =
     seq [start_server (lit ''tcp'') 4567,
          setup_tester (client_args ''tcp'' ''4567''),
          execute (lit ''/auth a b c'')]
     (bind (receive_message 5000) (\<lambda>message.
     seq [assert_that (message = VStr (lit (''AUTH a AS c USING b'' @ crlf)))
           (lit ''Incoming message does not match expected AUTH message.''),
          send_message (VStr (lit (''REPLY OK IS vsechno cajk'' @ crlf))),
          sleep 200]
     (bind get_stdout (\<lambda>stdout.
     assert_that (any_line_is ''Action Success: vsechno cajk'' stdout)
           (lit ''Output does not match expected error message.'')))))"

definition tcp_sigint :: "('c, unit) T" where
  "tcp_sigint =
     seq [tcp_auth_and_reply,
          send_sigint]
     (bind (receive_message 5000) (\<lambda>message.
     assert_that (message = VStr (lit (''BYE FROM c'' @ crlf)))
           (lit ''Incoming message does not match expected BYE message after SIGINT.'')))"

definition tcp_sigint_and_bye :: "('c, unit) T" where
  "tcp_sigint_and_bye =
     seq [start_server (lit ''tcp'') 4567,
          setup_tester (client_args ''tcp'' ''4567''),
          send_sigint]
     (bind (receive_message 5000) (\<lambda>message.
     assert_that (message = VStr (lit (''BYE FROM unknown'' @ crlf)))
           (lit ''Incoming message does not match expected BYE message after SIGINT.'')))"

definition tcp_server_bye :: "('c, unit) T" where
  "tcp_server_bye =
     seq [tcp_auth_and_reply,
          send_message (VStr (lit (''BYE FROM server'' @ crlf))),
          sleep 200]
     (bind poll (\<lambda>code.
     assert_that (code \<noteq> None)
           (lit ''Client process should terminate after receiving BYE.'')))"

definition tcp_rename :: "('c, unit) T" where
  "tcp_rename =
     seq [tcp_auth_and_reply,
          execute (lit ''/rename user1''),
          sleep 200,
          execute (lit ''message after rename'')]
     (bind (receive_message 5000) (\<lambda>message.
     assert_that (message = VStr (lit (''MSG FROM user1 IS message after rename'' @ crlf)))
           (lit (''Message should be sent with the new display name '' @ [CHR 0x27] @ ''user1'' @ [CHR 0x27] @ ''.''))))"

definition tcp_rename_multiple :: "('c, unit) T" where
  "tcp_rename_multiple =
     seq [tcp_auth_and_reply,
          execute (lit ''/rename user1''),
          sleep 200,
          execute (lit ''/rename user2''),
          sleep 200,
          execute (lit ''message after rename'')]
     (bind (receive_message 5000) (\<lambda>message.
     assert_that (message = VStr (lit (''MSG FROM user2 IS message after rename'' @ crlf)))
           (lit (''Message should be sent with the latest display name '' @ [CHR 0x27] @ ''user2'' @ [CHR 0x27] @ ''.''))))"

definition tcp_help_command :: "('c, unit) T" where
  "tcp_help_command =
     seq [tcp_auth_and_reply,
          execute (lit ''/help''),
          sleep 1000]
     (bind get_stdout (\<lambda>stdout.
     assert_that (0 < length (strip stdout)) (lit ''Expected some output for /help command.'')))"

definition tcp_send_receive_multiple :: "('c, unit) T" where
  "tcp_send_receive_multiple =
     seq [tcp_auth_and_reply,
          execute (lit ''client msg 1'')]
     (bind (receive_message 5000) (\<lambda>message.
     seq [assert_that (message = VStr (lit (''MSG FROM c IS client msg 1'' @ crlf)))
           (lit ''Expected client msg 1''),
          send_message (VStr (lit (''MSG FROM server IS server msg 1'' @ crlf))),
          sleep 200]
     (bind get_stdout (\<lambda>stdout.
     seq [assert_that (occurs_in (lit ''server: server msg 1'') stdout)
           (lit ''Expected server msg 1 in output''),
          execute (lit ''client msg 2'')]
     (bind (receive_message 5000) (\<lambda>message.
     seq [assert_that (message = VStr (lit (''MSG FROM c IS client msg 2'' @ crlf)))
           (lit ''Expected client msg 2''),
          send_message (VStr (lit (''MSG FROM server IS server msg 2'' @ crlf))),
          sleep 200]
     (bind get_stdout (\<lambda>stdout.
     assert_that (occurs_in (lit ''server: server msg 2'') stdout)
           (lit ''Expected server msg 2 in output'')))))))))"

definition tcp_multiple_messages_single_segment :: "('c, unit) T" where
  "tcp_multiple_messages_single_segment =
     seq [tcp_auth_and_reply,
          send_message (VStr (lit (''MSG FROM server1 IS msg1'' @ crlf @ ''MSG FROM server2 IS msg2'' @ crlf))),
          sleep 1000]
     (bind get_stdout (\<lambda>stdout.
     seq [assert_that (occurs_in (lit ''server1: msg1'') stdout)
           (lit ''Expected first message in output.'')]
     (assert_that (occurs_in (lit ''server2: msg2'') stdout)
           (lit ''Expected second message in output.''))))"

definition tcp_single_message_multiple_segments2 :: "('c, unit) T" where
  "tcp_single_message_multiple_segments2 =
     seq [tcp_auth_and_reply,
          send_message (VStr (lit ''M'')),
          sleep 200,
          send_message (VStr (lit ''SG '')),
          sleep 200,
          send_message (VStr (lit ''FR'')),
          sleep 200,
          send_message (VStr (lit ''OM ser'')),
          sleep 200,
          send_message (VStr (lit ''ve'')),
          sleep 200,
          send_message (VStr (lit ''r I'')),
          sleep 200,
          send_message (VStr (lit (''S okeyBroChill'' @ crlf))),
          sleep 200]
     (bind get_stdout (\<lambda>stdout.
     assert_that (occurs_in (lit ''server: okeyBroChill'') stdout)
           (lit ''Expected reassembled message in output.'')))"

definition tcp_single_message_multiple_segments :: "('c, unit) T" where
  "tcp_single_message_multiple_segments =
     seq [tcp_auth_and_reply,
          send_message (VStr (lit ''MSG FROM server IS part1'')),
          sleep 200,
          send_message (VStr (lit (''part2'' @ crlf))),
          sleep 200]
     (bind get_stdout (\<lambda>stdout.
     assert_that (occurs_in (lit ''server: part1part2'') stdout)
           (lit ''Expected reassembled message in output.'')))"

definition tcp_receive_two_messages_within_3_segments :: "('c, unit) T" where
  "tcp_receive_two_messages_within_3_segments =
     seq [tcp_auth_and_reply,
          send_message (VStr (lit ''MSG FROM teSter '')),
          sleep 200,
          send_message (VStr (lit (''IS message1'' @ crlf @ ''MSG FROM teSte''))),
          sleep 200,
          send_message (VStr (lit ('' IS message2'' @ crlf))),
          sleep 200]
     (bind get_stdout (\<lambda>stdout.
     assert_that (occurs_in (lit (''teSter: message1'' @ [CHR 0x0A] @ ''teSte: message2'')) stdout)
           (lit ''Expected reassembled message in output.'')))"

definition tcp_hello :: "('c, unit) T" where
  "tcp_hello =
     seq [start_server (lit ''tcp'') 4567,
          setup_tester (client_args ''tcp'' ''4567''),
          execute (lit ''Hello'')]
     (bind get_stdout (\<lambda>stdout.
     assert_that (occurs_in (lit ''ERROR:'') stdout)
           (lit ''Output does not match expected output.'')))"

definition tcp_not_auth :: "('c, unit) T" where
  "tcp_not_auth =
     seq [start_server (lit ''tcp'') 4567,
          setup_tester (client_args ''tcp'' ''4567''),
          execute (lit ''/join'')]
     (bind get_stdout (\<lambda>stdout.
     assert_that (any_line_has ''ERROR:'' stdout)
           (lit ''Output does not match expected error message.'')))"

definition tcp_invalid_command :: "('c, unit) T" where
  "tcp_invalid_command =
     seq [start_server (lit ''tcp'') 4567,
          setup_tester (client_args ''tcp'' ''4567''),
          execute (lit ''/pepe'')]
     (bind get_stdout (\<lambda>stdout.
     assert_that (occurs_in (lit ''ERROR:'') stdout)
           (lit ''Output does not match expected output.'')))"

definition tcp_auth :: "('c, unit) T" where
  "tcp_auth =
     seq [start_server (lit ''tcp'') 4567,
          setup_tester (client_args ''tcp'' ''4567''),
          execute (lit ''/auth a b c'')]
     (bind (receive_message 5000) (\<lambda>message.
     assert_that (message = VStr (lit (''AUTH a AS c USING b'' @ crlf)))
           (lit ''Incoming message does not match expected AUTH message.'')))"

definition tcp_auth_ok :: "('c, unit) T" where
  "tcp_auth_ok =
     seq [start_server (lit ''tcp'') 4567,
          setup_tester (client_args ''tcp'' ''4567''),
          execute (lit ''/auth a b c'')]
     (bind (receive_message 5000) (\<lambda>message.
     seq [assert_that (message = VStr (lit (''AUTH a AS c USING b'' @ crlf)))
           (lit ''Incoming message does not match expected AUTH message.''),
          send_message (VStr (lit (''REPLY OK IS vsechno cajk'' @ crlf))),
          sleep 200]
     (bind get_stdout (\<lambda>stdout.
     assert_that (any_line_is ''Action Success: vsechno cajk'' stdout)
           (lit ''Output does not match expected error message.'')))))"

definition tcp_auth_nok :: "('c, unit) T" where
  "tcp_auth_nok =
     seq [start_server (lit ''tcp'') 4567,
          setup_tester (client_args ''tcp'' ''4567''),
          execute (lit ''/auth a b c'')]
     (bind (receive_message 5000) (\<lambda>message.
     seq [assert_that (message = VStr (lit (''AUTH a AS c USING b'' @ crlf)))
           (lit ''Incoming message does not match expected AUTH message.''),
          send_message (VStr (lit (''REPLY NOK IS nic cajk'' @ crlf))),
          sleep 200]
     (bind get_stdout (\<lambda>stdout.
     assert_that (any_line_is ''Action Failure: nic cajk'' stdout)
           (lit ''Output does not match expected error message.'')))))"

definition tcp_auth_port :: "('c, unit) T" where
  "tcp_auth_port =
     seq [start_server (lit ''tcp'') 4321,
          setup_tester (client_args ''tcp'' ''4321''),
          execute (lit ''/auth a b c'')]
     (bind (receive_message 5000) (\<lambda>message.
     assert_that (message = VStr (lit (''AUTH a AS c USING b'' @ crlf)))
           (lit ''Incoming message does not match expected message.'')))"

definition tcp_auth_nok_ok :: "('c, unit) T" where
  "tcp_auth_nok_ok =
     seq [start_server (lit ''tcp'') 4567,
          setup_tester (client_args ''tcp'' ''4567''),
          execute (lit ''/auth a b c'')]
     (bind (receive_message 5000) (\<lambda>message.
     seq [assert_that (message = VStr (lit (''AUTH a AS c USING b'' @ crlf)))
           (lit ''Incoming message does not match expected AUTH message.''),
          send_message (VStr (lit (''REPLY NOK IS nic cajk'' @ crlf))),
          sleep 200]
     (bind get_stdout (\<lambda>stdout.
     seq [assert_that (any_line_is ''Action Failure: nic cajk'' stdout)
           (lit ''Output does not match expected error message.''),
          execute (lit ''/auth d e f'')]
     (bind (receive_message 5000) (\<lambda>message.
     seq [assert_that (message = VStr (lit (''AUTH d AS f USING e'' @ crlf)))
           (lit ''Incoming message does not match expected AUTH message.''),
          send_message (VStr (lit (''REPLY OK IS vsechno cajk'' @ crlf))),
          sleep 200]
     (bind get_stdout (\<lambda>stdout.
     assert_that (any_line_is ''Action Success: vsechno cajk'' stdout)
           (lit ''Output does not match expected error message.'')))))))))"

definition tcp_auth_ok_again :: "('c, unit) T" where
  "tcp_auth_ok_again =
     tcp_auth_and_reply"

definition tcp_msg :: "('c, unit) T" where
  "tcp_msg =
     seq [tcp_auth_and_reply,
          execute (lit ''ahojky'')]
     (bind (receive_message 5000) (\<lambda>message.
     assert_that (message = VStr (lit (''MSG FROM c IS ahojky'' @ crlf)))
           (lit ''Incoming message does not match expected MSG message.'')))"

definition tcp_svr_msg :: "('c, unit) T" where
  "tcp_svr_msg =
     seq [tcp_auth_and_reply,
          send_message (VStr (lit (''MSG FROM SeverusSnape IS ahojky'' @ crlf))),
          sleep 200]
     (bind get_stdout (\<lambda>stdout.
     assert_that (any_line_has ''SeverusSnape: ahojky'' stdout)
           (lit ''Output does not match expected output.'')))"

definition tcp_bye :: "('c, unit) T" where
  "tcp_bye =
     seq [tcp_auth_and_reply,
          stdin_close]
     (bind (receive_message 5000) (\<lambda>message.
     assert_that (message = VStr (lit (''BYE FROM c'' @ crlf)))
           (lit ''Incoming message does not match expected BYE message.'')))"

definition tcp_bye_in_auth :: "('c, unit) T" where
  "tcp_bye_in_auth =
     seq [start_server (lit ''tcp'') 4567,
          setup_tester (client_args ''tcp'' ''4567''),
          stdin_close]
     (bind (receive_message 5000) (\<lambda>message.
     assert_that (message = VStr (lit (''BYE FROM unknown'' @ crlf)))
           (lit ''Incoming message does not match expected BYE message.'')))"

definition tcp_server_err1 :: "('c, unit) T" where
  "tcp_server_err1 =
     seq [start_server (lit ''tcp'') 4567,
          setup_tester (client_args ''tcp'' ''4567''),
          execute (lit ''/auth a b c''),
          send_message (VStr (lit (''ERR FROM jetovp IS rdeli'' @ crlf))),
          sleep 400]
     (bind get_stdout (\<lambda>stdout.
     assert_that (any_line_has ''ERROR FROM jetovp: rdeli'' stdout)
           (lit ''Output does not match expected error message.'')))"

definition tcp_server_err2 :: "('c, unit) T" where
  "tcp_server_err2 =
     seq [tcp_auth_and_reply,
          send_message (VStr (lit (''ERR FROM chuj IS bobr'' @ crlf))),
          sleep 400]
     (bind get_stdout (\<lambda>stdout.
     assert_that (any_line_has ''ERROR FROM chuj: bobr'' stdout)
           (lit ''Output does not match expected error message.'')))"

definition tcp_join_ok :: "('c, unit) T" where
  "tcp_join_ok =
     seq [tcp_auth_and_reply,
          execute (lit ''/rename user''),
          execute (lit ''/join channel'')]
     (bind (receive_message 5000) (\<lambda>message.
     seq [assert_that (message = VStr (lit (''JOIN channel AS user'' @ crlf)))
           (lit ''Incoming message does not match expected JOIN message.''),
          send_message (VStr (lit (''REPLY OK IS takjo brasko ale bud hodnej'' @ crlf))),
          sleep 200]
     (bind get_stdout (\<lambda>stdout.
     assert_that (any_line_has ''Action Success: takjo brasko ale bud hodnej'' stdout)
           (lit (''Output does not match expected '' @ [CHR 0x27] @ ''Action Success: jojo'' @ [CHR 0x27] @ '' output.''))))))"

definition tcp_join_nok :: "('c, unit) T" where
  "tcp_join_nok =
     seq [tcp_auth_and_reply,
          execute (lit ''/rename user''),
          execute (lit ''/join channel'')]
     (bind (receive_message 5000) (\<lambda>message.
     seq [assert_that (message = VStr (lit (''JOIN channel AS user'' @ crlf)))
           (lit ''Incoming message does not match expected JOIN message.''),
          send_message (VStr (lit (''REPLY NOK IS minus boiiii'' @ crlf))),
          sleep 200]
     (bind get_stdout (\<lambda>stdout.
     assert_that (any_line_has ''Action Failure: minus boiiii'' stdout)
           (lit (''Output does not match expected '' @ [CHR 0x27] @ ''Action Success: jojo'' @ [CHR 0x27] @ '' output.''))))))"

definition tcp_multiple_auth :: "('c, unit) T" where
  "tcp_multiple_auth =
     seq [tcp_auth_and_reply,
          execute (lit ''/auth d e f''),
          sleep 200]
     (bind get_stdout (\<lambda>stdout.
     assert_that (any_line_has ''ERROR: '' stdout)
           (lit (''Output does not match expected '' @ [CHR 0x27] @ ''ERROR: '' @ [CHR 0x27] @ '' output.''))))"

definition tcp_invalid_msg :: "('c, unit) T" where
  "tcp_invalid_msg =
     seq [tcp_auth_and_reply,
          send_message (VStr (lit (''TVOJE MAMINKA'' @ crlf))),
          sleep 200]
     (bind get_stdout (\<lambda>stdout.
     seq [assert_that (any_line_has ''ERROR: '' stdout)
           (lit (''Output does not contain expected '' @ [CHR 0x27] @ ''ERROR: '' @ [CHR 0x27] @ '' message.''))]
     (bind (collect_parts 2 []) (\<lambda>received.
     seq [assert_that (search_err_pattern received) (lit ''Missing or malformed ERR message.''),
          stdin_close]
     (sleep 200)))))"

definition tcp_auth_err :: "('c, unit) T" where
  "tcp_auth_err =
     seq [start_server (lit ''tcp'') 4567,
          setup_tester (client_args ''tcp'' ''4567''),
          execute (lit ''/auth a b c'')]
     (bind (receive_message 5000) (\<lambda>message.
     seq [assert_that (message = VStr (lit (''AUTH a AS c USING b'' @ crlf)))
           (lit ''Incoming message does not match expected AUTH message.''),
          send_message (VStr (lit (''ERR FROM server IS ajaj'' @ crlf))),
          sleep 200]
     (bind get_stdout (\<lambda>stdout.
     assert_that (any_line_has ''ERROR FROM server: ajaj'' stdout)
           (lit ''Output does not match expected error message.'')))))"

definition tcp_too_long_msg_minus_one :: "('c, unit) T" where
  "tcp_too_long_msg_minus_one =
     seq [start_server (lit ''tcp'') 4567,
          setup_tester (client_args ''tcp'' ''4567''),
          send_message (VStr (replicate 60033 (97::int) @ lit crlf)),
          sleep 200]
     (bind get_stdout (\<lambda>stdout.
     seq [assert_that (any_line_is ''ERROR: only messages of types BYE, ERR, MSG and REPLY are expected to be received from the server.'' stdout)
           (lit ''Output does not match expected error message.'')]
     (bind (receive_message 5000) (\<lambda>message.
     assert_that (message = VStr (lit (''ERR FROM unknown IS only messages of types BYE, ERR, MSG and REPLY are expected to be received from the server.'' @ crlf)))
           (lit ''Incoming message does not match expected ERR message.'')))))"

definition tcp_too_long_server_msg :: "('c, unit) T" where
  "tcp_too_long_server_msg =
     seq [start_server (lit ''tcp'') 4567,
          setup_tester (client_args ''tcp'' ''4567''),
          send_message (VStr (replicate 60034 (97::int) @ lit crlf)),
          sleep 200]
     (bind get_stdout (\<lambda>stdout.
     seq [assert_that (any_line_is ''ERROR: too long message from server.'' stdout)
           (lit ''Output does not match expected error message.'')]
     (bind (receive_message 5000) (\<lambda>message.
     assert_that (message = VStr (lit (''ERR FROM unknown IS too long message from server.'' @ crlf)))
           (lit ''Incoming message does not match expected ERR message.'')))))"

definition tcp_too_long_server_msg_plus_one :: "('c, unit) T" where
  "tcp_too_long_server_msg_plus_one =
     seq [start_server (lit ''tcp'') 4567,
          setup_tester (client_args ''tcp'' ''4567''),
          send_message (VStr (replicate 60035 (97::int) @ lit crlf)),
          sleep 200]
     (bind get_stdout (\<lambda>stdout.
     seq [assert_that (any_line_is ''ERROR: too long message from server.'' stdout)
           (lit ''Output does not match expected error message.'')]
     (bind (receive_message 5000) (\<lambda>message.
     assert_that (message = VStr (lit (''ERR FROM unknown IS too long message from server.'' @ crlf)))
           (lit ''Incoming message does not match expected ERR message.'')))))"

definition tcp_too_long_server_msg_plus_one_without_end :: "('c, unit) T" where
  "tcp_too_long_server_msg_plus_one_without_end =
     seq [start_server (lit ''tcp'') 4567,
          setup_tester (client_args ''tcp'' ''4567''),
          send_message (VStr (replicate 60036 (97::int))),
          sleep 200]
     (bind get_stdout (\<lambda>stdout.
     seq [assert_that (any_line_is ''ERROR: too long message from server.'' stdout)
           (lit ''Output does not match expected error message.'')]
     (bind (receive_message 5000) (\<lambda>message.
     assert_that (message = VStr (lit (''ERR FROM unknown IS too long message from server.'' @ crlf)))
           (lit ''Incoming message does not match expected ERR message.'')))))"

definition tcp_auth_reply_timeout :: "('c, unit) T" where
  "tcp_auth_reply_timeout =
     seq [start_server (lit ''tcp'') 4567,
          setup_tester (client_args ''tcp'' ''4567''),
          execute (lit ''/auth a b c'')]
     (bind (receive_message 5000) (\<lambda>message.
     seq [assert_that (message = VStr (lit (''AUTH a AS c USING b'' @ crlf)))
           (lit ''Incoming message does not match expected AUTH message.''),
          sleep 5200]
     (bind get_stdout (\<lambda>stdout.
     seq [assert_that (any_line_is (''ERROR: waited too long for the server'' @ [CHR 0x27] @ ''s reply.'') stdout)
           (lit ''Output does not match expected error message.'')]
     (bind (receive_message 5000) (\<lambda>message.
     assert_that (message = VStr (lit (''ERR FROM c IS waited too long for the server'' @ [CHR 0x27] @ ''s reply.'' @ crlf)))
           (lit ''Incoming message does not match expected ERR message.'')))))))"

definition tcp_join_reply_timeout :: "('c, unit) T" where
  "tcp_join_reply_timeout =
     seq [start_server (lit ''tcp'') 4567,
          setup_tester (client_args ''tcp'' ''4567''),
          execute (lit ''/auth a b c'')]
     (bind (receive_message 5000) (\<lambda>message.
     seq [assert_that (message = VStr (lit (''AUTH a AS c USING b'' @ crlf)))
           (lit ''Incoming message does not match expected AUTH message.''),
          send_message (VStr (lit (''REPLY OK IS takjo brasko ale bud hodnej'' @ crlf))),
          sleep 200]
     (bind get_stdout (\<lambda>stdout.
     seq [assert_that (any_line_has ''Action Success: takjo brasko ale bud hodnej'' stdout)
           (lit (''Output does not match expected '' @ [CHR 0x27] @ ''Action Success: takjo brasko ale bud hodnej'' @ [CHR 0x27] @ '' output.'')),
          execute (lit ''/join abc1'')]
     (bind (receive_message 5000) (\<lambda>message.
     seq [assert_that (message = VStr (lit (''JOIN abc1 AS c'' @ crlf)))
           (lit ''Incoming message does not match expected ERR message.''),
          sleep 5100]
     (bind (receive_message 5000) (\<lambda>message.
     seq [assert_that (message = VStr (lit (''ERR FROM c IS waited too long for the server'' @ [CHR 0x27] @ ''s reply.'' @ crlf)))
           (lit ''Incoming message does not match expected ERR message.'')]
     (bind get_stdout (\<lambda>stdout.
     assert_that (any_line_is (''ERROR: waited too long for the server'' @ [CHR 0x27] @ ''s reply.'') stdout)
           (lit ''Output does not match expected error message.'')))))))))))"

definition tcp_invalid_message_type :: "('c, unit) T" where
  "tcp_invalid_message_type =
     seq [start_server (lit ''tcp'') 4567,
          setup_tester (client_args ''tcp'' ''4567''),
          send_message (VStr (lit (''invalidmsgtype'' @ crlf))),
          sleep 200]
     (bind (receive_message 5000) (\<lambda>message.
     seq [assert_that (message = VStr (lit (''ERR FROM unknown IS only messages of types BYE, ERR, MSG and REPLY are expected to be received from the server.'' @ crlf)))
           (lit ''Incoming message does not match expected ERR message.'')]
     (bind get_stdout (\<lambda>stdout.
     assert_that (any_line_is ''ERROR: only messages of types BYE, ERR, MSG and REPLY are expected to be received from the server.'' stdout)
           (lit ''Output does not match expected error message.'')))))"

definition tcp_unexpected_message_type :: "('c, unit) T" where
  "tcp_unexpected_message_type =
     seq [start_server (lit ''tcp'') 4567,
          setup_tester (client_args ''tcp'' ''4567''),
          send_message (VStr (lit (''JOIN'' @ crlf))),
          sleep 200]
     (bind (receive_message 5000) (\<lambda>message.
     seq [assert_that (message = VStr (lit (''ERR FROM unknown IS only messages of types BYE, ERR, MSG and REPLY are expected to be received from the server.'' @ crlf)))
           (lit ''Incoming message does not match expected ERR message.'')]
     (bind get_stdout (\<lambda>stdout.
     assert_that (any_line_is ''ERROR: only messages of types BYE, ERR, MSG and REPLY are expected to be received from the server.'' stdout)
           (lit ''Output does not match expected error message.'')))))"

definition tcp_auth_reply_delay :: "('c, unit) T" where
  "tcp_auth_reply_delay =
     seq [start_server (lit ''tcp'') 4567,
          setup_tester (client_args ''tcp'' ''4567''),
          execute (lit ''/auth a b c'')]
     (bind (receive_message 5000) (\<lambda>message.
     seq [assert_that (message = VStr (lit (''AUTH a AS c USING b'' @ crlf)))
           (lit ''Incoming message does not match expected AUTH message.''),
          sleep 4200,
          send_message (VStr (lit (''RepLy Nok iS something wrong has happened.'' @ crlf))),
          sleep 200]
     (bind get_stdout (\<lambda>stdout.
     assert_that (any_line_is ''Action Failure: something wrong has happened.'' stdout)
           (lit ''Output does not match expected error message.'')))))"

definition tcp_join_reply_delay :: "('c, unit) T" where
  "tcp_join_reply_delay =
     seq [start_server (lit ''tcp'') 4567,
          setup_tester (client_args ''tcp'' ''4567''),
          execute (lit ''/auth a b c'')]
     (bind (receive_message 5000) (\<lambda>message.
     seq [assert_that (message = VStr (lit (''AUTH a AS c USING b'' @ crlf)))
           (lit ''Incoming message does not match expected AUTH message.''),
          send_message (VStr (lit (''REPLY OK IS takjo brasko ale bud hodnej'' @ crlf))),
          sleep 200]
     (bind get_stdout (\<lambda>stdout.
     seq [assert_that (any_line_has ''Action Success: takjo brasko ale bud hodnej'' stdout)
           (lit (''Output does not match expected '' @ [CHR 0x27] @ ''Action Success: takjo brasko ale bud hodnej'' @ [CHR 0x27] @ '' output.'')),
          execute (lit ''/join abc1''),
          sleep 4700,
          send_message (VStr (lit (''RepLy Nok iS something wrong has happened.'' @ crlf))),
          sleep 200]
     (bind get_stdout (\<lambda>stdout.
     assert_that (any_line_is ''Action Failure: something wrong has happened.'' stdout)
           (lit ''Output does not match expected error message.'')))))))"

definition tcp_processing_server_messages_while_joining :: "('c, unit) T" where
  "tcp_processing_server_messages_while_joining =
     seq [start_server (lit ''tcp'') 4567,
          setup_tester (client_args ''tcp'' ''4567''),
          execute (lit ''/auth a b c'')]
     (bind (receive_message 5000) (\<lambda>message.
     seq [assert_that (message = VStr (lit (''AUTH a AS c USING b'' @ crlf)))
           (lit ''Incoming message does not match expected AUTH message.''),
          send_message (VStr (lit (''REPLY OK IS takjo brasko ale bud hodnej'' @ crlf))),
          sleep 200]
     (bind get_stdout (\<lambda>stdout.
     seq [assert_that (any_line_has ''Action Success: takjo brasko ale bud hodnej'' stdout)
           (lit (''Output does not match expected '' @ [CHR 0x27] @ ''Action Success: takjo brasko ale bud hodnej'' @ [CHR 0x27] @ '' output.'')),
          execute (lit ''/join abc1''),
          send_message (VStr (lit (''MSG FROM server1 is msg from server 1.'' @ crlf))),
          send_message (VStr (lit (''MSG FROM server2 is msg from server 2.'' @ crlf))),
          sleep 2500,
          send_message (VStr (lit (''MSG FROM server3 is msg from server 3.'' @ crlf))),
          sleep 1800,
          send_message (VStr (lit (''RepLy oK iS something is something :)))).'' @ crlf))),
          sleep 200]
     (bind get_stdout (\<lambda>stdout.
     (let expected_output =
            lit (''server1: msg from server 1.'' @ [CHR 0x0A]
               @ ''server2: msg from server 2.'' @ [CHR 0x0A]
               @ ''server3: msg from server 3.'' @ [CHR 0x0A]
               @ ''Action Success: something is something :)))).'' @ [CHR 0x0A]);
          stdout_clean = strip stdout;
          expected_clean = strip expected_output
      in assert_that (stdout_clean = expected_clean)
           ([10] @ lit ''Expected:'' @ [10] @ expected_clean @ [10, 10] @ lit ''Got:'' @ [10] @ stdout_clean))))))))"

definition tcp_all_good_after_auth_reply_delay :: "('c, unit) T" where
  "tcp_all_good_after_auth_reply_delay =
     seq [start_server (lit ''tcp'') 4567,
          setup_tester (client_args ''tcp'' ''4567''),
          execute (lit ''/auth a b c'')]
     (bind (receive_message 5000) (\<lambda>message.
     seq [assert_that (message = VStr (lit (''AUTH a AS c USING b'' @ crlf)))
           (lit ''Incoming message does not match expected AUTH message.''),
          sleep 4200,
          send_message (VStr (lit (''RepLy Nok iS something wrong has happened.'' @ crlf))),
          sleep 200]
     (bind get_stdout (\<lambda>stdout.
     seq [assert_that (any_line_is ''Action Failure: something wrong has happened.'' stdout)
           (lit ''Output does not match expected error message.''),
          sleep 6000,
          execute (lit ''/auth x y z'')]
     (bind (receive_message 5000) (\<lambda>message.
     seq [assert_that (message = VStr (lit (''AUTH x AS z USING y'' @ crlf)))
           (lit ''Incoming message does not match expected AUTH message.''),
          send_message (VStr (lit (''RepLy oK iS allright'' @ crlf))),
          sleep 200]
     (bind get_stdout (\<lambda>stdout.
     seq [assert_that (any_line_is ''Action Success: allright'' stdout)
           (lit ''Output does not match expected error message.''),
          send_message (VStr (lit (''MSG from user1234 Is elchin krasavs kawasaki'' @ crlf))),
          sleep 200]
     (bind get_stdout (\<lambda>stdout.
     assert_that (any_line_is ''user1234: elchin krasavs kawasaki'' stdout)
           (lit ''Output does not match expected error message.'')))))))))))"

definition tcp_all_good_after_join_reply_delay :: "('c, unit) T" where
  "tcp_all_good_after_join_reply_delay =
     seq [start_server (lit ''tcp'') 4567,
          setup_tester (client_args ''tcp'' ''4567''),
          execute (lit ''/auth a b c'')]
     (bind (receive_message 5000) (\<lambda>message.
     seq [assert_that (message = VStr (lit (''AUTH a AS c USING b'' @ crlf)))
           (lit ''Incoming message does not match expected AUTH message.''),
          send_message (VStr (lit (''RepLy OK iS something wrong has happened.'' @ crlf))),
          sleep 200]
     (bind get_stdout (\<lambda>stdout.
     seq [assert_that (any_line_is ''Action Success: something wrong has happened.'' stdout)
           (lit ''Output does not match expected error message.''),
          execute (lit ''/join someshi'')]
     (bind (receive_message 5000) (\<lambda>message.
     seq [assert_that (message = VStr (lit (''JOIN someshi AS c'' @ crlf)))
           (lit ''Incoming message does not match expected AUTH message.''),
          sleep 4200,
          send_message (VStr (lit (''RepLy Nok iS something wrong has happened.'' @ crlf))),
          sleep 200]
     (bind get_stdout (\<lambda>stdout.
     seq [assert_that (any_line_is ''Action Failure: something wrong has happened.'' stdout)
           (lit ''Output does not match expected error message.''),
          sleep 6000,
          send_message (VStr (lit (''MSG from user1234 Is elchin krasavs kawasaki'' @ crlf))),
          sleep 200]
     (bind get_stdout (\<lambda>stdout.
     assert_that (any_line_is ''user1234: elchin krasavs kawasaki'' stdout)
           (lit ''Output does not match expected error message.'')))))))))))"

definition tcp_grammar_is_case_insensitive :: "('c, unit) T" where
  "tcp_grammar_is_case_insensitive =
     seq [start_server (lit ''tcp'') 4567,
          setup_tester (client_args ''tcp'' ''4567''),
          execute (lit ''/auth a b c'')]
     (bind (receive_message 5000) (\<lambda>message.
     seq [assert_that (message = VStr (lit (''AUTH a AS c USING b'' @ crlf)))
           (lit ''AUTH message mismatch.''),
          send_message (VStr (lit (''rEpLy oK is authenticated'' @ crlf))),
          sleep 200]
     (bind get_stdout (\<lambda>stdout.
     seq [assert_that (any_line_has ''Action Success: authenticated'' stdout)
           (lit ''Client did not report successful reply.''),
          send_message (VStr (lit (''mSg fRoM teSter Is message'' @ crlf))),
          sleep 200]
     (bind get_stdout (\<lambda>stdout.
     seq [assert_that (any_line_has ''teSter: message'' stdout)
           (lit ''Client did not receive expected message.''),
          send_message (VStr (lit (''eRR FrOm teSter iS message'' @ crlf))),
          sleep 200]
     (bind get_stdout (\<lambda>stdout.
     assert_that (any_line_has ''ERROR FROM teSter: message'' stdout)
           (lit ''Client did not report expected error message.'')))))))))"

text \<open>The decorated functions in the order in which the module defines them.\<close>

definition testo_cli_cases :: "(pystr \<times> ('c, unit) T) list" where
  "testo_cli_cases =
     [(lit ''no_args'', no_args),
      (lit ''no_type_arg'', no_type_arg),
      (lit ''no_hostname'', no_hostname),
      (lit ''all_args'', all_args)]"

definition testo_udp_cases :: "(pystr \<times> ('c, unit) T) list" where
  "testo_udp_cases =
     [(lit ''udp_help_command'', udp_help_command),
      (lit ''udp_hello'', udp_hello),
      (lit ''udp_not_auth'', udp_not_auth),
      (lit ''udp_invalid_command'', udp_invalid_command),
      (lit ''udp_auth'', udp_auth),
      (lit ''udp_auth_port'', udp_auth_port),
      (lit ''udp_auth_nok'', udp_auth_nok),
      (lit ''udp_rename_multiple'', udp_rename_multiple),
      (lit ''udp_auth_nok_ok'', udp_auth_nok_ok),
      (lit ''udp_auth_port_change'', udp_auth_port_change),
      (lit ''udp_auth_ok'', udp_auth_ok),
      (lit ''udp_msg'', udp_msg),
      (lit ''udp_svr_msg'', udp_svr_msg),
      (lit ''udp_ping'', udp_ping),
      (lit ''udp_bye1'', udp_bye1),
      (lit ''udp_bye2'', udp_bye2),
      (lit ''udp_server_bye'', udp_server_bye),
      (lit ''udp_send_receive_multiple'', udp_send_receive_multiple),
      (lit ''udp_retransmit_missing_confirm1'', udp_retransmit_missing_confirm1),
      (lit ''udp_retransmit_missing_confirm2'', udp_retransmit_missing_confirm2),
      (lit ''udp_ignore_duplicate_server_msg'', udp_ignore_duplicate_server_msg),
      (lit ''udp_server_err1'', udp_server_err1),
      (lit ''udp_server_err2'', udp_server_err2),
      (lit ''udp_join_ok'', udp_join_ok),
      (lit ''udp_join_nok'', udp_join_nok),
      (lit ''udp_multiple_auth'', udp_multiple_auth),
      (lit ''udp_invalid_msg'', udp_invalid_msg),
      (lit ''udp_auth_err'', udp_auth_err),
      (lit ''udp_reports_error_when_missing_confirmation'', udp_reports_error_when_missing_confirmation),
      (lit ''udp_reply_5_sec_error_auth'', udp_reply_5_sec_error_auth),
      (lit ''udp_reply_5_sec_error_join'', udp_reply_5_sec_error_join)]"

definition testo_tcp_cases :: "(pystr \<times> ('c, unit) T) list" where
  "testo_tcp_cases =
     [(lit ''tcp_sigint'', tcp_sigint),
      (lit ''tcp_sigint_and_bye'', tcp_sigint_and_bye),
      (lit ''tcp_server_bye'', tcp_server_bye),
      (lit ''tcp_rename'', tcp_rename),
      (lit ''tcp_rename_multiple'', tcp_rename_multiple),
      (lit ''tcp_help_command'', tcp_help_command),
      (lit ''tcp_send_receive_multiple'', tcp_send_receive_multiple),
      (lit ''tcp_multiple_messages_single_segment'', tcp_multiple_messages_single_segment),
      (lit ''tcp_single_message_multiple_segments2'', tcp_single_message_multiple_segments2),
      (lit ''tcp_single_message_multiple_segments'', tcp_single_message_multiple_segments),
      (lit ''tcp_receive_two_messages_within_3_segments'', tcp_receive_two_messages_within_3_segments),
      (lit ''tcp_hello'', tcp_hello),
      (lit ''tcp_not_auth'', tcp_not_auth),
      (lit ''tcp_invalid_command'', tcp_invalid_command),
      (lit ''tcp_auth'', tcp_auth),
      (lit ''tcp_auth_ok'', tcp_auth_ok),
      (lit ''tcp_auth_nok'', tcp_auth_nok),
      (lit ''tcp_auth_port'', tcp_auth_port),
      (lit ''tcp_auth_nok_ok'', tcp_auth_nok_ok),
      (lit ''tcp_auth_ok'', tcp_auth_ok_again),
      (lit ''tcp_msg'', tcp_msg),
      (lit ''tcp_svr_msg'', tcp_svr_msg),
      (lit ''tcp_bye'', tcp_bye),
      (lit ''tcp_bye_in_auth'', tcp_bye_in_auth),
      (lit ''tcp_server_err1'', tcp_server_err1),
      (lit ''tcp_server_err2'', tcp_server_err2),
      (lit ''tcp_join_ok'', tcp_join_ok),
      (lit ''tcp_join_nok'', tcp_join_nok),
      (lit ''tcp_multiple_auth'', tcp_multiple_auth),
      (lit ''tcp_invalid_msg'', tcp_invalid_msg),
      (lit ''tcp_auth_err'', tcp_auth_err),
      (lit ''tcp_too_long_msg_minus_one'', tcp_too_long_msg_minus_one),
      (lit ''tcp_too_long_server_msg'', tcp_too_long_server_msg),
      (lit ''tcp_too_long_server_msg_plus_one'', tcp_too_long_server_msg_plus_one),
      (lit ''tcp_too_long_server_msg_plus_one_without_end'', tcp_too_long_server_msg_plus_one_without_end),
      (lit ''tcp_auth_reply_timeout'', tcp_auth_reply_timeout),
      (lit ''tcp_join_reply_timeout'', tcp_join_reply_timeout),
      (lit ''tcp_invalid_message_type'', tcp_invalid_message_type),
      (lit ''tcp_unexpected_message_type'', tcp_unexpected_message_type),
      (lit ''tcp_auth_reply_delay'', tcp_auth_reply_delay),
      (lit ''tcp_join_reply_delay'', tcp_join_reply_delay),
      (lit ''tcp_processing_server_messages_while_joining'', tcp_processing_server_messages_while_joining),
      (lit ''tcp_all_good_after_auth_reply_delay'', tcp_all_good_after_auth_reply_delay),
      (lit ''tcp_all_good_after_join_reply_delay'', tcp_all_good_after_join_reply_delay),
      (lit ''tcp_grammar_is_case_insensitive'', tcp_grammar_is_case_insensitive)]"

definition testo_functions :: "(pystr \<times> ('c, unit) T) list" where
  "testo_functions = testo_cli_cases @ testo_udp_cases @ testo_tcp_cases"

end
