(* ===== verification/Hobza_Cases.thy ===== *)
theory Hobza_Cases
  imports Test_Runner_Idioms
begin

text \<open>
  The test cases of \<open>hobza.py\<close> (the helpers first), and the list of its decorated functions in
  source order.
\<close>

definition hobza_auth_and_reply :: "('c, unit) T" where
  "hobza_auth_and_reply =
     seq [start_server (lit ''udp'') 4567,
          setup_tester (client_args ''udp'' ''4567''),
          execute (lit ''/auth a b c'')]
     (bind (hobza_receive_message 5000) (\<lambda>message.
     bind (lift (hobza_translate message)) (\<lambda>tMessage.
     seq [assert_that (tMessage = lit (''AUTH IS a AS c USING b'' @ crlf))
           (lit ''Incoming message does not match expected AUTH message.'')]
     (bind (lift (message_id_of message)) (\<lambda>ref.
     bind (lift (reply_to 0 1 ref (lit ''jojo''))) (\<lambda>data.
     seq [send_message (VBytes data),
          sleep 200]
     (bind get_stdout (\<lambda>stdout.
     seq [assert_that (any_line_has ''Action Success: jojo'' stdout)
           (lit (''Output does not match expected '' @ [CHR 0x27] @ ''Success: jojo'' @ [CHR 0x27] @ '' output.''))]
     (bind (hobza_receive_message 5000) (\<lambda>message.
     assert_that (message = VBytes [CHR 0x00, CHR 0x00, CHR 0x00])
           (lit ''Incoming message does not match expected CONFIRM message.'')))))))))))"

definition hobza_tcp_auth_and_reply :: "('c, unit) T" where
  "hobza_tcp_auth_and_reply =
     seq [start_server (lit ''tcp'') 4567,
          setup_tester (client_args ''tcp'' ''4567''),
          execute (lit ''/auth a b c'')]
     (bind (hobza_receive_message 5000) (\<lambda>message.
     seq [assert_that (message = VStr (lit (''AUTH a AS c USING b'' @ crlf)))
           (lit ''Incoming message does not match expected AUTH message.''),
          send_message (VStr (lit (''REPLY OK IS vsechno cajk'' @ crlf))),
          sleep 200]
     (bind get_stdout (\<lambda>stdout.
     assert_that (any_line_is ''Action Success: vsechno cajk'' stdout)
           (lit ''Output does not match expected error message.'')))))"

definition hobza_no_args :: "('c, unit) T" where
  "hobza_no_args =
     seq [setup_tester (map lit [])]
     (bind get_return_code (\<lambda>code.
     assert_that (code \<noteq> Some 0) (lit ''Expected non-zero exit code.'')))"

definition hobza_no_type_arg :: "('c, unit) T" where
  "hobza_no_type_arg =
     seq [setup_tester (map lit [''-s'', ''localhost''])]
     (bind get_return_code (\<lambda>code.
     assert_that (code \<noteq> Some 0) (lit ''Expected non-zero exit code.'')))"

definition hobza_no_hostname :: "('c, unit) T" where
  "hobza_no_hostname =
     seq [setup_tester (map lit [''-t'', ''udp''])]
     (bind get_return_code (\<lambda>code.
     assert_that (code \<noteq> Some 0) (lit ''Expected non-zero exit code.'')))"

definition hobza_all_args :: "('c, unit) T" where
  "hobza_all_args =
     seq [setup_tester (client_args ''udp'' ''4567''),
          send_eof]
     (bind get_return_code (\<lambda>code.
     assert_that (code = None) (lit ''Expected zero exit code.'')))"

definition hobza_udp_hello :: "('c, unit) T" where
  "hobza_udp_hello =
     seq [setup_tester (client_args ''udp'' ''4567''),
          execute (lit ''Hello'')]
     (bind get_stdout (\<lambda>stdout.
     assert_that (occurs_in (lit ''ERROR:'') stdout)
           (lit ''Output does not match expected output.'')))"

definition hobza_udp_not_auth :: "('c, unit) T" where
  "hobza_udp_not_auth =
     seq [start_server (lit ''udp'') 4567,
          setup_tester (client_args ''udp'' ''4567''),
          execute (lit ''/join'')]
     (bind get_stdout (\<lambda>stdout.
     assert_that (any_line_has ''ERROR:'' stdout)
           (lit ''Output does not match expected error message.'')))"

definition hobza_udp_invalid_command :: "('c, unit) T" where
  "hobza_udp_invalid_command =
     seq [setup_tester (client_args ''udp'' ''4567''),
          execute (lit ''/pepe'')]
     (bind get_stdout (\<lambda>stdout.
     assert_that (occurs_in (lit ''ERROR:'') stdout)
           (lit ''Output does not match expected output.'')))"

definition hobza_udp_auth :: "('c, unit) T" where
  "hobza_udp_auth =
     seq [start_server (lit ''udp'') 4567,
          setup_tester (client_args ''udp'' ''4567''),
          execute (lit ''/auth a b c'')]
     (bind (hobza_receive_message 5000) (\<lambda>message.
     bind (lift (hobza_translate message)) (\<lambda>tMessage.
     assert_that (tMessage = lit (''AUTH IS a AS c USING b'' @ crlf))
           (lit ''Incoming message does not match expected message.''))))"

definition hobza_udp_auth_port :: "('c, unit) T" where
  "hobza_udp_auth_port =
     seq [start_server (lit ''udp'') 1234,
          setup_tester (client_args ''udp'' ''1234''),
          execute (lit ''/auth a b c'')]
     (bind (hobza_receive_message 5000) (\<lambda>message.
     bind (lift (hobza_translate message)) (\<lambda>tMessage.
     assert_that (tMessage = lit (''AUTH IS a AS c USING b'' @ crlf))
           (lit ''Incoming message does not match expected message.''))))"

definition hobza_udp_auth_nok :: "('c, unit) T" where
  "hobza_udp_auth_nok =
     seq [start_server (lit ''udp'') 4567,
          setup_tester (client_args ''udp'' ''4567''),
          execute (lit ''/auth a b c'')]
     (bind (hobza_receive_message 5000) (\<lambda>message.
     bind (lift (hobza_translate message)) (\<lambda>tMessage.
     seq [assert_that (tMessage = lit (''AUTH IS a AS c USING b'' @ crlf))
           (lit ''Incoming message does not match expected AUTH message.'')]
     (bind (lift (message_id_of message)) (\<lambda>ref.
     bind (lift (reply_to 0 0 ref (lit ''nene''))) (\<lambda>data.
     seq [send_message (VBytes data),
          sleep 200]
     (bind get_stdout (\<lambda>stdout.
     seq [assert_that (any_line_has ''Action Failure: nene'' stdout)
           (lit (''Output does not match expected '' @ [CHR 0x27] @ ''Failure: nene'' @ [CHR 0x27] @ '' output.''))]
     (bind (hobza_receive_message 5000) (\<lambda>message.
     assert_that (message = VBytes [CHR 0x00, CHR 0x00, CHR 0x00])
           (lit ''Incoming message does not match expected CONFIRM message.'')))))))))))"

definition hobza_udp_auth_nok_ok :: "('c, unit) T" where
  "hobza_udp_auth_nok_ok =
     seq [start_server (lit ''udp'') 4567,
          setup_tester (client_args ''udp'' ''4567''),
          execute (lit ''/auth a b c'')]
     (bind (hobza_receive_message 5000) (\<lambda>message.
     bind (lift (hobza_translate message)) (\<lambda>tMessage.
     seq [assert_that (tMessage = lit (''AUTH IS a AS c USING b'' @ crlf))
           (lit ''Incoming message does not match expected AUTH message.'')]
     (bind (lift (message_id_of message)) (\<lambda>ref.
     bind (lift (reply_to 0 0 ref (lit ''nene''))) (\<lambda>data.
     seq [send_message (VBytes data),
          sleep 200]
     (bind get_stdout (\<lambda>stdout.
     seq [assert_that (any_line_has ''Action Failure: nene'' stdout)
           (lit (''Output does not match expected '' @ [CHR 0x27] @ ''Failure: nene'' @ [CHR 0x27] @ '' output.''))]
     (bind (hobza_receive_message 5000) (\<lambda>message.
     seq [assert_that (message = VBytes [CHR 0x00, CHR 0x00, CHR 0x00])
           (lit ''Incoming message does not match expected CONFIRM message.''),
          execute (lit ''/auth a b c'')]
     (bind (hobza_receive_message 5000) (\<lambda>message.
     bind (lift (hobza_translate message)) (\<lambda>tMessage.
     seq [assert_that (tMessage = lit (''AUTH IS a AS c USING b'' @ crlf))
           (lit ''Incoming message does not match expected AUTH message.'')]
     (bind (lift (message_id_of message)) (\<lambda>ref.
     bind (lift (reply_to 1 1 ref (lit ''yes''))) (\<lambda>data.
     seq [send_message (VBytes data),
          sleep 200]
     (bind get_stdout (\<lambda>stdout.
     seq [assert_that (any_line_has ''Success: yes'' stdout)
           (lit (''Output does not match expected '' @ [CHR 0x27] @ ''Success: yes'' @ [CHR 0x27] @ '' output.''))]
     (bind (hobza_receive_message 5000) (\<lambda>message.
     assert_that (message = VBytes [CHR 0x00, CHR 0x00, CHR 0x01])
           (lit ''Incoming message does not match expected CONFIRM message.'')))))))))))))))))))))"

definition hobza_udp_auth_port_change :: "('c, unit) T" where
  "hobza_udp_auth_port_change =
     with_udp_socket 1234
     (seq [start_server (lit ''udp'') 4567,
          setup_tester (client_args ''udp'' ''1234''),
          execute (lit ''/auth a b c'')]
     (bind (recvfrom_within 1234 10000) (\<lambda>(message, address).
     seq [modify (udp_sendto 1234 ([CHR 0x00] @ getMessageId message) address)]
     (bind (lift (hobza_translateMessage message)) (\<lambda>tMessage.
     seq [assert_that (tMessage = lit (''AUTH IS a AS c USING b'' @ crlf))
           (lit ''Incoming message does not match expected AUTH message.''),
          setClientAddress address]
     (bind (lift (reply 0 1 (getMessageId message) (lit ''jojo''))) (\<lambda>data.
     seq [send_message (VBytes data),
          sleep 200]
     (bind get_stdout (\<lambda>stdout.
     seq [assert_that (any_line_has ''Action Success: jojo'' stdout)
           (lit (''Output does not match expected '' @ [CHR 0x27] @ ''Success: jojo'' @ [CHR 0x27] @ '' output.''))]
     (bind (hobza_receive_message 5000) (\<lambda>message.
     assert_that (message = VBytes [CHR 0x00, CHR 0x00, CHR 0x00])
           (lit ''Incoming message does not match expected CONFIRM message.''))))))))))))"

definition hobza_udp_auth_ok :: "('c, unit) T" where
  "hobza_udp_auth_ok =
     hobza_auth_and_reply"

definition hobza_udp_msg :: "('c, unit) T" where
  "hobza_udp_msg =
     seq [hobza_auth_and_reply,
          execute (lit ''ahojky'')]
     (bind (hobza_receive_message 5000) (\<lambda>message.
     bind (lift (hobza_translate message)) (\<lambda>tMessage.
     assert_that (tMessage = lit (''MSG FROM c IS ahojky'' @ crlf))
           (lit ''Incoming message does not match expected MSG message.''))))"

definition hobza_udp_svr_msg :: "('c, unit) T" where
  "hobza_udp_svr_msg =
     seq [hobza_auth_and_reply]
     (bind (lift (msg 1 (lit ''smrt'') (lit ''ahojky''))) (\<lambda>data.
     seq [send_message (VBytes data),
          sleep 200]
     (bind get_stdout (\<lambda>stdout.
     seq [assert_that (any_line_has ''smrt: ahojky'' stdout)
           (lit ''Output does not match expected output.'')]
     (bind (hobza_receive_message 5000) (\<lambda>message.
     assert_that (message = VBytes [CHR 0x00, CHR 0x00, CHR 0x01])
           (lit ''Incoming message does not match expected CONFIRM message.'')))))))"

definition hobza_udp_bye1 :: "('c, unit) T" where
  "hobza_udp_bye1 =
     seq [hobza_auth_and_reply,
          send_sigint]
     (bind (hobza_receive_message 5000) (\<lambda>message.
     bind (lift (hobza_translate message)) (\<lambda>tMessage.
     assert_that (tMessage = lit (''BYE'' @ crlf))
           (lit ''Incoming message does not match expected BYE message.''))))"

definition hobza_udp_bye2 :: "('c, unit) T" where
  "hobza_udp_bye2 =
     seq [hobza_auth_and_reply,
          stdin_close]
     (bind (hobza_receive_message 5000) (\<lambda>message.
     bind (lift (hobza_translate message)) (\<lambda>tMessage.
     assert_that (tMessage = lit (''BYE'' @ crlf))
           (lit ''Incoming message does not match expected BYE message.''))))"

definition hobza_udp_server_err1 :: "('c, unit) T" where
  "hobza_udp_server_err1 =
     seq [start_server (lit ''udp'') 4567,
          setup_tester (client_args ''udp'' ''4567''),
          execute (lit ''/auth a b c'')]
     (bind (hobza_receive_message 5000) (\<lambda>message.
     bind (lift (hobza_translate message)) (\<lambda>tMessage.
     seq [assert_that (tMessage = lit (''AUTH IS a AS c USING b'' @ crlf))
           (lit ''Incoming message does not match expected AUTH message.''),
          sleep 200]
     (bind (lift (err 0 (lit ''server'') (lit ''chyba''))) (\<lambda>data.
     seq [send_message (VBytes data),
          sleep 200]
     (bind get_stdout (\<lambda>stdout.
     seq [assert_that (any_line_has ''ERROR FROM server: chyba'' stdout)
           (lit ''Output does not match expected error message.'')]
     (bind (hobza_receive_message 5000) (\<lambda>message.
     assert_that (message = VBytes [CHR 0x00, CHR 0x00, CHR 0x00])
           (lit ''Incoming message does not match expected CONFIRM message.''))))))))))"

definition hobza_udp_server_err2 :: "('c, unit) T" where
  "hobza_udp_server_err2 =
     seq [hobza_auth_and_reply]
     (bind (lift (err 1 (lit ''server'') (lit ''chyba''))) (\<lambda>data.
     seq [send_message (VBytes data),
          sleep 200]
     (bind get_stdout (\<lambda>stdout.
     seq [assert_that (any_line_has ''ERROR FROM server: chyba'' stdout)
           (lit ''Output does not match expected error message.'')]
     (bind (hobza_receive_message 5000) (\<lambda>message.
     assert_that (message = VBytes [CHR 0x00, CHR 0x00, CHR 0x01])
           (lit ''Incoming message does not match expected CONFIRM message.'')))))))"

definition hobza_udp_join_ok :: "('c, unit) T" where
  "hobza_udp_join_ok =
     seq [hobza_auth_and_reply,
          execute (lit ''/rename user''),
          execute (lit ''/join channel'')]
     (bind (hobza_receive_message 5000) (\<lambda>message.
     bind (lift (hobza_translate message)) (\<lambda>tMessage.
     seq [assert_that (tMessage = lit (''JOIN IS channel AS user'' @ crlf))
           (lit ''Incoming message does not match expected JOIN message.'')]
     (bind (lift (message_id_of message)) (\<lambda>ref.
     bind (lift (reply_to 1 1 ref (lit ''jojo''))) (\<lambda>data.
     seq [send_message (VBytes data),
          sleep 200]
     (bind get_stdout (\<lambda>stdout.
     seq [assert_that (any_line_has ''Action Success: jojo'' stdout)
           (lit (''Output does not match expected '' @ [CHR 0x27] @ ''Success: jojo'' @ [CHR 0x27] @ '' output.''))]
     (bind (hobza_receive_message 5000) (\<lambda>message.
     assert_that (message = VBytes [CHR 0x00, CHR 0x00, CHR 0x01])
           (lit ''Incoming message does not match expected CONFIRM message.'')))))))))))"

definition hobza_udp_join_nok :: "('c, unit) T" where
  "hobza_udp_join_nok =
     seq [hobza_auth_and_reply,
          execute (lit ''/rename user''),
          execute (lit ''/join channel'')]
     (bind (hobza_receive_message 5000) (\<lambda>message.
     bind (lift (hobza_translate message)) (\<lambda>tMessage.
     seq [assert_that (tMessage = lit (''JOIN IS channel AS user'' @ crlf))
           (lit ''Incoming message does not match expected JOIN message.'')]
     (bind (lift (message_id_of message)) (\<lambda>ref.
     bind (lift (reply_to 1 0 ref (lit ''nene''))) (\<lambda>data.
     seq [send_message (VBytes data),
          sleep 200]
     (bind get_stdout (\<lambda>stdout.
     seq [assert_that (any_line_has ''Action Failure: nene'' stdout)
           (lit (''Output does not match expected '' @ [CHR 0x27] @ ''Failure: nene'' @ [CHR 0x27] @ '' output.''))]
     (bind (hobza_receive_message 5000) (\<lambda>message.
     assert_that (message = VBytes [CHR 0x00, CHR 0x00, CHR 0x01])
           (lit ''Incoming message does not match expected CONFIRM message.'')))))))))))"

definition hobza_udp_multiple_auth :: "('c, unit) T" where
  "hobza_udp_multiple_auth =
     seq [hobza_auth_and_reply,
          execute (lit ''/auth d e f''),
          sleep 200]
     (bind get_stdout (\<lambda>stdout.
     assert_that (any_line_has ''ERROR: '' stdout)
           (lit (''Output does not match expected '' @ [CHR 0x27] @ ''ERR: '' @ [CHR 0x27] @ '' output.''))))"

definition hobza_udp_invalid_msg :: "('c, unit) T" where
  "hobza_udp_invalid_msg =
     seq [hobza_auth_and_reply,
          send_message (VBytes [CHR 0x06, CHR 0x00, CHR 0x01]),
          sleep 200]
     (bind get_stdout (\<lambda>stdout.
     seq [assert_that (any_line_has ''ERROR: '' stdout)
           (lit (''Output does not match expected '' @ [CHR 0x27] @ ''ERR: '' @ [CHR 0x27] @ '' output.''))]
     (bind (hobza_receive_message 5000) (\<lambda>message.
     bind (lift (hobza_translate message)) (\<lambda>tMessage.
     assert_that (occurs_in (lit ''ERR FROM c IS'') tMessage)
           (lit ''Incoming message does not match expected ERR message.''))))))"

definition hobza_udp_auth_err :: "('c, unit) T" where
  "hobza_udp_auth_err =
     seq [start_server (lit ''udp'') 4567,
          setup_tester (client_args ''udp'' ''4567''),
          execute (lit ''/auth a b c'')]
     (bind (hobza_receive_message 5000) (\<lambda>message.
     bind (lift (hobza_translate message)) (\<lambda>tMessage.
     seq [assert_that (tMessage = lit (''AUTH IS a AS c USING b'' @ crlf))
           (lit ''Incoming message does not match expected AUTH message.'')]
     (bind (lift (err 1 (lit ''server'') (lit ''ajaj''))) (\<lambda>data.
     seq [send_message (VBytes data),
          sleep 200]
     (bind get_stdout (\<lambda>stdout.
     seq [assert_that (any_line_has ''ERROR FROM server: ajaj'' stdout)
           (lit ''Output does not match expected error message.'')]
     (bind (hobza_receive_message 5000) (\<lambda>message.
     assert_that (message = VBytes [CHR 0x00, CHR 0x00, CHR 0x01])
           (lit ''Incoming message does not match expected CONFIRM message.''))))))))))"

definition hobza_tcp_hello :: "('c, unit) T" where
  "hobza_tcp_hello =
     seq [start_server (lit ''tcp'') 4567,
          setup_tester (client_args ''tcp'' ''4567''),
          execute (lit ''Hello'')]
     (bind get_stdout (\<lambda>stdout.
     bind hobza_get_stderr (\<lambda>stderr.
     assert_that (occurs_in (lit ''ERROR:'') stdout)
           (lit ''Output does not match expected output.''))))"

definition hobza_tcp_not_auth :: "('c, unit) T" where
  "hobza_tcp_not_auth =
     seq [start_server (lit ''tcp'') 4567,
          setup_tester (client_args ''tcp'' ''4567''),
          execute (lit ''/join'')]
     (bind get_stdout (\<lambda>stdout.
     assert_that (any_line_has ''ERROR:'' stdout)
           (lit ''Output does not match expected error message.'')))"

definition hobza_tcp_invalid_command :: "('c, unit) T" where
  "hobza_tcp_invalid_command =
     seq [start_server (lit ''tcp'') 4567,
          setup_tester (client_args ''tcp'' ''4567''),
          execute (lit ''/pepe'')]
     (bind get_stdout (\<lambda>stdout.
     bind hobza_get_stderr (\<lambda>stderr.
     assert_that (occurs_in (lit ''ERROR:'') stdout)
           (lit ''Output does not match expected output.''))))"

definition hobza_tcp_auth :: "('c, unit) T" where
  "hobza_tcp_auth =
     seq [start_server (lit ''tcp'') 4567,
          setup_tester (client_args ''tcp'' ''4567''),
          execute (lit ''/auth a b c'')]
     (bind (hobza_receive_message 5000) (\<lambda>message.
     assert_that (message = VStr (lit (''AUTH a AS c USING b'' @ crlf)))
           (lit ''Incoming message does not match expected AUTH message.'')))"

definition hobza_tcp_auth_ok :: "('c, unit) T" where
  "hobza_tcp_auth_ok =
     seq [start_server (lit ''tcp'') 4567,
          setup_tester (client_args ''tcp'' ''4567''),
          execute (lit ''/auth a b c'')]
     (bind (hobza_receive_message 5000) (\<lambda>message.
     seq [assert_that (message = VStr (lit (''AUTH a AS c USING b'' @ crlf)))
           (lit ''Incoming message does not match expected AUTH message.''),
          send_message (VStr (lit (''REPLY OK IS vsechno cajk'' @ crlf))),
          sleep 200]
     (bind get_stdout (\<lambda>stdout.
     assert_that (any_line_is ''Action Success: vsechno cajk'' stdout)
           (lit ''Output does not match expected error message.'')))))"

definition hobza_tcp_auth_nok :: "('c, unit) T" where
  "hobza_tcp_auth_nok =
     seq [start_server (lit ''tcp'') 4567,
          setup_tester (client_args ''tcp'' ''4567''),
          execute (lit ''/auth a b c'')]
     (bind (hobza_receive_message 5000) (\<lambda>message.
     seq [assert_that (message = VStr (lit (''AUTH a AS c USING b'' @ crlf)))
           (lit ''Incoming message does not match expected AUTH message.''),
          send_message (VStr (lit (''REPLY NOK IS nic cajk'' @ crlf))),
          sleep 200]
     (bind get_stdout (\<lambda>stdout.
     assert_that (any_line_is ''Action Failure: nic cajk'' stdout)
           (lit ''Output does not match expected error message.'')))))"

definition hobza_tcp_auth_port :: "('c, unit) T" where
  "hobza_tcp_auth_port =
     seq [start_server (lit ''tcp'') 4321,
          setup_tester (client_args ''tcp'' ''4321''),
          execute (lit ''/auth a b c'')]
     (bind (hobza_receive_message 5000) (\<lambda>message.
     assert_that (message = VStr (lit (''AUTH a AS c USING b'' @ crlf)))
           (lit ''Incoming message does not match expected message.'')))"

definition hobza_tcp_auth_nok_ok :: "('c, unit) T" where
  "hobza_tcp_auth_nok_ok =
     seq [start_server (lit ''tcp'') 4567,
          setup_tester (client_args ''tcp'' ''4567''),
          execute (lit ''/auth a b c'')]
     (bind (hobza_receive_message 5000) (\<lambda>message.
     seq [assert_that (message = VStr (lit (''AUTH a AS c USING b'' @ crlf)))
           (lit ''Incoming message does not match expected AUTH message.''),
          send_message (VStr (lit (''REPLY NOK IS nic cajk'' @ crlf))),
          sleep 200]
     (bind get_stdout (\<lambda>stdout.
     seq [assert_that (any_line_is ''Action Failure: nic cajk'' stdout)
           (lit ''Output does not match expected error message.''),
          execute (lit ''/auth d e f'')]
     (bind (hobza_receive_message 5000) (\<lambda>message.
     seq [assert_that (message = VStr (lit (''AUTH d AS f USING e'' @ crlf)))
           (lit ''Incoming message does not match expected AUTH message.''),
          send_message (VStr (lit (''REPLY OK IS vsechno cajk'' @ crlf))),
          sleep 200]
     (bind get_stdout (\<lambda>stdout.
     assert_that (any_line_is ''Action Success: vsechno cajk'' stdout)
           (lit ''Output does not match expected error message.'')))))))))"

definition hobza_tcp_auth_ok_again :: "('c, unit) T" where
  "hobza_tcp_auth_ok_again =
     hobza_tcp_auth_and_reply"

definition hobza_tcp_msg :: "('c, unit) T" where
  "hobza_tcp_msg =
     seq [hobza_tcp_auth_and_reply,
          execute (lit ''ahojky'')]
     (bind (hobza_receive_message 5000) (\<lambda>message.
     assert_that (message = VStr (lit (''MSG FROM c IS ahojky'' @ crlf)))
           (lit ''Incoming message does not match expected MSG message.'')))"

definition hobza_tcp_svr_msg :: "('c, unit) T" where
  "hobza_tcp_svr_msg =
     seq [hobza_tcp_auth_and_reply,
          send_message (VStr (lit (''MSG FROM SeverusSnape IS ahojky'' @ crlf))),
          sleep 200]
     (bind get_stdout (\<lambda>stdout.
     assert_that (any_line_has ''SeverusSnape: ahojky'' stdout)
           (lit ''Output does not match expected output.'')))"

definition hobza_tcp_bye :: "('c, unit) T" where
  "hobza_tcp_bye =
     seq [hobza_tcp_auth_and_reply,
          stdin_close]
     (bind (hobza_receive_message 5000) (\<lambda>message.
     assert_that (message = VStr (lit (''BYE FROM c'' @ crlf)))
           (lit ''Incoming message does not match expected BYE message.'')))"

definition hobza_tcp_server_err1 :: "('c, unit) T" where
  "hobza_tcp_server_err1 =
     seq [start_server (lit ''tcp'') 4567,
          setup_tester (client_args ''tcp'' ''4567''),
          execute (lit ''/auth a b c''),
          send_message (VStr (lit (''ERR FROM jetovp IS rdeli'' @ crlf))),
          sleep 400]
     (bind get_stdout (\<lambda>stdout.
     assert_that (any_line_has ''ERROR FROM jetovp: rdeli'' stdout)
           (lit ''Output does not match expected error message.'')))"

definition hobza_tcp_server_err2 :: "('c, unit) T" where
  "hobza_tcp_server_err2 =
     seq [hobza_tcp_auth_and_reply,
          send_message (VStr (lit (''ERR FROM jetovp IS rdeli'' @ crlf))),
          sleep 400]
     (bind get_stdout (\<lambda>stdout.
     assert_that (any_line_has ''ERROR FROM jetovp: rdeli'' stdout)
           (lit ''Output does not match expected error message.'')))"

definition hobza_tcp_join_ok :: "('c, unit) T" where
  "hobza_tcp_join_ok =
     seq [hobza_tcp_auth_and_reply,
          execute (lit ''/rename user''),
          execute (lit ''/join channel'')]
     (bind (hobza_receive_message 5000) (\<lambda>message.
     seq [assert_that (message = VStr (lit (''JOIN channel AS user'' @ crlf)))
           (lit ''Incoming message does not match expected JOIN message.''),
          send_message (VStr (lit (''REPLY OK IS takjo brasko ale bud hodnej'' @ crlf))),
          sleep 200]
     (bind get_stdout (\<lambda>stdout.
     assert_that (any_line_has ''Action Success: takjo brasko ale bud hodnej'' stdout)
           (lit (''Output does not match expected '' @ [CHR 0x27] @ ''Success: jojo'' @ [CHR 0x27] @ '' output.''))))))"

definition hobza_tcp_join_nok :: "('c, unit) T" where
  "hobza_tcp_join_nok =
     seq [hobza_tcp_auth_and_reply,
          execute (lit ''/rename user''),
          execute (lit ''/join channel'')]
     (bind (hobza_receive_message 5000) (\<lambda>message.
     seq [assert_that (message = VStr (lit (''JOIN channel AS user'' @ crlf)))
           (lit ''Incoming message does not match expected JOIN message.''),
          send_message (VStr (lit (''REPLY NOK IS minus boiiii'' @ crlf))),
          sleep 200]
     (bind get_stdout (\<lambda>stdout.
     assert_that (any_line_has ''Action Failure: minus boiiii'' stdout)
           (lit (''Output does not match expected '' @ [CHR 0x27] @ ''Success: jojo'' @ [CHR 0x27] @ '' output.''))))))"

definition hobza_tcp_multiple_auth :: "('c, unit) T" where
  "hobza_tcp_multiple_auth =
     seq [hobza_tcp_auth_and_reply,
          execute (lit ''/auth d e f''),
          sleep 200]
     (bind get_stdout (\<lambda>stdout.
     assert_that (any_line_has ''ERROR: '' stdout)
           (lit (''Output does not match expected '' @ [CHR 0x27] @ ''ERR: '' @ [CHR 0x27] @ '' output.''))))"

definition hobza_tcp_invalid_msg :: "('c, unit) T" where
  "hobza_tcp_invalid_msg =
     seq [hobza_tcp_auth_and_reply,
          send_message (VStr (lit (''TVOJE MAMINKA'' @ crlf))),
          sleep 200]
     (bind get_stdout (\<lambda>stdout.
     seq [assert_that (any_line_has ''ERROR: '' stdout)
           (lit (''Output does not match expected '' @ [CHR 0x27] @ ''ERR: '' @ [CHR 0x27] @ '' output.''))]
     (bind (hobza_receive_message 5000) (\<lambda>message.
     bind (lift (match_err_message message)) (\<lambda>matched.
     assert_that matched (lit ''Incoming message does not match expected ERR message.''))))))"

definition hobza_tcp_auth_err :: "('c, unit) T" where
  "hobza_tcp_auth_err =
     seq [start_server (lit ''tcp'') 4567,
          setup_tester (client_args ''tcp'' ''4567''),
          execute (lit ''/auth a b c'')]
     (bind (hobza_receive_message 5000) (\<lambda>message.
     seq [assert_that (message = VStr (lit (''AUTH a AS c USING b'' @ crlf)))
           (lit ''Incoming message does not match expected AUTH message.''),
          send_message (VStr (lit (''ERR FROM server IS ajaj'' @ crlf))),
          sleep 200]
     (bind get_stdout (\<lambda>stdout.
     assert_that (any_line_has ''ERROR FROM server: ajaj'' stdout)
           (lit ''Output does not match expected error message.'')))))"

text \<open>The decorated functions in the order in which the module defines them.\<close>

definition hobza_cli_cases :: "(pystr \<times> ('c, unit) T) list" where
  "hobza_cli_cases =
     [(lit ''no_args'', hobza_no_args),
      (lit ''no_type_arg'', hobza_no_type_arg),
      (lit ''no_hostname'', hobza_no_hostname),
      (lit ''all_args'', hobza_all_args)]"

definition hobza_udp_cases :: "(pystr \<times> ('c, unit) T) list" where
  "hobza_udp_cases =
     [(lit ''udp_hello'', hobza_udp_hello),
      (lit ''udp_not_auth'', hobza_udp_not_auth),
      (lit ''udp_invalid_command'', hobza_udp_invalid_command),
      (lit ''udp_auth'', hobza_udp_auth),
      (lit ''udp_auth_port'', hobza_udp_auth_port),
      (lit ''udp_auth_nok'', hobza_udp_auth_nok),
      (lit ''udp_auth_nok_ok'', hobza_udp_auth_nok_ok),
      (lit ''udp_auth_port_change'', hobza_udp_auth_port_change),
      (lit ''udp_auth_ok'', hobza_udp_auth_ok),
      (lit ''udp_msg'', hobza_udp_msg),
      (lit ''udp_svr_msg'', hobza_udp_svr_msg),
      (lit ''udp_bye1'', hobza_udp_bye1),
      (lit ''udp_bye2'', hobza_udp_bye2),
      (lit ''udp_server_err1'', hobza_udp_server_err1),
      (lit ''udp_server_err2'', hobza_udp_server_err2),
      (lit ''udp_join_ok'', hobza_udp_join_ok),
      (lit ''udp_join_nok'', hobza_udp_join_nok),
      (lit ''udp_multiple_auth'', hobza_udp_multiple_auth),
      (lit ''udp_invalid_msg'', hobza_udp_invalid_msg),
      (lit ''udp_auth_err'', hobza_udp_auth_err)]"

definition hobza_tcp_cases :: "(pystr \<times> ('c, unit) T) list" where
  "hobza_tcp_cases =
     [(lit ''tcp_hello'', hobza_tcp_hello),
      (lit ''tcp_not_auth'', hobza_tcp_not_auth),
      (lit ''tcp_invalid_command'', hobza_tcp_invalid_command),
      (lit ''tcp_auth'', hobza_tcp_auth),
      (lit ''tcp_auth_ok'', hobza_tcp_auth_ok),
      (lit ''tcp_auth_nok'', hobza_tcp_auth_nok),
      (lit ''tcp_auth_port'', hobza_tcp_auth_port),
      (lit ''tcp_auth_nok_ok'', hobza_tcp_auth_nok_ok),
      (lit ''tcp_auth_ok'', hobza_tcp_auth_ok_again),
      (lit ''tcp_msg'', hobza_tcp_msg),
      (lit ''tcp_svr_msg'', hobza_tcp_svr_msg),
      (lit ''tcp_bye'', hobza_tcp_bye),
      (lit ''tcp_server_err1'', hobza_tcp_server_err1),
      (lit ''tcp_server_err2'', hobza_tcp_server_err2),
      (lit ''tcp_join_ok'', hobza_tcp_join_ok),
      (lit ''tcp_join_nok'', hobza_tcp_join_nok),
      (lit ''tcp_multiple_auth'', hobza_tcp_multiple_auth),
      (lit ''tcp_invalid_msg'', hobza_tcp_invalid_msg),
      (lit ''tcp_auth_err'', hobza_tcp_auth_err)]"

definition hobza_functions :: "(pystr \<times> ('c, unit) T) list" where
  "hobza_functions = hobza_cli_cases @ hobza_udp_cases @ hobza_tcp_cases"

end
