(* ===== verification/Tester_Laws.thy ===== *)
theory Tester_Laws
  imports Executable_Tester
begin

text \<open>
  What the methods of \<open>ExecutableTester\<close> guarantee for every client program: receiving ends by
  its deadline under UDP and confirms, ignores its timeout under TCP; the line framing of the
  reader threads does not depend on how output is chunked; every branch of \<open>execute\<close>,
  \<open>setup\<close>, \<open>teardown\<close> and \<open>start_server\<close>.
\<close>

section \<open>Receiving\<close>

text \<open>Without a listening TCP socket no connection appears.\<close>

definition no_tcp :: "'c world \<Rightarrow> bool" where
  "no_tcp w \<longleftrightarrow> tcp_listening w = [] \<and> connection_socket w = None"

interpretation quiet: child_invariant no_tcp "\<lambda>_. True"
proof unfold_locales
  fix w :: "'c world" and a
  assume "no_tcp w"
  then show "no_tcp (apply_action a w)"
    by (cases a) (auto simp: no_tcp_def with_proc_def split: option.splits prod.splits)
qed (simp_all add: list_all_iff no_tcp_def)

lemma no_tcp_recvfrom: "no_tcp w \<Longrightarrow> no_tcp (snd (udp_recvfrom port deadline w))"
  by (rule quiet.inv_udp_recvfrom) (simp add: no_tcp_def set_udp_queue_def)

lemma udp_recvfrom_outcome:
  assumes "clock w \<le> deadline" "udp_recvfrom port deadline w = (r, w')"
  shows "clock w \<le> clock w' \<and> clock w' \<le> deadline
    \<and> ((\<exists>d src. r = Ret (d, src) \<and> length d \<le> 1024) \<or> r = Raise SocketTimeout \<and> clock w' = deadline)"
  using assms
proof (induction port deadline w rule: udp_recvfrom.induct)
  case (1 port deadline w)
  show ?case
  proof (cases "udp_queue port w")
    case Nil
    show ?thesis
    proof (cases "next_wakeup w")
      case None
      with "1.prems" Nil show ?thesis by (auto simp: udp_recvfrom.simps [of port deadline w])
    next
      case (Some t)
      then have "clock w < t" by (rule next_wakeup_future)
      with "1.IH" [OF Nil Some] "1.prems" Nil Some show ?thesis
        by (auto simp: udp_recvfrom.simps [of port deadline w] split: if_splits)
    qed
  next
    case (Cons d q)
    with "1.prems" show ?thesis
      by (auto simp: udp_recvfrom.simps [of port deadline w] set_udp_queue_def split: prod.splits)
  qed
qed

lemma index_first: "m \<noteq> [] \<Longrightarrow> index m 0 = Inr (hd m)"
  by (cases m) (simp_all add: index_def)

lemma index_nil: "index [] i = Inl IndexError"
  by (simp add: index_def)

text \<open>The confirmation goes to the address just learned and is handled by the client at once.\<close>

definition confirmation :: "bytes \<Rightarrow> bytes" where
  "confirmation m = CHR 0x00 # getMessageId m"

lemma confirm_message_udp:
  assumes "server_socket w = Some (UdpSocket port)" "connection_socket w = None"
    "client_address w = Some addr"
  shows "confirm_message (VBytes m) w = (Ret (), udp_sendto port (confirmation m) addr w)"
  using assms
  by (simp add: confirm_message_def message_id_of_def send_message_def confirmation_def)

lemma receive_datagram_taken:
  assumes "server_socket w = Some (UdpSocket port)" "tcp_listening w = []" "connection_socket w = None"
    and r: "udp_recvfrom port (clock w + timeout) w = (Ret (m, addr), w1)" and "m \<noteq> []"
  shows "receive_datagram confirms port timeout w =
    (Ret (VBytes m),
     if ord (hd m) \<noteq> 0 \<and> confirms
     then udp_sendto port (confirmation m) addr (w1\<lparr>client_address := Some addr\<rparr>)
     else w1\<lparr>client_address := Some addr\<rparr>)"
proof -
  have "server_socket w1 = Some (UdpSocket port)"
    using fr_server.frame_udp_recvfrom [of port "clock w + timeout" w] assms by simp
  moreover have "connection_socket w1 = None"
    using no_tcp_recvfrom [of w port "clock w + timeout"] assms by (simp add: no_tcp_def)
  ultimately have "confirm_message (VBytes m) (w1\<lparr>client_address := Some addr\<rparr>)
      = (Ret (), udp_sendto port (confirmation m) addr (w1\<lparr>client_address := Some addr\<rparr>))"
    by (simp add: confirm_message_udp)
  with r \<open>m \<noteq> []\<close> show ?thesis
    by (simp add: receive_datagram_def index_first) (simp add: bind_def ret_def)
qed

lemma receive_datagram_empty:
  assumes "udp_recvfrom port (clock w + timeout) w = (Ret ([], addr), w1)"
  shows "receive_datagram confirms port timeout w = (Raise IndexError, w1\<lparr>client_address := Some addr\<rparr>)"
  using assms by (simp add: receive_datagram_def index_nil throw_def)

lemma receive_datagram_timeout:
  assumes "udp_recvfrom port (clock w + timeout) w = (Raise SocketTimeout, w1)"
  shows "receive_datagram confirms port timeout w
    = (Raise (TimeoutError (lit ''Socket timed out.'')), w1)"
  using assms by (simp add: receive_datagram_def)

lemma tcp_recv_no_timeout: "fst (tcp_recv n w) \<noteq> Raise (TimeoutError e)"
proof (induction n arbitrary: w)
  case 0
  show ?case by (auto simp: tcp_recv.simps [of 0] split: option.splits)
next
  case (Suc n)
  then show ?case by (auto simp: tcp_recv.simps [of "Suc n"] split: option.splits)
qed

lemma decode_no_timeout: "decode d \<noteq> Inl (TimeoutError e)"
  using decode_error [of d] by auto

lemma clock_udp_sendto [simp]: "clock (udp_sendto port d addr w) = clock w"
  by (simp add: udp_sendto_def)

text \<open>
  C13. Under UDP \<open>receive_message\<close> never blocks past its timeout and never hangs, whatever the
  client does: it returns a non-empty datagram of at most 1024 octets and remembers its sender,
  raises the harness's \<open>TimeoutError\<close> exactly at the deadline, or raises \<open>IndexError\<close> for an
  empty datagram.
\<close>

theorem udp_receive_ends_by_deadline:
  assumes "server_socket w = Some (UdpSocket port)" "tcp_listening w = []" "connection_socket w = None"
    and "0 \<le> timeout"
  shows "case receive_message timeout w of (r, w') \<Rightarrow>
    clock w \<le> clock w' \<and> clock w' \<le> clock w + timeout \<and>
    (case r of
       Ret v \<Rightarrow> client_address w' \<noteq> None \<and> (\<exists>m. v = VBytes m \<and> m \<noteq> [] \<and> length m \<le> 1024)
     | Raise e \<Rightarrow> e = TimeoutError (lit ''Socket timed out.'') \<and> clock w' = clock w + timeout
                 \<or> e = IndexError
     | Hang \<Rightarrow> False)"
proof -
  obtain r w1 where r: "udp_recvfrom port (clock w + timeout) w = (r, w1)" by fastforce
  from udp_recvfrom_outcome [OF _ r] \<open>0 \<le> timeout\<close> have bounds:
    "clock w \<le> clock w1" "clock w1 \<le> clock w + timeout" by simp_all
  from udp_recvfrom_outcome [OF _ r] \<open>0 \<le> timeout\<close>
  consider (timeout) "r = Raise SocketTimeout" "clock w1 = clock w + timeout"
    | (empty) src where "r = Ret ([], src)"
    | (data) d src where "r = Ret (d, src)" "d \<noteq> []" "length d \<le> 1024"
    by auto
  then show ?thesis
  proof cases
    case timeout
    with r bounds assms receive_datagram_timeout [of port w timeout w1] show ?thesis
      by (simp add: receive_message_def receive_with_def)
  next
    case empty
    with r bounds assms receive_datagram_empty [of port w timeout src w1] show ?thesis
      by (simp add: receive_message_def receive_with_def)
  next
    case data
    with r bounds assms receive_datagram_taken [of w port timeout d src w1] show ?thesis
      by (simp add: receive_message_def receive_with_def)
  qed
qed


text \<open>
  C37. Under TCP the timeout has no effect: \<open>settimeout\<close> is called on the listening socket, the
  accepted connection stays in blocking mode. So no timeout is ever raised, and a client that
  neither sends nor closes nor has anything left to do blocks the whole run.
\<close>

theorem tcp_receive_ignores_timeout:
  assumes "server_socket w \<noteq> None" "connection_socket w = Some c"
  shows "receive_message timeout w = receive_message timeout' w
    \<and> (\<forall>e. fst (receive_message timeout w) \<noteq> Raise (TimeoutError e))
    \<and> (c_unread c = [] \<longrightarrow> \<not> c_peer_closed c \<longrightarrow> \<not> c_reset c \<longrightarrow> next_wakeup w = None
        \<longrightarrow> receive_message timeout w = (Hang, w))"
proof -
  let ?body = "bind (tcp_recv recv_rounds) (\<lambda>d. bind (lift (decode d)) (\<lambda>t. ret (VStr t))) w"
  have eq: "receive_message t w = ?body" for t
    using assms by (auto simp: receive_message_def receive_with_def)
  have "fst ?body \<noteq> Raise (TimeoutError e)" for e
    using tcp_recv_no_timeout [of recv_rounds w e] decode_no_timeout [of _ e]
    by (auto simp: bind_def lift_def ret_def throw_def split: prod.splits outcome.splits sum.splits)
  moreover have "?body = (Hang, w)"
    if "c_unread c = []" "\<not> c_peer_closed c" "\<not> c_reset c" "next_wakeup w = None"
    using assms that by (simp add: bind_def tcp_recv.simps [of recv_rounds] split: nat.splits)
  ultimately show ?thesis by (simp add: eq)
qed

text \<open>Concrete worlds: a bound UDP socket with one queued datagram, an idle TCP connection.\<close>

definition udp_example :: "unit world" where
  "udp_example = (initial_world silent (Some 80))
     \<lparr>server_socket := Some (UdpSocket 4567), udp_sockets := [(4567, [(client_port, [CHR 0x02, CHR 0x00, CHR 0x07])])]\<rparr>"

definition tcp_example :: "unit world" where
  "tcp_example = (initial_world silent (Some 80))
     \<lparr>server_socket := Some (TcpListener 4567), tcp_listening := [4567],
       connection_socket := Some \<lparr>c_unread = [], c_peer_closed = False, c_reset = False\<rparr>\<rparr>"

theorem udp_receive_ends_by_deadline_witness:
  "case receive_message 5000 (initial_world silent None\<lparr>server_socket := Some (UdpSocket 4567)\<rparr>) of (r, w') \<Rightarrow>
    0 \<le> clock w' \<and> clock w' \<le> 5000 \<and> r \<noteq> Hang"
  using udp_receive_ends_by_deadline [of "initial_world silent None\<lparr>server_socket := Some (UdpSocket 4567)\<rparr>" 4567 5000]
  by (auto simp: initial_world_def split: prod.splits)


theorem tcp_receive_ignores_timeout_witness:
  "receive_message 1 tcp_example = (Hang, tcp_example)"
  using tcp_receive_ignores_timeout [of tcp_example _ 1 1]
  by (simp add: tcp_example_def initial_world_def next_wakeup_def)

section \<open>Line framing\<close>

lemma cut_lines_plain:
  "newline \<notin> set acc \<Longrightarrow> carriage_return \<notin> set acc \<Longrightarrow>
   cut_lines start (acc @ ys) = cut_lines (start @ acc) ys"
proof (induction acc arbitrary: start)
  case (Cons c acc)
  then have "cut_lines start (c # (acc @ ys)) = cut_lines (start @ [c]) (acc @ ys)"
    by (cases "acc @ ys") auto
  with Cons show ?case by simp
qed simp

lemma apfst_append_Nil [simp]: "apfst ((@) []) p = p"
  by (cases p) simp

lemma apfst_append_Cons [simp]: "apfst ((@) (x # xs)) p = apfst (Cons x) (apfst ((@) xs) p)"
  by (cases p) simp

lemma cut_lines_append:
  "newline \<notin> set acc \<Longrightarrow> carriage_return \<notin> set acc \<Longrightarrow>
   cut_lines acc (xs @ ys) =
     (case cut_lines acc xs of (ls, t) \<Rightarrow> apfst ((@) ls) (cut_lines [] (t @ ys)))"
proof (induction acc xs rule: cut_lines.induct)
  case (1 acc)
  then show ?case by (simp add: cut_lines_plain)
next
  case (2 acc c)
  then have "cut_lines [] (acc @ c # ys) = cut_lines acc (c # ys)"
    using cut_lines_plain [of acc "[]" "c # ys"] by simp
  then show ?case by (cases ys) auto
next
  case (3 acc c d cs)
  then show ?case
    by (auto split: prod.splits)
qed

lemma decode_all_append:
  "decode_all (xs @ ys) = rbind (decode_all xs) (\<lambda>a. rbind (decode_all ys) (\<lambda>b. Inr (a @ b)))"
  by (induction xs) (simp_all add: rbind_assoc rbind_Inr_right)

lemma feed_reader_append:
  assumes "feed_reader (Some t) a = (qs1, Some t1)" "feed_reader (Some t1) b = (qs2, Some t2)"
  shows "feed_reader (Some t) (a @ b) = (qs1 @ qs2, Some t2)"
proof -
  obtain ls1 where 1: "cut_lines [] (t @ a) = (ls1, t1)" "decode_all ls1 = Inr qs1"
    using assms(1) by (auto simp: feed_reader_def split: prod.splits sum.splits)
  obtain ls2 where 2: "cut_lines [] (t1 @ b) = (ls2, t2)" "decode_all ls2 = Inr qs2"
    using assms(2) by (auto simp: feed_reader_def split: prod.splits sum.splits)
  have "cut_lines [] (t @ a @ b) = (ls1 @ ls2, t2)"
    using cut_lines_append [of "[]" "t @ a" b] 1 2 by simp
  with 1 2 show ?thesis by (simp add: feed_reader_def decode_all_append)
qed

text \<open>
  The reader threads deliver the same lines however the client chunks its output: as long as
  the output is valid UTF-8, two writes put into the queue what one write of both together does,
  also when a line end or a multi-byte character is cut in two.
\<close>

theorem lines_independent_of_chunking:
  assumes "feed_reader (Some t) a = (qs1, Some t1)" "feed_reader (Some t1) b = (qs2, Some t2)"
  shows "feed_reader (Some t) (a @ b) = (qs1 @ qs2, Some t2)"
  by (rule feed_reader_append [OF assms])

theorem lines_independent_of_chunking_witness:
  "feed_reader (Some ''a'') ([CHR 0xC3] @ [CHR 0xA9, CHR 0x0D, CHR 0x0A]) = ([[97, 233, 10]], Some [])"
  using lines_independent_of_chunking [of "''a''" "[CHR 0xC3]" "[]" "''a'' @ [CHR 0xC3]" "[CHR 0xA9, CHR 0x0D, CHR 0x0A]" "[[97, 233, 10]]" "[]"]
  by code_simp

section \<open>The process\<close>

lemma fst_bind: "fst (bind m f w) =
    (case m w of (Ret x, w') \<Rightarrow> fst (f x w') | (Raise e, w') \<Rightarrow> Raise e | (Hang, w') \<Rightarrow> Hang)"
  by (simp add: bind_def split: prod.splits outcome.splits)

lemma fst_sleep [simp]: "fst (sleep ms w) = Ret ()"
  by (simp add: sleep_def)

text \<open>
  \<open>execute\<close> on every branch: before \<open>setup\<close> there is no process, after \<open>send_eof\<close> the
  pipe is closed, text outside Unicode cannot be encoded, a client that has ended breaks the
  pipe. Otherwise it returns after exactly 200 ms, and in every case the line is in the history.
\<close>

theorem execute_branches:
  "fst (execute line w) = (case process w of
      None \<Rightarrow> Raise AttributeError
    | Some p \<Rightarrow>
        if p_stdin_closed p then Raise ValueError
        else if isl (encode (line @ [10])) then Raise UnicodeEncodeError
        else if p_exit p \<noteq> None then Raise BrokenPipeError
        else Ret ())
   \<and> clock (snd (execute line w)) = clock w + (if fst (execute line w) = Ret () then 200 else 0)
   \<and> history (snd (execute line w)) = history w @ lit ''stdin:'' @ line @ [10]"
proof (cases "process w")
  case None
  then show ?thesis by (simp add: execute_def bind_def modify_def stdin_write_def)
next
  case (Some p)
  show ?thesis
  proof (cases "encode (line @ [10])")
    case (Inl e)
    with encode_error [OF Inl] Some show ?thesis
      by (auto simp: execute_def bind_def modify_def stdin_write_def)
  next
    case (Inr b)
    with Some show ?thesis
      by (auto simp: execute_def bind_def modify_def stdin_write_def sleep_def clock_advance)
  qed
qed

section \<open>Ports\<close>

text \<open>
  The ports the tester's own server occupies, and the condition that every other bound port is
  one of \<open>E\<close> (the sockets a test case opened by itself).
\<close>

definition owned_udp :: "sock option \<Rightarrow> int list" where
  "owned_udp s = (case s of Some (UdpSocket p) \<Rightarrow> [p] | _ \<Rightarrow> [])"

definition owned_tcp :: "sock option \<Rightarrow> int list" where
  "owned_tcp s = (case s of Some (TcpListener p) \<Rightarrow> [p] | _ \<Rightarrow> [])"

definition ports_ok :: "int list \<Rightarrow> 'c world \<Rightarrow> bool" where
  "ports_ok E w \<longleftrightarrow> bound_ports w = owned_udp (server_socket w) @ E \<and> distinct (bound_ports w)
     \<and> tcp_listening w = owned_tcp (server_socket w)"

lemma bound_udp_ports: "bound_udp port w \<longleftrightarrow> port \<in> set (bound_ports w)"
  by (auto simp: bound_udp_def bound_ports_def)

lemma bound_ports_update [simp]:
  "bound_ports (w\<lparr>server_socket := a\<rparr>) = bound_ports w"
  "bound_ports (w\<lparr>client_address := b\<rparr>) = bound_ports w"
  "bound_ports (w\<lparr>send_confirm := c\<rparr>) = bound_ports w"
  "bound_ports (w\<lparr>history := d\<rparr>) = bound_ports w"
  "bound_ports (w\<lparr>return_code := e\<rparr>) = bound_ports w"
  "bound_ports (w\<lparr>console := f\<rparr>) = bound_ports w"
  by (simp_all add: bound_ports_def)

lemma bound_ports_close:
  "bound_ports (close_sock (UdpSocket p) w) = filter (\<lambda>q. q \<noteq> p) (bound_ports w)"
  by (simp add: bound_ports_def close_sock_def filter_map o_def case_prod_unfold)

lemma close_sock_keeps [simp]:
  "server_socket (close_sock s w) = server_socket w"
  "connection_socket (close_sock s w) = connection_socket w"
  "process (close_sock s w) = process w"
  "return_code (close_sock s w) = return_code w"
  "accept_thread (close_sock s w) = accept_thread w"
  "columns (close_sock s w) = columns w"
  "console (close_sock s w) = console w"
  "clock (close_sock s w) = clock w"
  by (simp_all add: close_sock_def split: sock.splits)

lemma tcp_listening_close:
  "tcp_listening (close_sock s w) =
     (case s of TcpListener p \<Rightarrow> filter (\<lambda>q. q \<noteq> p) (tcp_listening w) | _ \<Rightarrow> tcp_listening w)"
  by (simp add: close_sock_def split: sock.splits)

lemma bound_ports_close_other:
  "bound_ports (close_sock s w) =
     (case s of UdpSocket p \<Rightarrow> filter (\<lambda>q. q \<noteq> p) (bound_ports w) | _ \<Rightarrow> bound_ports w)"
  by (simp add: bound_ports_close split: sock.splits) (simp add: close_sock_def bound_ports_def)

lemma filter_out_fresh: "p \<notin> set E \<Longrightarrow> filter (\<lambda>q. q \<noteq> p) E = E"
  by (induction E) auto

text \<open>
  \<open>start_server\<close> on every branch, for any spelling of the protocol's case: a free port is
  bound and the server is ready; on a port in use it raises \<open>OSError\<close> and leaves an unbound
  socket behind; an unknown protocol is silently ignored.
\<close>

theorem start_server_branches:
  assumes "ports_ok E w" "server_socket w = None"
  shows "case start_server protocol port w of (r, w') \<Rightarrow>
    (if lower protocol = lit ''tcp'' then
       r = Ret () \<and> server_socket w' = Some (TcpListener port) \<and> ports_ok E w'
     else if lower protocol = lit ''udp'' then
       (if port \<in> set E then r = Raise OSError \<and> server_socket w' = Some UnboundSocket
        else r = Ret () \<and> server_socket w' = Some (UdpSocket port) \<and> udp_queue port w' = [])
       \<and> ports_ok E w'
     else r = Ret () \<and> w' = w)"
  using assms
  by (auto simp: start_server_def bind_def modify_def fresh_socket_def tcp_listen_def udp_bind_def
      ports_ok_def owned_udp_def owned_tcp_def bound_udp_ports bound_ports_def udp_queue_def ret_def)
     (metis fst_conv image_eqI)

theorem start_server_branches_witness:
  "fst (start_server (lit ''UDP'') 4567 (initial_world silent None)) = Ret ()
   \<and> server_socket (snd (start_server (lit ''UDP'') 4567 (initial_world silent None))) = Some (UdpSocket 4567)"
proof -
  have "lower (lit ''UDP'') = lit ''udp''" "lower (lit ''UDP'') \<noteq> lit ''tcp''" by code_simp+
  then show ?thesis
    using start_server_branches [of "[]" "initial_world silent None" "lit ''UDP''" 4567]
    by (auto simp: initial_world_def ports_ok_def bound_ports_def owned_udp_def owned_tcp_def
        split: prod.splits)
qed

section \<open>Teardown and setup\<close>

lemma terminate_process_keeps [simp]:
  "server_socket (terminate_process p w) = server_socket w"
  "tcp_listening (terminate_process p w) = tcp_listening w"
  "bound_ports (terminate_process p w) = bound_ports w"
  "accept_thread (terminate_process p w) = accept_thread w"
  "columns (terminate_process p w) = columns w"
  "console (terminate_process p w) = console w"
  "process (terminate_process p w) = None"
  by (simp_all add: terminate_process_def bound_ports_def split: option.splits)

lemma run_child_dead [simp]: "process w = None \<Longrightarrow> run_child ev w = w"
  by (simp add: run_child_def)

lemma deliver_dead [simp]: "process w = None \<Longrightarrow> deliver ev w = w"
  by (simp add: deliver_def poll_stdin_def)

text \<open>The world \<open>teardown\<close> leaves, in one equation.\<close>

definition torn_down :: "'c world \<Rightarrow> 'c world" where
  "torn_down w =
     (let w1 = (case process w of None \<Rightarrow> w | Some p \<Rightarrow> terminate_process p w)
      in (case server_socket w1 of None \<Rightarrow> w1 | Some s \<Rightarrow> close_sock s w1)
           \<lparr>server_socket := None, connection_socket := None\<rparr>)"

lemma teardown_eq: "teardown w = (Ret (), torn_down w)"
  by (cases "process w"; cases "server_socket w"; cases "accept_thread w")
     (simp_all add: teardown_def torn_down_def bind_def modify_def stop_server_def Let_def)

lemma torn_down_keeps [simp]:
  "process (torn_down w) = None"
  "server_socket (torn_down w) = None"
  "connection_socket (torn_down w) = None"
  "columns (torn_down w) = columns w"
  "console (torn_down w) = console w"
  "accept_thread (torn_down w) = accept_thread w"
  by (simp_all add: torn_down_def Let_def split: option.splits)

lemma clock_torn_down [simp]: "clock (torn_down w) = clock w"
  by (simp add: torn_down_def terminate_process_def Let_def split: option.splits)

lemma return_code_torn_down:
  "return_code (torn_down w) = (case process w of
     None \<Rightarrow> return_code w
   | Some p \<Rightarrow> Some (case p_exit p of None \<Rightarrow> -15 | Some n \<Rightarrow> n))"
  by (simp add: torn_down_def terminate_process_def Let_def split: option.splits)

lemma ports_torn_down:
  assumes "ports_ok E w"
  shows "bound_ports (torn_down w) = E" "tcp_listening (torn_down w) = []"
proof -
  let ?w1 = "case process w of None \<Rightarrow> w | Some p \<Rightarrow> terminate_process p w"
  have 1: "server_socket ?w1 = server_socket w" "bound_ports ?w1 = bound_ports w"
    "tcp_listening ?w1 = tcp_listening w"
    by (simp_all split: option.splits)
  show "bound_ports (torn_down w) = E" "tcp_listening (torn_down w) = []"
    using assms 1
    by (auto simp: torn_down_def Let_def bound_ports_close_other tcp_listening_close ports_ok_def
        owned_udp_def owned_tcp_def filter_out_fresh split: option.splits sock.splits)
qed

text \<open>
  \<open>teardown\<close> always succeeds and releases everything: no process, no server and no
  connection is left, the exit status of a terminated client is recorded, and the ports of the
  server are free again while other sockets stay bound.
\<close>

theorem teardown_releases:
  assumes "ports_ok E w"
  shows "case teardown w of (r, w') \<Rightarrow>
    r = Ret () \<and> process w' = None \<and> server_socket w' = None \<and> connection_socket w' = None
    \<and> return_code w' = (case process w of
        None \<Rightarrow> return_code w
      | Some p \<Rightarrow> Some (case p_exit p of None \<Rightarrow> -15 | Some n \<Rightarrow> n))
    \<and> bound_ports w' = E \<and> tcp_listening w' = []"
  using assms
  by (simp add: teardown_eq return_code_torn_down ports_torn_down)

text \<open>The world \<open>setup\<close> starts the client in.\<close>

definition launched :: "pystr list \<Rightarrow> 'c world \<Rightarrow> 'c world" where
  "launched args w =
     (popen args ((if process w \<noteq> None then torn_down w else w)\<lparr>stdout_queue := [], stderr_queue := []\<rparr>))
       \<lparr>return_code := None\<rparr>"

lemma setup_eq: "setup_tester args w = (Ret (), advance (clock w + 200) (launched args w))"
  by (cases "process w")
     (simp_all add: setup_tester_def launched_def bind_def modify_def sleep_def teardown_eq ret_def popen_def
        case_prod_unfold)

lemma launched_keeps [simp]:
  "clock (launched args w) = clock w"
  "return_code (launched args w) = None"
  "server_socket (launched args w) = (if process w = None then server_socket w else None)"
  by (simp_all add: launched_def popen_def case_prod_unfold)

lemma popen_alive: "process (popen args w) \<noteq> None"
  unfolding popen_def case_prod_unfold
  by (rule alive.inv_actions) (simp_all add: list_all_iff)

lemma setup_alive: "process (snd (setup_tester args w)) \<noteq> None"
proof -
  have "process (launched args w) \<noteq> None"
    by (simp add: launched_def popen_alive del: not_None_eq)
  then show ?thesis using alive.inv_advance [of "launched args w"] by (simp add: setup_eq)
qed

text \<open>
  After \<open>setup\<close> the exit status is always \<open>None\<close>, whatever the client did in the 200 ms it
  was given; and a second \<open>setup\<close> in one test takes the server away.
\<close>

theorem setup_forgets_exit_status:
  "fst (setup_tester args w) = Ret ()
   \<and> return_code (snd (setup_tester args w)) = None
   \<and> server_socket (snd (setup_tester args w)) = (if process w = None then server_socket w else None)
   \<and> clock (snd (setup_tester args w)) = clock w + 200"
  by (simp add: setup_eq clock_advance)

theorem teardown_releases_witness:
  "bound_ports (snd (teardown udp_example)) = [] \<and> server_socket (snd (teardown udp_example)) = None"
  using teardown_releases [of "[]" udp_example]
  by (simp add: udp_example_def initial_world_def ports_ok_def bound_ports_def owned_udp_def
      owned_tcp_def split: prod.splits)

section \<open>Output\<close>

lemma dump_eq:
  "dump w = (Ret (), w
     \<lparr>stdout_queue := [], stderr_queue := [],
      history := history w @ join_with (lit ''stdout:'') (stdout_queue w),
      console := console w @
        [(lit ''stdout now'', ''magenta''), (join_with [] (stdout_queue w), []),
         (lit ''stdout'', ''magenta''), ([], []),
         (lit ''stderr'', ''magenta''), (join_with [] (stderr_queue w), []),
         (lit ''History'', ''magenta''),
         (history w @ join_with (lit ''stdout:'') (stdout_queue w), [])]\<rparr>)"
  by (simp add: dump_def bind_def print_coloured_def print_plain_def modify_def get_stdout_def
      get_stderr_def get_def Let_def)

lemma hobza_dump_eq:
  "hobza_dump w =
     (let h = history w @ join_with (lit ''stdout:'') (stdout_queue w)
                @ join_with (lit ''stderr:'') (stderr_queue w)
      in (Ret (), w
     \<lparr>stdout_queue := [], stderr_queue := [], history := h,
      console := console w @
        [(lit ''stdout now'', ''magenta''), (join_with [] (stdout_queue w), []),
         (lit ''stderr'', ''magenta''), (join_with [] (stderr_queue w), []),
         (lit ''History'', ''magenta''), (h, [])]\<rparr>))"
  by (simp add: hobza_dump_def bind_def print_coloured_def print_plain_def modify_def get_stdout_def
      hobza_get_stderr_def get_def Let_def)

text \<open>
  \<open>dump\<close> prints the pending output under ``stdout now'', and under ``stdout'' always nothing,
  because the first \<open>get_stdout\<close> has drained the queue; then the pending error output and the
  history, to which it adds the drained output. Both queues are empty afterwards.
\<close>

theorem dump_prints:
  "dump w = (Ret (), w
     \<lparr>stdout_queue := [], stderr_queue := [],
      history := history w @ join_with (lit ''stdout:'') (stdout_queue w),
      console := console w @
        [(lit ''stdout now'', ''magenta''), (join_with [] (stdout_queue w), []),
         (lit ''stdout'', ''magenta''), ([], []),
         (lit ''stderr'', ''magenta''), (join_with [] (stderr_queue w), []),
         (lit ''History'', ''magenta''),
         (history w @ join_with (lit ''stdout:'') (stdout_queue w), [])]\<rparr>)"
  by (rule dump_eq)

section \<open>Types of what is received\<close>

lemma decode_shorter: "decode bs = Inr s \<Longrightarrow> length s \<le> length bs"
proof -
  have "length s \<le> length (concat (map utf8_char s))" for s
  proof (induction s)
    case (Cons c s)
    have "1 \<le> length (utf8_char c)" by (simp add: Suc_leI)
    with Cons show ?case by simp
  qed simp
  then show "decode bs = Inr s \<Longrightarrow> length s \<le> length bs" using decode_canonical by metis
qed

lemma tcp_recv_limit: "fst (tcp_recv n w) = Ret d \<Longrightarrow> length d \<le> 1024"
proof (induction n arbitrary: w)
  case 0
  then show ?case by (auto simp: tcp_recv.simps [of 0] split: option.splits if_splits)
next
  case (Suc n)
  then show ?case by (auto simp: tcp_recv.simps [of "Suc n"] split: option.splits if_splits)
qed

lemma udp_recvfrom_limit: "fst (udp_recvfrom port deadline w) = Ret (d, src) \<Longrightarrow> length d \<le> 1024"
proof (induction port deadline w rule: udp_recvfrom.induct)
  case (1 port deadline w)
  then show ?case
    by (auto simp: udp_recvfrom.simps [of port deadline w] split: list.splits option.splits if_splits)
qed

lemma receive_datagram_type:
  assumes "fst (receive_datagram confirms port timeout w) = Ret v"
  shows "\<exists>b. v = VBytes b \<and> b \<noteq> [] \<and> length b \<le> 1024"
proof -
  obtain r w1 where r: "udp_recvfrom port (clock w + timeout) w = (r, w1)" by fastforce
  show ?thesis
  proof (cases r)
    case (Ret md)
    obtain m addr where md: "md = (m, addr)" by fastforce
    have "v = VBytes m \<and> m \<noteq> []"
      using assms r
      by (cases m; cases "confirm_message (VBytes m) (w1\<lparr>client_address := Some addr\<rparr>)")
         (auto simp: receive_datagram_def Ret md index_first index_nil fst_bind ret_def throw_def bind_def
           split: outcome.splits if_splits)
    moreover have "length m \<le> 1024"
      using udp_recvfrom_limit [of port "clock w + timeout" w m addr] r Ret md by simp
    ultimately show ?thesis by blast
  qed (use assms r in \<open>auto simp: receive_datagram_def split: pyexc.splits\<close>)
qed

text \<open>
  C18. What \<open>receive_message\<close> returns, in both files and for every client: \<open>None\<close> exactly without a server;
  a \<open>str\<close> of at most 1024 code points, none of them a surrogate, only when the server has a TCP connection;
  \<open>bytes\<close> only from a UDP server without one, and then between 1 and 1024 octets. So a test case that applies
  \<open>translateMessage\<close> to what a UDP server received, or compares what a TCP server received with text,
  never meets a value of the other type.
\<close>

theorem receive_message_types:
  assumes "fst (receive_message timeout w) = Ret v \<or> fst (hobza_receive_message timeout w) = Ret v"
  shows "case v of
      VNone \<Rightarrow> server_socket w = None
    | VStr s \<Rightarrow> server_socket w \<noteq> None \<and> connection_socket w \<noteq> None \<and> list_all scalar s \<and> length s \<le> 1024
    | VBytes b \<Rightarrow> (\<exists>port. server_socket w = Some (UdpSocket port)) \<and> connection_socket w = None
        \<and> 1 \<le> length b \<and> length b \<le> 1024"
proof -
  obtain confirms where r: "fst (receive_with confirms timeout w) = Ret v"
    using assms by (auto simp: receive_message_def hobza_receive_message_def)
  have "\<exists>s. v = VStr s \<and> list_all scalar s \<and> length s \<le> 1024"
    if received: "fst (bind (tcp_recv recv_rounds) (\<lambda>d. bind (lift (decode d)) (\<lambda>t. ret (VStr t))) w) = Ret v"
  proof -
    obtain d s where "fst (tcp_recv recv_rounds w) = Ret d" "decode d = Inr s" "v = VStr s"
      using received
      by (cases "tcp_recv recv_rounds w")
         (auto simp: bind_def [of "tcp_recv recv_rounds"] lift_def throw_def ret_def split: outcome.splits sum.splits)
    with tcp_recv_limit [of recv_rounds w d] decode_shorter [of d s] decode_canonical [of d s]
    show ?thesis by simp
  qed
  with r show ?thesis
    by (auto simp: receive_with_def Suc_le_eq dest!: receive_datagram_type split: option.splits if_splits sock.splits)
qed

theorem receive_message_types_witness:
  "fst (receive_message 5000 udp_example) = Ret (VBytes [CHR 0x02, CHR 0x00, CHR 0x07])
   \<and> (\<exists>port. server_socket udp_example = Some (UdpSocket port))"
proof -
  have "fst (receive_message 5000 udp_example) = Ret (VBytes [CHR 0x02, CHR 0x00, CHR 0x07])" by code_simp
  with receive_message_types [of 5000 udp_example "VBytes [CHR 0x02, CHR 0x00, CHR 0x07]"] show ?thesis by simp
qed

end
