(* ===== verification/Harness_Logic.thy ===== *)
theory Harness_Logic
  imports Tester_Laws Test_Runner_Idioms
begin

text \<open>
  A small program logic for harness code and the contract of its primitives: when every method of
  the tester keeps a condition on the world, every test case built from them does. The contract
  is a locale for test cases that talk UDP, extended by one for those that also talk TCP; the
  case theories prove their test cases against it once.
\<close>

section \<open>Triples\<close>

text \<open>
  Started in a world with \<open>P\<close>, the code ends in a world with \<open>Q\<close>, whether it returns or raises;
  with \<open>live\<close> it does end.
\<close>

definition holds :: "bool \<Rightarrow> ('c world \<Rightarrow> bool) \<Rightarrow> ('c, 'a) T \<Rightarrow> ('c world \<Rightarrow> bool) \<Rightarrow> bool" where
  "holds live P m Q \<longleftrightarrow> (\<forall>w. P w \<longrightarrow> Q (snd (m w)) \<and> (live \<longrightarrow> fst (m w) \<noteq> Hang))"

lemma holdsI:
  "(\<And>w. P w \<Longrightarrow> Q (snd (m w))) \<Longrightarrow> (\<And>w. live \<Longrightarrow> P w \<Longrightarrow> fst (m w) \<noteq> Hang) \<Longrightarrow> holds live P m Q"
  by (simp add: holds_def)

lemma holdsD:
  "holds live P m Q \<Longrightarrow> P w \<Longrightarrow> Q (snd (m w))"
  "holds True P m Q \<Longrightarrow> P w \<Longrightarrow> fst (m w) \<noteq> Hang"
  by (auto simp: holds_def)

lemma holds_pre: "holds live P m Q \<Longrightarrow> (\<And>w. P' w \<Longrightarrow> P w) \<Longrightarrow> holds live P' m Q"
  by (auto simp: holds_def)

lemma holds_ret: "(\<And>w. P w \<Longrightarrow> Q w) \<Longrightarrow> holds live P (ret x) Q"
  by (simp add: holds_def ret_def)

lemma holds_throw: "(\<And>w. P w \<Longrightarrow> Q w) \<Longrightarrow> holds live P (throw e) Q"
  by (simp add: holds_def throw_def)

lemma holds_lift: "(\<And>w. P w \<Longrightarrow> Q w) \<Longrightarrow> holds live P (lift r) Q"
  by (cases r) (simp_all add: holds_ret holds_throw)

lemma holds_assert: "(\<And>w. P w \<Longrightarrow> Q w) \<Longrightarrow> holds live P (assert_that b m) Q"
  by (cases b) (simp_all add: holds_ret holds_throw)

lemma holds_get: "(\<And>w. P w \<Longrightarrow> Q w) \<Longrightarrow> holds live P (get f) Q"
  by (simp add: holds_def get_def)

lemma holds_modify: "(\<And>w. P w \<Longrightarrow> Q (f w)) \<Longrightarrow> holds live P (modify f) Q"
  by (simp add: holds_def modify_def)

lemma holds_bind:
  assumes "holds live P m R" "\<And>x. holds live R (f x) Q" "\<And>w. R w \<Longrightarrow> Q w"
  shows "holds live P (bind m f) Q"
  using assms by (fastforce simp: holds_def bind_def split: prod.splits outcome.splits)

lemma holds_catch:
  assumes "holds live P m Q" "holds live Q h Q"
  shows "holds live P (catch_timeout m h) Q"
  using assms
  by (fastforce simp: holds_def catch_timeout_def split: prod.splits outcome.splits pyexc.splits)

lemma holds_if: "holds live P m Q \<Longrightarrow> holds live P m' Q \<Longrightarrow> holds live P (if b then m else m') Q"
  by simp

lemma holds_prod: "(\<And>x y. holds live P (f x y) Q) \<Longrightarrow> holds live P (case p of (x, y) \<Rightarrow> f x y) Q"
  by (cases p) simp

section \<open>The contract\<close>

text \<open>
  \<open>Pre e\<close> holds before a server is started and \<open>I e\<close> from then on; \<open>e\<close> stands for what the
  test case itself holds, such as a second socket.
\<close>

locale udp_harness =
  fixes live :: bool and Pre I :: "'e \<Rightarrow> 'c world \<Rightarrow> bool"
  assumes pre_inv: "Pre e w \<Longrightarrow> I e w"
    and start_udp: "holds live (Pre e) (start_server (lit ''udp'') port) (I e)"
    and own_socket: "(\<And>e'. holds live (Pre e') body (I e'))
      \<Longrightarrow> holds live (Pre e) (with_udp_socket port body :: ('c, unit) T) (I e)"
    and op_setup: "holds live (I e) (setup_tester args) (I e)"
    and op_execute: "holds live (I e) (execute line) (I e)"
    and op_eof: "holds live (I e) send_eof (I e)"
    and op_sigint: "holds live (I e) send_sigint (I e)"
    and op_sleep: "holds live (I e) (sleep ms) (I e)"
    and op_send: "holds live (I e) (send_message v) (I e)"
    and op_receive: "holds live (I e) (receive_with confirms t) (I e)"
    and op_stdout: "holds live (I e) get_stdout (I e)"
    and op_stderr: "holds live (I e) get_stderr (I e)"
    and op_hobza_stderr: "holds live (I e) hobza_get_stderr (I e)"
    and op_address: "holds live (I e) (setClientAddress addr) (I e)"
    and op_no_confirm: "holds live (I e) (modify (\<lambda>w. w\<lparr>send_confirm := b\<rparr>)) (I e)"
    and op_recvfrom: "holds live (I e) (recvfrom_within p t) (I e)"
    and op_sendto: "holds live (I e) (modify (udp_sendto p d a)) (I e)"
begin

lemma op_receive_message: "holds live (I e) (receive_message t) (I e)"
proof -
  have "I e (snd (receive_with b t w)) \<and> (live \<longrightarrow> fst (receive_with b t w) \<noteq> Hang)" if "I e w" for b w
    using op_receive [of e b t] that by (simp add: holds_def)
  then show ?thesis by (simp add: holds_def receive_message_def)
qed

lemma op_hobza_receive_message: "holds live (I e) (hobza_receive_message t) (I e)"
  by (simp add: hobza_receive_message_def op_receive)

lemma op_confirm: "holds live (I e) (confirm_message v) (I e)"
  by (auto simp: confirm_message_def intro!: holds_bind [where R = "I e"] holds_lift holds_throw op_send
      split: pyval.splits)

lemma op_stdin_close: "holds live (I e) stdin_close (I e)"
  using op_eof [of e] by (simp add: send_eof_def)

lemma op_poll: "holds live (I e) poll (I e)"
  by (auto simp: holds_def poll_def split: option.splits)

lemma op_return_code: "holds live (I e) get_return_code (I e)"
  by (simp add: get_return_code_def holds_get)

lemma op_collect: "holds live (I e) (collect_parts n received) (I e)"
proof (induction n arbitrary: received)
  case 0
  show ?case by (simp add: holds_ret)
next
  case (Suc n)
  have "I e (snd (collect_parts (Suc n) received w)) \<and> (live \<longrightarrow> fst (collect_parts (Suc n) received w) \<noteq> Hang)"
    if "I e w" for w
  proof -
    obtain r w' where r: "receive_message 500 w = (r, w')" by fastforce
    from op_receive_message [of e 500] that r have "I e w'" "live \<longrightarrow> r \<noteq> Hang"
      by (auto simp: holds_def elim!: allE [of _ w])
    with Suc r show ?thesis
      by (auto simp: holds_def split: outcome.splits pyval.splits pyexc.splits)
  qed
  then show ?case by (simp add: holds_def)
qed

lemma bind_inv:
  "holds live (I e) m (I e) \<Longrightarrow> (\<And>x. holds live (I e) (f x) (I e)) \<Longrightarrow> holds live (I e) (bind m f) (I e)"
  by (rule holds_bind)

lemma bind_pre:
  "holds live (Pre e) m (I e) \<Longrightarrow> (\<And>x. holds live (I e) (f x) (I e)) \<Longrightarrow> holds live (Pre e) (bind m f) (I e)"
  by (rule holds_bind)

lemma setup_pre: "holds live (Pre e) (setup_tester args) (I e)"
  by (rule holds_pre [OF op_setup]) (rule pre_inv)

lemmas pure_rules = holds_ret [where P = "I e" and Q = "I e" for e]
  holds_throw [where P = "I e" and Q = "I e" for e]
  holds_lift [where P = "I e" and Q = "I e" for e]
  holds_assert [where P = "I e" and Q = "I e" for e]
  holds_get [where P = "I e" and Q = "I e" for e]

lemmas harness_rules = bind_inv bind_pre setup_pre start_udp own_socket
  op_setup op_execute op_eof op_sigint op_sleep op_send op_receive_message op_hobza_receive_message
  op_stdout op_stderr op_hobza_stderr op_address op_no_confirm op_recvfrom op_sendto op_poll
  op_return_code op_collect op_confirm op_stdin_close pure_rules holds_catch holds_if holds_prod

end

locale tcp_harness = udp_harness +
  assumes start_tcp: "holds live (Pre e) (start_server (lit ''tcp'') port) (I e)"

end
