(* ===== verification/Tester_Frames.thy ===== *)
theory Tester_Frames
  imports Harness_Logic
begin

text \<open>
  Instances of the contract of \<open>Harness_Logic\<close>. An observation that neither the child nor the
  tester's methods alter meets it; so does the condition that exactly the tester's own ports are
  bound, and, for test cases that talk UDP, the absence of a connection, with which no call can
  block for ever.
\<close>

section \<open>Observations the tester's methods leave alone\<close>

lemma keep_bind:
  assumes "\<And>w. f (snd (m w)) = f w" "\<And>x w. f (snd (g x w)) = f w"
  shows "f (snd (bind m g w)) = f w"
  using assms(1) [of w] assms(2) by (auto simp: bind_def split: prod.splits outcome.splits)

locale tester_frame = child_frame f for f :: "'c world \<Rightarrow> 'x" +
  assumes frame_address: "f (w\<lparr>client_address := a\<rparr>) = f w"
    and frame_send_confirm: "f (w\<lparr>send_confirm := b\<rparr>) = f w"
    and frame_history: "f (w\<lparr>history := h\<rparr>) = f w"
begin

lemma keep_stdin_close: "f (snd (stdin_close w)) = f w"
  by (simp add: stdin_close_def frames split: option.splits)

lemma keep_execute: "f (snd (execute line w)) = f w"
proof -
  have "f (snd (stdin_write t w)) = f w" for t w
    by (auto simp: stdin_write_def frames split: option.splits sum.splits)
  then show ?thesis
    by (simp add: execute_def keep_bind [of f] modify_def frame_history frame_sleep)
qed

lemma keep_sigint: "f (snd (send_sigint w)) = f w"
  by (simp add: send_sigint_def frames split: option.splits)

lemma keep_send: "f (snd (send_message v w)) = f w"
proof -
  have "f (snd (bind (lift r) tcp_sendall w)) = f w" for r
    by (cases r) (simp_all add: throw_def frames)
  then show ?thesis
    by (auto simp: send_message_def frames split: option.splits pyval.splits sock.splits)
qed

lemma keep_confirm: "f (snd (confirm_message v w)) = f w"
  by (cases v) (simp_all add: confirm_message_def message_id_of_def throw_def keep_send)

lemma keep_stdout: "f (snd (get_stdout w)) = f w"
  using frame_history [of _ "w\<lparr>stdout_queue := []\<rparr>"] by (simp add: get_stdout_def Let_def frames)

lemma keep_stderr: "f (snd (get_stderr w)) = f w"
  by (simp add: get_stderr_def frames)

lemma keep_hobza_stderr: "f (snd (hobza_get_stderr w)) = f w"
  using frame_history [of _ "w\<lparr>stderr_queue := []\<rparr>"]
  by (simp add: hobza_get_stderr_def Let_def frames)

lemma keep_recvfrom: "f (snd (recvfrom_within p t w)) = f w"
  by (simp add: recvfrom_within_def frames)

lemma keep_receive: "f (snd (receive_with confirms t w)) = f w"
proof -
  have datagram: "f (snd (receive_datagram confirms p t w)) = f w" for p
  proof -
    obtain r w1 where r: "udp_recvfrom p (clock w + t) w = (r, w1)" by fastforce
    with frame_udp_recvfrom [of p "clock w + t" w] have 1: "f w1 = f w" by simp
    have "f (snd (bind (lift (index m 0)) (\<lambda>first. seq (if ord first \<noteq> 0 \<and> confirms
        then [confirm_message (VBytes m)] else []) (ret (VBytes m))) (w1\<lparr>client_address := a\<rparr>))) = f w" for m a
      using keep_confirm [of "VBytes m" "w1\<lparr>client_address := a\<rparr>"] 1
      by (cases "index m 0")
         (auto simp: throw_def ret_def bind_def frame_address split: prod.splits outcome.splits)
    with r 1 show ?thesis
      by (auto simp: receive_datagram_def split: outcome.splits pyexc.splits)
  qed
  obtain r w1 where r: "tcp_recv recv_rounds w = (r, w1)" by fastforce
  with frame_tcp_recv [of recv_rounds w] have 1: "f w1 = f w" by simp
  have "f (snd (bind (lift (decode d)) (\<lambda>t. ret (VStr t)) w1)) = f w" for d
    using 1 by (cases "decode d") (simp_all add: throw_def ret_def)
  with r 1 datagram show ?thesis
    by (auto simp: receive_with_def bind_def split: option.splits sock.splits outcome.splits)
qed

lemmas keeps = keep_stdin_close keep_execute keep_sigint keep_send keep_stdout keep_stderr
  keep_hobza_stderr keep_recvfrom keep_receive frame_sleep frame_udp_sendto frame_address
  frame_send_confirm

end

text \<open>Observations that starting and stopping clients and servers leaves alone as well.\<close>

locale untouched = tester_frame +
  assumes frame_server: "f (w\<lparr>server_socket := s\<rparr>) = f w"
    and frame_return_code: "f (w\<lparr>return_code := r\<rparr>) = f w"
    and frame_sockets: "f (w\<lparr>udp_sockets := u\<rparr>) = f w"
    and frame_listening: "f (w\<lparr>tcp_listening := l\<rparr>) = f w"
begin

lemma frame_close: "f (close_sock s w) = f w"
  by (simp add: close_sock_def frame_sockets frame_listening split: sock.splits)

lemma frame_torn_down: "f (torn_down w) = f w"
proof -
  have "f (u\<lparr>server_socket := a, connection_socket := b\<rparr>) = f u"
    "f (u\<lparr>return_code := r, process := q\<rparr>) = f u" for u a b r q
    using frame_conn [of b "u\<lparr>server_socket := a\<rparr>"] frame_process [of q "u\<lparr>return_code := r\<rparr>"]
    by (simp_all add: frame_server frame_return_code)
  then show ?thesis
    by (simp add: torn_down_def terminate_process_def Let_def frame_close frame_action
        del: apply_action.simps split: option.splits)
qed

lemma frame_popen: "f (popen args w) = f w"
  by (simp add: popen_def case_prod_unfold frames)

lemma keep_setup: "f (snd (setup_tester args w)) = f w"
proof -
  have "f (u\<lparr>stdout_queue := a, stderr_queue := b\<rparr>) = f u" for u a b
    using frame_stderr [of b "u\<lparr>stdout_queue := a\<rparr>"] by (simp add: frame_stdout)
  then show ?thesis
    by (simp add: setup_tester_def keep_bind [of f] modify_def teardown_eq ret_def frame_torn_down
        frame_popen frame_return_code frame_sleep)
qed

lemma keep_start: "f (snd (start_server protocol port w)) = f w"
proof -
  have "f (fresh_socket w) = f w" for w
    by (simp add: fresh_socket_def frame_server frame_close split: option.splits sock.splits)
  moreover have "f (snd (tcp_listen port w)) = f w" "f (snd (udp_bind port w)) = f w" for w
    by (simp_all add: tcp_listen_def udp_bind_def frame_sockets frame_listening)
  ultimately show ?thesis
    by (simp add: start_server_def keep_bind [of f] modify_def ret_def frame_server)
qed

lemma keep_own_socket:
  assumes "\<And>w. f (snd (body w)) = f w"
  shows "f (snd (with_udp_socket port body w)) = f w"
  unfolding with_udp_socket_def
  by (rule keep_bind) (simp_all add: udp_bind_def frame_sockets frame_close assms case_prod_unfold)

end

sublocale untouched \<subseteq> tests: tcp_harness False "\<lambda>x w. f w = x" "\<lambda>x w. f w = x"
  by unfold_locales
     (simp_all add: holds_def keep_start keep_own_socket keep_setup keeps send_eof_def
        setClientAddress_def modify_def)

interpretation un_columns: untouched columns
  by unfold_locales simp_all

interpretation un_executable: untouched executable
  by unfold_locales simp_all

interpretation un_console: untouched console
  by unfold_locales simp_all

interpretation un_accept: untouched accept_thread
  by unfold_locales simp_all

section \<open>Ports\<close>

definition port_view :: "'c world \<Rightarrow> sock option \<times> int list \<times> int list" where
  "port_view w = (server_socket w, bound_ports w, tcp_listening w)"

interpretation fr_view: tester_frame port_view
  by unfold_locales (simp_all add: port_view_def fr_ports.frame_enqueue)

lemma ports_ok_view:
  "ports_ok E w \<longleftrightarrow> (case port_view w of (s, u, t) \<Rightarrow>
     u = owned_udp s @ E \<and> distinct u \<and> t = owned_tcp s)"
  by (simp add: ports_ok_def port_view_def)

lemma ports_keep:
  "(\<And>w. port_view (snd (m w)) = port_view w) \<Longrightarrow> holds False (ports_ok E) m (ports_ok E)"
  by (simp add: holds_def ports_ok_view)

lemma ports_ok_torn_down: "ports_ok E w \<Longrightarrow> ports_ok E (torn_down w)"
  using ports_torn_down [of E w] by (auto simp: ports_ok_def owned_udp_def owned_tcp_def)

lemma port_view_popen: "port_view (popen args w) = port_view w"
  by (simp add: popen_def case_prod_unfold fr_view.frames)

lemma ports_ok_setup: "ports_ok E w \<Longrightarrow> ports_ok E (snd (setup_tester args w))"
proof -
  assume *: "ports_ok E w"
  let ?w0 = "if process w \<noteq> None then torn_down w else w"
  have "setup_tester args w = sleep 200 ((popen args (?w0\<lparr>stdout_queue := [], stderr_queue := []\<rparr>))\<lparr>return_code := None\<rparr>)"
    by (simp add: setup_tester_def bind_def modify_def teardown_eq ret_def)
  moreover have "ports_ok E ?w0" using * by (simp add: ports_ok_torn_down)
  moreover have "port_view (?w0\<lparr>stdout_queue := [], stderr_queue := []\<rparr>) = port_view ?w0"
    using fr_view.frame_stderr [of "[]" "?w0\<lparr>stdout_queue := []\<rparr>"] by (simp add: fr_view.frames)
  moreover have "port_view (u\<lparr>return_code := None\<rparr>) = port_view u" for u :: "'a world"
    by (simp add: port_view_def)
  ultimately show ?thesis
    by (simp add: ports_ok_view fr_view.frame_sleep port_view_popen)
qed

lemma ports_ok_start:
  assumes "ports_ok E w" "server_socket w = None" "lower protocol = lit ''udp'' \<or> lower protocol = lit ''tcp''"
  shows "ports_ok E (snd (start_server protocol port w))"
  using assms
  by (auto simp: start_server_def bind_def modify_def fresh_socket_def tcp_listen_def udp_bind_def
      ports_ok_def owned_udp_def owned_tcp_def bound_udp_ports bound_ports_def ret_def)

lemma lower_literals: "lower (lit ''udp'') = lit ''udp''" "lower (lit ''tcp'') = lit ''tcp''"
  by code_simp+

lemma ports_ok_own_socket:
  assumes body: "\<And>E'. holds False (\<lambda>w. ports_ok E' w \<and> server_socket w = None) body (ports_ok E')"
    and w: "ports_ok E w" "server_socket w = None"
  shows "ports_ok E (snd (with_udp_socket port body w))"
proof (cases "bound_udp port w")
  case True
  with w show ?thesis by (simp add: with_udp_socket_def bind_def udp_bind_def)
next
  case False
  let ?w1 = "w\<lparr>udp_sockets := (port, []) # udp_sockets w\<rparr>"
  have "ports_ok (port # E) ?w1" "server_socket ?w1 = None"
    using False w by (auto simp: ports_ok_def owned_udp_def bound_udp_def bound_ports_def owned_tcp_def)
  with body [of "port # E"] have "ports_ok (port # E) (snd (body ?w1))"
    by (auto simp: holds_def)
  then have "ports_ok E (close_sock (UdpSocket port) (snd (body ?w1)))"
    by (auto simp: ports_ok_def bound_ports_close tcp_listening_close owned_udp_def filter_out_fresh
        split: option.splits sock.splits)
  with False show ?thesis
    by (simp add: with_udp_socket_def bind_def udp_bind_def case_prod_unfold)
qed

lemma ports_set_up: "holds False (ports_ok E) (setup_tester args) (ports_ok E)"
  by (simp add: holds_def ports_ok_setup)

lemma ports_started:
  "holds False (\<lambda>w. ports_ok E w \<and> server_socket w = None) (start_server (lit ''udp'') port) (ports_ok E)"
  "holds False (\<lambda>w. ports_ok E w \<and> server_socket w = None) (start_server (lit ''tcp'') port) (ports_ok E)"
  by (simp_all add: holds_def ports_ok_start lower_literals)

interpretation own_ports: tcp_harness False
  "\<lambda>E w. ports_ok E w \<and> server_socket w = None" "\<lambda>E w. ports_ok E w"
proof unfold_locales
  fix E :: "int list" and port and body :: "('c, unit) T"
  show "holds False (\<lambda>w. ports_ok E w \<and> server_socket w = None) (with_udp_socket port body) (ports_ok E)"
    if "\<And>E'. holds False (\<lambda>w. ports_ok E' w \<and> server_socket w = None) body (ports_ok E')"
    using ports_ok_own_socket [OF that] by (simp add: holds_def)
qed (simp, (rule ports_started ports_set_up | rule ports_keep,
       simp add: fr_view.keeps send_eof_def setClientAddress_def modify_def)+)

section \<open>No UDP test case blocks for ever\<close>

lemma no_tcp_update [simp]:
  "no_tcp (w\<lparr>server_socket := a\<rparr>) = no_tcp w"
  "no_tcp (w\<lparr>client_address := b\<rparr>) = no_tcp w"
  "no_tcp (w\<lparr>send_confirm := c\<rparr>) = no_tcp w"
  "no_tcp (w\<lparr>history := d\<rparr>) = no_tcp w"
  "no_tcp (w\<lparr>return_code := e\<rparr>) = no_tcp w"
  "no_tcp (w\<lparr>udp_sockets := g\<rparr>) = no_tcp w"
  "no_tcp (w\<lparr>stdout_queue := h\<rparr>) = no_tcp w"
  "no_tcp (w\<lparr>stderr_queue := i\<rparr>) = no_tcp w"
  "no_tcp (w\<lparr>process := j\<rparr>) = no_tcp w"
  "no_tcp (set_udp_queue p q w) = no_tcp w"
  "no_tcp (close_sock (UdpSocket p) w) = no_tcp w"
  by (simp_all add: no_tcp_def set_udp_queue_def close_sock_def)

lemma holds_no_tcp:
  "(\<And>w. no_tcp w \<Longrightarrow> no_tcp (snd (m w)) \<and> fst (m w) \<noteq> Hang) \<Longrightarrow> holds True no_tcp m no_tcp"
  by (simp add: holds_def)

lemma no_tcp_send: "no_tcp w \<Longrightarrow> no_tcp (snd (send_message v w)) \<and> fst (send_message v w) \<noteq> Hang"
  by (auto simp: send_message_def no_tcp_def [of w] quiet.inv_udp_sendto
      split: option.splits pyval.splits sock.splits)

lemma no_tcp_confirm:
  "no_tcp w \<Longrightarrow> no_tcp (snd (confirm_message (VBytes m) w)) \<and> fst (confirm_message (VBytes m) w) \<noteq> Hang"
  by (simp add: confirm_message_def message_id_of_def no_tcp_send)

lemma udp_recvfrom_ends: "fst (udp_recvfrom port deadline w) \<noteq> Hang"
proof (induction port deadline w rule: udp_recvfrom.induct)
  case (1 port deadline w)
  then show ?case
    by (auto simp: udp_recvfrom.simps [of port deadline w] split: option.splits list.splits)
qed

lemma no_tcp_receive:
  assumes "no_tcp w"
  shows "no_tcp (snd (receive_with confirms t w)) \<and> fst (receive_with confirms t w) \<noteq> Hang"
proof -
  have "no_tcp (snd (receive_datagram confirms p t w)) \<and> fst (receive_datagram confirms p t w) \<noteq> Hang" for p
  proof -
    obtain r w1 where r: "udp_recvfrom p (clock w + t) w = (r, w1)" by fastforce
    with no_tcp_recvfrom [OF assms, of p "clock w + t"] udp_recvfrom_ends [of p "clock w + t" w]
    have 1: "no_tcp w1" "r \<noteq> Hang" by simp_all
    show ?thesis
    proof (cases r)
      case (Ret x)
      obtain m a where x: "x = (m, a)" by fastforce
      from 1 no_tcp_confirm [of "w1\<lparr>client_address := Some a\<rparr>" m] r Ret x show ?thesis
        by (cases "index m 0")
           (auto simp: receive_datagram_def throw_def ret_def bind_def split: prod.splits outcome.splits)
    qed (use 1 r in \<open>auto simp: receive_datagram_def split: pyexc.splits\<close>)
  qed
  with assms show ?thesis
    by (auto simp: receive_with_def no_tcp_def [of w] split: option.splits sock.splits)
qed

lemma no_tcp_execute:
  assumes "no_tcp w"
  shows "no_tcp (snd (execute line w)) \<and> fst (execute line w) \<noteq> Hang"
proof -
  let ?w0 = "w\<lparr>history := history w @ lit ''stdin:'' @ line @ [10]\<rparr>"
  have "no_tcp (snd (stdin_write (line @ [10]) ?w0)) \<and> fst (stdin_write (line @ [10]) ?w0) \<noteq> Hang"
    using assms by (auto simp: stdin_write_def intro!: quiet.inv_poll_stdin split: option.splits sum.splits)
  then show ?thesis
    using quiet.inv_sleep
    by (auto simp: execute_def bind_def modify_def sleep_def quiet.inv_advance split: prod.splits outcome.splits)
qed

lemma un_listening_torn_down: "tcp_listening w = [] \<Longrightarrow> tcp_listening (torn_down w) = []"
  by (simp add: torn_down_def Let_def tcp_listening_close split: option.splits sock.splits)

lemma lit_udp_not_tcp: "lit ''udp'' \<noteq> lit ''tcp''"
  by code_simp

lemma no_tcp_setup:
  assumes "no_tcp w"
  shows "no_tcp (snd (setup_tester args w)) \<and> fst (setup_tester args w) \<noteq> Hang"
proof -
  have popen: "no_tcp u \<Longrightarrow> no_tcp (popen args u)" for u :: "'a world"
    by (simp add: popen_def case_prod_unfold quiet.inv_actions list_all_iff)
  have "no_tcp (torn_down w)"
    using assms un_listening_torn_down [of w] by (simp add: no_tcp_def)
  with assms popen show ?thesis
    by (simp add: setup_tester_def bind_def modify_def teardown_eq ret_def sleep_def quiet.inv_advance)
qed

lemma no_tcp_stdin_close: "no_tcp w \<Longrightarrow> no_tcp (snd (stdin_close w)) \<and> fst (stdin_close w) \<noteq> Hang"
  by (auto simp: stdin_close_def intro!: quiet.inv_deliver split: option.splits)

lemma no_tcp_sigint: "no_tcp w \<Longrightarrow> no_tcp (snd (send_sigint w)) \<and> fst (send_sigint w) \<noteq> Hang"
  by (auto simp: send_sigint_def quiet.inv_deliver split: option.splits)

lemma no_tcp_start:
  "no_tcp w \<Longrightarrow> no_tcp (snd (start_server (lit ''udp'') port w)) \<and> fst (start_server (lit ''udp'') port w) \<noteq> Hang"
  by (auto simp: start_server_def lower_literals bind_def modify_def fresh_socket_def udp_bind_def lit_udp_not_tcp
      split: option.splits sock.splits)

lemma no_tcp_own_socket:
  assumes "holds True no_tcp body no_tcp"
  shows "holds True no_tcp (with_udp_socket port body) no_tcp"
  using assms
  by (auto simp: holds_def with_udp_socket_def bind_def udp_bind_def case_prod_unfold)

interpretation udp_ends: udp_harness True "\<lambda>_::unit. no_tcp" "\<lambda>_. no_tcp"
  by (unfold_locales, simp_all only: no_tcp_own_socket)
     (rule holds_no_tcp, simp add: no_tcp_start no_tcp_setup no_tcp_execute no_tcp_stdin_close
        no_tcp_sigint no_tcp_send no_tcp_receive send_eof_def sleep_def quiet.inv_advance
        get_stdout_def get_stderr_def hobza_get_stderr_def Let_def setClientAddress_def modify_def
        recvfrom_within_def no_tcp_recvfrom udp_recvfrom_ends quiet.inv_udp_sendto)+

end
