(* ===== verification/Case_Discipline.thy ===== *)
theory Case_Discipline
  imports Testo_Tcp_Cases Hobza_Cases Tester_Frames
begin

text \<open>
  Every test case of both files is built from the methods of the tester only, so it meets the
  contract of \<open>Harness_Logic\<close>: proved here once inside the locales, for all test cases.
\<close>

named_theorems case_defs \<open>definitions of the test cases\<close>

lemmas testo_udp_defs [case_defs] =
  auth_and_reply_def no_args_def no_type_arg_def no_hostname_def all_args_def udp_help_command_def
  udp_hello_def udp_not_auth_def udp_invalid_command_def udp_auth_def udp_auth_port_def
  udp_auth_nok_def udp_rename_multiple_def udp_auth_nok_ok_def udp_auth_port_change_def
  udp_auth_ok_def udp_msg_def udp_svr_msg_def udp_ping_def udp_bye1_def udp_bye2_def
  udp_server_bye_def udp_send_receive_multiple_def udp_retransmit_missing_confirm1_def
  udp_retransmit_missing_confirm2_def udp_ignore_duplicate_server_msg_def udp_server_err1_def
  udp_server_err2_def udp_join_ok_def udp_join_nok_def udp_multiple_auth_def udp_invalid_msg_def
  udp_auth_err_def udp_reports_error_when_missing_confirmation_def udp_reply_5_sec_error_auth_def
  udp_reply_5_sec_error_join_def

lemmas testo_tcp_defs [case_defs] =
  tcp_auth_and_reply_def tcp_sigint_def tcp_sigint_and_bye_def tcp_server_bye_def tcp_rename_def
  tcp_rename_multiple_def tcp_help_command_def tcp_send_receive_multiple_def
  tcp_multiple_messages_single_segment_def tcp_single_message_multiple_segments2_def
  tcp_single_message_multiple_segments_def tcp_receive_two_messages_within_3_segments_def
  tcp_hello_def tcp_not_auth_def tcp_invalid_command_def tcp_auth_def tcp_auth_ok_def
  tcp_auth_nok_def tcp_auth_port_def tcp_auth_nok_ok_def tcp_auth_ok_again_def tcp_msg_def
  tcp_svr_msg_def tcp_bye_def tcp_bye_in_auth_def tcp_server_err1_def tcp_server_err2_def
  tcp_join_ok_def tcp_join_nok_def tcp_multiple_auth_def tcp_invalid_msg_def tcp_auth_err_def
  tcp_too_long_msg_minus_one_def tcp_too_long_server_msg_def tcp_too_long_server_msg_plus_one_def
  tcp_too_long_server_msg_plus_one_without_end_def tcp_auth_reply_timeout_def
  tcp_join_reply_timeout_def tcp_invalid_message_type_def tcp_unexpected_message_type_def
  tcp_auth_reply_delay_def tcp_join_reply_delay_def tcp_processing_server_messages_while_joining_def
  tcp_all_good_after_auth_reply_delay_def tcp_all_good_after_join_reply_delay_def
  tcp_grammar_is_case_insensitive_def

lemmas hobza_defs [case_defs] =
  hobza_auth_and_reply_def hobza_tcp_auth_and_reply_def hobza_no_args_def hobza_no_type_arg_def
  hobza_no_hostname_def hobza_all_args_def hobza_udp_hello_def hobza_udp_not_auth_def
  hobza_udp_invalid_command_def hobza_udp_auth_def hobza_udp_auth_port_def hobza_udp_auth_nok_def
  hobza_udp_auth_nok_ok_def hobza_udp_auth_port_change_def hobza_udp_auth_ok_def hobza_udp_msg_def
  hobza_udp_svr_msg_def hobza_udp_bye1_def hobza_udp_bye2_def hobza_udp_server_err1_def
  hobza_udp_server_err2_def hobza_udp_join_ok_def hobza_udp_join_nok_def hobza_udp_multiple_auth_def
  hobza_udp_invalid_msg_def hobza_udp_auth_err_def hobza_tcp_hello_def hobza_tcp_not_auth_def
  hobza_tcp_invalid_command_def hobza_tcp_auth_def hobza_tcp_auth_ok_def hobza_tcp_auth_nok_def
  hobza_tcp_auth_port_def hobza_tcp_auth_nok_ok_def hobza_tcp_auth_ok_again_def hobza_tcp_msg_def
  hobza_tcp_svr_msg_def hobza_tcp_bye_def hobza_tcp_server_err1_def hobza_tcp_server_err2_def
  hobza_tcp_join_ok_def hobza_tcp_join_nok_def hobza_tcp_multiple_auth_def hobza_tcp_invalid_msg_def
  hobza_tcp_auth_err_def

lemmas case_simps = append.simps list.pred_inject(2) prod.case seq.simps Let_def

context udp_harness
begin

lemmas case_rules = harness_rules list.pred_inject(1)

lemma testo_udp_hold:
  "list_all (\<lambda>(name, f). holds live (Pre e) f (I e)) (testo_cli_cases @ testo_udp_cases)"
  unfolding testo_cli_cases_def testo_udp_cases_def testo_udp_defs case_simps
  by (intro conjI case_rules)

lemma hobza_udp_hold:
  "list_all (\<lambda>(name, f). holds live (Pre e) f (I e)) (hobza_cli_cases @ hobza_udp_cases)"
  unfolding hobza_cli_cases_def hobza_udp_cases_def hobza_defs case_simps
  by (intro conjI case_rules)

end

context tcp_harness
begin

lemma testo_tcp_hold:
  "list_all (\<lambda>(name, f). holds live (Pre e) f (I e)) testo_tcp_cases"
  unfolding testo_tcp_cases_def testo_tcp_defs case_simps
  by (intro conjI case_rules start_tcp)

lemma hobza_tcp_hold:
  "list_all (\<lambda>(name, f). holds live (Pre e) f (I e)) hobza_tcp_cases"
  unfolding hobza_tcp_cases_def hobza_defs case_simps
  by (intro conjI case_rules start_tcp)

lemma testo_hold: "list_all (\<lambda>(name, f). holds live (Pre e) f (I e)) testo_functions"
  using testo_udp_hold testo_tcp_hold by (simp add: testo_functions_def)

lemma hobza_hold: "list_all (\<lambda>(name, f). holds live (Pre e) f (I e)) hobza_functions"
  using hobza_udp_hold hobza_tcp_hold by (simp add: hobza_functions_def)

end

end
