(* ===== verification/Runner_Laws.thy ===== *)
theory Runner_Laws
  imports Test_Runner Tester_Frames
begin

text \<open>
  The decorator, the runner and the command line: a decorated test case never raises, its verdict
  is decided by how the body ended, it always cleans up; the runner counts verdicts; the command
  line accepts what it documents. The decorator relies on \<open>dump\<close> only through the contract of
  the locale \<open>reporter\<close>, which both files' versions meet.
\<close>

section \<open>The decorator\<close>

text \<open>What reporting may change: the queues, the history, and more output on the console.\<close>

definition reported :: "'c world \<Rightarrow> 'c world \<Rightarrow> bool" where
  "reported u v \<longleftrightarrow> (\<exists>q e h c.
     v = u\<lparr>stdout_queue := q, stderr_queue := e, history := h, console := console u @ c\<rparr>)"

lemma reportedI:
  "v = u\<lparr>stdout_queue := q, stderr_queue := e, history := h, console := console u @ c\<rparr> \<Longrightarrow> reported u v"
  by (auto simp: reported_def)

lemma reported_trans: "reported u v \<Longrightarrow> reported v w \<Longrightarrow> reported u w"
  by (auto simp: reported_def) (rule exI, rule exI, rule exI, rule exI, simp)

lemma reported_print: "reported u (snd (print_coloured colour t u))"
  by (rule reportedI [where q = "stdout_queue u" and e = "stderr_queue u" and h = "history u"])
     (simp add: print_coloured_def modify_def)

lemma reported_keeps:
  assumes "reported u v"
  shows "process v = process u" "server_socket v = server_socket u" "port_view v = port_view u"
    "connection_socket v = connection_socket u" "columns v = columns u" "no_tcp v = no_tcp u"
    "tcp_listening v = tcp_listening u" "executable v = executable u" "return_code v = return_code u"
    "clock v = clock u"
  using assms by (auto simp: reported_def port_view_def bound_ports_def no_tcp_def)

lemmas print_keeps [simp] = reported_keeps [OF reported_print]

lemma print_returns: "print_coloured colour t w = (Ret (), snd (print_coloured colour t w))"
  by (simp add: print_coloured_def modify_def)

locale reporter =
  fixes dump_state :: "('c, unit) T"
  assumes dump_returns: "fst (dump_state w) = Ret ()"
    and dump_reports: "reported w (snd (dump_state w))"
begin

lemma dump_seq: "seq [print_coloured colour t, dump_state] (ret x) u
    = (Ret x, snd (dump_state (snd (print_coloured colour t u))))"
  using dump_returns [of "snd (print_coloured colour t u)"]
  by (cases "dump_state (snd (print_coloured colour t u))")
     (simp add: bind_def print_coloured_def modify_def ret_def)

lemma dump_seq_reports: "reported u (snd (dump_state (snd (print_coloured colour t u))))"
  by (rule reported_trans [OF reported_print dump_reports])

lemma print_seq: "seq [print_coloured colour t] (ret x) u = (Ret x, snd (print_coloured colour t u))"
  by (simp add: bind_def print_coloured_def modify_def ret_def)

text \<open>
  How a decorated test case ends: the body \<open>func\<close> runs after the banner is printed; its verdict
  is reported and the tester is torn down.
\<close>

lemma judge_ends:
  assumes "func w = (r, u)" "r \<noteq> Hang"
  shows "fst (judge dump_state name func w) = Ret (\<exists>x. r = Ret x)"
    "reported u (snd (judge dump_state name func w))"
proof -
  have "fst (judge dump_state name func w) = Ret (\<exists>x. r = Ret x) \<and>
    reported u (snd (judge dump_state name func w))"
  proof (cases r)
    case (Raise e)
    with assms(1) show ?thesis
      by (cases e) (simp_all add: judge_def dump_seq print_seq dump_seq_reports reported_print del: seq.simps)
  qed (use assms in \<open>simp_all add: judge_def print_seq reported_print del: seq.simps\<close>)
  then show "fst (judge dump_state name func w) = Ret (\<exists>x. r = Ret x)"
    "reported u (snd (judge dump_state name func w))" by simp_all
qed

text \<open>
  How a decorated test case ends: the body \<open>func\<close> runs after the banner is printed; its verdict
  is reported and the tester is torn down.
\<close>

lemma wrapper_ends:
  assumes "columns w = Some cols"
    and "func (snd (print_coloured ''yellow'' (banner cols name) w)) = (r, u)" "r \<noteq> Hang"
  obtains v where "reported u v"
    "wrapper dump_state name func w = (Ret (\<exists>x. r = Ret x), torn_down v)"
proof -
  let ?w0 = "snd (print_coloured ''yellow'' (banner cols name) w)"
  obtain v0 where v0: "judge dump_state name func ?w0 = (Ret (\<exists>x. r = Ret x), v0)" "reported u v0"
    using judge_ends [where func = func and w = ?w0 and name = name, OF assms(2,3)] by (metis prod.collapse)
  let ?v = "snd (print_coloured ''yellow'' (lit ''Test '' @ [39] @ name @ [39] @ lit '' finished'') v0)"
  have "reported u ?v" using v0(2) reported_print by (rule reported_trans)
  moreover have "wrapper dump_state name func w = (Ret (\<exists>x. r = Ret x), torn_down ?v)"
    using assms(1) v0(1)
    by (simp add: wrapper_def bind_def print_coloured_def modify_def teardown_eq ret_def)
  ultimately show thesis by (rule that)
qed

lemma wrapper_hangs:
  assumes "columns w = Some cols"
    and "func (snd (print_coloured ''yellow'' (banner cols name) w)) = (Hang, u)"
  shows "wrapper dump_state name func w = (Hang, u)"
  using assms by (simp add: wrapper_def bind_def judge_def print_coloured_def modify_def)

text \<open>A decorated test case on a terminal: the verdict, and what is left behind.\<close>

lemma wrapper_verdict:
  assumes "columns w = Some cols"
  shows "fst (wrapper dump_state name func w) =
    (case fst (func (snd (print_coloured ''yellow'' (banner cols name) w))) of
       Ret _ \<Rightarrow> Ret True | Raise _ \<Rightarrow> Ret False | Hang \<Rightarrow> Hang)"
proof -
  obtain r u where f: "func (snd (print_coloured ''yellow'' (banner cols name) w)) = (r, u)" by fastforce
  show ?thesis
  proof (cases "r = Hang")
    case True
    with f wrapper_hangs [OF assms] show ?thesis by simp
  next
    case False
    from wrapper_ends [where func = func and name = name, OF assms f False]
    have "fst (wrapper dump_state name func w) = Ret (\<exists>x. r = Ret x)" by (metis fst_conv)
    with f False show ?thesis by (cases r) simp_all
  qed
qed

lemma wrapper_cleans:
  assumes "columns w = Some cols" "fst (wrapper dump_state name func w) \<noteq> Hang"
  shows "process (snd (wrapper dump_state name func w)) = None"
    "server_socket (snd (wrapper dump_state name func w)) = None"
    "connection_socket (snd (wrapper dump_state name func w)) = None"
proof -
  obtain r u where f: "func (snd (print_coloured ''yellow'' (banner cols name) w)) = (r, u)" by fastforce
  with assms wrapper_hangs [OF assms(1)] have "r \<noteq> Hang" by auto
  from wrapper_ends [where func = func and name = name, OF assms(1) f this] obtain v where
    "snd (wrapper dump_state name func w) = torn_down v" by (metis snd_conv)
  then show "process (snd (wrapper dump_state name func w)) = None"
    "server_socket (snd (wrapper dump_state name func w)) = None"
    "connection_socket (snd (wrapper dump_state name func w)) = None" by simp_all
qed

text \<open>
  Conditions on ports and on TCP that the body keeps are kept by the decorated test case.
\<close>

lemma wrapper_keeps_ports:
  assumes "columns w = Some cols" "ports_ok E w" "server_socket w = None"
    and "holds live (\<lambda>w. ports_ok E w \<and> server_socket w = None) func (ports_ok E)"
    and "fst (wrapper dump_state name func w) \<noteq> Hang"
  shows "bound_ports (snd (wrapper dump_state name func w)) = E"
    "tcp_listening (snd (wrapper dump_state name func w)) = []"
proof -
  let ?w0 = "snd (print_coloured ''yellow'' (banner cols name) w)"
  obtain r u where f: "func ?w0 = (r, u)" by fastforce
  with assms wrapper_hangs [OF assms(1)] have "r \<noteq> Hang" by auto
  from wrapper_ends [where func = func and name = name, OF assms(1) f this] obtain v where
    v: "reported u v" "snd (wrapper dump_state name func w) = torn_down v" by (metis snd_conv)
  have "ports_ok E ?w0 \<and> server_socket ?w0 = None"
    using assms by (simp add: ports_ok_view)
  with assms(4) have "ports_ok E (snd (func ?w0))" by (simp add: holds_def)
  with f v(1) have "ports_ok E v" by (simp add: ports_ok_view reported_keeps)
  with v(2) show "bound_ports (snd (wrapper dump_state name func w)) = E"
    "tcp_listening (snd (wrapper dump_state name func w)) = []"
    by (simp_all add: ports_torn_down)
qed

lemma wrapper_keeps_columns:
  assumes "columns w = Some cols" "\<And>w. columns (snd (func w)) = columns w"
    and "fst (wrapper dump_state name func w) \<noteq> Hang"
  shows "columns (snd (wrapper dump_state name func w)) = Some cols"
proof -
  let ?w0 = "snd (print_coloured ''yellow'' (banner cols name) w)"
  obtain r u where f: "func ?w0 = (r, u)" by fastforce
  with assms wrapper_hangs [OF assms(1)] have "r \<noteq> Hang" by auto
  from wrapper_ends [where func = func and name = name, OF assms(1) f this] obtain v where
    v: "reported u v" "snd (wrapper dump_state name func w) = torn_down v" by (metis snd_conv)
  moreover have "columns u = Some cols" using assms(2) [of ?w0] f assms(1) by simp
  ultimately show ?thesis by (simp add: reported_keeps)
qed

lemma wrapper_keeps_quiet:
  assumes "columns w = Some cols" "no_tcp w" "holds True no_tcp func no_tcp"
  shows "fst (wrapper dump_state name func w) \<noteq> Hang"
    "no_tcp (snd (wrapper dump_state name func w))"
proof -
  let ?w0 = "snd (print_coloured ''yellow'' (banner cols name) w)"
  obtain r u where f: "func ?w0 = (r, u)" by fastforce
  have "no_tcp ?w0" using assms(2) by simp
  with assms(3) f have 1: "r \<noteq> Hang" "no_tcp u" by (auto simp: holds_def dest: spec [of _ ?w0])
  from wrapper_ends [where func = func and name = name, OF assms(1) f 1(1)] obtain v where
    v: "reported u v" "wrapper dump_state name func w = (Ret (\<exists>x. r = Ret x), torn_down v)" by metis
  then show "fst (wrapper dump_state name func w) \<noteq> Hang" by simp
  show "no_tcp (snd (wrapper dump_state name func w))"
    using v 1 un_listening_torn_down [of v] by (simp add: no_tcp_def reported_keeps)
qed

end

lemma dump_reported: "reported w (snd (dump w))" "reported w (snd (hobza_dump w))"
  by (rule reportedI [where q = "[]" and e = "[]"], simp add: dump_eq hobza_dump_eq Let_def)+

interpretation testo_report: reporter dump
  by unfold_locales (simp add: dump_eq, rule dump_reported)

interpretation hobza_report: reporter hobza_dump
  by unfold_locales (simp add: hobza_dump_eq Let_def, rule dump_reported)



section \<open>Registration\<close>

lemma load_udp:
  "udp_test_cases (load d fs) =
     map (\<lambda>(name, f). (name, wrapper d name f)) (filter (\<lambda>(name, f). occurs_in (lit ''udp'') name) fs)"
proof -
  have "udp_test_cases (fold (testcase d) fs reg) = udp_test_cases reg @
     map (\<lambda>(name, f). (name, wrapper d name f)) (filter (\<lambda>(name, f). occurs_in (lit ''udp'') name) fs)" for reg
    by (induction fs arbitrary: reg) (auto simp: testcase_def Let_def)
  then show ?thesis by (simp add: load_def empty_registry_def)
qed

lemma load_tcp:
  "tcp_test_cases (load d fs) =
     map (\<lambda>(name, f). (name, wrapper d name f))
       (filter (\<lambda>(name, f). \<not> occurs_in (lit ''udp'') name \<and> occurs_in (lit ''tcp'') name) fs)"
proof -
  have "tcp_test_cases (fold (testcase d) fs reg) = tcp_test_cases reg @
     map (\<lambda>(name, f). (name, wrapper d name f))
       (filter (\<lambda>(name, f). \<not> occurs_in (lit ''udp'') name \<and> occurs_in (lit ''tcp'') name) fs)" for reg
    by (induction fs arbitrary: reg) (auto simp: testcase_def Let_def split: if_splits)
  then show ?thesis by (simp add: load_def empty_registry_def)
qed

section \<open>Counting\<close>

text \<open>The abstract runner: the verdicts of the test cases in order, each with a new tester.\<close>

fun verdicts :: "pystr \<Rightarrow> 'c test list \<Rightarrow> ('c, bool list) T" where
  "verdicts path [] = ret []"
| "verdicts path ((name, test) # ts) =
     seq [modify (ExecutableTester path)]
     (bind test (\<lambda>ok. bind (verdicts path ts) (\<lambda>oks. ret (ok # oks))))"

lemma count_verdict:
  "n + count_list (ok # oks) True = n + (if ok then 1 else 0) + count_list oks True"
  by simp

lemma run_all_verdicts:
  "run_all path ts passed = bind (verdicts path ts) (\<lambda>oks. ret (passed + count_list oks True))"
proof (induction ts arbitrary: passed)
  case (Cons t ts)
  obtain name test where t: "t = (name, test)" by fastforce
  with Cons show ?case by (simp add: bind_assoc count_verdict del: count_list.simps)
qed simp

lemma verdicts_append:
  "verdicts path (ts @ us) = bind (verdicts path ts) (\<lambda>a. bind (verdicts path us) (\<lambda>b. ret (a @ b)))"
proof (induction ts)
  case (Cons t ts)
  obtain name test where "t = (name, test)" by fastforce
  with Cons show ?case by (simp add: bind_assoc)
qed simp

lemma verdicts_length: "verdicts path ts w = (Ret oks, w') \<Longrightarrow> length oks = length ts"
proof (induction ts arbitrary: w oks)
  case (Cons t ts)
  obtain name test where "t = (name, test)" by fastforce
  with Cons show ?case
    by (fastforce simp: bind_def modify_def ret_def split: prod.splits outcome.splits)
qed (simp add: ret_def)

lemma count_all: "count_list oks True = length oks \<longleftrightarrow> list_all id oks"
proof (induction oks)
  case (Cons ok oks)
  then show ?case using count_le_length [of oks True] by auto
qed simp

text \<open>What the runner prints at the end, from the verdicts.\<close>

definition summary :: "bool list \<Rightarrow> ('c, unit) T" where
  "summary oks = print_coloured (if list_all id oks then ''green'' else ''red'')
     ([10] @ [if list_all id oks then 0x2705 else 0x274C] @ lit '' '' @ str_of_int (int (count_list oks True))
      @ lit ''/'' @ str_of_int (int (length oks)) @ lit '' test cases passed'')"

lemma bind_cong_returned:
  assumes "\<And>x w w'. m w = (Ret x, w') \<Longrightarrow> f x w' = g x w'"
  shows "bind m f = bind m g"
  using assms by (fastforce simp: bind_def split: prod.splits outcome.splits)

lemma run_tests_verdicts:
  "run_tests reg path udp tcp None =
     seq [modify (ExecutableTester path)]
     (bind (verdicts path ((if udp then udp_test_cases reg else []) @ (if tcp then tcp_test_cases reg else [])))
       summary)"
proof -
  let ?u = "if udp then udp_test_cases reg else []" and ?t = "if tcp then tcp_test_cases reg else []"
  let ?n = "(if udp then length (udp_test_cases reg) else 0) + (if tcp then length (tcp_test_cases reg) else 0)"
  have "bind (verdicts path (?u @ ?t)) (\<lambda>oks. report (count_list oks True) ?n)
      = bind (verdicts path (?u @ ?t)) summary"
  proof (rule bind_cong_returned)
    fix oks and w w' :: "'a world"
    assume "verdicts path (?u @ ?t) w = (Ret oks, w')"
    then have n: "?n = length oks" by (auto dest!: verdicts_length)
    show "report (count_list oks True) ?n w' = summary oks w'"
      unfolding n report_def summary_def count_all ..
  qed
  moreover have "(if udp then run_all path (udp_test_cases reg) 0 else ret 0)
      = bind (verdicts path ?u) (\<lambda>a. ret (count_list a True))"
    "(if tcp then run_all path (tcp_test_cases reg) k else ret k)
      = bind (verdicts path ?t) (\<lambda>b. ret (k + count_list b True))" for k
    by (simp_all add: run_all_verdicts)
  ultimately show ?thesis
    by (simp add: run_tests_def verdicts_append bind_assoc)
qed

text \<open>
  A run without \<open>-t\<close> executes the test cases of the chosen protocols in registration order,
  UDP first, each with a new tester, and ends with the number of passed cases out of the number
  of cases, in green exactly when all passed.
\<close>

theorem run_tests_counts:
  "run_tests reg path udp tcp None =
     seq [modify (ExecutableTester path)]
     (bind (verdicts path ((if udp then udp_test_cases reg else []) @ (if tcp then tcp_test_cases reg else [])))
       summary)"
  by (rule run_tests_verdicts)

section \<open>Selecting a test case\<close>

lemma find_test_eq:
  "find_test name ts = (if name \<in> fst ` set ts then Some (hd (dropWhile (\<lambda>t. fst t \<noteq> name) ts)) else None)"
  by (induction ts) auto

lemma first_named_append:
  "hd (dropWhile (\<lambda>t. fst t \<noteq> name) (ts @ us)) =
     (if name \<in> fst ` set ts then hd (dropWhile (\<lambda>t. fst t \<noteq> name) ts)
      else hd (dropWhile (\<lambda>t. fst t \<noteq> name) us))"
  by (induction ts) auto

lemma run_tests_first:
  "run_tests reg path udp tcp (Some name) w =
     (let w0 = ExecutableTester path w;
          cases = (if udp then udp_test_cases reg else []) @ (if tcp then tcp_test_cases reg else [])
      in if name \<in> fst ` set cases
         then bind (snd (hd (dropWhile (\<lambda>t. fst t \<noteq> name) cases))) (\<lambda>ok. summary [ok]) w0
         else print_plain (lit ''Error: Test case '' @ [39] @ name @ [39]
                @ lit '' not found in the specified protocol tests.'') w0)"
proof -
  let ?u = "if udp then udp_test_cases reg else []" and ?t = "if tcp then tcp_test_cases reg else []"
  have one: "report (if ok then 1 else 0) 1 = summary [ok]" for ok
    by (simp add: report_def summary_def)
  have chosen: "(if udp then find_test name (udp_test_cases reg) else None) = find_test name ?u"
    "(if tcp then find_test name (tcp_test_cases reg) else None) = find_test name ?t"
    by simp_all
  show ?thesis
    unfolding run_tests_def option.case chosen find_test_eq run_named_def one
    by (simp add: bind_def [of "modify _"] modify_def first_named_append Let_def image_Un)
qed

text \<open>
  With \<open>-t\<close> the first test case of that name runs, UDP before TCP and only among the chosen
  protocols, and the summary says 0/1 or 1/1; when the name belongs to a protocol that was not
  chosen, an error is printed and no test case runs.
\<close>

theorem run_tests_named:
  "run_tests reg path udp tcp (Some name) w =
     (let w0 = ExecutableTester path w;
          cases = (if udp then udp_test_cases reg else []) @ (if tcp then tcp_test_cases reg else [])
      in if name \<in> fst ` set cases
         then bind (snd (hd (dropWhile (\<lambda>t. fst t \<noteq> name) cases))) (\<lambda>ok. summary [ok]) w0
         else print_plain (lit ''Error: Test case '' @ [39] @ name @ [39]
                @ lit '' not found in the specified protocol tests.'') w0)"
  by (rule run_tests_first)

section \<open>The command line\<close>

text \<open>Arguments that describe given settings.\<close>

definition render_args :: "settings \<Rightarrow> pystr list" where
  "render_args s =
     (if set_debug s then [lit ''-d''] else [])
     @ (case set_test_case s of None \<Rightarrow> [] | Some name \<Rightarrow> [lit ''-t'', name])
     @ (if set_tcp s then [] else [lit ''-p'', lit ''udp''])
     @ (if set_udp s then [] else [lit ''-p'', lit ''tcp''])
     @ (case set_path s of None \<Rightarrow> [] | Some path \<Rightarrow> [path])"

lemma option_literals:
  "lit ''-d'' \<noteq> lit ''-t''" "lit ''-d'' \<noteq> lit ''-p''" "lit ''-t'' \<noteq> lit ''-p''"
  "lit ''-t'' \<noteq> lit ''-d''" "lit ''-p'' \<noteq> lit ''-d''" "lit ''-p'' \<noteq> lit ''-t''"
  "lit ''-h'' \<noteq> lit ''-d''" "lit ''-h'' \<noteq> lit ''-t''" "lit ''-h'' \<noteq> lit ''-p''"
  "lit ''-h'' \<noteq> lit ''udp''" "lit ''-h'' \<noteq> lit ''tcp''" "lit ''tcp'' \<noteq> lit ''udp''"
  by code_simp+

lemmas cli_simps = option_literals lower_literals

text \<open>
  Every combination of settings can be given on the command line and is parsed back from it,
  provided that the path and the test case are no option, that the name of the test case is
  known, and that \<open>-h\<close> does not occur.
\<close>

theorem command_line_round_trip:
  assumes "set_path s = Some path" "path \<notin> set (map lit [''-d'', ''-t'', ''-p'', ''-h''])"
    and "script \<noteq> lit ''-h''"
    and "set_test_case s = None \<or> (\<exists>name. set_test_case s = Some name \<and> name \<in> set names \<and> name \<noteq> lit ''-h'')"
  shows "command_line names (script # render_args s) = CliRun s"
proof -
  have path: "path \<noteq> lit ''-d''" "path \<noteq> lit ''-t''" "path \<noteq> lit ''-p''" "lit ''-h'' \<noteq> path"
    using assms(2) by auto
  have "parse_args names (render_args s) default_settings = CliRun s"
    using assms(1,4) path
    by (cases s) (auto simp: render_args_def default_settings_def cli_simps split: option.splits)
  moreover have "lit ''-h'' \<notin> set (script # render_args s)"
    using assms path by (auto simp: render_args_def cli_simps split: option.splits)
  ultimately show ?thesis using assms(1) by (simp add: command_line_def)
qed

theorem command_line_round_trip_witness:
  "command_line [lit ''udp_auth''] (lit ''testo.py'' # render_args
      \<lparr>set_debug = True, set_udp = True, set_tcp = False, set_test_case = Some (lit ''udp_auth''), set_path = Some (lit ''./client'')\<rparr>)
   = CliRun \<lparr>set_debug = True, set_udp = True, set_tcp = False, set_test_case = Some (lit ''udp_auth''), set_path = Some (lit ''./client'')\<rparr>"
proof -
  have "lit ''./client'' \<notin> set (map lit [''-d'', ''-t'', ''-p'', ''-h''])" "lit ''testo.py'' \<noteq> lit ''-h''"
    "lit ''udp_auth'' \<noteq> lit ''-h''" by code_simp+
  then show ?thesis by (intro command_line_round_trip) auto
qed

text \<open>
  The exit status tells nothing about the verdicts: once the command line is accepted, the
  script exits with 0 whenever the run ends, whether or not all test cases passed; a rejected
  command line exits with 1 and runs nothing, and \<open>-h\<close> prints the usage and exits with 0.
\<close>

theorem exit_status_ignores_verdicts:
  "case command_line (test_names reg) argv of
     CliRun s \<Rightarrow> (\<exists>path. set_path s = Some path \<and> main reg argv =
        bind (run_tests reg path (set_udp s) (set_tcp s) (set_test_case s)) (\<lambda>_. ret 0))
   | CliExit n m \<Rightarrow> main reg argv = bind (print_plain m) (\<lambda>_. ret n)
        \<and> (if lit ''-h'' \<in> set argv then n = 0 \<and> m = usage else n = 1)"
proof -
  have one: "parse_args names args s = CliExit n m \<Longrightarrow> n = 1" for names args s n m
    by (induction names args s rule: parse_args.induct) (auto split: if_splits list.splits option.splits)
  show ?thesis
    using one by (auto simp: main_def command_line_def split: cli.splits option.splits)
qed

text \<open>
  Both protocols can be switched off, by \<open>-p udp -p tcp\<close>: then nothing is tested and the
  summary is a green ``0/0 test cases passed''.
\<close>

theorem nothing_tested_is_green:
  assumes "path \<notin> set (map lit [''-d'', ''-t'', ''-p'', ''-h''])" "script \<noteq> lit ''-h''"
  shows "\<exists>w'. main reg [script, path, lit ''-p'', lit ''udp'', lit ''-p'', lit ''tcp''] w = (Ret 0, w')
    \<and> console w' = console w @ [([10, 0x2705] @ lit '' 0/0 test cases passed'', ''green'')]"
proof -
  have path: "path \<noteq> lit ''-d''" "path \<noteq> lit ''-t''" "path \<noteq> lit ''-p''" "lit ''-h'' \<noteq> path"
    using assms(1) by auto
  have "command_line (test_names reg) [script, path, lit ''-p'', lit ''udp'', lit ''-p'', lit ''tcp''] =
      CliRun \<lparr>set_debug = False, set_udp = False, set_tcp = False, set_test_case = None, set_path = Some path\<rparr>"
    using assms(2) path by (auto simp: command_line_def default_settings_def cli_simps)
  moreover have "[10, 0x2705] @ lit '' '' @ str_of_int 0 @ lit ''/'' @ str_of_int 0 @ lit '' test cases passed''
      = [10, 0x2705] @ lit '' 0/0 test cases passed''"
    by code_simp
  ultimately show ?thesis
    by (simp add: main_def run_tests_def report_def bind_def modify_def ret_def print_coloured_def
        ExecutableTester_def)
qed

theorem nothing_tested_is_green_witness:
  "\<exists>w'. main empty_registry (map lit [''testo.py'', ''./client'', ''-p'', ''udp'', ''-p'', ''tcp''])
      (initial_world silent (Some 80)) = (Ret 0, w')"
proof -
  have "lit ''./client'' \<notin> set (map lit [''-d'', ''-t'', ''-p'', ''-h''])" "lit ''testo.py'' \<noteq> lit ''-h''"
    by code_simp+
  from nothing_tested_is_green [OF this, of empty_registry "initial_world silent (Some 80)"]
  show ?thesis by auto
qed

end
