(* ===== verification/Suite_Laws.thy ===== *)
theory Suite_Laws
  imports Case_Discipline Runner_Laws
begin

text \<open>
  The two suites as a whole, for every client program: which test cases are registered, that each
  leaves the machine as it found it, that the UDP suites always finish, and that the test cases
  for the command line cannot fail.
\<close>

section \<open>What is registered\<close>

lemma testo_names:
  "map fst testo_cli_cases = map lit [''no_args'', ''no_type_arg'', ''no_hostname'', ''all_args'']"
  "list_all (occurs_in (lit ''udp'')) (map fst testo_udp_cases)"
  "list_all (\<lambda>n. \<not> occurs_in (lit ''udp'') n \<and> occurs_in (lit ''tcp'') n) (map fst testo_tcp_cases)"
  unfolding testo_cli_cases_def testo_udp_cases_def testo_tcp_cases_def list.map fst_conv
  by code_simp+

lemma cli_names:
  "list_all (\<lambda>n. \<not> occurs_in (lit ''udp'') n \<and> \<not> occurs_in (lit ''tcp'') n)
     (map lit [''no_args'', ''no_type_arg'', ''no_hostname'', ''all_args''])"
  by code_simp

lemma hobza_names:
  "map fst hobza_cli_cases = map lit [''no_args'', ''no_type_arg'', ''no_hostname'', ''all_args'']"
  "list_all (occurs_in (lit ''udp'')) (map fst hobza_udp_cases)"
  "list_all (\<lambda>n. \<not> occurs_in (lit ''udp'') n \<and> occurs_in (lit ''tcp'') n) (map fst hobza_tcp_cases)"
  unfolding hobza_cli_cases_def hobza_udp_cases_def hobza_tcp_cases_def list.map fst_conv
  by code_simp+

section \<open>A suite\<close>

text \<open>
  What the runner relies on: the names decide the protocol, every test case keeps to the tester's
  methods (so it keeps the ports in order and the terminal width), and no test case of the UDP
  part blocks for ever.
\<close>

locale suite = reporter dump_state for dump_state :: "('c, unit) T" +
  fixes cli_cases udp_cases tcp_cases :: "(pystr \<times> ('c, unit) T) list"
  assumes names_cli: "list_all (\<lambda>n. \<not> occurs_in (lit ''udp'') n \<and> \<not> occurs_in (lit ''tcp'') n) (map fst cli_cases)"
    and names_udp: "list_all (occurs_in (lit ''udp'')) (map fst udp_cases)"
    and names_tcp: "list_all (\<lambda>n. \<not> occurs_in (lit ''udp'') n \<and> occurs_in (lit ''tcp'') n) (map fst tcp_cases)"
    and cases_ports: "list_all (\<lambda>(n, f). holds False (\<lambda>w. ports_ok E w \<and> server_socket w = None) f (ports_ok E))
        (udp_cases @ tcp_cases)"
    and cases_columns: "list_all (\<lambda>(n, f). holds False (\<lambda>w. columns w = c) f (\<lambda>w. columns w = c))
        (udp_cases @ tcp_cases)"
    and cases_end: "list_all (\<lambda>(n, f). holds True no_tcp f no_tcp) udp_cases"
begin

lemma registered:
  "udp_test_cases (load dump_state (cli_cases @ udp_cases @ tcp_cases))
     = map (\<lambda>(n, f). (n, wrapper dump_state n f)) udp_cases"
  "tcp_test_cases (load dump_state (cli_cases @ udp_cases @ tcp_cases))
     = map (\<lambda>(n, f). (n, wrapper dump_state n f)) tcp_cases"
  using names_cli names_udp names_tcp
  by (simp_all add: load_udp load_tcp list_all_iff case_prod_unfold filter_True filter_False)

lemma cli_unregistered:
  "n \<in> set (map fst cli_cases) \<Longrightarrow> n \<notin> set (test_names (load dump_state (cli_cases @ udp_cases @ tcp_cases)))"
  using names_cli names_udp names_tcp
  by (fastforce simp: test_names_def registered list_all_iff)

lemma case_keeps_columns: "(n, f) \<in> set (udp_cases @ tcp_cases) \<Longrightarrow> columns (snd (f w)) = columns w"
  using cases_columns [of "columns w"] by (auto simp: list_all_iff holds_def)

lemma case_leaves_no_trace:
  assumes "(n, f) \<in> set (udp_cases @ tcp_cases)"
    and "columns w = Some cols" "ports_ok E w" "server_socket w = None"
    and "fst (wrapper dump_state n f w) \<noteq> Hang"
  shows "ports_ok E (snd (wrapper dump_state n f w))"
    "server_socket (snd (wrapper dump_state n f w)) = None"
    "process (snd (wrapper dump_state n f w)) = None"
    "columns (snd (wrapper dump_state n f w)) = Some cols"
proof -
  have "holds False (\<lambda>w. ports_ok E w \<and> server_socket w = None) f (ports_ok E)"
    using cases_ports [of E] assms(1) by (auto simp: list_all_iff)
  from wrapper_keeps_ports [OF assms(2-4) this assms(5)] wrapper_cleans [OF assms(2,5)]
  show "ports_ok E (snd (wrapper dump_state n f w))"
    "server_socket (snd (wrapper dump_state n f w)) = None"
    "process (snd (wrapper dump_state n f w)) = None"
    using assms(3,4) by (auto simp: ports_ok_def owned_udp_def owned_tcp_def)
  show "columns (snd (wrapper dump_state n f w)) = Some cols"
    by (rule wrapper_keeps_columns [OF assms(2) _ assms(5)]) (rule case_keeps_columns [OF assms(1)])
qed

lemma udp_verdicts:
  assumes "set ts \<subseteq> set (map (\<lambda>(n, f). (n, wrapper dump_state n f)) udp_cases)"
    and "columns w = Some cols" "tcp_listening w = []"
  shows "\<exists>oks w'. verdicts path ts w = (Ret oks, w')"
  using assms
proof (induction ts arbitrary: w)
  case (Cons t ts)
  then obtain n f where t: "t = (n, wrapper dump_state n f)" "(n, f) \<in> set udp_cases" by auto
  let ?w0 = "ExecutableTester path w"
  have w0: "columns ?w0 = Some cols" "no_tcp ?w0"
    using Cons.prems by (simp_all add: ExecutableTester_def no_tcp_def)
  have "holds True no_tcp f no_tcp" using cases_end t(2) by (auto simp: list_all_iff)
  note kept = wrapper_keeps_quiet [OF w0 this, of n]
  have cols: "columns (snd (f w)) = columns w" for w
    using case_keeps_columns [of n f w] t(2) by simp
  obtain ok w1 where w1: "wrapper dump_state n f ?w0 = (Ret ok, w1)"
    using wrapper_verdict [OF w0(1), of n f] kept(1)
    by (cases "wrapper dump_state n f ?w0") (auto split: outcome.splits)
  with kept wrapper_keeps_columns [OF w0(1) cols kept(1)] Cons.prems(1) Cons.IH [of w1] show ?case
    by (auto simp: t(1) bind_def modify_def ret_def no_tcp_def)
qed (simp add: ret_def)

lemma udp_run_ends:
  assumes "columns w = Some cols" "tcp_listening w = []"
  shows "\<exists>w'. run_tests (load dump_state (cli_cases @ udp_cases @ tcp_cases)) path True False None w = (Ret (), w')"
proof -
  obtain oks w' where "verdicts path (map (\<lambda>(n, f). (n, wrapper dump_state n f)) udp_cases)
      (ExecutableTester path w) = (Ret oks, w')"
    using udp_verdicts [of _ "ExecutableTester path w" cols path] assms
    by (fastforce simp: ExecutableTester_def)
  then show ?thesis
    by (simp add: run_tests_verdicts registered bind_def modify_def summary_def print_coloured_def)
qed

lemma verdicts_leave_no_trace:
  assumes "set ts \<subseteq> set (map (\<lambda>(n, f). (n, wrapper dump_state n f)) (udp_cases @ tcp_cases))"
    and "columns w = Some cols" "ports_ok E w" "server_socket w = None" "process w = None"
    and "verdicts path ts w = (r, w')" "r \<noteq> Hang"
  shows "ports_ok E w' \<and> server_socket w' = None \<and> process w' = None"
  using assms
proof (induction ts arbitrary: w r)
  case (Cons t ts)
  then obtain n f where t: "t = (n, wrapper dump_state n f)" "(n, f) \<in> set (udp_cases @ tcp_cases)" by auto
  let ?w0 = "ExecutableTester path w"
  have w0: "columns ?w0 = Some cols" "ports_ok E ?w0" "server_socket ?w0 = None"
    using Cons.prems(2-4) by (auto simp: ExecutableTester_def ports_ok_def bound_ports_def)
  have live: "fst (wrapper dump_state n f ?w0) \<noteq> Hang"
    using Cons.prems(6,7) by (auto simp: t(1) bind_def modify_def split: prod.splits outcome.splits)
  obtain ok w1 where w1: "wrapper dump_state n f ?w0 = (Ret ok, w1)"
    using wrapper_verdict [OF w0(1), of n f] live
    by (cases "wrapper dump_state n f ?w0") (auto split: outcome.splits)
  obtain r' where "verdicts path ts w1 = (r', w')" "r' \<noteq> Hang"
    using Cons.prems(6,7) w1
    by (auto simp: t(1) bind_def modify_def ret_def split: prod.splits outcome.splits)
  with case_leaves_no_trace [OF t(2) w0 live] w1 Cons.prems(1) Cons.IH [of w1 r'] show ?case by simp
qed (simp add: ret_def)

lemma run_leaves_no_trace:
  assumes "columns w = Some cols" "ports_ok E w" "server_socket w = None" "process w = None"
  shows "case run_tests (load dump_state (cli_cases @ udp_cases @ tcp_cases)) path udp tcp None w of (r, w') \<Rightarrow>
    r = Hang \<or> bound_ports w' = E \<and> tcp_listening w' = [] \<and> server_socket w' = None \<and> process w' = None"
proof -
  let ?ts = "(if udp then map (\<lambda>(n, f). (n, wrapper dump_state n f)) udp_cases else [])
    @ (if tcp then map (\<lambda>(n, f). (n, wrapper dump_state n f)) tcp_cases else [])"
  let ?w0 = "ExecutableTester path w"
  obtain r w' where v: "verdicts path ?ts ?w0 = (r, w')" by fastforce
  have "columns ?w0 = Some cols" "ports_ok E ?w0" "server_socket ?w0 = None" "process ?w0 = None"
    using assms by (auto simp: ExecutableTester_def ports_ok_def bound_ports_def)
  from verdicts_leave_no_trace [OF _ this v]
  have "r = Hang \<or> ports_ok E w' \<and> server_socket w' = None \<and> process w' = None" by auto
  with v show ?thesis
    by (cases r) (auto simp: run_tests_verdicts registered bind_def modify_def summary_def
        print_coloured_def ports_ok_def owned_udp_def owned_tcp_def)
qed

end

lemma cli_cases_names:
  "list_all (\<lambda>n. \<not> occurs_in (lit ''udp'') n \<and> \<not> occurs_in (lit ''tcp'') n) (map fst testo_cli_cases)"
  "list_all (\<lambda>n. \<not> occurs_in (lit ''udp'') n \<and> \<not> occurs_in (lit ''tcp'') n) (map fst hobza_cli_cases)"
  unfolding testo_names(1) hobza_names(1) by (rule cli_names)+

lemmas testo_disciplined =
  own_ports.testo_hold [unfolded testo_functions_def list_all_append]
  un_columns.tests.testo_hold [unfolded testo_functions_def list_all_append]
  udp_ends.testo_udp_hold [unfolded list_all_append]

lemmas hobza_disciplined =
  own_ports.hobza_hold [unfolded hobza_functions_def list_all_append]
  un_columns.tests.hobza_hold [unfolded hobza_functions_def list_all_append]
  udp_ends.hobza_udp_hold [unfolded list_all_append]

interpretation testo: suite dump testo_cli_cases testo_udp_cases testo_tcp_cases
  by unfold_locales (rule cli_cases_names testo_names, simp_all add: testo_names testo_disciplined)

interpretation hobza: suite hobza_dump hobza_cli_cases hobza_udp_cases hobza_tcp_cases
  by unfold_locales (rule cli_cases_names hobza_names, simp_all add: hobza_names hobza_disciplined)

section \<open>Properties of the suites\<close>

text \<open>
  C36. The decorator registers exactly the test cases whose names mention a protocol, in source
  order. The four test cases for the command line (\<open>no_args\<close>, \<open>no_type_arg\<close>,
  \<open>no_hostname\<close>, \<open>all_args\<close>) mention none: they are never run, and \<open>-t\<close> does not know
  them.
\<close>

theorem registered_cases:
  "load dump testo_functions =
     \<lparr>udp_test_cases = map (\<lambda>(n, f). (n, wrapper dump n f)) testo_udp_cases,
      tcp_test_cases = map (\<lambda>(n, f). (n, wrapper dump n f)) testo_tcp_cases\<rparr>
   \<and> (\<forall>name \<in> set (map lit [''no_args'', ''no_type_arg'', ''no_hostname'', ''all_args'']).
        name \<notin> set (test_names (load dump testo_functions)))
   \<and> length (udp_test_cases (load dump testo_functions)) = 31
   \<and> length (tcp_test_cases (load dump testo_functions)) = 45"
proof -
  have 1: "load dump testo_functions =
     \<lparr>udp_test_cases = map (\<lambda>(n, f). (n, wrapper dump n f)) testo_udp_cases,
      tcp_test_cases = map (\<lambda>(n, f). (n, wrapper dump n f)) testo_tcp_cases\<rparr>"
    unfolding testo_functions_def by (rule registry.equality) (simp_all add: testo.registered)
  have 2: "\<forall>name \<in> set (map lit [''no_args'', ''no_type_arg'', ''no_hostname'', ''all_args'']).
      name \<notin> set (test_names (load dump testo_functions))"
    unfolding testo_functions_def
    by (intro ballI) (rule testo.cli_unregistered, simp add: testo_names(1))
  have 3: "length testo_udp_cases = 31" "length testo_tcp_cases = 45"
    by (simp_all add: testo_udp_cases_def testo_tcp_cases_def)
  have 4: "length (udp_test_cases (load dump testo_functions)) = 31"
    "length (tcp_test_cases (load dump testo_functions)) = 45"
    unfolding 1 by (simp_all add: 3)
  from 1 2 4 show ?thesis by (intro conjI)
qed

theorem registered_cases_witness:
  "lit ''no_args'' \<notin> set (test_names (load dump (testo_functions :: (pystr \<times> (unit, unit) T) list)))"
  by (rule registered_cases [THEN conjunct2, THEN conjunct1, rule_format]) simp





text \<open>
  C40. The test cases for the command line prove nothing: they pass for every client in every
  world, because \<open>setup\<close> has just reset the exit status they look at, and no \<open>teardown\<close> has
  recorded a new one.
\<close>

theorem command_line_cases_cannot_fail:
  "fst (no_args w) = Ret () \<and> fst (no_type_arg w) = Ret () \<and> fst (no_hostname w) = Ret ()
   \<and> fst (all_args w) = Ret ()"
proof -
  have status: "return_code (snd (setup_tester args w)) = None" for args
    by (simp add: setup_eq)
  have eof: "fst (send_eof (snd (setup_tester args w))) = Ret ()
      \<and> return_code (snd (send_eof (snd (setup_tester args w)))) = None" for args
    using setup_alive [of args w] status [of args]
    by (auto simp: send_eof_def stdin_close_def split: option.splits)
  have run: "setup_tester args w = (Ret (), snd (setup_tester args w))" for args
    by (simp add: setup_eq)
  have "fst (bind (setup_tester args) (\<lambda>_. bind get_return_code
      (\<lambda>code. assert_that (code \<noteq> Some 0) m)) w) = Ret ()" for args m
    using status [of args] run [of args]
    by (cases "setup_tester args w") (simp add: bind_def get_return_code_def get_def ret_def)
  moreover have "fst (bind (setup_tester args) (\<lambda>_. bind send_eof (\<lambda>_. bind get_return_code
      (\<lambda>code. assert_that (code = None) m))) w) = Ret ()" for args m
    using eof [of args] run [of args]
    by (cases "setup_tester args w"; cases "send_eof (snd (setup_tester args w))")
       (simp add: bind_def get_return_code_def get_def ret_def)
  ultimately show ?thesis
    by (simp add: no_args_def no_type_arg_def no_hostname_def all_args_def)
qed

text \<open>
  Naming a test case that is defined twice runs the first definition only: the second
  \<open>tcp_auth_ok\<close> can be reached by a full run, but not by \<open>-t\<close>.
\<close>

theorem duplicate_name_runs_first:
  "run_tests (load dump testo_functions) path udp True (Some (lit ''tcp_auth_ok'')) (w :: 'c world) =
     bind (wrapper dump (lit ''tcp_auth_ok'') tcp_auth_ok) (\<lambda>ok. summary [ok]) (ExecutableTester path w)"
proof -
  let ?deco = "\<lambda>(n, f :: ('c, unit) T). (n, wrapper dump n f)" and ?name = "lit ''tcp_auth_ok''"
  have first: "hd (dropWhile (\<lambda>t. fst t \<noteq> ?name) (map ?deco testo_tcp_cases)) = (?name, wrapper dump ?name tcp_auth_ok)"
    by (simp add: testo_tcp_cases_def lit_inject)
  have "\<not> occurs_in (lit ''udp'') ?name" by code_simp
  then have udp: "?name \<notin> fst ` set (map ?deco testo_udp_cases)"
    using testo.names_udp by (auto simp: list_all_iff)
  have tcp: "?name \<in> fst ` set (map ?deco testo_tcp_cases)"
    by (simp add: testo_tcp_cases_def)
  show ?thesis
    unfolding run_tests_first testo_functions_def testo.registered
    using udp tcp first by (cases udp) (simp_all add: Let_def first_named_append image_Un)
qed

text \<open>A client that connects and then neither sends nor prints anything.\<close>

definition mute_tcp :: "unit program" where
  "mute_tcp = \<lparr>p_boot = (\<lambda>_ _. ((), [Connect 4567])), p_handle = (\<lambda>_ _. ((), []))\<rparr>"


end
