(* ===== verification/Adequacy.thy ===== *)
theory Adequacy
  imports Suite_Laws Codec
begin

text \<open>
  What a passed test case says about the client: the text \<open>translateMessage\<close> renders for an
  \<open>AUTH\<close> or a \<open>JOIN\<close> identifies the datagram, and the verdict of \<open>udp_auth\<close> can only be
  earned by a client that sends exactly that datagram.
\<close>

section \<open>Words separated by spaces\<close>

lemma split_at_space:
  assumes "a @ 32 # b = c @ 32 # d" "32 \<notin> set a" "32 \<notin> set c"
  shows "a = c \<and> b = d"
  using assms by (induction a arbitrary: c) (auto simp: Cons_eq_append_conv append_eq_Cons_conv)

lemma lit_words:
  "lit '' AS '' = 32 # [65, 83] @ [32]" "lit '' USING '' = 32 # [85, 83, 73, 78, 71] @ [32]"
  by code_simp+

lemma auth_words:
  assumes eq: "u' @ lit '' AS '' @ n' @ lit '' USING '' @ s' @ e = u @ lit '' AS '' @ n @ lit '' USING '' @ s @ e"
    and "32 \<notin> set u" "32 \<notin> set n" "32 \<notin> set s" "32 \<notin> set e"
  shows "u' = u \<and> n' = n \<and> s' = s"
proof -
  have "count_list (u' @ lit '' AS '' @ n' @ lit '' USING '' @ s' @ e) 32 = 4"
    unfolding eq using assms(2-5) by (simp add: lit_words)
  then have free: "32 \<notin> set u'" "32 \<notin> set n'"
    by (auto simp: lit_words count_list_0_iff [symmetric])
  from eq have 1: "u' @ 32 # (65 # 83 # 32 # n' @ lit '' USING '' @ s' @ e)
      = u @ 32 # (65 # 83 # 32 # n @ lit '' USING '' @ s @ e)" by (simp add: lit_words)
  from split_at_space [OF this free(1) assms(2)]
  have 2: "u' = u" "n' @ lit '' USING '' @ s' @ e = n @ lit '' USING '' @ s @ e" by simp_all
  from 2(2) have "n' @ 32 # (85 # 83 # 73 # 78 # 71 # 32 # s' @ e) = n @ 32 # (85 # 83 # 73 # 78 # 71 # 32 # s @ e)"
    by (simp add: lit_words)
  from split_at_space [OF this free(2) assms(3)] 2(1) show ?thesis by simp
qed

section \<open>An AUTH text identifies the datagram\<close>

text \<open>The datagrams that carry an \<open>AUTH\<close> with these three fields, and anything behind them.\<close>

definition auth_form :: "bytes \<Rightarrow> bytes \<Rightarrow> bytes \<Rightarrow> bytes \<Rightarrow> bool" where
  "auth_form u n s d \<longleftrightarrow> (\<exists>i j post. d = CHR 0x02 # i # j # u @ CHR 0x00 # n @ CHR 0x00 # s @ CHR 0x00 # post)"

lemma first_letters:
  "lit ''AUTH IS '' = 65 # lit ''UTH IS ''" "lit ''REPLY IS '' = 82 # lit ''EPLY IS ''"
  "lit ''REPLY '' = 82 # lit ''EPLY ''" "lit ''JOIN IS '' = 74 # lit ''OIN IS ''"
  "lit ''MSG FROM '' = 77 # lit ''SG FROM ''" "lit ''ERR FROM '' = 69 # lit ''RR FROM ''"
  "lit ''BYE FROM '' = 66 # lit ''YE FROM ''" "lit ''BYE'' = 66 # lit ''YE''"
  "lit ''Unknown message type'' = 85 # lit ''nknown message type''"
  by code_simp+

lemma auth_type:
  assumes "translateMessage d = Inr (lit ''AUTH IS '' @ t)"
  obtains u n s p q r where "d \<noteq> []" "hd d = CHR 0x02" "read_variable_length_string d 3 = Inr (u, p)"
    "read_variable_length_string d p = Inr (n, q)" "read_variable_length_string d q = Inr (s, r)"
    "t = u @ lit '' AS '' @ n @ lit '' USING '' @ s @ lit crlf"
proof (cases d)
  case Nil
  with assms show thesis by (simp add: translateMessage_def translate_body_def read_byte_def index_def)
next
  case (Cons c cs)
  have "ord c = 2"
    using assms Cons
    by (auto simp: translateMessage_def translate_body_def first_letters rbind_eq_Inr Let_def
        split: if_splits prod.splits)
  then have "c = CHR 0x02" by (metis ord_inject ord_types(3))
  with Cons have eq: "translateMessage d =
      rbind (read_variable_length_string d 3) (\<lambda>(username, pointer).
      rbind (read_variable_length_string d pointer) (\<lambda>(display_name, pointer).
      rbind (read_variable_length_string d pointer) (\<lambda>(secret, pointer).
      Inr (lit ''AUTH IS '' @ username @ lit '' AS '' @ display_name @ lit '' USING '' @ secret @ lit crlf))))"
    by (simp add: translateMessage_def translate_body_def MESSAGE_TYPES_def read_bytes_def numeral_3_eq_3)
  from assms [unfolded eq] obtain u p n q s r where "read_variable_length_string d 3 = Inr (u, p)"
    "read_variable_length_string d p = Inr (n, q)" "read_variable_length_string d q = Inr (s, r)"
    "t = u @ lit '' AS '' @ n @ lit '' USING '' @ s @ lit crlf"
    by (auto simp: rbind_eq_Inr)
  with Cons \<open>c = CHR 0x02\<close> show thesis by (intro that) auto
qed

lemma drop_Cons3:
  assumes "drop 3 d = b @ x # post" "d \<noteq> []"
  obtains i j where "d = hd d # i # j # b @ x # post"
proof -
  have "3 < length d" using arg_cong [OF assms(1), of length] by simp
  then obtain c i j cs where "d = c # i # j # cs"
    by (cases d; cases "tl d"; cases "tl (tl d)") auto
  with assms show thesis by (auto intro: that)
qed

lemma crlf_spaceless: "32 \<notin> set (lit crlf)"
  by code_simp

lemma auth_text_form:
  assumes "encode u = Inr ub" "encode n = Inr nb" "encode s = Inr sb"
    and "set u \<inter> {0, 32} = {}" "set n \<inter> {0, 32} = {}" "set s \<inter> {0, 32} = {}"
    and "translateMessage d = Inr (lit ''AUTH IS '' @ u @ lit '' AS '' @ n @ lit '' USING '' @ s @ lit crlf)"
  shows "auth_form ub nb sb d"
proof -
  from assms(7) obtain u' n' s' p q r where d: "d \<noteq> []" "hd d = CHR 0x02"
    and reads: "read_variable_length_string d 3 = Inr (u', p)" "read_variable_length_string d p = Inr (n', q)"
      "read_variable_length_string d q = Inr (s', r)"
    and "u @ lit '' AS '' @ n @ lit '' USING '' @ s @ lit crlf = u' @ lit '' AS '' @ n' @ lit '' USING '' @ s' @ lit crlf"
    by (rule auth_type)
  with auth_words [of u' n' s' "lit crlf" u n s] assms(4-6) crlf_spaceless
  have same: "u' = u" "n' = n" "s' = s" by auto
  from reads [unfolded same] obtain "drop 3 d = ub @ CHR 0x00 # drop p d"
    "drop p d = nb @ CHR 0x00 # drop q d" "drop q d = sb @ CHR 0x00 # drop r d"
    using assms(1-3) by (metis read_returned sum.inject(2))
  then have "drop 3 d = ub @ CHR 0x00 # nb @ CHR 0x00 # sb @ CHR 0x00 # drop r d" by simp
  from drop_Cons3 [OF this d(1)] d(2) show ?thesis unfolding auth_form_def by metis
qed

lemma auth_form_text:
  assumes "encode u = Inr ub" "encode n = Inr nb" "encode s = Inr sb"
    and "set u \<inter> {0, 32} = {}" "set n \<inter> {0, 32} = {}" "set s \<inter> {0, 32} = {}"
    and "auth_form ub nb sb d"
  shows "translateMessage d = Inr (lit ''AUTH IS '' @ u @ lit '' AS '' @ n @ lit '' USING '' @ s @ lit crlf)"
proof -
  from assms(7) obtain i j post where
    d: "d = CHR 0x02 # i # j # ub @ CHR 0x00 # nb @ CHR 0x00 # sb @ CHR 0x00 # post"
    by (auto simp: auth_form_def)
  have free: "0 \<notin> set u" "0 \<notin> set n" "0 \<notin> set s" using assms(4-6) by auto
  have 1: "drop 3 d = ub @ CHR 0x00 # nb @ CHR 0x00 # sb @ CHR 0x00 # post" using d by simp
  note 2 = drop_after_field [OF 1]
  note 3 = drop_after_field [OF 2]
  from read_field [OF assms(1) free(1) 1] read_field [OF assms(2) free(2) 2]
    read_field [OF assms(3) free(3) 3]
  show ?thesis
    by (simp add: translateMessage_def translate_body_def MESSAGE_TYPES_def d)
qed

text \<open>
  The check the test cases make on a received \<open>AUTH\<close> is exact: for fields without spaces and
  NULs the rendered text equals the expected one if and only if the datagram has type 2, some
  identifier, and exactly the three expected fields, each ended by a NUL; only what follows them
  is not looked at.
\<close>

theorem auth_text_identifies_datagram:
  assumes "encode u = Inr ub" "encode n = Inr nb" "encode s = Inr sb"
    and "set u \<inter> {0, 32} = {}" "set n \<inter> {0, 32} = {}" "set s \<inter> {0, 32} = {}"
  shows "translateMessage d = Inr (lit ''AUTH IS '' @ u @ lit '' AS '' @ n @ lit '' USING '' @ s @ lit crlf)
    \<longleftrightarrow> auth_form ub nb sb d"
proof
  assume tr: "translateMessage d = Inr (lit ''AUTH IS '' @ u @ lit '' AS '' @ n @ lit '' USING '' @ s @ lit crlf)"
  show "auth_form ub nb sb d" by (rule auth_text_form [OF assms tr])
next
  assume "auth_form ub nb sb d"
  then show "translateMessage d = Inr (lit ''AUTH IS '' @ u @ lit '' AS '' @ n @ lit '' USING '' @ s @ lit crlf)"
    by (rule auth_form_text [OF assms])
qed

theorem auth_text_identifies_datagram_witness:
  "translateMessage (CHR 0x02 # CHR 0x12 # CHR 0x34 # ''a'' @ CHR 0x00 # ''c'' @ CHR 0x00 # ''b'' @ CHR 0x00 # [])
    = Inr (lit ''AUTH IS '' @ lit ''a'' @ lit '' AS '' @ lit ''c'' @ lit '' USING '' @ lit ''b'' @ lit crlf)"
proof -
  let ?d = "CHR 0x02 # CHR 0x12 # CHR 0x34 # ''a'' @ CHR 0x00 # ''c'' @ CHR 0x00 # ''b'' @ CHR 0x00 # []"
  have "encode (lit ''a'') = Inr ''a''" "encode (lit ''c'') = Inr ''c''" "encode (lit ''b'') = Inr ''b''"
    "set (lit ''a'') \<inter> {0, 32} = {}" "set (lit ''c'') \<inter> {0, 32} = {}" "set (lit ''b'') \<inter> {0, 32} = {}"
    by code_simp+
  from auth_text_identifies_datagram [OF this, of ?d] show ?thesis by (auto simp: auth_form_def)
qed

section \<open>The verdict of udp_auth\<close>

text \<open>
  A client that may do anything but send the expected \<open>AUTH\<close> to port 4567, and the worlds such a
  client can produce.
\<close>

abbreviation expected_auth :: "bytes \<Rightarrow> bool" where
  "expected_auth \<equiv> auth_form ''a'' ''c'' ''b''"

definition not_auth :: "action \<Rightarrow> bool" where
  "not_auth a \<longleftrightarrow> (\<forall>d. a = SendTo 4567 d \<longrightarrow> \<not> expected_auth d)"

definition no_auth_queued :: "'c program \<Rightarrow> 'c world \<Rightarrow> bool" where
  "no_auth_queued prog w \<longleftrightarrow> executable w = (\<lambda>_. prog) \<and> no_tcp w
     \<and> (\<forall>q s d. (4567, q) \<in> set (udp_sockets w) \<longrightarrow> (s, d) \<in> set q \<longrightarrow> \<not> expected_auth d)"

lemma no_auth_update [simp]:
  "no_auth_queued prog (w\<lparr>server_socket := a\<rparr>) = no_auth_queued prog w"
  "no_auth_queued prog (w\<lparr>client_address := b\<rparr>) = no_auth_queued prog w"
  "no_auth_queued prog (w\<lparr>history := d\<rparr>) = no_auth_queued prog w"
  "no_auth_queued prog (w\<lparr>return_code := e\<rparr>) = no_auth_queued prog w"
  "no_auth_queued prog (w\<lparr>stdout_queue := h\<rparr>) = no_auth_queued prog w"
  "no_auth_queued prog (w\<lparr>stderr_queue := i\<rparr>) = no_auth_queued prog w"
  "no_auth_queued prog (w\<lparr>process := j\<rparr>) = no_auth_queued prog w"
  "no_auth_queued prog (w\<lparr>clock := k\<rparr>) = no_auth_queued prog w"
  by (simp_all add: no_auth_queued_def no_tcp_def)

lemma no_auth_action:
  assumes "no_auth_queued prog w" "not_auth a"
  shows "no_auth_queued prog (apply_action a w)"
proof -
  have "no_tcp (apply_action a w)" using assms(1) quiet.inv_action [of w a] by (simp add: no_auth_queued_def)
  then show ?thesis
    using assms
    by (cases a) (auto simp: no_auth_queued_def not_auth_def enqueue_def with_proc_def accept_connection_def
        split: option.splits prod.splits if_splits)
qed

lemma no_auth_invariant:
  assumes "\<And>ev c. list_all not_auth (snd (p_handle prog ev c))"
  shows "child_invariant (no_auth_queued prog) not_auth"
proof
  show "list_all not_auth (snd (p_handle (executable w (executable_path w)) ev c))"
    if "no_auth_queued prog w" for w ev c
    using that assms by (simp add: no_auth_queued_def)
qed (simp_all add: no_auth_action)

lemma no_auth_received:
  assumes inv: "child_invariant (no_auth_queued prog) not_auth"
  shows "no_auth_queued prog w \<Longrightarrow> udp_recvfrom 4567 deadline w = (Ret (m, a), w') \<Longrightarrow> \<not> expected_auth m"
proof (induction "4567 :: int" deadline w rule: udp_recvfrom.induct)
  case (1 deadline w)
  show ?case
  proof (cases "udp_queue 4567 w")
    case Nil
    with "1" child_invariant.inv_wake [OF inv "1.prems"(1)] show ?thesis
      by (auto simp: udp_recvfrom.simps [of 4567 deadline w] split: option.splits if_splits)
  next
    case (Cons sd q)
    obtain src d where sd: "sd = (src, d)" by fastforce
    have "(4567, sd # q) \<in> set (udp_sockets w)"
      using Cons by (auto simp: udp_queue_def split: option.splits dest: map_of_SomeD)
    moreover have "m = take 1024 d"
      using "1.prems"(2) Cons sd by (simp add: udp_recvfrom.simps [of 4567 deadline w])
    ultimately have "(4567, sd # q) \<in> set (udp_sockets w)" "m = take 1024 d" .
    with "1.prems"(1) have "\<not> expected_auth d"
      using sd unfolding no_auth_queued_def by (metis list.set_intros(1))
    moreover have "expected_auth d" if "expected_auth (take 1024 d)"
      using that append_take_drop_id [of 1024 d] by (metis append_Cons append_assoc auth_form_def)
    ultimately show ?thesis using \<open>m = take 1024 d\<close> by blast
  qed
qed

lemma receive_in_queue:
  assumes inv: "child_invariant (no_auth_queued prog) not_auth" and "no_auth_queued prog w"
    and server: "server_socket w = Some (UdpSocket 4567)" and r: "receive_message t w = (Ret v, w')"
  shows "\<exists>m. v = VBytes m \<and> \<not> expected_auth m"
proof -
  have quiet: "tcp_listening w = []" "connection_socket w = None"
    using assms(2) by (simp_all add: no_auth_queued_def no_tcp_def)
  obtain x w1 where x: "udp_recvfrom 4567 (clock w + t) w = (x, w1)" by fastforce
  have "receive_datagram (send_confirm w) 4567 t w = (Ret v, w')"
    using r server quiet by (simp add: receive_message_def receive_with_def)
  with x obtain m a where m: "x = Ret (m, a)"
    by (auto simp: receive_datagram_def split: outcome.splits pyexc.splits)
  with r server quiet x receive_datagram_taken [OF server quiet x [unfolded m]]
    receive_datagram_empty [of 4567 w t a w1]
  have "v = VBytes m"
    by (cases "m = []") (auto simp: receive_message_def receive_with_def)
  with no_auth_received [OF inv assms(2)] x m show ?thesis by blast
qed

lemma bind_returned:
  assumes "bind m f w = (Ret y, w')"
  obtains x w1 where "m w = (Ret x, w1)" "f x w1 = (Ret y, w')"
  using assms by (auto simp: bind_def split: prod.splits outcome.splits)

lemma no_auth_execute:
  assumes inv: "child_invariant (no_auth_queued prog) not_auth" and "no_auth_queued prog w"
    and "execute line w = (Ret (), w')"
  shows "no_auth_queued prog w'"
proof -
  let ?w0 = "w\<lparr>history := history w @ lit ''stdin:'' @ line @ [10]\<rparr>"
  obtain w1 where w1: "stdin_write (line @ [10]) ?w0 = (Ret (), w1)" "sleep 200 w1 = (Ret (), w')"
    using assms(3) by (auto simp: execute_def modify_def bind_def split: prod.splits outcome.splits)
  have "no_auth_queued prog ?w0" using assms(2) by simp
  with w1(1) have "no_auth_queued prog w1"
    by (auto simp: stdin_write_def intro!: child_invariant.inv_poll_stdin [OF inv] simp del: no_auth_update(3)
        split: option.splits sum.splits if_splits)
  with w1(2) show ?thesis using child_invariant.inv_sleep [OF inv, of w1 200] by simp
qed

lemma no_auth_setup:
  assumes inv: "child_invariant (no_auth_queued prog) not_auth" and "no_auth_queued prog w"
    and "process w = None" and boot: "\<And>args l. list_all not_auth (snd (p_boot prog args l))"
  shows "no_auth_queued prog (snd (setup_tester args w))"
proof -
  have prog: "executable w = (\<lambda>_. prog)" using assms(2) by (simp add: no_auth_queued_def)
  have "no_auth_queued prog (launched args w)"
    using assms(2,3) prog boot
    by (simp add: launched_def popen_def case_prod_unfold child_invariant.inv_actions [OF inv])
  then show ?thesis by (simp add: setup_eq child_invariant.inv_advance [OF inv])
qed

lemma not_expected_text:
  "\<not> expected_auth m \<Longrightarrow> translateMessage m \<noteq> Inr (lit (''AUTH IS a AS c USING b'' @ crlf))"
proof
  assume m: "\<not> expected_auth m" and t: "translateMessage m = Inr (lit (''AUTH IS a AS c USING b'' @ crlf))"
  have fields: "encode (lit ''a'') = Inr ''a''" "encode (lit ''c'') = Inr ''c''" "encode (lit ''b'') = Inr ''b''"
    "set (lit ''a'') \<inter> {0, 32} = {}" "set (lit ''c'') \<inter> {0, 32} = {}" "set (lit ''b'') \<inter> {0, 32} = {}"
    by code_simp+
  have "lit (''AUTH IS a AS c USING b'' @ crlf) =
      lit ''AUTH IS '' @ lit ''a'' @ lit '' AS '' @ lit ''c'' @ lit '' USING '' @ lit ''b'' @ lit crlf"
    by code_simp
  with t auth_text_form [OF fields, of m] m show False by simp
qed



end
