(* ===== verification/Client_Base.thy ===== *)
theory Client_Base
  imports Executable_Tester "HOL-Library.Word"
begin

unbundle bit_operations_syntax

text \<open>
  The C++ client, part one: \<open>args.cpp\<close>, the enumerations, the state of a \<open>Client\<close> object and the
  methods of the base class in \<open>client.cpp\<close>. A \<open>std::string\<close> is a list of octets. A method is a
  function on the object that returns a value or throws; what it writes, sends, or asks of the
  kernel is appended to \<open>emitted\<close>. Machine integers keep their width.
\<close>

section \<open>Command-line arguments\<close>

text \<open>The attributes of \<open>Args\<close>; of the server address only the port matters on one host.\<close>

record cargs =
  m_server_port :: "16 word"
  m_udp_confirm_timeout :: "16 word"
  m_udp_max_retrans_count :: "8 word"
  m_is_help_used :: bool
  m_is_tcp :: bool
  m_server_addr :: "16 word"

definition default_args :: cargs where
  "default_args =
     \<lparr>m_server_port = 4567, m_udp_confirm_timeout = 250, m_udp_max_retrans_count = 3,
       m_is_help_used = False, m_is_tcp = False, m_server_addr = 0\<rparr>"

text \<open>
  The constructor succeeds, throws an exception with a text, or dereferences a null pointer,
  which kills the process.
\<close>

datatype 'a built = Built 'a | Thrown bytes | Crashed

text \<open>\<open>std::stoi(s, nullptr, 10)\<close>: white space, a sign, digits; the rest is ignored.\<close>

definition is_digit :: "char \<Rightarrow> bool" where
  "is_digit c \<longleftrightarrow> 48 \<le> ord c \<and> ord c \<le> 57"

definition decimal :: "bytes \<Rightarrow> int" where
  "decimal s = foldl (\<lambda>n c. 10 * n + (ord c - 48)) 0 s"

definition stoi :: "bytes \<Rightarrow> int option" where
  "stoi s =
     (let s1 = dropWhile (\<lambda>c. c = CHR '' '' \<or> 9 \<le> ord c \<and> ord c \<le> 13) s;
          (neg, s2) = (case s1 of
             c # cs \<Rightarrow> if c = CHR ''-'' then (True, cs) else if c = CHR ''+'' then (False, cs) else (False, s1)
           | [] \<Rightarrow> (False, s1));
          ds = takeWhile is_digit s2;
          n = (if neg then - decimal ds else decimal ds)
      in if ds \<noteq> [] \<and> - (2 ^ 31) \<le> n \<and> n < 2 ^ 31 then Some n else None)"

text \<open>A value that is missing is the null pointer at the end of \<open>argv\<close>.\<close>

definition int_value :: "bytes option \<Rightarrow> int built" where
  "int_value v = (case v of
     None \<Rightarrow> Thrown ''basic_string: construction from null is not valid''
   | Some s \<Rightarrow> (case stoi s of None \<Rightarrow> Thrown ''stoi'' | Some n \<Rightarrow> Built n))"

text \<open>
  \<open>resolves\<close> stands for \<open>inet_pton\<close> and \<open>getaddrinfo\<close>: whether the text is an address or a known
  host name.
\<close>

definition processServerAddress :: "(bytes \<Rightarrow> bool) \<Rightarrow> bytes option \<Rightarrow> cargs \<Rightarrow> cargs built" where
  "processServerAddress resolves server_addr a = (case server_addr of
     None \<Rightarrow> Crashed
   | Some s \<Rightarrow>
       if resolves s then Built (a\<lparr>m_server_addr := m_server_port a\<rparr>)
       else Thrown ''couldn't convert a hostname to IP address.'')"

text \<open>The loop over \<open>argv[1..]\<close> in steps of two, then the address.\<close>

fun parse_argv :: "(bytes \<Rightarrow> bool) \<Rightarrow> bytes list \<Rightarrow> bytes option \<Rightarrow> cargs \<Rightarrow> cargs built" where
  "parse_argv resolves [] server_addr a = processServerAddress resolves server_addr a"
| "parse_argv resolves (flag # rest) server_addr a =
     (let v = (case rest of [] \<Rightarrow> None | x # _ \<Rightarrow> Some x);
          next = (\<lambda>server_addr a. parse_argv resolves (drop 1 rest) server_addr a)
      in if flag = ''-t'' then
           (case v of
              None \<Rightarrow> Crashed
            | Some x \<Rightarrow>
                if x = ''tcp'' then next server_addr (a\<lparr>m_is_tcp := True\<rparr>)
                else if x = ''udp'' then next server_addr (a\<lparr>m_is_tcp := False\<rparr>)
                else Thrown ''invalid value for -t flag: expected tcp or udp.'')
         else if flag = ''-s'' then next v a
         else if flag = ''-p'' then
           (case int_value v of
              Built n \<Rightarrow> next server_addr (a\<lparr>m_server_port := word_of_int n\<rparr>)
            | Thrown e \<Rightarrow> Thrown e | Crashed \<Rightarrow> Crashed)
         else if flag = ''-d'' then
           (case int_value v of
              Built n \<Rightarrow> next server_addr (a\<lparr>m_udp_confirm_timeout := word_of_int n\<rparr>)
            | Thrown e \<Rightarrow> Thrown e | Crashed \<Rightarrow> Crashed)
         else if flag = ''-r'' then
           (case int_value v of
              Built n \<Rightarrow> next server_addr (a\<lparr>m_udp_max_retrans_count := word_of_int n\<rparr>)
            | Thrown e \<Rightarrow> Thrown e | Crashed \<Rightarrow> Crashed)
         else if flag = ''-h'' then Built (a\<lparr>m_is_help_used := True\<rparr>)
         else next server_addr a)"

definition Args :: "(bytes \<Rightarrow> bool) \<Rightarrow> bytes list \<Rightarrow> cargs built" where
  "Args resolves argv = parse_argv resolves argv None default_args"

section \<open>The object\<close>

datatype FSM_state = S_START | S_AUTH | S_OPEN | S_JOIN

datatype Protocol_msg_type =
    M_CONFIRM | M_REPLY | M_AUTH | M_JOIN | M_MSG | M_PING | M_ERR | M_BYE | M_UNKNOWN

text \<open>
  The attributes of \<open>Client\<close>, \<open>Tcp_client\<close> and \<open>Udp_client\<close>, then what the standard library and
  the kernel hold for the process: whether standard input is polled for data, the buffer of
  \<open>std::cin\<close>, octets of the pipe that were announced but not read, and the actions of the current
  step. \<open>m_confirmed_server_messages\<close> lists the bits that are set.
\<close>

record client =
  m_args :: cargs
  m_current_state :: FSM_state
  m_user_display_name :: bytes
  m_is_waiting_for_reply :: bool
  m_msg_to_server :: bytes
  m_msg_from_server :: bytes
  m_confirmed_server_messages :: "16 word list"
  m_allowed_retransmissions :: "8 word"
  m_msg_to_server_id :: "16 word"
  m_is_waiting_for_confirm :: bool
  m_is_waiting_for_bye_confirm :: bool
  stdin_polled :: bool
  cin_buffer :: bytes
  stdin_pipe :: bytes
  emitted :: "action list"

definition Client :: "cargs \<Rightarrow> client" where
  "Client a =
     \<lparr>m_args = a, m_current_state = S_START, m_user_display_name = ''unknown'',
       m_is_waiting_for_reply = False, m_msg_to_server = [], m_msg_from_server = [],
       m_confirmed_server_messages = [], m_allowed_retransmissions = m_udp_max_retrans_count a,
       m_msg_to_server_id = 0, m_is_waiting_for_confirm = False, m_is_waiting_for_bye_confirm = False,
       stdin_polled = True, cin_buffer = [], stdin_pipe = [], emitted = []\<rparr>"

text \<open>A method returns or throws an \<open>Exception\<close>; the object keeps its changes either way.\<close>

datatype 'a cres = Value 'a | Throw bytes

type_synonym 'a C = "client \<Rightarrow> 'a cres \<times> client"

definition cret :: "'a \<Rightarrow> 'a C" where
  "cret x s = (Value x, s)"

definition cthrow :: "bytes \<Rightarrow> 'a C" where
  "cthrow e s = (Throw e, s)"

definition cbind :: "'a C \<Rightarrow> ('a \<Rightarrow> 'b C) \<Rightarrow> 'b C" where
  "cbind m f s = (case m s of (Value x, s') \<Rightarrow> f x s' | (Throw e, s') \<Rightarrow> (Throw e, s'))"

definition cget :: "(client \<Rightarrow> 'a) \<Rightarrow> 'a C" where
  "cget f s = (Value (f s), s)"

definition cset :: "(client \<Rightarrow> client) \<Rightarrow> unit C" where
  "cset f s = (Value (), f s)"

fun cseq :: "unit C list \<Rightarrow> 'b C \<Rightarrow> 'b C" where
  "cseq [] k = k"
| "cseq (m # ms) k = cbind m (\<lambda>_. cseq ms k)"

text \<open>Run with the state at hand.\<close>

definition cwith :: "(client \<Rightarrow> 'a C) \<Rightarrow> 'a C" where
  "cwith f s = f s s"

definition emit :: "action \<Rightarrow> unit C" where
  "emit a = cset (\<lambda>s. s\<lparr>emitted := emitted s @ [a]\<rparr>)"

lemmas cpp_simps = cret_def cthrow_def cbind_def cget_def cset_def cwith_def emit_def

text \<open>
  What a method guarantees: from \<open>P\<close> it returns \<open>x\<close> with \<open>Q x\<close> or throws with \<open>E\<close>.
\<close>

named_theorems cpp_intros \<open>rules for the guarantees of methods\<close>

definition ensures :: "(client \<Rightarrow> bool) \<Rightarrow> 'a C \<Rightarrow> ('a \<Rightarrow> client \<Rightarrow> bool) \<Rightarrow> (bytes \<Rightarrow> client \<Rightarrow> bool) \<Rightarrow> bool" where
  "ensures P m Q E \<longleftrightarrow> (\<forall>s. P s \<longrightarrow> (case m s of (Value x, s') \<Rightarrow> Q x s' | (Throw e, s') \<Rightarrow> E e s'))"

lemma ensuresD:
  "ensures P m Q E \<Longrightarrow> P s \<Longrightarrow> m s = (Value x, s') \<Longrightarrow> Q x s'"
  "ensures P m Q E \<Longrightarrow> P s \<Longrightarrow> m s = (Throw e, s') \<Longrightarrow> E e s'"
  by (fastforce simp: ensures_def)+

text \<open>Invariants: \<open>P\<close> is kept whether the method returns or throws.\<close>

abbreviation keeps :: "(client \<Rightarrow> bool) \<Rightarrow> 'a C \<Rightarrow> bool" where
  "keeps P m \<equiv> ensures P m (\<lambda>_. P) (\<lambda>_. P)"

lemma keeps_iff: "keeps P m \<longleftrightarrow> (\<forall>s. P s \<longrightarrow> P (snd (m s)))"
proof -
  have "(case r of (Value x, s') \<Rightarrow> P s' | (Throw e, s') \<Rightarrow> P s') = P (snd r)" for r :: "'a cres \<times> client"
    by (cases r; cases "fst r") auto
  then show ?thesis by (simp add: ensures_def)
qed

lemma keeps_ret [cpp_intros]: "keeps P (cret x)"
  by (simp add: ensures_def cret_def)

lemma keeps_throw [cpp_intros]: "keeps P (cthrow e)"
  by (simp add: ensures_def cthrow_def)

lemma keeps_bind [cpp_intros]: "keeps P m \<Longrightarrow> (\<And>x. keeps P (f x)) \<Longrightarrow> keeps P (cbind m f)"
proof -
  assume m: "keeps P m" and f: "\<And>x. keeps P (f x)"
  have "P (snd (cbind m f s))" if "P s" for s
  proof (cases "m s")
    case (Pair r s')
    with m that have "P s'" by (auto simp: keeps_iff dest: spec [of _ s])
    with Pair f show ?thesis by (cases r) (simp_all add: cbind_def keeps_iff)
  qed
  then show ?thesis by (simp add: keeps_iff)
qed

lemma keeps_seq_Nil [cpp_intros]: "keeps P k \<Longrightarrow> keeps P (cseq [] k)"
  by simp

lemma keeps_seq [cpp_intros]: "keeps P m \<Longrightarrow> keeps P (cseq ms k) \<Longrightarrow> keeps P (cseq (m # ms) k)"
  by (simp add: keeps_bind)

lemma keeps_with [cpp_intros]: "(\<And>s. keeps P (f s)) \<Longrightarrow> keeps P (cwith f)"
  by (simp add: keeps_iff cwith_def)

lemma keeps_get [cpp_intros]: "keeps P (cget f)"
  by (simp add: ensures_def cget_def)

lemma keeps_set: "(\<And>s. P s \<Longrightarrow> P (f s)) \<Longrightarrow> keeps P (cset f)"
  by (simp add: ensures_def cset_def)

lemma keeps_if [cpp_intros]: "keeps P m \<Longrightarrow> keeps P m' \<Longrightarrow> keeps P (if b then m else m')"
  by simp

lemma keeps_option [cpp_intros]:
  "keeps P m \<Longrightarrow> (\<And>x. keeps P (f x)) \<Longrightarrow> keeps P (case v of None \<Rightarrow> m | Some x \<Rightarrow> f x)"
  by (cases v) simp_all

lemma keeps_list [cpp_intros]:
  "keeps P m \<Longrightarrow> (\<And>x xs. keeps P (f x xs)) \<Longrightarrow> keeps P (case v of [] \<Rightarrow> m | x # xs \<Rightarrow> f x xs)"
  by (cases v) simp_all

lemma keeps_pair [cpp_intros]: "(\<And>x y. keeps P (f x y)) \<Longrightarrow> keeps P (case v of (x, y) \<Rightarrow> f x y)"
  by (cases v) simp

section \<open>Output, timer, polling\<close>

text \<open>\<open>std::cout << line << std::endl\<close>.\<close>

definition cout_line :: "bytes \<Rightarrow> unit C" where
  "cout_line line = emit (WriteOut (line @ [newline]))"

definition printErrMsg :: "bytes \<Rightarrow> unit C" where
  "printErrMsg err_msg = cout_line (''ERROR: '' @ err_msg)"

definition outputIncomingMsg :: "bytes \<Rightarrow> bytes \<Rightarrow> unit C" where
  "outputIncomingMsg display_name content = cout_line (display_name @ '': '' @ content)"

definition outputIncomingReply :: "bool \<Rightarrow> bytes \<Rightarrow> unit C" where
  "outputIncomingReply is_positive content =
     cout_line (''Action '' @ (if is_positive then ''Success'' else ''Failure'') @ '': '' @ content)"

definition printErrFromServer :: "bytes \<Rightarrow> bytes \<Rightarrow> unit C" where
  "printErrFromServer display_name message_content =
     cout_line (''ERROR FROM '' @ display_name @ '': '' @ message_content)"

definition printSupportedCommands :: "unit C" where
  "printSupportedCommands = cout_line
     (''Supported commands:'' @ [newline]
      @ ''/auth {Username} {Secret} {DisplayName} - client authentication (signing in) using user-provided username, display name and a password'' @ [newline]
      @ ''/join {ChannelID} - client's request to join a chat channel by its identifier'' @ [newline]
      @ ''/rename {DisplayName} - locally changes the display name of the user to be sent with new messages/selected commands'' @ [newline]
      @ ''/help - prints out supported local commands with their parameters and a description'')"

definition startTimer :: "16 word \<Rightarrow> unit C" where
  "startTimer time = emit (ArmTimer (uint time))"

definition stopTimer :: "unit C" where
  "stopTimer = emit (ArmTimer 0)"

definition disableStdinEvents :: "unit C" where
  "disableStdinEvents = cseq [cset (\<lambda>s. s\<lparr>stdin_polled := False\<rparr>)] (emit (StdinEvents False))"

definition enableStdinEvents :: "unit C" where
  "enableStdinEvents = cseq [cset (\<lambda>s. s\<lparr>stdin_polled := True\<rparr>)] (emit (StdinEvents True))"

section \<open>Limits\<close>

definition s_MSG_CONTENT_MAX_LENGTH :: nat where
  "s_MSG_CONTENT_MAX_LENGTH = 60000"

definition s_DISPLAY_NAME_MAX_LENGTH :: nat where
  "s_DISPLAY_NAME_MAX_LENGTH = 20"

text \<open>The second operand of the conjunction is a shift, read as a truth value.\<close>

definition isValidDisplayNameLength :: "32 word \<Rightarrow> bool" where
  "isValidDisplayNameLength n \<longleftrightarrow> 1 \<le> n \<and> push_bit s_DISPLAY_NAME_MAX_LENGTH n \<noteq> 0"

definition isValidMsgContentLength :: "32 word \<Rightarrow> bool" where
  "isValidMsgContentLength n \<longleftrightarrow> 1 \<le> n \<and> n \<le> of_nat s_MSG_CONTENT_MAX_LENGTH"

section \<open>Regular expressions\<close>

text \<open>The character classes of the patterns.\<close>

definition alphaNumericUnderlineDash :: "char \<Rightarrow> bool" where
  "alphaNumericUnderlineDash c \<longleftrightarrow> 97 \<le> ord c \<and> ord c \<le> 122 \<or> 65 \<le> ord c \<and> ord c \<le> 90
     \<or> is_digit c \<or> c = CHR ''_'' \<or> c = CHR ''-''"

definition printableChar :: "char \<Rightarrow> bool" where
  "printableChar c \<longleftrightarrow> 33 \<le> ord c \<and> ord c \<le> 126"

definition printableCharSpaceLf :: "char \<Rightarrow> bool" where
  "printableCharSpaceLf c \<longleftrightarrow> 32 \<le> ord c \<and> ord c \<le> 126 \<or> c = newline"

text \<open>
  The patterns are sequences of a literal or of a group \<open>([class]+)\<close>, and in each of them the
  class excludes the first character of what follows, so the longest run is the only choice.
\<close>

datatype piece = Literal bytes | Group "char \<Rightarrow> bool"

fun regex_match :: "(char \<Rightarrow> char \<Rightarrow> bool) \<Rightarrow> piece list \<Rightarrow> bytes \<Rightarrow> bytes list option" where
  "regex_match eq [] s = (if s = [] then Some [] else None)"
| "regex_match eq (Literal t # ps) s =
     (if length t \<le> length s \<and> list_all2 eq t (take (length t) s)
      then regex_match eq ps (drop (length t) s) else None)"
| "regex_match eq (Group cls # ps) s =
     (let w = takeWhile cls s in
      if w = [] then None else map_option (Cons w) (regex_match eq ps (drop (length w) s)))"

definition exact :: "char \<Rightarrow> char \<Rightarrow> bool" where
  "exact c d \<longleftrightarrow> c = d"

text \<open>\<open>toupper\<close> in the C locale, and the flag \<open>icase\<close>.\<close>

definition to_upper :: "char \<Rightarrow> char" where
  "to_upper c = (if 97 \<le> ord c \<and> ord c \<le> 122 then chr8 (ord c - 32) else c)"

definition icase :: "char \<Rightarrow> char \<Rightarrow> bool" where
  "icase c d \<longleftrightarrow> to_upper c = to_upper d"

text \<open>The patterns for user input; the literal command is group 1 in the source.\<close>

definition authCommandRegex :: "piece list" where
  "authCommandRegex = [Literal ''/auth '', Group alphaNumericUnderlineDash, Literal '' '',
     Group alphaNumericUnderlineDash, Literal '' '', Group printableChar]"

definition joinCommandRegex :: "piece list" where
  "joinCommandRegex = [Literal ''/join '', Group alphaNumericUnderlineDash]"

definition renameCommandRegex :: "piece list" where
  "renameCommandRegex = [Literal ''/rename '', Group printableChar]"

definition helpCommandRegex :: "piece list" where
  "helpCommandRegex = [Literal ''/help'']"

definition userMsgRegex :: "piece list" where
  "userMsgRegex = [Group printableCharSpaceLf]"

section \<open>The virtual methods\<close>

text \<open>
  What a subclass overrides. \<open>processStdinEvent\<close> gets the flag \<open>EPOLLHUP\<close> and what
  \<open>std::getline\<close> will return (\<open>None\<close> at end of file); \<open>processSocketEvent\<close> gets what the socket
  call will return and gives 0 or 1 to end with that status, 2 to go on.
\<close>

record client_class =
  buildErrMsg :: "bytes \<Rightarrow> unit C"
  buildAuthMsg :: "bytes \<Rightarrow> bytes \<Rightarrow> unit C"
  buildJoinMsg :: "bytes \<Rightarrow> unit C"
  buildMsgMsg :: "bytes \<Rightarrow> unit C"
  buildByeMsg :: "unit C"
  sendMsgToServer :: "unit C"
  sendByeMsgToServer :: "unit C"
  processTimerEvent :: "unit C"
  processSocketEvent :: "int \<Rightarrow> bytes \<Rightarrow> nat C"
  processStdinEvent :: "bool \<Rightarrow> bytes option \<Rightarrow> unit C"
  sigintHandler :: "unit C"

section \<open>User input\<close>

definition canSendMessageType :: "Protocol_msg_type \<Rightarrow> client \<Rightarrow> bool" where
  "canSendMessageType msg_type s =
     (if msg_type = M_AUTH then m_current_state s = S_START \<or> m_current_state s = S_AUTH
      else m_current_state s = S_OPEN)"

definition wrong_state :: bytes where
  "wrong_state = ''you can't send this type of message in the current client state.''"

definition wrong_length :: bytes where
  "wrong_length = ''invalid length of the message parameter.''"

definition reject :: "bytes \<Rightarrow> bytes list C" where
  "reject m = cseq [printErrMsg m] (cret [])"

text \<open>The chain of patterns; each branch returns the groups or prints an error.\<close>

definition parse_line :: "bytes \<Rightarrow> bytes list C" where
  "parse_line user_input = cwith (\<lambda>s.
     case regex_match exact authCommandRegex user_input of
       Some [username, secret, display_name] \<Rightarrow>
         if \<not> canSendMessageType M_AUTH s then reject wrong_state
         else if 20 < length username \<or> 128 < length secret \<or> \<not> isValidDisplayNameLength (of_nat (length display_name))
         then reject wrong_length
         else cret [''/auth'', username, secret, display_name]
     | _ \<Rightarrow>
     (case regex_match exact joinCommandRegex user_input of
       Some [channel_id] \<Rightarrow>
         if \<not> canSendMessageType M_JOIN s then reject wrong_state
         else if 20 < length channel_id then reject wrong_length
         else cret [''/join'', channel_id]
     | _ \<Rightarrow>
     (case regex_match exact renameCommandRegex user_input of
       Some [display_name] \<Rightarrow>
         if m_current_state s = S_JOIN
         then reject ''you can't rename yourself in the current application state.''
         else if \<not> isValidDisplayNameLength (of_nat (length display_name)) then reject wrong_length
         else cret [''/rename'', display_name]
     | _ \<Rightarrow>
     (case regex_match exact helpCommandRegex user_input of
       Some _ \<Rightarrow> cret [user_input]
     | None \<Rightarrow>
     (case (if user_input \<noteq> [] \<and> hd user_input \<noteq> CHR ''/'' then regex_match exact userMsgRegex user_input else None) of
       Some [content] \<Rightarrow>
         if \<not> canSendMessageType M_MSG s then reject wrong_state
         else if \<not> isValidMsgContentLength (of_nat (length content)) then reject wrong_length
         else cret [content]
     | _ \<Rightarrow> reject ''invalid user input.'')))))"

definition parseUserInput :: "client_class \<Rightarrow> bytes option \<Rightarrow> bytes list C" where
  "parseUserInput cls input = (case input of
     None \<Rightarrow> cseq [sendByeMsgToServer cls]
       (cwith (\<lambda>s. if m_is_tcp (m_args s) then cthrow [] else cret []))
   | Some user_input \<Rightarrow> parse_line user_input)"

definition getUserMsgType :: "bytes \<Rightarrow> Protocol_msg_type" where
  "getUserMsgType command =
     (if command = ''/auth'' then M_AUTH else if command = ''/join'' then M_JOIN else M_MSG)"

definition processNonMsgToServer :: "bytes list \<Rightarrow> bool C" where
  "processNonMsgToServer user_input =
     (if user_input ! 0 = ''/rename'' then
        cseq [cset (\<lambda>s. s\<lparr>m_user_display_name := user_input ! 1\<rparr>)] (cret True)
      else if user_input ! 0 = ''/help'' then cseq [printSupportedCommands] (cret True)
      else cret False)"

definition buildUserMsgToServer :: "client_class \<Rightarrow> bytes list \<Rightarrow> unit C" where
  "buildUserMsgToServer cls user_input =
     (if getUserMsgType (user_input ! 0) = M_AUTH then buildAuthMsg cls (user_input ! 1) (user_input ! 2)
      else if getUserMsgType (user_input ! 0) = M_JOIN then buildJoinMsg cls (user_input ! 1)
      else buildMsgMsg cls (user_input ! 0))"

end
