(* ===== verification/Tcp_Client.thy ===== *)
theory Tcp_Client
  imports Client_Base
begin

text \<open>
  The C++ client, part two: \<open>tcp-client.cpp\<close>, one definition per method, and the class
  \<open>tcp_methods\<close> they form. The socket delivers a stream; \<open>receive_loop\<close> takes the complete
  messages out of the buffer.
\<close>

section \<open>Building and sending\<close>

definition tcp_buildJoinMsg :: "bytes \<Rightarrow> unit C" where
  "tcp_buildJoinMsg channel_id = cset (\<lambda>s. s\<lparr>m_msg_to_server :=
     ''JOIN '' @ channel_id @ '' AS '' @ m_user_display_name s @ crlf\<rparr>)"

definition tcp_buildMsgMsg :: "bytes \<Rightarrow> unit C" where
  "tcp_buildMsgMsg user_msg = cset (\<lambda>s. s\<lparr>m_msg_to_server :=
     ''MSG FROM '' @ m_user_display_name s @ '' IS '' @ user_msg @ crlf\<rparr>)"

definition tcp_buildAuthMsg :: "bytes \<Rightarrow> bytes \<Rightarrow> unit C" where
  "tcp_buildAuthMsg username secret = cset (\<lambda>s. s\<lparr>m_msg_to_server :=
     ''AUTH '' @ username @ '' AS '' @ m_user_display_name s @ '' USING '' @ secret @ crlf\<rparr>)"

definition tcp_buildErrMsg :: "bytes \<Rightarrow> unit C" where
  "tcp_buildErrMsg content = cset (\<lambda>s. s\<lparr>m_msg_to_server :=
     ''ERR FROM '' @ m_user_display_name s @ '' IS '' @ content @ crlf\<rparr>)"

definition tcp_buildByeMsg :: "unit C" where
  "tcp_buildByeMsg = cset (\<lambda>s. s\<lparr>m_msg_to_server := ''BYE FROM '' @ m_user_display_name s @ crlf\<rparr>)"

definition tcp_sendMsgToServer :: "unit C" where
  "tcp_sendMsgToServer = cwith (\<lambda>s. emit (SendStream (m_msg_to_server s)))"

definition tcp_sendByeMsgToServer :: "unit C" where
  "tcp_sendByeMsgToServer = cseq [tcp_buildByeMsg] tcp_sendMsgToServer"

definition sendErrMsgAndTerminate :: "bytes \<Rightarrow> 'a C" where
  "sendErrMsgAndTerminate err_msg = cseq [tcp_buildErrMsg err_msg, tcp_sendMsgToServer] (cthrow err_msg)"

section \<open>Messages from the server\<close>

definition s_MAX_MSG_SIZE :: nat where
  "s_MAX_MSG_SIZE = length ''MSG FROM'' + length '' '' + s_DISPLAY_NAME_MAX_LENGTH + length '' IS ''
     + s_MSG_CONTENT_MAX_LENGTH + 2"

definition getServerMsgType :: "bytes \<Rightarrow> Protocol_msg_type" where
  "getServerMsgType msg_from_server =
     (if 3 \<le> length msg_from_server then
        let prefix = map to_upper (take 5 msg_from_server) in
        if starts_with ''MSG'' prefix then M_MSG
        else if starts_with ''ERR'' prefix then M_ERR
        else if starts_with ''BYE'' prefix then M_BYE
        else if starts_with ''REPLY'' prefix then M_REPLY
        else M_UNKNOWN
      else M_UNKNOWN)"

text \<open>The pattern of a \<open>REPLY\<close> has the alternative \<open>(OK|NOK)\<close> as its first group.\<close>

definition match_reply :: "bytes \<Rightarrow> (bool \<times> bytes) option" where
  "match_reply s =
     (case regex_match icase [Literal ''REPLY OK IS '', Group printableCharSpaceLf, Literal crlf] s of
        Some [content] \<Rightarrow> Some (True, content)
      | _ \<Rightarrow> (case regex_match icase [Literal ''REPLY NOK IS '', Group printableCharSpaceLf, Literal crlf] s of
          Some [content] \<Rightarrow> Some (False, content)
        | _ \<Rightarrow> None))"

definition msgMsgRegex :: "piece list" where
  "msgMsgRegex = [Literal ''MSG FROM '', Group printableChar, Literal '' IS '', Group printableCharSpaceLf, Literal crlf]"

definition errMsgRegex :: "piece list" where
  "errMsgRegex = [Literal ''ERR FROM '', Group printableChar, Literal '' IS '', Group printableCharSpaceLf, Literal crlf]"

definition byeMsgRegex :: "piece list" where
  "byeMsgRegex = [Literal ''BYE FROM '', Group printableChar, Literal crlf]"

definition tcp_processServerReplyMsg :: "bytes \<Rightarrow> unit C" where
  "tcp_processServerReplyMsg reply_msg = cwith (\<lambda>s.
     if m_current_state s \<noteq> S_AUTH \<and> m_current_state s \<noteq> S_JOIN
     then sendErrMsgAndTerminate ''received a REPLY message in unexpected state.''
     else if m_is_waiting_for_reply s then
       (case match_reply reply_msg of
          Some (is_positive_reply, content) \<Rightarrow>
            if isValidMsgContentLength (of_nat (length content)) then
              cseq [stopTimer,
                    outputIncomingReply is_positive_reply content,
                    cset (\<lambda>s. if m_current_state s = S_JOIN \<or> is_positive_reply
                              then s\<lparr>m_current_state := S_OPEN\<rparr> else s),
                    cset (\<lambda>s. s\<lparr>m_is_waiting_for_reply := False\<rparr>)]
              enableStdinEvents
            else sendErrMsgAndTerminate ''received a malformed REPLY message from the server.''
        | None \<Rightarrow> sendErrMsgAndTerminate ''received a malformed REPLY message from the server.'')
     else sendErrMsgAndTerminate ''didn't expect any reply message from the server.'')"

definition tcp_processServerMsgMsg :: "bytes \<Rightarrow> unit C" where
  "tcp_processServerMsgMsg m = (case regex_match icase msgMsgRegex m of
     Some [display_name, content] \<Rightarrow>
       if isValidDisplayNameLength (of_nat (length display_name)) \<and> isValidMsgContentLength (of_nat (length content))
       then outputIncomingMsg display_name content
       else sendErrMsgAndTerminate ''received a malformed MSG message from the server.''
   | _ \<Rightarrow> sendErrMsgAndTerminate ''received a malformed MSG message from the server.'')"

definition tcp_processServerErrMsg :: "bytes \<Rightarrow> unit C" where
  "tcp_processServerErrMsg m = (case regex_match icase errMsgRegex m of
     Some [display_name, content] \<Rightarrow>
       if isValidDisplayNameLength (of_nat (length display_name)) \<and> isValidMsgContentLength (of_nat (length content))
       then printErrFromServer display_name content
       else sendErrMsgAndTerminate ''received a malformed ERR message from the server.''
   | _ \<Rightarrow> sendErrMsgAndTerminate ''received a malformed ERR message from the server.'')"

definition tcp_processServerByeMsg :: "bytes \<Rightarrow> unit C" where
  "tcp_processServerByeMsg m = (case regex_match icase byeMsgRegex m of
     Some [display_name] \<Rightarrow>
       if isValidDisplayNameLength (of_nat (length display_name)) then cret ()
       else sendErrMsgAndTerminate ''received a malformed BYE message from the server.''
   | _ \<Rightarrow> sendErrMsgAndTerminate ''received a malformed BYE message from the server.'')"

text \<open>The type is taken from the whole buffer, the contents from the single message.\<close>

definition tcp_processMessageFromServer :: "bytes \<Rightarrow> nat C" where
  "tcp_processMessageFromServer msg_from_server = cwith (\<lambda>s.
     let type_of_msg = getServerMsgType (m_msg_from_server s) in
     if type_of_msg = M_UNKNOWN then
       sendErrMsgAndTerminate ''only messages of types BYE, ERR, MSG and REPLY are expected to be received from the server.''
     else if type_of_msg = M_BYE then cseq [tcp_processServerByeMsg msg_from_server] (cret 0)
     else if type_of_msg = M_ERR then cseq [tcp_processServerErrMsg msg_from_server] (cret 1)
     else cseq [case m_current_state s of
         S_START \<Rightarrow> sendErrMsgAndTerminate ''only messages of types BYE and ERR are expected to be received from the server in the client's START state.''
       | S_AUTH \<Rightarrow>
           if type_of_msg = M_REPLY then tcp_processServerReplyMsg msg_from_server
           else sendErrMsgAndTerminate ''only messages of types BYE, ERR and REPLY are expected to be received from the server in the client's AUTH state.''
       | S_OPEN \<Rightarrow>
           if type_of_msg = M_MSG then tcp_processServerMsgMsg msg_from_server
           else sendErrMsgAndTerminate ''only messages of types BYE, ERR and MSG are expected to be received from the server in the client's OPEN state.''
       | S_JOIN \<Rightarrow>
           if type_of_msg = M_REPLY then tcp_processServerReplyMsg msg_from_server
           else if type_of_msg = M_MSG then tcp_processServerMsgMsg msg_from_server
           else sendErrMsgAndTerminate ''only messages of types BYE, ERR, MSG and REPLY are expected to be received from the server in the client's JOIN state.'']
     (cret 2))"

text \<open>\<open>m_msg_from_server.find("\r\n")\<close>.\<close>

fun find_eom :: "bytes \<Rightarrow> nat option" where
  "find_eom (c # d # cs) =
     (if c = CHR 0x0D \<and> d = CHR 0x0A then Some 0 else map_option Suc (find_eom (d # cs)))"
| "find_eom _ = None"

lemma find_eom_bound: "find_eom s = Some n \<Longrightarrow> n + 2 \<le> length s"
  by (induction s arbitrary: n rule: find_eom.induct) (auto split: if_splits)

lemma keeps_state [cpp_intros]:
  "keeps P a \<Longrightarrow> keeps P b \<Longrightarrow> keeps P c \<Longrightarrow> keeps P d
   \<Longrightarrow> keeps P (case st of S_START \<Rightarrow> a | S_AUTH \<Rightarrow> b | S_OPEN \<Rightarrow> c | S_JOIN \<Rightarrow> d)"
  by (cases st) simp_all

lemmas tcp_message_defs = tcp_processMessageFromServer_def tcp_processServerByeMsg_def
  tcp_processServerErrMsg_def tcp_processServerMsgMsg_def tcp_processServerReplyMsg_def
  sendErrMsgAndTerminate_def tcp_buildErrMsg_def tcp_sendMsgToServer_def printErrFromServer_def
  outputIncomingMsg_def outputIncomingReply_def cout_line_def emit_def stopTimer_def
  enableStdinEvents_def Let_def

lemma message_keeps_buffer:
  "keeps (\<lambda>s. m_msg_from_server s = b) (tcp_processMessageFromServer m)"
  unfolding tcp_message_defs by (intro cpp_intros keeps_set) simp_all

lemma message_buffer:
  "m_msg_from_server (snd (tcp_processMessageFromServer m s)) = m_msg_from_server s"
  using message_keeps_buffer [of "m_msg_from_server s" m] by (simp add: keeps_iff)

text \<open>The \<open>while\<close> loop of \<open>processSocketEvent\<close>.\<close>

function receive_loop :: "nat C" where
  "receive_loop s = (case find_eom (m_msg_from_server s) of
     None \<Rightarrow> (Value 2, s)
   | Some n \<Rightarrow>
       let single_msg = take (n + 2) (m_msg_from_server s) in
       if s_MAX_MSG_SIZE < length single_msg then sendErrMsgAndTerminate ''too long message from server.'' s
       else (case tcp_processMessageFromServer single_msg s of
           (Throw e, s') \<Rightarrow> (Throw e, s')
         | (Value result, s') \<Rightarrow>
             if result = 0 \<or> result = 1 then (Value result, s')
             else receive_loop (s'\<lparr>m_msg_from_server := drop (n + 2) (m_msg_from_server s')\<rparr>)))"
  by pat_completeness auto
termination
proof (relation "measure (\<lambda>s. length (m_msg_from_server s))")
  fix s n x r s' v
  assume "find_eom (m_msg_from_server s) = Some n" "x = take (n + 2) (m_msg_from_server s)"
    "(r, s') = tcp_processMessageFromServer x s"
  with find_eom_bound [of "m_msg_from_server s" n] message_buffer [of x s]
  show "(s'\<lparr>m_msg_from_server := drop (n + 2) (m_msg_from_server s')\<rparr>, s)
      \<in> measure (\<lambda>s. length (m_msg_from_server s))"
    by (auto dest: arg_cong [of _ _ snd])
qed simp

declare receive_loop.simps [simp del]

text \<open>One call of \<open>recv\<close> returned \<open>data\<close>; nothing means that the server closed the connection.\<close>

definition tcp_processSocketEvent :: "int \<Rightarrow> bytes \<Rightarrow> nat C" where
  "tcp_processSocketEvent src data =
     (if data = [] then cret 0
      else cseq [cset (\<lambda>s. s\<lparr>m_msg_from_server := m_msg_from_server s @ data\<rparr>)]
        (cbind receive_loop (\<lambda>result.
          if result = 0 \<or> result = 1 then cret result
          else cwith (\<lambda>s. if s_MAX_MSG_SIZE \<le> length (m_msg_from_server s)
            then sendErrMsgAndTerminate ''too long message from server.'' else cret 2))))"

section \<open>Input, timer, signal\<close>

definition tcp_processTimerEvent :: "unit C" where
  "tcp_processTimerEvent = cwith (\<lambda>s.
     if m_is_waiting_for_reply s then sendErrMsgAndTerminate ''waited too long for the server's reply.''
     else cthrow ''timer event, but waiting_for_reply is false.'')"

definition tcp_sigintHandler :: "unit C" where
  "tcp_sigintHandler = cseq [tcp_sendByeMsgToServer] (cthrow [])"

text \<open>The body of \<open>processStdinEvent\<close> once the input is parsed into a command or a message.\<close>

definition tcp_user_action :: "client_class \<Rightarrow> bytes list \<Rightarrow> unit C" where
  "tcp_user_action cls user_input =
     cseq [cset (\<lambda>s. if user_input ! 0 = ''/auth'' then s\<lparr>m_user_display_name := user_input ! 3\<rparr> else s),
           cset (\<lambda>s. if user_input ! 0 = ''/join'' then s\<lparr>m_current_state := S_JOIN\<rparr> else s),
           buildUserMsgToServer cls user_input,
           sendMsgToServer cls,
           cset (\<lambda>s. if user_input ! 0 = ''/auth'' \<and> m_current_state s = S_START
                     then s\<lparr>m_current_state := S_AUTH\<rparr> else s)]
     (if user_input ! 0 = ''/auth'' \<or> user_input ! 0 = ''/join'' then
        cseq [disableStdinEvents, startTimer 5000] (cset (\<lambda>s. s\<lparr>m_is_waiting_for_reply := True\<rparr>))
      else cret ())"

definition tcp_on_input :: "client_class \<Rightarrow> bool \<Rightarrow> bytes option \<Rightarrow> unit C" where
  "tcp_on_input cls hup input =
     (if hup then cseq [sendByeMsgToServer cls] (cthrow [])
      else cbind (parseUserInput cls input) (\<lambda>user_input.
        if user_input = [] then cret ()
        else cbind (processNonMsgToServer user_input) (\<lambda>handled.
          if handled then cret () else tcp_user_action cls user_input)))"

text \<open>The class. Its methods call each other through it, as virtual methods do.\<close>

definition tcp_builders :: client_class where
  "tcp_builders =
     \<lparr>buildErrMsg = tcp_buildErrMsg, buildAuthMsg = tcp_buildAuthMsg, buildJoinMsg = tcp_buildJoinMsg,
       buildMsgMsg = tcp_buildMsgMsg, buildByeMsg = tcp_buildByeMsg,
       sendMsgToServer = tcp_sendMsgToServer, sendByeMsgToServer = tcp_sendByeMsgToServer,
       processTimerEvent = tcp_processTimerEvent, processSocketEvent = tcp_processSocketEvent,
       processStdinEvent = (\<lambda>_ _. cret ()), sigintHandler = tcp_sigintHandler\<rparr>"

definition tcp_processStdinEvent :: "bool \<Rightarrow> bytes option \<Rightarrow> unit C" where
  "tcp_processStdinEvent = tcp_on_input tcp_builders"

definition tcp_methods :: client_class where
  "tcp_methods = tcp_builders\<lparr>processStdinEvent := tcp_processStdinEvent\<rparr>"

end
