(* ===== verification/Udp_Client.thy ===== *)
theory Udp_Client
  imports Client_Base
begin

text \<open>
  The C++ client, part three: \<open>udp-client.cpp\<close>, one definition per method, and the class
  \<open>udp_methods\<close> they form: confirmations, retransmission, the dynamic server port.
\<close>

section \<open>Identifiers\<close>

text \<open>\<open>htons\<close> and the two octets it leaves in memory; reading them back.\<close>

definition id_octets :: "16 word \<Rightarrow> bytes" where
  "id_octets n = [chr8 (uint n div 256), chr8 (uint n mod 256)]"

definition octets_id :: "char \<Rightarrow> char \<Rightarrow> 16 word" where
  "octets_id hi lo = word_of_int (256 * ord hi + ord lo)"

definition getMsgId :: "bytes \<Rightarrow> 16 word" where
  "getMsgId m = octets_id (m ! 1) (m ! 2)"

definition getRefMsgId :: "bytes \<Rightarrow> 16 word" where
  "getRefMsgId m = octets_id (m ! 4) (m ! 5)"

text \<open>\<open>msg[0]\<close> of an empty \<open>std::string\<close> is NUL.\<close>

definition first_octet :: "bytes \<Rightarrow> char" where
  "first_octet m = (case m of [] \<Rightarrow> CHR 0x00 | c # _ \<Rightarrow> c)"

section \<open>Building and sending\<close>

definition with_id :: "char \<Rightarrow> (client \<Rightarrow> bytes) \<Rightarrow> unit C" where
  "with_id t payload = cset (\<lambda>s. s\<lparr>m_msg_to_server := [t] @ id_octets (m_msg_to_server_id s) @ payload s\<rparr>)"

definition udp_buildErrMsg :: "bytes \<Rightarrow> unit C" where
  "udp_buildErrMsg content =
     cseq [cset (\<lambda>s. s\<lparr>m_msg_to_server_id := m_msg_to_server_id s + 1\<rparr>)]
     (with_id (CHR 0xFE) (\<lambda>s. m_user_display_name s @ [CHR 0x00] @ content @ [CHR 0x00]))"

definition udp_buildAuthMsg :: "bytes \<Rightarrow> bytes \<Rightarrow> unit C" where
  "udp_buildAuthMsg username secret =
     with_id (CHR 0x02) (\<lambda>s. username @ [CHR 0x00] @ m_user_display_name s @ [CHR 0x00] @ secret @ [CHR 0x00])"

definition udp_buildJoinMsg :: "bytes \<Rightarrow> unit C" where
  "udp_buildJoinMsg channel_id =
     with_id (CHR 0x03) (\<lambda>s. channel_id @ [CHR 0x00] @ m_user_display_name s @ [CHR 0x00])"

definition udp_buildMsgMsg :: "bytes \<Rightarrow> unit C" where
  "udp_buildMsgMsg user_msg =
     with_id (CHR 0x04) (\<lambda>s. m_user_display_name s @ [CHR 0x00] @ user_msg @ [CHR 0x00])"

definition udp_buildByeMsg :: "unit C" where
  "udp_buildByeMsg =
     cseq [cset (\<lambda>s. s\<lparr>m_msg_to_server_id := m_msg_to_server_id s + 1\<rparr>)]
     (with_id (CHR 0xFF) (\<lambda>s. m_user_display_name s @ [CHR 0x00]))"

definition send_to_server :: "bytes \<Rightarrow> unit C" where
  "send_to_server d = cwith (\<lambda>s. emit (SendTo (uint (m_server_addr (m_args s))) d))"

definition udp_sendMsgToServer :: "unit C" where
  "udp_sendMsgToServer = cwith (\<lambda>s. send_to_server (m_msg_to_server s))"

definition start_confirm_timer :: "unit C" where
  "start_confirm_timer = cwith (\<lambda>s. startTimer (m_udp_confirm_timeout (m_args s)))"

definition reset_retransmissions :: "client \<Rightarrow> client" where
  "reset_retransmissions s = s\<lparr>m_allowed_retransmissions := m_udp_max_retrans_count (m_args s)\<rparr>"

definition udp_sendByeMsgToServer :: "unit C" where
  "udp_sendByeMsgToServer =
     cseq [udp_buildByeMsg, udp_sendMsgToServer, disableStdinEvents, start_confirm_timer]
     (cset (\<lambda>s. reset_retransmissions (s\<lparr>m_is_waiting_for_confirm := False, m_is_waiting_for_reply := False,
        m_is_waiting_for_bye_confirm := True\<rparr>)))"

text \<open>
  The text printed is the tail of the datagram that is sent, without the leading \<open>ERROR:\<close> but
  with the terminating NUL.
\<close>

definition sendErrMsg :: "bytes \<Rightarrow> unit C" where
  "sendErrMsg err_msg =
     cseq [udp_buildErrMsg err_msg,
           cwith (\<lambda>s. printErrMsg (drop (3 + length (m_user_display_name s) + 1 + length ''ERROR: '') (m_msg_to_server s))),
           udp_sendMsgToServer, disableStdinEvents, start_confirm_timer]
     (cset (\<lambda>s. s\<lparr>m_is_waiting_for_confirm := True, m_is_waiting_for_reply := False\<rparr>))"

definition sendConfirmMsg :: "16 word \<Rightarrow> unit C" where
  "sendConfirmMsg ref_msg_id =
     cseq [send_to_server ([CHR 0x00] @ id_octets ref_msg_id)]
     (cset (\<lambda>s. s\<lparr>m_confirmed_server_messages := ref_msg_id # m_confirmed_server_messages s\<rparr>))"

section \<open>Messages from the server\<close>

definition udp_MAX_MSG_SIZE :: nat where
  "udp_MAX_MSG_SIZE = 3 + 1 + 2 + s_MSG_CONTENT_MAX_LENGTH + 1"

definition udp_errMsgRegex :: "piece list" where
  "udp_errMsgRegex = [Group printableChar, Literal [CHR 0x00], Group printableCharSpaceLf, Literal [CHR 0x00]]"

definition udp_byeMsgRegex :: "piece list" where
  "udp_byeMsgRegex = [Group printableChar, Literal [CHR 0x00]]"

definition udp_replyMsgRegex :: "piece list" where
  "udp_replyMsgRegex = [Group printableCharSpaceLf, Literal [CHR 0x00]]"

definition isValidMsgMsgLength :: "nat \<Rightarrow> bool" where
  "isValidMsgMsgLength n \<longleftrightarrow> 3 + 1 + 1 + 1 + 1 \<le> n
     \<and> n \<le> 3 + s_DISPLAY_NAME_MAX_LENGTH + 1 + s_MSG_CONTENT_MAX_LENGTH + 1"

definition isValidByeMsgLength :: "nat \<Rightarrow> bool" where
  "isValidByeMsgLength n \<longleftrightarrow> 3 + 1 + 1 \<le> n \<and> n \<le> 3 + s_DISPLAY_NAME_MAX_LENGTH + 1"

definition isValidReplyMsgLength :: "nat \<Rightarrow> bool" where
  "isValidReplyMsgLength n \<longleftrightarrow> 3 + 1 + 2 + 1 + 1 \<le> n \<and> n \<le> 1 + 2 + 1 + 2 + s_MSG_CONTENT_MAX_LENGTH + 1"

text \<open>\<open>isValidMsgMsg\<close> and \<open>isValidErrMsg\<close> print the message they accept.\<close>

definition isValidMsgMsg :: "bytes \<Rightarrow> bool C" where
  "isValidMsgMsg m =
     (if \<not> isValidMsgMsgLength (length m) \<or> first_octet m \<noteq> CHR 0x04 then cret False
      else (case regex_match exact udp_errMsgRegex (drop 3 m) of
          Some [display_name, content] \<Rightarrow>
            if isValidDisplayNameLength (of_nat (length display_name)) \<and> isValidMsgContentLength (of_nat (length content))
            then cwith (\<lambda>s. cseq (if getMsgId m \<in> set (m_confirmed_server_messages s) then []
                                  else [outputIncomingMsg display_name content]) (cret True))
            else cret False
        | _ \<Rightarrow> cret False))"

definition isValidErrMsg :: "bytes \<Rightarrow> bool C" where
  "isValidErrMsg m =
     (if \<not> isValidMsgMsgLength (length m) \<or> first_octet m \<noteq> CHR 0xFE then cret False
      else (case regex_match exact udp_errMsgRegex (drop 3 m) of
          Some [display_name, content] \<Rightarrow>
            if isValidDisplayNameLength (of_nat (length display_name)) \<and> isValidMsgContentLength (of_nat (length content))
            then cseq [printErrFromServer display_name content] (cret True)
            else cret False
        | _ \<Rightarrow> cret False))"

definition isValidByeMsg :: "bytes \<Rightarrow> bool" where
  "isValidByeMsg m \<longleftrightarrow> isValidByeMsgLength (length m) \<and> first_octet m = CHR 0xFF
     \<and> regex_match exact udp_byeMsgRegex (drop 3 m) \<noteq> None"

definition isValidReplyMsg :: "bytes \<Rightarrow> bool" where
  "isValidReplyMsg m \<longleftrightarrow> isValidReplyMsgLength (length m) \<and> first_octet m = CHR 0x01
     \<and> (m ! 3 = CHR 0x00 \<or> m ! 3 = CHR 0x01)
     \<and> regex_match exact udp_replyMsgRegex (drop 6 m) \<noteq> None"

definition isValidConfirmMsg :: "bytes \<Rightarrow> bool" where
  "isValidConfirmMsg m \<longleftrightarrow> first_octet m = CHR 0x00 \<and> length m = 3"

definition udp_processServerMsgMsg :: "bytes \<Rightarrow> unit C" where
  "udp_processServerMsgMsg m = cbind (isValidMsgMsg m) (\<lambda>ok.
     if ok then sendConfirmMsg (getMsgId m)
     else sendErrMsg ''ERROR: received a malformed MSG message from the server.'')"

definition processServerPingMsg :: "bytes \<Rightarrow> unit C" where
  "processServerPingMsg m =
     (if length m = 3 then sendConfirmMsg (getMsgId m)
      else sendErrMsg ''ERROR: received a malformed PING message from the server.'')"

definition udp_processServerByeMsg :: "bytes \<Rightarrow> nat C" where
  "udp_processServerByeMsg m =
     (if isValidByeMsg m then cseq [sendConfirmMsg (getMsgId m)] (cret 0)
      else cseq [sendErrMsg ''ERROR: received a malformed BYE message from the server.''] (cret 2))"

definition udp_processServerErrMsg :: "bytes \<Rightarrow> nat C" where
  "udp_processServerErrMsg m = cbind (isValidErrMsg m) (\<lambda>ok.
     if ok then cseq [sendConfirmMsg (getMsgId m)] (cret 1)
     else cseq [sendErrMsg ''ERROR: received a malformed ERR message from the server.''] (cret 2))"

text \<open>The identifier is compared after promotion to \<open>int\<close>, so \<open>0 - 1\<close> is \<open>-1\<close>.\<close>

definition udp_processServerReplyMsg :: "int \<Rightarrow> bytes \<Rightarrow> unit C" where
  "udp_processServerReplyMsg src m = cwith (\<lambda>s.
     if m_current_state s \<noteq> S_AUTH \<and> m_current_state s \<noteq> S_JOIN
     then sendErrMsg ''ERROR: received a REPLY message in unexpected state.''
     else if isValidReplyMsg m then
       cseq [cset (\<lambda>s. if m_current_state s = S_AUTH
                       then s\<lparr>m_args := (m_args s)\<lparr>m_server_addr := word_of_int src\<rparr>\<rparr> else s)]
       (cwith (\<lambda>s.
          if m_is_waiting_for_reply s \<and> uint (m_msg_to_server_id s) - 1 = uint (getRefMsgId m) then
            cseq ([stopTimer]
                  @ (if getMsgId m \<in> set (m_confirmed_server_messages s) then []
                     else [outputIncomingReply (m ! 3 \<noteq> CHR 0x00) (takeWhile (\<lambda>c. c \<noteq> CHR 0x00) (drop 6 m))])
                  @ [sendConfirmMsg (getMsgId m),
                     cset (\<lambda>s. if m_current_state s = S_JOIN \<or> m ! 3 \<noteq> CHR 0x00
                               then s\<lparr>m_current_state := S_OPEN\<rparr> else s),
                     cset (\<lambda>s. s\<lparr>m_is_waiting_for_reply := False\<rparr>)])
            enableStdinEvents
          else cret ()))
     else sendErrMsg ''ERROR: received a malformed REPLY message from the server.'')"

definition confirmed_request :: "client \<Rightarrow> client" where
  "confirmed_request s =
     (reset_retransmissions (s\<lparr>m_is_waiting_for_confirm := False, m_is_waiting_for_reply := True\<rparr>))
       \<lparr>m_msg_to_server_id := m_msg_to_server_id s + 1\<rparr>"

definition processServerConfirmMsg :: "bytes \<Rightarrow> nat C" where
  "processServerConfirmMsg m = cwith (\<lambda>s.
     if isValidConfirmMsg m then
       (if getMsgId m = m_msg_to_server_id s then
          let sent = first_octet (m_msg_to_server s) in
          if sent = CHR 0xFF then cret 0
          else if sent = CHR 0xFE then cret 1
          else cseq (case m_current_state s of
              S_AUTH \<Rightarrow> if sent = CHR 0x02 then [cset confirmed_request, startTimer 5000] else []
            | S_OPEN \<Rightarrow>
                if sent = CHR 0x04 then
                  [stopTimer,
                   cset (\<lambda>s. (reset_retransmissions (s\<lparr>m_is_waiting_for_confirm := False\<rparr>))
                            \<lparr>m_msg_to_server_id := m_msg_to_server_id s + 1\<rparr>),
                   enableStdinEvents]
                else if sent = CHR 0x03 then
                  [cset (\<lambda>s. (confirmed_request s)\<lparr>m_current_state := S_JOIN\<rparr>), startTimer 5000]
                else []
            | _ \<Rightarrow> [])
          (cret 2)
        else cret 2)
     else cseq [sendErrMsg ''ERROR: received a malformed CONFIRM message from the server.''] (cret 2))"

definition udp_processMessageFromServer :: "int \<Rightarrow> bytes \<Rightarrow> nat C" where
  "udp_processMessageFromServer src m = (let t = first_octet m in
     if t = CHR 0xFF then udp_processServerByeMsg m
     else if t = CHR 0xFE then udp_processServerErrMsg m
     else cwith (\<lambda>s.
       if t = CHR 0x00 then processServerConfirmMsg m
       else cseq [case m_current_state s of
           S_START \<Rightarrow> sendErrMsg ''ERROR: only messages of types BYE, ERR or CONFIRM are expected to be received from the server in the client's START state.''
         | S_AUTH \<Rightarrow>
             if t = CHR 0x01 then udp_processServerReplyMsg src m
             else if t = CHR 0xFD then processServerPingMsg m
             else sendErrMsg ''ERROR: only messages of types BYE, ERR, CONFIRM, PING and REPLY are expected to be received from the server in the client's AUTH state.''
         | S_OPEN \<Rightarrow>
             if t = CHR 0x04 then udp_processServerMsgMsg m
             else if t = CHR 0xFD then processServerPingMsg m
             else sendErrMsg ''ERROR: only messages of types BYE, ERR, CONFIRM, PING, JOIN and MSG are expected to be received from the server in the client's OPEN state.''
         | S_JOIN \<Rightarrow>
             if t = CHR 0x04 then udp_processServerMsgMsg m
             else if t = CHR 0xFD then processServerPingMsg m
             else if t = CHR 0x01 then udp_processServerReplyMsg src m
             else sendErrMsg ''ERROR: only messages of types BYE, ERR, CONFIRM, PING, REPLY and MSG are expected to be received from the server in the client's JOIN state.'']
       (cret 2)))"

definition udp_processSocketEvent :: "int \<Rightarrow> bytes \<Rightarrow> nat C" where
  "udp_processSocketEvent src data =
     (if udp_MAX_MSG_SIZE < length (take (udp_MAX_MSG_SIZE + 1) data)
      then cseq [sendErrMsg ''ERROR: too long message from server.''] (cret 2)
      else udp_processMessageFromServer src data)"

section \<open>Input, timer, signal\<close>

definition udp_processTimerEvent :: "unit C" where
  "udp_processTimerEvent = cwith (\<lambda>s.
     if m_is_waiting_for_confirm s \<or> m_is_waiting_for_bye_confirm s then
       (if m_allowed_retransmissions s = 0 then cthrow ''exceeded udp max retransmission number.''
        else cseq [udp_sendMsgToServer, start_confirm_timer]
          (cset (\<lambda>s. s\<lparr>m_allowed_retransmissions := m_allowed_retransmissions s - 1\<rparr>)))
     else if m_is_waiting_for_reply s then sendErrMsg ''ERROR: waited too long for the server's reply.''
     else cthrow ''timer event, but m_is_waiting_for_confirm and m_is_waiting_for_reply are false.'')"

definition udp_sigintHandler :: "unit C" where
  "udp_sigintHandler = udp_sendByeMsgToServer"

definition udp_user_action :: "client_class \<Rightarrow> bytes list \<Rightarrow> unit C" where
  "udp_user_action cls user_input =
     cseq [cset (\<lambda>s. if user_input ! 0 = ''/auth'' then s\<lparr>m_user_display_name := user_input ! 3\<rparr> else s),
           buildUserMsgToServer cls user_input,
           sendMsgToServer cls,
           cset (\<lambda>s. if user_input ! 0 = ''/auth'' \<and> m_current_state s = S_START
                     then s\<lparr>m_current_state := S_AUTH\<rparr> else s),
           disableStdinEvents,
           cset (\<lambda>s. s\<lparr>m_is_waiting_for_confirm := True,
                       m_is_waiting_for_reply := (user_input ! 0 = ''/auth'' \<or> user_input ! 0 = ''/join'')\<rparr>)]
     start_confirm_timer"

definition udp_on_input :: "client_class \<Rightarrow> bool \<Rightarrow> bytes option \<Rightarrow> unit C" where
  "udp_on_input cls hup input =
     (if hup then sendByeMsgToServer cls
      else cbind (parseUserInput cls input) (\<lambda>user_input.
        if user_input = [] then cret ()
        else cbind (processNonMsgToServer user_input) (\<lambda>handled.
          if handled then cret () else udp_user_action cls user_input)))"

definition udp_builders :: client_class where
  "udp_builders =
     \<lparr>buildErrMsg = udp_buildErrMsg, buildAuthMsg = udp_buildAuthMsg, buildJoinMsg = udp_buildJoinMsg,
       buildMsgMsg = udp_buildMsgMsg, buildByeMsg = udp_buildByeMsg,
       sendMsgToServer = udp_sendMsgToServer, sendByeMsgToServer = udp_sendByeMsgToServer,
       processTimerEvent = udp_processTimerEvent, processSocketEvent = udp_processSocketEvent,
       processStdinEvent = (\<lambda>_ _. cret ()), sigintHandler = udp_sigintHandler\<rparr>"

definition udp_processStdinEvent :: "bool \<Rightarrow> bytes option \<Rightarrow> unit C" where
  "udp_processStdinEvent = udp_on_input udp_builders"

definition udp_methods :: client_class where
  "udp_methods = udp_builders\<lparr>processStdinEvent := udp_processStdinEvent\<rparr>"

end
