(* ===== verification/Chat_Client.thy ===== *)
theory Chat_Client
  imports Tcp_Client Udp_Client
begin

text \<open>
  The C++ client as a whole: \<open>Client::create\<close>, the event loop \<open>Client::run\<close> and \<open>main\<close>, put
  together as a \<open>program\<close> that the harness can run.

  \<open>std::cin\<close> reads the pipe in blocks of 4096 octets and \<open>epoll\<close> only sees the pipe, so each event
  on standard input takes one line, and lines that were read ahead wait for the next event. A
  line that is not complete is waited for in the buffer: the harness writes whole lines.
\<close>

section \<open>Standard input\<close>

function fill_cin :: "bytes \<Rightarrow> bytes \<Rightarrow> bytes \<times> bytes" where
  "fill_cin buf pipe =
     (if newline \<in> set buf \<or> pipe = [] then (buf, pipe)
      else fill_cin (buf @ take 4096 pipe) (drop 4096 pipe))"
  by pat_completeness auto
termination
  by (relation "measure (\<lambda>(buf, pipe). length pipe)") auto

declare fill_cin.simps [simp del]

definition next_line :: "bytes \<Rightarrow> (bytes \<times> bytes) option" where
  "next_line buf =
     (if newline \<in> set buf
      then let line = takeWhile (\<lambda>c. c \<noteq> newline) buf in Some (line, drop (length line + 1) buf)
      else None)"

text \<open>One event: the line \<open>std::getline\<close> returns is handed to the subclass.\<close>

definition stdin_event :: "client_class \<Rightarrow> unit C" where
  "stdin_event cls s = (case fill_cin (cin_buffer s) (stdin_pipe s) of (buf, pipe) \<Rightarrow>
     (case next_line buf of
        None \<Rightarrow> (Value (), s\<lparr>cin_buffer := buf, stdin_pipe := pipe\<rparr>)
      | Some (line, rest) \<Rightarrow>
          processStdinEvent cls False (Some line) (s\<lparr>cin_buffer := rest, stdin_pipe := pipe\<rparr>)))"

definition methods :: "client \<Rightarrow> client_class" where
  "methods s = (if m_is_tcp (m_args s) then tcp_methods else udp_methods)"

lemma fill_cin_length: "fill_cin buf pipe = (b, p) \<Longrightarrow> length b + length p = length buf + length pipe"
proof (induction buf pipe rule: fill_cin.induct)
  case (1 buf pipe)
  then show ?case
    by (subst (asm) (2) fill_cin.simps) (auto split: if_splits)
qed

lemma fill_cin_no_line: "fill_cin buf pipe = (b, p) \<Longrightarrow> newline \<notin> set b \<Longrightarrow> p = []"
proof (induction buf pipe rule: fill_cin.induct)
  case (1 buf pipe)
  then show ?case
    by (subst (asm) (2) fill_cin.simps) (auto split: if_splits)
qed

lemma next_line_length: "next_line b = Some (l, r) \<Longrightarrow> length r < length b"
  by (auto simp: next_line_def Let_def split: if_splits)
     (metis diff_less length_greater_0_conv length_pos_if_in_set zero_less_Suc)

text \<open>Handling a line leaves the input that was not yet handled alone.\<close>

definition pending :: "client \<Rightarrow> bytes \<times> bytes" where
  "pending s = (cin_buffer s, stdin_pipe s)"

lemmas tcp_input_defs = tcp_processStdinEvent_def tcp_on_input_def tcp_user_action_def
  tcp_sendByeMsgToServer_def tcp_buildByeMsg_def tcp_sendMsgToServer_def tcp_buildAuthMsg_def
  tcp_buildJoinMsg_def tcp_buildMsgMsg_def

lemmas udp_input_defs = udp_processStdinEvent_def udp_on_input_def udp_user_action_def
  udp_sendByeMsgToServer_def udp_buildByeMsg_def udp_sendMsgToServer_def udp_buildAuthMsg_def
  udp_buildJoinMsg_def udp_buildMsgMsg_def send_to_server_def start_confirm_timer_def with_id_def

lemmas base_input_defs = parseUserInput_def parse_line_def reject_def processNonMsgToServer_def
  buildUserMsgToServer_def printSupportedCommands_def printErrMsg_def cout_line_def emit_def
  disableStdinEvents_def enableStdinEvents_def startTimer_def stopTimer_def

lemma tcp_keeps_pending: "keeps (\<lambda>s. pending s = x) (tcp_processStdinEvent hup input)"
  unfolding tcp_input_defs base_input_defs tcp_builders_def client_class.simps
  by (intro cpp_intros keeps_set) (simp_all add: pending_def)

lemma udp_keeps_pending: "keeps (\<lambda>s. pending s = x) (udp_processStdinEvent hup input)"
  unfolding udp_input_defs base_input_defs udp_builders_def client_class.simps
  by (intro cpp_intros keeps_set) (simp_all add: pending_def reset_retransmissions_def)

lemma stdin_pending:
  "pending (snd (processStdinEvent (methods s0) hup input s)) = pending s"
  using tcp_keeps_pending [of "pending s" hup input] udp_keeps_pending [of "pending s" hup input]
  by (simp add: methods_def tcp_methods_def udp_methods_def keeps_iff)

text \<open>Events on standard input as long as it is polled and the pipe has data.\<close>

function stdin_loop :: "unit C" where
  "stdin_loop s =
     (if stdin_polled s \<and> stdin_pipe s \<noteq> [] then
        (case stdin_event (methods s) s of
           (Throw e, s') \<Rightarrow> (Throw e, s')
         | (Value _, s') \<Rightarrow> stdin_loop s')
      else (Value (), s))"
  by pat_completeness auto
termination
proof (relation "measure (\<lambda>s. length (cin_buffer s) + length (stdin_pipe s) + (if stdin_pipe s = [] then 0 else 1))")
  fix s r s' x
  assume *: "stdin_polled s \<and> stdin_pipe s \<noteq> []" "(r, s') = stdin_event (methods s) s"
  obtain b p where f: "fill_cin (cin_buffer s) (stdin_pipe s) = (b, p)" by fastforce
  have len: "length b + length p = length (cin_buffer s) + length (stdin_pipe s)"
    by (rule fill_cin_length [OF f])
  show "(s', s) \<in> measure (\<lambda>s. length (cin_buffer s) + length (stdin_pipe s) + (if stdin_pipe s = [] then 0 else 1))"
  proof (cases "next_line b")
    case None
    then have "p = []" using fill_cin_no_line [OF f] by (auto simp: next_line_def Let_def split: if_splits)
    with * None f len show ?thesis by (simp add: stdin_event_def)
  next
    case (Some lr)
    obtain line rest where lr: "lr = (line, rest)" by fastforce
    with Some have "length rest < length b" by (simp add: next_line_length)
    moreover have "pending s' = (rest, p)"
      using *(2) f Some lr stdin_pending [of s False "Some line" "s\<lparr>cin_buffer := rest, stdin_pipe := p\<rparr>"]
      by (auto simp: stdin_event_def pending_def dest: arg_cong [of _ _ snd])
    ultimately show ?thesis using *(1) len by (simp add: pending_def)
  qed
qed simp

declare stdin_loop.simps [simp del]

section \<open>The event loop\<close>

text \<open>The stream arrives in calls of \<open>recv\<close> of at most \<open>s_MAX_MSG_SIZE + 1\<close> octets.\<close>

function stream_events :: "bytes \<Rightarrow> nat C" where
  "stream_events data s =
     (if data = [] then (Value 2, s)
      else (case processSocketEvent (methods s) 0 (take (s_MAX_MSG_SIZE + 1) data) s of
          (Value result, s') \<Rightarrow>
            if result = 0 \<or> result = 1 then (Value result, s')
            else stream_events (drop (s_MAX_MSG_SIZE + 1) data) s'
        | (Throw e, s') \<Rightarrow> (Throw e, s')))"
  by pat_completeness auto
termination
  by (relation "measure (\<lambda>(data, s). length data)") auto

declare stream_events.simps [simp del]

definition and_go_on :: "unit C \<Rightarrow> nat C" where
  "and_go_on m = cbind m (\<lambda>_. cret 2)"

definition dispatch :: "event \<Rightarrow> nat C" where
  "dispatch ev = (case ev of
     EvStdin b \<Rightarrow> if b = [] then cwith (\<lambda>s. and_go_on (processStdinEvent (methods s) False None))
                  else cseq [cset (\<lambda>s. s\<lparr>stdin_pipe := stdin_pipe s @ b\<rparr>)] (cret 2)
   | EvHup \<Rightarrow> cwith (\<lambda>s. and_go_on (processStdinEvent (methods s) True None))
   | EvDgram src d \<Rightarrow> cwith (\<lambda>s. if m_is_tcp (m_args s) then cret 2 else processSocketEvent (methods s) src d)
   | EvStream b \<Rightarrow> cwith (\<lambda>s. if m_is_tcp (m_args s) then stream_events b else cret 2)
   | EvStreamEof \<Rightarrow> cwith (\<lambda>s. if m_is_tcp (m_args s) then processSocketEvent (methods s) 0 [] else cret 2)
   | EvTimer \<Rightarrow> cwith (\<lambda>s. and_go_on (processTimerEvent (methods s)))
   | EvSigint \<Rightarrow> cwith (\<lambda>s. and_go_on (sigintHandler (methods s))))"

text \<open>An event, then what it made readable on standard input.\<close>

definition run_event :: "event \<Rightarrow> nat C" where
  "run_event ev = cbind (dispatch ev) (\<lambda>result.
     if result = 0 \<or> result = 1 then cret result else and_go_on stdin_loop)"

text \<open>The end of \<open>main\<close>: the status returned by \<open>run\<close>, or the handler of the exception.\<close>

definition exit_actions :: "nat cres \<Rightarrow> action list" where
  "exit_actions r = (case r of
     Value n \<Rightarrow> if n = 0 \<or> n = 1 then [Exit (int n)] else []
   | Throw e \<Rightarrow> if e = [] then [Exit 0] else [WriteOut (''ERROR: '' @ e @ [newline]), Exit 1])"

definition chat_handle :: "event \<Rightarrow> client \<Rightarrow> client \<times> action list" where
  "chat_handle ev s = (case run_event ev (s\<lparr>emitted := []\<rparr>) of (r, s') \<Rightarrow> (s', emitted s' @ exit_actions r))"

definition printHelp :: bytes where
  "printHelp = ''Usage: ./ipk25-chat {-t transport_protocol} {-s serverIP/hostname} [-p server_port] [-d udp_timeout] [-r max_udp_retrans] [-h]'' @ [newline]"

text \<open>\<open>main\<close> up to the event loop; \<open>listening\<close> says on which ports a connection is accepted.\<close>

definition chat_boot :: "(bytes \<Rightarrow> bool) \<Rightarrow> bytes list \<Rightarrow> (int \<Rightarrow> bool) \<Rightarrow> client \<times> action list" where
  "chat_boot resolves argv listening = (case Args resolves argv of
     Crashed \<Rightarrow> (Client default_args, [Exit (-11)])
   | Thrown e \<Rightarrow> (Client default_args, exit_actions (Throw e))
   | Built a \<Rightarrow>
       if m_is_help_used a then (Client a, [WriteOut printHelp, Exit 0])
       else if m_is_tcp a then
         (if listening (uint (m_server_addr a)) then (Client a, [Connect (uint (m_server_addr a))])
          else (Client a, exit_actions (Throw ''couldn't connect to the server.'')))
       else (Client a, []))"

text \<open>Arguments reach the process in UTF-8.\<close>

definition octets_of :: "pystr \<Rightarrow> bytes" where
  "octets_of s = (case encode s of Inl e \<Rightarrow> [] | Inr b \<Rightarrow> b)"

definition ipk25chat :: "(bytes \<Rightarrow> bool) \<Rightarrow> client program" where
  "ipk25chat resolves = \<lparr>p_boot = (\<lambda>args. chat_boot resolves (map octets_of args)), p_handle = chat_handle\<rparr>"

end
