(* ===== verification/Client_Text.thy ===== *)
theory Client_Text
  imports Tcp_Client Udp_Client
begin

text \<open>
  What the client's checks accept: the length checks as numbers, the character classes, and the
  regular expressions on texts put together from their parts.
\<close>

section \<open>Lengths\<close>

lemma push_bit_20_eq_0: "push_bit 20 n = 0 \<longleftrightarrow> unat n mod 4096 = 0" for n :: "32 word"
proof -
  have "push_bit 20 n = 0 \<longleftrightarrow> unat (push_bit 20 n) = 0"
    by (simp add: unat_eq_0)
  also have "unat (push_bit 20 n) = push_bit 20 (take_bit 12 (unat n))"
    by (simp add: unsigned_push_bit_eq take_bit_push_bit)
  also have "\<dots> = 0 \<longleftrightarrow> unat n mod 4096 = 0"
    by (simp add: take_bit_eq_mod push_bit_eq_mult)
  finally show ?thesis .
qed

lemma one_le_word: "1 \<le> n \<longleftrightarrow> unat n \<noteq> 0" for n :: "32 word"
  by (simp add: word_le_nat_alt Suc_le_eq)

lemma valid_display_name: "1 \<le> n \<Longrightarrow> n \<le> 4095 \<Longrightarrow> isValidDisplayNameLength (of_nat n)"
  by (simp add: isValidDisplayNameLength_def s_DISPLAY_NAME_MAX_LENGTH_def push_bit_20_eq_0 one_le_word
      unat_of_nat)

lemma msg_content_check:
  "n < 2 ^ 32 \<Longrightarrow> isValidMsgContentLength (of_nat n) \<longleftrightarrow> 1 \<le> n \<and> n \<le> 60000"
  by (simp add: isValidMsgContentLength_def s_MSG_CONTENT_MAX_LENGTH_def word_le_nat_alt unat_of_nat)

text \<open>
  C39. The check of a display name's length accepts exactly the lengths that are no multiple of
  4096: it shifts the length by 20 bits where a comparison with 20 is meant.
\<close>

theorem display_name_check:
  "isValidDisplayNameLength n \<longleftrightarrow> unat n mod 4096 \<noteq> 0"
  by (auto simp: isValidDisplayNameLength_def s_DISPLAY_NAME_MAX_LENGTH_def push_bit_20_eq_0 one_le_word)

section \<open>Characters\<close>

lemma class_excludes:
  "printableChar c \<Longrightarrow> c \<noteq> CHR '' '' \<and> c \<noteq> CHR 0x0D \<and> c \<noteq> CHR 0x0A \<and> c \<noteq> CHR 0x00"
  "printableCharSpaceLf c \<Longrightarrow> c \<noteq> CHR 0x0D \<and> c \<noteq> CHR 0x00"
  "alphaNumericUnderlineDash c \<Longrightarrow> c \<noteq> CHR '' '' \<and> c \<noteq> CHR 0x0D \<and> c \<noteq> CHR 0x0A \<and> c \<noteq> CHR 0x00"
  by (auto simp: printableChar_def printableCharSpaceLf_def alphaNumericUnderlineDash_def is_digit_def ord_def newline_def)

lemma not_in_class [simp]:
  "\<not> printableChar (CHR '' '')" "\<not> printableChar (CHR 0x0D)" "\<not> printableChar (CHR 0x00)"
  "\<not> printableCharSpaceLf (CHR 0x0D)" "\<not> printableCharSpaceLf (CHR 0x00)"
  "\<not> alphaNumericUnderlineDash (CHR '' '')"
  using class_excludes by blast+

lemma eq_chr8: "0 \<le> i \<Longrightarrow> i < 256 \<Longrightarrow> c = chr8 i \<longleftrightarrow> ord c = i"
  by auto

lemma to_upper_cr [simp]: "to_upper (CHR 0x0D) = CHR 0x0D"
  by (simp add: to_upper_def ord_def)

section \<open>Upper case\<close>

text \<open>The table of \<open>toupper\<close> on letters and the blank.\<close>

lemma to_upper_lower_case:
  "to_upper (CHR ''a'') = CHR ''A''" "to_upper (CHR ''b'') = CHR ''B''" "to_upper (CHR ''c'') = CHR ''C''"
  "to_upper (CHR ''d'') = CHR ''D''" "to_upper (CHR ''e'') = CHR ''E''" "to_upper (CHR ''f'') = CHR ''F''"
  "to_upper (CHR ''g'') = CHR ''G''" "to_upper (CHR ''h'') = CHR ''H''" "to_upper (CHR ''i'') = CHR ''I''"
  "to_upper (CHR ''j'') = CHR ''J''" "to_upper (CHR ''k'') = CHR ''K''" "to_upper (CHR ''l'') = CHR ''L''"
  "to_upper (CHR ''m'') = CHR ''M''" "to_upper (CHR ''n'') = CHR ''N''" "to_upper (CHR ''o'') = CHR ''O''"
  "to_upper (CHR ''p'') = CHR ''P''" "to_upper (CHR ''q'') = CHR ''Q''" "to_upper (CHR ''r'') = CHR ''R''"
  "to_upper (CHR ''s'') = CHR ''S''" "to_upper (CHR ''t'') = CHR ''T''" "to_upper (CHR ''u'') = CHR ''U''"
  "to_upper (CHR ''v'') = CHR ''V''" "to_upper (CHR ''w'') = CHR ''W''" "to_upper (CHR ''x'') = CHR ''X''"
  "to_upper (CHR ''y'') = CHR ''Y''" "to_upper (CHR ''z'') = CHR ''Z''"
  by (simp_all add: to_upper_def ord_def chr8_def char_of_eq_iff)

lemma to_upper_upper_case:
  "to_upper (CHR ''A'') = CHR ''A''" "to_upper (CHR ''B'') = CHR ''B''" "to_upper (CHR ''C'') = CHR ''C''"
  "to_upper (CHR ''D'') = CHR ''D''" "to_upper (CHR ''E'') = CHR ''E''" "to_upper (CHR ''F'') = CHR ''F''"
  "to_upper (CHR ''G'') = CHR ''G''" "to_upper (CHR ''H'') = CHR ''H''" "to_upper (CHR ''I'') = CHR ''I''"
  "to_upper (CHR ''J'') = CHR ''J''" "to_upper (CHR ''K'') = CHR ''K''" "to_upper (CHR ''L'') = CHR ''L''"
  "to_upper (CHR ''M'') = CHR ''M''" "to_upper (CHR ''N'') = CHR ''N''" "to_upper (CHR ''O'') = CHR ''O''"
  "to_upper (CHR ''P'') = CHR ''P''" "to_upper (CHR ''Q'') = CHR ''Q''" "to_upper (CHR ''R'') = CHR ''R''"
  "to_upper (CHR ''S'') = CHR ''S''" "to_upper (CHR ''T'') = CHR ''T''" "to_upper (CHR ''U'') = CHR ''U''"
  "to_upper (CHR ''V'') = CHR ''V''" "to_upper (CHR ''W'') = CHR ''W''" "to_upper (CHR ''X'') = CHR ''X''"
  "to_upper (CHR ''Y'') = CHR ''Y''" "to_upper (CHR ''Z'') = CHR ''Z''"
  "to_upper (CHR '' '') = CHR '' ''"
  by (simp_all add: to_upper_def ord_def)

lemmas to_upper_table = to_upper_lower_case to_upper_upper_case to_upper_cr

text \<open>Non-empty texts over a character class.\<close>

definition text_of :: "(char \<Rightarrow> bool) \<Rightarrow> bytes \<Rightarrow> bool" where
  "text_of cls w \<longleftrightarrow> w \<noteq> [] \<and> list_all cls w"

lemma text_of_excludes: "text_of cls w \<Longrightarrow> \<not> cls c \<Longrightarrow> c \<notin> set w"
  by (auto simp: text_of_def list_all_iff)

section \<open>Regular expressions\<close>

lemma regex_literal: "list_all2 eq t k \<Longrightarrow> regex_match eq (Literal t # ps) (k @ rest) = regex_match eq ps rest"
  by (simp add: list_all2_lengthD)

lemma regex_group:
  assumes "text_of cls w" "rest = [] \<or> \<not> cls (hd rest)"
  shows "regex_match eq (Group cls # ps) (w @ rest) = map_option (Cons w) (regex_match eq ps rest)"
proof -
  have "takeWhile cls (w @ rest) = w"
    using assms by (cases rest) (auto simp: text_of_def list_all_iff takeWhile_append2)
  with assms show ?thesis by (simp add: text_of_def)
qed

lemma list_all2_exact: "list_all2 exact t t"
  by (induction t) (simp_all add: exact_def)

lemma list_all2_icase: "list_all2 icase t t"
  by (induction t) (simp_all add: icase_def)

text \<open>Conversely, a match is put together from its groups.\<close>

lemma regex_groupD:
  assumes "regex_match eq (Group cls # ps) s = Some gs"
  obtains w rest hs where "s = w @ rest" "gs = w # hs" "text_of cls w" "regex_match eq ps rest = Some hs"
proof -
  let ?w = "takeWhile cls s"
  have "text_of cls ?w"
    using assms by (auto simp: text_of_def Let_def list_all_iff dest: set_takeWhileD split: if_splits)
  moreover have "s = ?w @ drop (length ?w) s"
    by (metis append_take_drop_id takeWhile_eq_take)
  moreover obtain hs where "regex_match eq ps (drop (length ?w) s) = Some hs" "gs = ?w # hs"
    using assms by (auto simp: Let_def split: if_splits)
  ultimately show ?thesis using that by blast
qed

lemma regex_literalD:
  assumes "regex_match eq (Literal t # ps) s = Some gs"
  obtains k rest where "s = k @ rest" "list_all2 eq t k" "regex_match eq ps rest = Some gs"
  using assms that [of "take (length t) s" "drop (length t) s"] by (auto split: if_splits)

lemma exact_literal: "list_all2 exact t k \<longleftrightarrow> k = t"
  by (auto simp: exact_def list_all2_conv_all_nth list_eq_iff_nth_eq)

end
