(* ===== verification/Tcp_Stream.thy ===== *)
theory Tcp_Stream
  imports Chat_Client Client_Text
begin

text \<open>
  The TCP client and the stream: a message may arrive in any number of segments and a segment may
  hold any number of messages. What the client does depends on the octets only, not on where the
  segments end.
\<close>

section \<open>Methods that do not read the buffer\<close>

definition with_buffer :: "bytes \<Rightarrow> client \<Rightarrow> client" where
  "with_buffer b s = s\<lparr>m_msg_from_server := b\<rparr>"

lemma with_buffer_simps [simp]:
  "m_msg_from_server (with_buffer b s) = b"
  "with_buffer b (with_buffer c s) = with_buffer b s"
  "with_buffer (m_msg_from_server s) s = s"
  "m_current_state (with_buffer b s) = m_current_state s"
  "m_is_waiting_for_reply (with_buffer b s) = m_is_waiting_for_reply s"
  "m_msg_to_server (with_buffer b s) = m_msg_to_server s"
  by (simp_all add: with_buffer_def)

definition oblivious :: "'a C \<Rightarrow> bool" where
  "oblivious m \<longleftrightarrow> (\<forall>b s. m (with_buffer b s) = map_prod id (with_buffer b) (m s))"

named_theorems oblivious_intros \<open>rules for methods that do not read the buffer\<close>

lemma obliviousD: "oblivious m \<Longrightarrow> m (with_buffer b s) = map_prod id (with_buffer b) (m s)"
  by (simp add: oblivious_def)

lemma oblivious_ret [oblivious_intros]: "oblivious (cret x)"
  by (simp add: oblivious_def cret_def)

lemma oblivious_throw [oblivious_intros]: "oblivious (cthrow e)"
  by (simp add: oblivious_def cthrow_def)

lemma oblivious_bind [oblivious_intros]:
  assumes "oblivious m" "\<And>x. oblivious (f x)"
  shows "oblivious (cbind m f)"
proof -
  have "cbind m f (with_buffer b s) = map_prod id (with_buffer b) (cbind m f s)" for b s
    using assms by (cases "m s"; cases "fst (m s)") (simp_all add: oblivious_def cbind_def)
  then show ?thesis by (simp add: oblivious_def)
qed

lemma oblivious_seq [oblivious_intros]:
  "oblivious k \<Longrightarrow> oblivious (cseq [] k)"
  "oblivious m \<Longrightarrow> oblivious (cseq ms k) \<Longrightarrow> oblivious (cseq (m # ms) k)"
  by (simp_all add: oblivious_bind)

lemma oblivious_with [oblivious_intros]:
  "(\<And>s b. f (with_buffer b s) = f s) \<Longrightarrow> (\<And>s. oblivious (f s)) \<Longrightarrow> oblivious (cwith f)"
  by (simp add: oblivious_def cwith_def)

lemma oblivious_set: "(\<And>s b. f (with_buffer b s) = with_buffer b (f s)) \<Longrightarrow> oblivious (cset f)"
  by (simp add: oblivious_def cset_def)

lemma oblivious_if [oblivious_intros]: "oblivious m \<Longrightarrow> oblivious m' \<Longrightarrow> oblivious (if b then m else m')"
  by simp

lemma oblivious_option [oblivious_intros]:
  "oblivious m \<Longrightarrow> (\<And>x. oblivious (f x)) \<Longrightarrow> oblivious (case v of None \<Rightarrow> m | Some x \<Rightarrow> f x)"
  by (cases v) simp_all

lemma oblivious_list [oblivious_intros]:
  "oblivious m \<Longrightarrow> (\<And>x xs. oblivious (f x xs)) \<Longrightarrow> oblivious (case v of [] \<Rightarrow> m | x # xs \<Rightarrow> f x xs)"
  by (cases v) simp_all

lemma oblivious_pair [oblivious_intros]:
  "(\<And>x y. oblivious (f x y)) \<Longrightarrow> oblivious (case v of (x, y) \<Rightarrow> f x y)"
  by (cases v) simp

lemmas tcp_output_defs = outputIncomingReply_def outputIncomingMsg_def printErrFromServer_def cout_line_def
  stopTimer_def enableStdinEvents_def emit_def

lemma oblivious_output [oblivious_intros]:
  "oblivious (outputIncomingReply p c)" "oblivious (outputIncomingMsg d c)"
  "oblivious (printErrFromServer d c)" "oblivious stopTimer" "oblivious enableStdinEvents"
  unfolding tcp_output_defs by (intro oblivious_intros oblivious_set; simp add: with_buffer_def)+

lemma oblivious_err [oblivious_intros]: "oblivious (sendErrMsgAndTerminate e)"
  unfolding sendErrMsgAndTerminate_def tcp_buildErrMsg_def tcp_sendMsgToServer_def emit_def
  by (intro oblivious_intros oblivious_set) (simp_all add: with_buffer_def)

lemma oblivious_messages [oblivious_intros]:
  "oblivious (tcp_processServerReplyMsg m)" "oblivious (tcp_processServerMsgMsg m)"
  "oblivious (tcp_processServerErrMsg m)" "oblivious (tcp_processServerByeMsg m)"
  unfolding tcp_processServerReplyMsg_def tcp_processServerMsgMsg_def tcp_processServerErrMsg_def
    tcp_processServerByeMsg_def
  by (intro oblivious_intros oblivious_set; simp add: with_buffer_def)+

section \<open>The end of a message\<close>

lemma find_eom_append: "find_eom s = Some n \<Longrightarrow> find_eom (s @ x) = Some n"
  by (induction s arbitrary: n rule: find_eom.induct) (auto split: if_splits)

lemma find_eom_cr: "find_eom s = Some n \<Longrightarrow> s ! n = CHR 0x0D"
  by (induction s arbitrary: n rule: find_eom.induct) (auto split: if_splits)

text \<open>The type of a message is the same whatever follows it in the buffer.\<close>

lemma short_message_unknown:
  assumes "s ! n = CHR 0x0D" "n < 3" "n < length s"
  shows "getServerMsgType s = M_UNKNOWN"
proof (cases "3 \<le> length s")
  case True
  then obtain a b c t where s: "s = a # b # c # t"
    by (metis Suc_le_length_iff numeral_3_eq_3)
  have "a = CHR 0x0D \<or> b = CHR 0x0D \<or> c = CHR 0x0D"
    using assms(1,2) s by (auto simp: nth_Cons numeral_3_eq_3 less_Suc_eq split: nat.splits)
  then show ?thesis
    by (elim disjE) (simp_all add: s getServerMsgType_def Let_def)
qed (simp add: getServerMsgType_def)

lemma type_of_first:
  assumes "find_eom b = Some n"
  shows "getServerMsgType (b @ x) = getServerMsgType b"
proof (cases "n < 3")
  case True
  have "n < length b" using find_eom_bound [OF assms] by simp
  moreover have "(b @ x) ! n = CHR 0x0D" "b ! n = CHR 0x0D"
    using find_eom_cr [OF assms] \<open>n < length b\<close> by (simp_all add: nth_append)
  ultimately show ?thesis using True by (simp add: short_message_unknown)
next
  case False
  then have "5 \<le> length b" using find_eom_bound [OF assms] by simp
  then show ?thesis by (simp add: getServerMsgType_def Let_def)
qed

lemma message_with_buffer:
  assumes "getServerMsgType b = getServerMsgType (m_msg_from_server s)"
  shows "tcp_processMessageFromServer m (with_buffer b s)
    = map_prod id (with_buffer b) (tcp_processMessageFromServer m s)"
proof -
  define t where "t = getServerMsgType b"
  have t: "t = getServerMsgType (m_msg_from_server s)" using assms t_def by simp
  show ?thesis
    unfolding tcp_processMessageFromServer_def cwith_def Let_def with_buffer_simps
      t_def [symmetric] t [symmetric]
    by (rule obliviousD, intro oblivious_intros, cases "m_current_state s")
       (auto intro!: oblivious_intros)
qed

section \<open>Segments\<close>

text \<open>What remains of a result when the buffer is ignored.\<close>

definition observed :: "'a cres \<times> client \<Rightarrow> 'a cres \<times> client" where
  "observed = map_prod id (with_buffer [])"

lemma observed_with_buffer [simp]: "observed (map_prod id (with_buffer b) x) = observed x"
  by (cases x) (simp add: observed_def)

lemma observed_err [simp]:
  "observed (sendErrMsgAndTerminate e (with_buffer b s)) = observed (sendErrMsgAndTerminate e s)"
  by (simp add: obliviousD [OF oblivious_err])

text \<open>
  Two runs are the same when they return and emit the same and, unless they end the program,
  leave the same buffer.
\<close>

fun final :: "nat cres \<Rightarrow> bool" where
  "final (Throw e) = True"
| "final (Value result) = (result = 0 \<or> result = 1)"

definition same :: "nat cres \<times> client \<Rightarrow> nat cres \<times> client \<Rightarrow> bool" where
  "same x y \<longleftrightarrow> x = y \<or> observed x = observed y \<and> final (fst x)"

lemma same_refl [simp]: "same x x"
  by (simp add: same_def)

lemma observed_fst: "observed x = observed y \<Longrightarrow> fst x = fst y"
  by (cases x; cases y) (simp add: observed_def)

lemma same_sym: "same x y \<Longrightarrow> same y x"
  by (auto simp: same_def dest: observed_fst)

lemma same_trans: "same x y \<Longrightarrow> same y z \<Longrightarrow> same x z"
  by (auto simp: same_def dest: observed_fst)

text \<open>After a result that ends the program nothing more is read.\<close>

definition go_on :: "nat C \<Rightarrow> nat C \<Rightarrow> nat C" where
  "go_on m k = cbind m (\<lambda>result. if result = 0 \<or> result = 1 then cret result else k)"

definition append_buffer :: "bytes \<Rightarrow> unit C" where
  "append_buffer data = cset (\<lambda>s. s\<lparr>m_msg_from_server := m_msg_from_server s @ data\<rparr>)"

lemma append_buffer_with: "append_buffer x s = (Value (), with_buffer (m_msg_from_server s @ x) s)"
  by (simp add: append_buffer_def cset_def with_buffer_def)

lemma err_throws: "fst (sendErrMsgAndTerminate e s) = Throw e"
  by (simp add: sendErrMsgAndTerminate_def tcp_buildErrMsg_def tcp_sendMsgToServer_def cpp_simps)

lemma go_on_simps:
  "m s = (Throw e, s') \<Longrightarrow> go_on m k s = (Throw e, s')"
  "m s = (Value r, s') \<Longrightarrow> go_on m k s = (if r = 0 \<or> r = 1 then (Value r, s') else k s')"
  by (simp_all add: go_on_def cbind_def cret_def)

lemma go_on_err: "m s = sendErrMsgAndTerminate e s \<Longrightarrow> go_on m k s = sendErrMsgAndTerminate e s"
  using err_throws [of e s, where 'a = nat]
  by (cases "sendErrMsgAndTerminate e s :: nat cres \<times> client") (simp add: go_on_def cbind_def)

lemma go_on_cong: "m s = m' s' \<Longrightarrow> go_on m k s = go_on m' k s'"
  by (simp add: go_on_def cbind_def)

lemma same_err [simp]: "same (sendErrMsgAndTerminate e (with_buffer b s)) (sendErrMsgAndTerminate e s)"
  using err_throws [of e "with_buffer b s", where 'a = nat] by (simp add: same_def)

lemma go_on_final: "final (fst (m s)) \<Longrightarrow> go_on m k s = m s"
  by (cases "m s"; cases "fst (m s)") (auto simp: go_on_def cbind_def cret_def)

lemma go_on_more: "\<not> final (fst (m s)) \<Longrightarrow> go_on m k s = k (snd (m s))"
  by (cases "m s"; cases "fst (m s)") (auto simp: go_on_def cbind_def cret_def)

lemma go_on_assoc: "go_on (go_on m k) l s = go_on m (go_on k l) s"
proof (cases "final (fst (m s))")
  case True
  then show ?thesis by (simp add: go_on_final [of m] go_on_final [of "go_on m k"])
next
  case False
  then have k: "go_on m k s = k (snd (m s))" by (rule go_on_more)
  show ?thesis
    by (cases "final (fst (k (snd (m s))))")
       (simp_all add: k False go_on_more [of m] go_on_final [of "go_on m k"] go_on_final [of k]
         go_on_more [of "go_on m k"] go_on_more [of k])
qed

lemma same_go_on_left: "same (m s) (m' s') \<Longrightarrow> same (go_on m k s) (go_on m' k s')"
proof -
  assume s: "same (m s) (m' s')"
  show ?thesis
  proof (cases "m s = m' s'")
    case True
    then show ?thesis by (simp add: go_on_def cbind_def)
  next
    case False
    with s have "final (fst (m s))" "final (fst (m' s'))"
      by (auto simp: same_def dest: observed_fst)
    with s show ?thesis by (simp add: go_on_final)
  qed
qed

lemma same_go_on_right:
  "(\<not> final (fst (m s)) \<Longrightarrow> same (k (snd (m s))) (l (snd (m s)))) \<Longrightarrow> same (go_on m k s) (go_on m l s)"
  by (cases "final (fst (m s))") (simp_all add: go_on_final go_on_more)

text \<open>The loop by cases.\<close>

lemma receive_loop_idle: "find_eom (m_msg_from_server s) = None \<Longrightarrow> receive_loop s = (Value 2, s)"
  by (simp add: receive_loop.simps)

lemma receive_loop_long:
  assumes "find_eom (m_msg_from_server s) = Some n" "s_MAX_MSG_SIZE < n + 2"
  shows "receive_loop s = sendErrMsgAndTerminate ''too long message from server.'' s"
  using assms find_eom_bound [OF assms(1)] by (simp add: receive_loop.simps Let_def)

lemma receive_loop_step:
  assumes "find_eom (m_msg_from_server s) = Some n" "n + 2 \<le> s_MAX_MSG_SIZE"
    and "tcp_processMessageFromServer (take (n + 2) (m_msg_from_server s)) s = (r, s')"
  shows "receive_loop s = (case r of
      Throw e \<Rightarrow> (Throw e, s')
    | Value result \<Rightarrow> if result = 0 \<or> result = 1 then (Value result, s')
        else receive_loop (with_buffer (drop (n + 2) (m_msg_from_server s)) s'))"
proof -
  have "m_msg_from_server s' = m_msg_from_server s"
    using assms(3) message_buffer [of "take (n + 2) (m_msg_from_server s)" s] by simp
  with assms show ?thesis
    by (subst receive_loop.simps) (simp add: Let_def with_buffer_def split: cres.splits)
qed

lemma go_on_receive_step:
  assumes "find_eom (m_msg_from_server s) = Some n" "n + 2 \<le> s_MAX_MSG_SIZE"
    and "tcp_processMessageFromServer (take (n + 2) (m_msg_from_server s)) s = (Value r, s')"
    and "r \<noteq> 0" "r \<noteq> 1"
  shows "go_on receive_loop k s = go_on receive_loop k (with_buffer (drop (n + 2) (m_msg_from_server s)) s')"
  using assms by (simp add: receive_loop_step [OF assms(1,2,3)] go_on_def cbind_def)

text \<open>Octets that arrive later can as well be in the buffer from the start.\<close>

lemma receive_loop_append:
  "same (receive_loop (with_buffer (m_msg_from_server s @ x) s))
     (go_on receive_loop (cseq [append_buffer x] receive_loop) s)"
proof (induction "length (m_msg_from_server s)" arbitrary: s rule: less_induct)
  case less
  let ?b = "m_msg_from_server s" and ?s = "with_buffer (m_msg_from_server s @ x) s"
  show ?case
  proof (cases "find_eom ?b")
    case None
    then show ?thesis
      by (simp add: go_on_simps(2) receive_loop_idle cbind_def append_buffer_with)
  next
    case (Some n)
    have bound: "n + 2 \<le> length ?b" by (rule find_eom_bound [OF Some])
    have big: "find_eom (m_msg_from_server ?s) = Some n" using find_eom_append [OF Some] by simp
    obtain r s' where rs: "tcp_processMessageFromServer (take (n + 2) ?b) s = (r, s')" by fastforce
    have proc: "tcp_processMessageFromServer (take (n + 2) (m_msg_from_server ?s)) ?s
        = (r, with_buffer (?b @ x) s')"
      using message_with_buffer [OF type_of_first [OF Some], of "take (n + 2) ?b" x] rs bound by simp
    show ?thesis
    proof (cases "s_MAX_MSG_SIZE < n + 2")
      case True
      then show ?thesis
        using receive_loop_long [OF Some True] receive_loop_long [OF big True]
        by (simp add: go_on_err)
    next
      case False
      then have le: "n + 2 \<le> s_MAX_MSG_SIZE" by simp
      show ?thesis
      proof (cases r)
        case (Throw e)
        then show ?thesis
          using receive_loop_step [OF Some le rs] receive_loop_step [OF big le proc]
          by (simp add: go_on_simps(1) same_def observed_def)
      next
        case (Value q)
        show ?thesis
        proof (cases "q = 0 \<or> q = 1")
          case True
          then show ?thesis
            using Value receive_loop_step [OF Some le rs] receive_loop_step [OF big le proc]
            by (auto simp: go_on_simps(2) same_def observed_def)
        next
          case False
          let ?t = "with_buffer (drop (n + 2) ?b) s'"
          have "same (receive_loop (with_buffer (m_msg_from_server ?t @ x) ?t))
              (go_on receive_loop (cseq [append_buffer x] receive_loop) ?t)"
            by (rule less) (use bound in simp)
          then show ?thesis
            using False Value bound receive_loop_step [OF big le proc]
              go_on_receive_step [OF Some le rs [unfolded Value]] by simp
        qed
      qed
    qed
  qed
qed

text \<open>The loop stops with no complete message in the buffer.\<close>

lemma receive_loop_drains:
  "\<not> final (fst (receive_loop s)) \<Longrightarrow> find_eom (m_msg_from_server (snd (receive_loop s))) = None"
proof (induction "length (m_msg_from_server s)" arbitrary: s rule: less_induct)
  case less
  show ?case
  proof (cases "find_eom (m_msg_from_server s)")
    case None
    then show ?thesis by (simp add: receive_loop_idle)
  next
    case (Some n)
    obtain r s' where rs: "tcp_processMessageFromServer (take (n + 2) (m_msg_from_server s)) s = (r, s')"
      by fastforce
    have le: "n + 2 \<le> s_MAX_MSG_SIZE"
      using less.prems receive_loop_long [OF Some] err_throws [where 'a = nat]
      by (metis final.simps(1) not_le)
    have "receive_loop s = receive_loop (with_buffer (drop (n + 2) (m_msg_from_server s)) s')"
      using less.prems receive_loop_step [OF Some le rs] by (auto split: cres.splits if_splits)
    then show ?thesis
      using less find_eom_bound [OF Some] by simp
  qed
qed

text \<open>The check for an overlong beginning of a message.\<close>

definition check_length :: "nat C" where
  "check_length = cwith (\<lambda>s. if s_MAX_MSG_SIZE \<le> length (m_msg_from_server s)
     then sendErrMsgAndTerminate ''too long message from server.'' else cret 2)"

lemma socket_event_def:
  "d \<noteq> [] \<Longrightarrow> tcp_processSocketEvent src d s
    = go_on receive_loop check_length (with_buffer (m_msg_from_server s @ d) s)"
  by (simp add: tcp_processSocketEvent_def check_length_def go_on_def cbind_def cset_def with_buffer_def)

lemma find_eom_late: "find_eom b = None \<Longrightarrow> find_eom (b @ x) = Some n \<Longrightarrow> length b < n + 2"
proof (induction b arbitrary: n rule: find_eom.induct)
  case (1 c d cs)
  then show ?case by (auto split: if_splits)
qed auto

text \<open>A beginning that is already too long is as bad with what follows it.\<close>

lemma too_long_stays:
  assumes "find_eom (m_msg_from_server s) = None" "s_MAX_MSG_SIZE \<le> length (m_msg_from_server s)"
  shows "same (go_on receive_loop check_length (with_buffer (m_msg_from_server s @ x) s))
    (sendErrMsgAndTerminate ''too long message from server.'' s)"
proof (cases "find_eom (m_msg_from_server s @ x)")
  case None
  with assms(2) show ?thesis
    by (simp add: go_on_simps(2) receive_loop_idle check_length_def cwith_def)
next
  case (Some n)
  have "s_MAX_MSG_SIZE < n + 2" using find_eom_late [OF assms(1) Some] assms(2) by simp
  with Some have "receive_loop (with_buffer (m_msg_from_server s @ x) s)
      = sendErrMsgAndTerminate ''too long message from server.'' (with_buffer (m_msg_from_server s @ x) s)"
    by (intro receive_loop_long) simp_all
  from go_on_err [of receive_loop, OF this] show ?thesis by simp
qed

lemma check_then_event:
  assumes "find_eom (m_msg_from_server s) = None"
  shows "same (go_on receive_loop check_length (with_buffer (m_msg_from_server s @ x) s))
    (go_on check_length (\<lambda>s. go_on receive_loop check_length (with_buffer (m_msg_from_server s @ x) s)) s)"
proof (cases "s_MAX_MSG_SIZE \<le> length (m_msg_from_server s)")
  case True
  then have "check_length s = sendErrMsgAndTerminate ''too long message from server.'' s"
    by (simp add: check_length_def cwith_def)
  with too_long_stays [OF assms True] show ?thesis by (simp add: go_on_err)
next
  case False
  then show ?thesis
    by (simp add: check_length_def cwith_def go_on_def [of "cwith _"] cbind_def cret_def)
qed

lemma two_segments:
  assumes "d \<noteq> []" "e \<noteq> []"
  shows "same (tcp_processSocketEvent src (d @ e) s)
    (go_on (tcp_processSocketEvent src d) (tcp_processSocketEvent src e) s)"
proof -
  let ?s = "with_buffer (m_msg_from_server s @ d) s"
  let ?k = "\<lambda>s. go_on receive_loop check_length (with_buffer (m_msg_from_server s @ e) s)"
  have k: "go_on (cseq [append_buffer e] receive_loop) check_length = ?k"
    by (rule ext) (simp add: go_on_def cbind_def append_buffer_with)
  have ev: "tcp_processSocketEvent src e = ?k"
    using assms by (intro ext) (simp add: socket_event_def)
  have "same (tcp_processSocketEvent src (d @ e) s)
      (go_on (go_on receive_loop (cseq [append_buffer e] receive_loop)) check_length ?s)"
    using assms same_go_on_left [of receive_loop _ "go_on receive_loop (cseq [append_buffer e] receive_loop)",
      OF receive_loop_append [of ?s e]] by (simp add: socket_event_def)
  then have "same (tcp_processSocketEvent src (d @ e) s) (go_on receive_loop ?k ?s)"
    by (simp only: go_on_assoc k)
  moreover have "same (go_on receive_loop ?k ?s) (go_on receive_loop (go_on check_length ?k) ?s)"
    by (rule same_go_on_right) (rule check_then_event, rule receive_loop_drains)
  moreover have "go_on (tcp_processSocketEvent src d) (tcp_processSocketEvent src e) s
      = go_on (go_on receive_loop check_length) ?k ?s"
    unfolding ev by (rule go_on_cong) (rule socket_event_def [OF assms(1)])
  ultimately show ?thesis by (simp only: go_on_assoc) (rule same_trans)
qed

section \<open>Any number of segments\<close>

text \<open>Calls of \<open>processSocketEvent\<close>, one per segment, until one of them ends the program.\<close>

fun feed :: "bytes list \<Rightarrow> nat C" where
  "feed [] = cret 2"
| "feed (d # ds) = go_on (tcp_processSocketEvent 0 d) (feed ds)"

lemma check_length_result: "fst (check_length s) = Value r \<Longrightarrow> r = 2"
  using err_throws [of "''too long message from server.''" s, where 'a = nat]
  by (auto simp: check_length_def cwith_def cret_def split: if_splits)

lemma event_alone: "d \<noteq> [] \<Longrightarrow> go_on (tcp_processSocketEvent src d) (cret 2) s = tcp_processSocketEvent src d s"
proof -
  assume "d \<noteq> []"
  then have ev: "tcp_processSocketEvent src d s = go_on receive_loop check_length (with_buffer (m_msg_from_server s @ d) s)"
    (is "_ = ?r") by (rule socket_event_def)
  have "fst ?r = Value 2" if "\<not> final (fst ?r)"
  proof -
    let ?s = "with_buffer (m_msg_from_server s @ d) s"
    have "\<not> final (fst (receive_loop ?s))" using that by (auto simp: go_on_final)
    then have r: "?r = check_length (snd (receive_loop ?s))" by (rule go_on_more)
    with that obtain q where "fst ?r = Value q" by (cases "fst ?r") simp_all
    with r check_length_result show ?thesis by metis
  qed
  with ev show ?thesis
    by (cases "final (fst ?r)") (simp_all add: go_on_final go_on_more cret_def prod_eq_iff)
qed

lemma feed_concat:
  "ds \<noteq> [] \<Longrightarrow> [] \<notin> set ds \<Longrightarrow> same (feed ds s) (tcp_processSocketEvent 0 (concat ds) s)"
proof (induction ds arbitrary: s)
  case (Cons d ds)
  show ?case
  proof (cases "ds = []")
    case True
    with Cons.prems show ?thesis by (simp add: event_alone)
  next
    case False
    with Cons.prems have "concat ds \<noteq> []" by (cases ds) auto
    have "same (feed (d # ds) s) (go_on (tcp_processSocketEvent 0 d) (tcp_processSocketEvent 0 (concat ds)) s)"
      using Cons False by (simp add: same_go_on_right)
    moreover have "same (go_on (tcp_processSocketEvent 0 d) (tcp_processSocketEvent 0 (concat ds)) s)
        (tcp_processSocketEvent 0 (concat (d # ds)) s)"
      using two_segments [of d "concat ds"] Cons.prems \<open>concat ds \<noteq> []\<close> by (auto intro: same_sym)
    ultimately show ?thesis by (rule same_trans)
  qed
qed simp

text \<open>
  C7. The TCP client reassembles the stream: however the octets the server sends are cut into
  segments, the client returns the same result, prints and sends the same and reaches the same
  state; when it goes on, also the same octets are left in its buffer.
\<close>

theorem tcp_segmentation_irrelevant:
  assumes "concat ds = concat es" "ds \<noteq> []" "es \<noteq> []" "[] \<notin> set ds" "[] \<notin> set es"
  shows "observed (feed ds s) = observed (feed es s)
    \<and> (final (fst (feed ds s)) \<or> feed ds s = feed es s)"
proof -
  have "same (feed ds s) (feed es s)"
    using feed_concat [of ds s] feed_concat [of es s] assms by (metis same_sym same_trans)
  then show ?thesis by (auto simp: same_def)
qed

theorem tcp_segmentation_irrelevant_witness:
  "let s = Client (default_args\<lparr>m_is_tcp := True\<rparr>);
       ds = [''B'', ''YE FROM a'' @ [CHR 0x0D], [CHR 0x0A]]; es = [''BYE FROM a'' @ crlf]
   in concat ds = concat es \<and> observed (feed ds s) = observed (feed es s)"
  using tcp_segmentation_irrelevant [of "[''B'', ''YE FROM a'' @ [CHR 0x0D], [CHR 0x0A]]" "[''BYE FROM a'' @ crlf]"]
  by (simp add: Let_def crlf_def)

end
