(* ===== verification/Tcp_Delivery.thy ===== *)
theory Tcp_Delivery
  imports Tcp_Stream
begin

text \<open>
  What the TCP client makes of a stream of well-formed messages: it prints each of them once, in
  order, whatever the segments. The key words may be in upper or lower case.
\<close>

section \<open>Well-formed messages\<close>

text \<open>A display name and a content as the protocol allows them.\<close>

definition name_ok :: "bytes \<Rightarrow> bool" where
  "name_ok d \<longleftrightarrow> text_of printableChar d \<and> length d \<le> 20"

definition content_ok :: "bytes \<Rightarrow> bool" where
  "content_ok c \<longleftrightarrow> text_of printableCharSpaceLf c \<and> length c \<le> 60000"

lemma ok_lengths:
  "name_ok d \<Longrightarrow> isValidDisplayNameLength (of_nat (length d))"
  "content_ok c \<Longrightarrow> isValidMsgContentLength (of_nat (length c))"
  by (simp_all add: name_ok_def content_ok_def text_of_def valid_display_name msg_content_check Suc_le_eq)

lemma to_upper_other: "to_upper c = d \<Longrightarrow> \<not> (65 \<le> ord d \<and> ord d \<le> 90) \<Longrightarrow> c = d"
  by (auto simp: to_upper_def split: if_splits)

lemma icase_without:
  assumes "list_all2 icase t k" "x \<notin> set t" "ord x < 65"
  shows "x \<notin> set k"
proof
  assume "x \<in> set k"
  with assms(1) obtain c where "c \<in> set t" "icase c x"
    by (metis (no_types, lifting) in_set_conv_nth list_all2_conv_all_nth)
  moreover have "to_upper x = x" using assms(3) by (auto simp: to_upper_def)
  ultimately have "to_upper c = x" by (simp add: icase_def)
  then have "c = x" by (rule to_upper_other) (use assms(3) in simp)
  with \<open>c \<in> set t\<close> assms(2) show False by simp
qed

text \<open>The first end of message.\<close>

lemma find_eom_line: "CHR 0x0D \<notin> set line \<Longrightarrow> find_eom (line @ crlf @ rest) = Some (length line)"
proof (induction line)
  case (Cons c line)
  then show ?case by (cases line) (auto simp: crlf_def)
qed (simp add: crlf_def)

section \<open>Messages\<close>

text \<open>A \<open>MSG\<close> on the wire: the two key words in any case, the display name and the content.\<close>

record tcp_msg =
  kw_from :: bytes
  kw_is :: bytes
  msg_name :: bytes
  msg_content :: bytes

definition msg_ok :: "tcp_msg \<Rightarrow> bool" where
  "msg_ok m \<longleftrightarrow> list_all2 icase ''MSG FROM '' (kw_from m) \<and> list_all2 icase '' IS '' (kw_is m)
     \<and> name_ok (msg_name m) \<and> content_ok (msg_content m)"

definition line_of :: "tcp_msg \<Rightarrow> bytes" where
  "line_of m = kw_from m @ msg_name m @ kw_is m @ msg_content m"

definition printed_line :: "tcp_msg \<Rightarrow> action" where
  "printed_line m = WriteOut (msg_name m @ '': '' @ msg_content m @ [newline])"

lemma icase_head:
  assumes "list_all2 icase (CHR '' '' # t) k"
  shows "k \<noteq> []" "hd k = CHR '' ''"
proof -
  from assms obtain c k' where k: "k = c # k'" "to_upper c = CHR '' ''"
    by (auto simp: list_all2_Cons1 icase_def to_upper_def ord_def)
  from k(2) have "c = CHR '' ''" by (rule to_upper_other) (simp add: ord_def)
  with k(1) show "k \<noteq> []" "hd k = CHR '' ''" by simp_all
qed

lemma msg_regex:
  assumes "msg_ok m"
  shows "regex_match icase msgMsgRegex (line_of m @ crlf) = Some [msg_name m, msg_content m]"
proof -
  have k: "kw_is m \<noteq> []" "hd (kw_is m) = CHR '' ''"
    using assms icase_head [of "''IS ''" "kw_is m"] by (simp_all add: msg_ok_def)
  have 1: "regex_match icase [Literal crlf] crlf = Some []"
    using regex_literal [OF list_all2_icase, of crlf "[]" "[]"] by simp
  have 2: "regex_match icase [Group printableCharSpaceLf, Literal crlf] (msg_content m @ crlf) = Some [msg_content m]"
    using assms by (subst regex_group) (simp_all add: msg_ok_def content_ok_def 1 del: regex_match.simps, simp add: crlf_def)
  show ?thesis
    unfolding msgMsgRegex_def line_of_def append_assoc
    using assms k 2 by (simp add: regex_literal regex_group msg_ok_def name_ok_def del: regex_match.simps)
qed

lemma msg_type:
  assumes "msg_ok m"
  shows "getServerMsgType (line_of m @ rest) = M_MSG"
proof -
  obtain k where "kw_from m = k" "list_all2 icase ''MSG FROM '' k" using assms by (simp add: msg_ok_def)
  then show ?thesis
    by (auto simp: line_of_def getServerMsgType_def list_all2_Cons1 icase_def Let_def to_upper_def ord_def)
qed

lemma msg_fits: "msg_ok m \<Longrightarrow> length (line_of m) + 2 \<le> s_MAX_MSG_SIZE"
  by (auto simp: msg_ok_def line_of_def name_ok_def content_ok_def s_MAX_MSG_SIZE_def
      s_DISPLAY_NAME_MAX_LENGTH_def s_MSG_CONTENT_MAX_LENGTH_def dest!: list_all2_lengthD)

lemma msg_without:
  assumes "msg_ok m" "\<not> printableChar x" "\<not> printableCharSpaceLf x" "ord x < 65" "x \<notin> set ''MSG FROM IS ''"
  shows "x \<notin> set (line_of m)"
  using assms icase_without [of "''MSG FROM ''" "kw_from m" x] icase_without [of "'' IS ''" "kw_is m" x]
    text_of_excludes [of printableChar "msg_name m" x] text_of_excludes [of printableCharSpaceLf "msg_content m" x]
  by (auto simp: msg_ok_def line_of_def name_ok_def content_ok_def)

lemma msg_no_cr: "msg_ok m \<Longrightarrow> CHR 0x0D \<notin> set (line_of m)"
  by (rule msg_without) (simp_all add: ord_def)

lemma msg_no_nul: "msg_ok m \<Longrightarrow> CHR 0x00 \<notin> set (line_of m)"
  by (rule msg_without) (simp_all add: ord_def)

text \<open>One message, when the channel is open or a channel is being joined.\<close>

definition receiving :: "client \<Rightarrow> bool" where
  "receiving s \<longleftrightarrow> m_current_state s = S_OPEN \<or> m_current_state s = S_JOIN"

lemma process_msg:
  assumes "msg_ok m" "receiving s" "m_msg_from_server s = line_of m @ crlf @ rest"
  shows "tcp_processMessageFromServer (line_of m @ crlf) s
    = (Value 2, s\<lparr>emitted := emitted s @ [printed_line m]\<rparr>)"
proof -
  have "isValidDisplayNameLength (of_nat (length (msg_name m)))"
    "isValidMsgContentLength (of_nat (length (msg_content m)))"
    using assms(1) ok_lengths by (simp_all add: msg_ok_def)
  then have "tcp_processServerMsgMsg (line_of m @ crlf) s = (Value (), s\<lparr>emitted := emitted s @ [printed_line m]\<rparr>)"
    using msg_regex [OF assms(1)]
    by (simp add: tcp_processServerMsgMsg_def outputIncomingMsg_def cout_line_def cpp_simps printed_line_def)
  with assms msg_type [OF assms(1)] show ?thesis
    by (auto simp: receiving_def tcp_processMessageFromServer_def cwith_def cbind_def cret_def)
qed

text \<open>A line that is handled and dropped from the buffer.\<close>

lemma receive_line:
  assumes "m_msg_from_server s = line @ crlf @ rest" "CHR 0x0D \<notin> set line" "length line + 2 \<le> s_MAX_MSG_SIZE"
    and "tcp_processMessageFromServer (line @ crlf) s = (Value r, s')"
  shows "receive_loop s = (if r = 0 \<or> r = 1 then (Value r, s') else receive_loop (with_buffer rest s'))"
proof -
  have eom: "find_eom (m_msg_from_server s) = Some (length line)"
    unfolding assms(1) by (rule find_eom_line [OF assms(2)])
  have first: "take (length line + 2) (m_msg_from_server s) = line @ crlf"
    by (simp add: assms(1) crlf_def)
  show ?thesis
    using receive_loop_step [OF eom assms(3), unfolded first, OF assms(4)]
    by (simp add: assms(1) crlf_def)
qed

lemma receive_msgs:
  assumes "list_all msg_ok ms" "receiving s" "m_msg_from_server s = concat (map (\<lambda>m. line_of m @ crlf) ms) @ rest"
  shows "receive_loop s
    = receive_loop (s\<lparr>m_msg_from_server := rest, emitted := emitted s @ map printed_line ms\<rparr>)"
  using assms
proof (induction ms arbitrary: s)
  case Nil
  then have "s\<lparr>m_msg_from_server := rest, emitted := emitted s @ map printed_line []\<rparr> = s" by simp
  then show ?case by (simp only:)
next
  case (Cons m ms)
  let ?rest = "concat (map (\<lambda>m. line_of m @ crlf) ms) @ rest"
  let ?s = "with_buffer ?rest (s\<lparr>emitted := emitted s @ [printed_line m]\<rparr>)"
  have m: "msg_ok m" and b: "m_msg_from_server s = line_of m @ crlf @ ?rest" using Cons.prems by simp_all
  have "receive_loop s = receive_loop ?s"
    using receive_line [OF b msg_no_cr [OF m] msg_fits [OF m] process_msg [OF m Cons.prems(2) b]] by simp
  also have "\<dots> = receive_loop (?s\<lparr>m_msg_from_server := rest, emitted := emitted ?s @ map printed_line ms\<rparr>)"
    using Cons.prems by (intro Cons.IH) (simp_all add: receiving_def with_buffer_def)
  finally show ?case by (simp add: with_buffer_def)
qed

lemma feed_msgs:
  assumes "receiving s" "m_msg_from_server s = []" "list_all msg_ok ms" "[] \<notin> set ds"
    and "concat ds = concat (map (\<lambda>m. line_of m @ crlf) ms)"
  shows "feed ds s = (Value 2, s\<lparr>emitted := emitted s @ map printed_line ms\<rparr>)"
proof (cases "ds = []")
  case True
  with assms(5) have "ms = []" by (cases ms) (auto simp: crlf_def)
  with True show ?thesis by (simp add: cret_def)
next
  case False
  let ?d = "concat ds"
  have "?d \<noteq> []" using False assms(4) by (cases ds) auto
  let ?s = "with_buffer ?d s"
  have "receive_loop ?s = (Value 2, ?s\<lparr>m_msg_from_server := [], emitted := emitted s @ map printed_line ms\<rparr>)"
    using receive_msgs [of ms ?s "[]"] assms
    by (simp add: receiving_def with_buffer_def receive_loop_idle)
  then have "tcp_processSocketEvent 0 ?d s = (Value 2, s\<lparr>emitted := emitted s @ map printed_line ms\<rparr>)"
    using \<open>?d \<noteq> []\<close> assms(2)
    by (simp add: socket_event_def go_on_simps(2) check_length_def cwith_def cret_def with_buffer_def
        s_MAX_MSG_SIZE_def)
  with feed_concat [OF False assms(4), of s] show ?thesis by (auto simp: same_def dest: observed_fst)
qed

text \<open>
  C15. A server that sends well-formed \<open>MSG\<close> messages to an open client sees all of them printed,
  once each and in order, and nothing else happens, however the messages are cut into segments
  and whatever the case of the key words.
\<close>

theorem tcp_delivers_messages:
  assumes "receiving s" "m_msg_from_server s = []" "list_all msg_ok ms" "[] \<notin> set ds"
    and "concat ds = concat (map (\<lambda>m. line_of m @ crlf) ms)"
  shows "feed ds s = (Value 2, s\<lparr>emitted := emitted s @ map printed_line ms\<rparr>)"
  by (rule feed_msgs [OF assms])

text \<open>Two messages in three segments, one of them in mixed case, cut inside a name and inside the end of a line.\<close>

definition open_client :: client where
  "open_client = (Client (default_args\<lparr>m_is_tcp := True\<rparr>))\<lparr>m_current_state := S_OPEN\<rparr>"

definition two_msgs :: "tcp_msg list" where
  "two_msgs = [\<lparr>kw_from = ''MSg FROM '', kw_is = '' is '', msg_name = ''bob'', msg_content = ''hi''\<rparr>,
     \<lparr>kw_from = ''MSG FROM '', kw_is = '' IS '', msg_name = ''eve'', msg_content = ''a b''\<rparr>]"

theorem tcp_delivers_messages_witness:
  "feed [''MSg FROM bo'', ''b is hi'' @ [CHR 0x0D], [CHR 0x0A] @ ''MSG FROM eve IS a b'' @ crlf] open_client
   = (Value 2, open_client\<lparr>emitted := [WriteOut (''bob: hi'' @ [newline]), WriteOut (''eve: a b'' @ [newline])]\<rparr>)"
proof -
  have "list_all msg_ok two_msgs"
    by (simp add: two_msgs_def msg_ok_def icase_def to_upper_table name_ok_def content_ok_def
        text_of_def printableChar_def printableCharSpaceLf_def) (simp add: ord_def)
  then show ?thesis
    using tcp_delivers_messages [of open_client two_msgs
        "[''MSg FROM bo'', ''b is hi'' @ [CHR 0x0D], [CHR 0x0A] @ ''MSG FROM eve IS a b'' @ crlf]"]
    by (simp add: open_client_def Client_def receiving_def two_msgs_def line_of_def crlf_def printed_line_def)
qed

section \<open>Replies and the end\<close>

text \<open>The client waits for the reply to its \<open>AUTH\<close> or \<open>JOIN\<close>.\<close>

definition awaiting_reply :: "client \<Rightarrow> bool" where
  "awaiting_reply s \<longleftrightarrow> (m_current_state s = S_AUTH \<or> m_current_state s = S_JOIN) \<and> m_is_waiting_for_reply s"

definition after_reply :: "bool \<Rightarrow> bytes \<Rightarrow> client \<Rightarrow> client" where
  "after_reply ok c s = s\<lparr>m_current_state := (if ok \<or> m_current_state s = S_JOIN then S_OPEN else m_current_state s),
     m_is_waiting_for_reply := False, stdin_polled := True,
     emitted := emitted s @ [ArmTimer 0, WriteOut (''Action '' @ (if ok then ''Success'' else ''Failure'') @ '': '' @ c @ [newline]),
       StdinEvents True]\<rparr>"

lemma process_reply:
  assumes "awaiting_reply s" "getServerMsgType (m_msg_from_server s) = M_REPLY"
    and "match_reply m = Some (ok, c)" "content_ok c"
  shows "tcp_processMessageFromServer m s = (Value 2, after_reply ok c s)"
proof -
  have "isValidMsgContentLength (of_nat (length c))" using assms(4) by (rule ok_lengths)
  with assms have "tcp_processServerReplyMsg m s = (Value (), after_reply ok c s)"
    by (auto simp: tcp_processServerReplyMsg_def awaiting_reply_def stopTimer_def outputIncomingReply_def
        cout_line_def enableStdinEvents_def cpp_simps after_reply_def)
  with assms show ?thesis
    by (auto simp: tcp_processMessageFromServer_def awaiting_reply_def cwith_def cbind_def cret_def)
qed

lemma process_bye:
  assumes "getServerMsgType (m_msg_from_server s) = M_BYE"
    and "regex_match icase byeMsgRegex m = Some [d]" "name_ok d"
  shows "tcp_processMessageFromServer m s = (Value 0, s)"
  using assms ok_lengths(1) [OF assms(3)]
  by (simp add: tcp_processMessageFromServer_def tcp_processServerByeMsg_def cpp_simps)

end
