(* ===== verification/Stream_Script.thy ===== *)
theory Stream_Script
  imports Tcp_Delivery
begin

text \<open>
  The interactive script \<open>test-tcp-stream.py\<close>: it accepts one TCP connection and, at each press of
  the enter key, sends the next piece of a fixed conversation, cut at awkward places. The script
  is a list of statements; each prints, waits for a line, sends or closes, and the first
  exception ends it. The client at the other end is the model of \<open>tcp-client.cpp\<close>.
\<close>

datatype script_io =
    Bind int | Listen | Accept | Shutdown | Close   \<comment> \<open>calls on the sockets\<close>
  | Print pystr
  | Send bytes

datatype script_error = EOFError | NotAscii

text \<open>The lines left on standard input, and what the script did so far.\<close>

record script =
  presses :: nat
  done_io :: "script_io list"

type_synonym stmt = "script \<Rightarrow> script_error option \<times> script"

definition call :: "script_io \<Rightarrow> stmt" where
  "call a s = (None, s\<lparr>done_io := done_io s @ [a]\<rparr>)"

text \<open>\<open>input()\<close> raises at the end of standard input.\<close>

definition input_line :: stmt where
  "input_line s = (if presses s = 0 then (Some EOFError, s) else (None, s\<lparr>presses := presses s - 1\<rparr>))"

fun stmts :: "stmt list \<Rightarrow> stmt" where
  "stmts [] s = (None, s)"
| "stmts (c # cs) s = (case c s of (None, s') \<Rightarrow> stmts cs s' | (Some e, s') \<Rightarrow> (Some e, s'))"

definition encode_ascii :: "pystr \<Rightarrow> bytes option" where
  "encode_ascii s = (if list_all (\<lambda>c. 0 \<le> c \<and> c < 128) s then Some (map chr8 s) else None)"

definition csock_send :: "pystr \<Rightarrow> stmt" where
  "csock_send t s = (case encode_ascii t of None \<Rightarrow> (Some NotAscii, s) | Some b \<Rightarrow> call (Send b) s)"

text \<open>\<open>replace\<close> of one character by two.\<close>

definition escape :: "int \<Rightarrow> string \<Rightarrow> pystr \<Rightarrow> pystr" where
  "escape c t s = concat (map (\<lambda>d. if d = c then lit t else [d]) s)"

definition println :: "pystr \<Rightarrow> stmt" where
  "println t = call (Print (t @ [10]))"

definition backslash :: char where
  "backslash = CHR 0x5C"

definition test_segment :: "pystr \<Rightarrow> stmt" where
  "test_segment s =
     (let escaped = escape 13 [backslash, CHR ''r''] (escape 10 [backslash, CHR ''n''] s)
      in stmts [call (Print (lit ''Press enter to send \"'' @ escaped @ lit ''\": '')),
                input_line, csock_send s, println (lit ''sent'')])"

definition segments :: "bytes list" where
  "segments =
     [''RePLy Ok '',
      ''iS oK'' @ crlf,
      ''MSg FROM 2 is 2'' @ crlf @ ''msg from 3 is 3'' @ crlf @ ''msg from 4 is 4'' @ crlf,
      ''msg fROm 5 is 5'' @ crlf @ ''msg from 6 is 6'' @ crlf @ ''msg from 7 is'',
      '' 7'' @ crlf,
      ''msg from'',
      '' 8 is 8'' @ crlf,
      ''bYE from xd'' @ crlf]"

definition stream_script :: stmt where
  "stream_script = stmts
     ([call (Bind 4567), call Listen, println (lit ''socket is bound and listening''),
       call Accept, println (lit ''connected'')]
      @ map (\<lambda>b. test_segment (lit b)) segments
      @ [call (Print (lit ''Pres enter to shutdown the socket: '')), input_line,
         call Shutdown, call Close, call Shutdown, call Close, println []])"

section \<open>What the script sends\<close>

definition sends :: "script_io list \<Rightarrow> bytes list" where
  "sends ios = concat (map (\<lambda>a. case a of Send b \<Rightarrow> [b] | _ \<Rightarrow> []) ios)"

lemma sends_append [simp]: "sends (xs @ ys) = sends xs @ sends ys"
  by (simp add: sends_def)

lemma sends_simps [simp]:
  "sends [] = []"
  "sends (a # ios) = (case a of Send b \<Rightarrow> [b] | _ \<Rightarrow> []) @ sends ios"
  by (simp_all add: sends_def)

definition ascii :: "bytes \<Rightarrow> bool" where
  "ascii b = list_all (\<lambda>c. ord c < 128) b"

lemma encode_lit: "ascii b \<Longrightarrow> encode_ascii (lit b) = Some b"
  by (simp add: ascii_def encode_ascii_def lit_def list_all_iff map_idI)

text \<open>One key press sends one piece; without it the script ends there.\<close>

lemma test_segment_runs:
  assumes "ascii b"
  obtains s' where "test_segment (lit b) s = ((if presses s = 0 then Some EOFError else None), s')"
    and "presses s' = presses s - 1"
    and "sends (done_io s') = sends (done_io s) @ (if presses s = 0 then [] else [b])"
proof (cases "presses s")
  case 0
  with that show ?thesis by (simp add: test_segment_def Let_def call_def input_line_def)
next
  case (Suc n)
  with that assms show ?thesis
    by (simp add: test_segment_def Let_def call_def input_line_def csock_send_def println_def encode_lit)
qed

lemma segments_run:
  "list_all ascii bs \<Longrightarrow> stmts (map (\<lambda>b. test_segment (lit b)) bs @ cs) s
     = (case stmts (map (\<lambda>b. test_segment (lit b)) bs) s of
          (None, s') \<Rightarrow> stmts cs s' | (Some e, s') \<Rightarrow> (Some e, s'))"
  by (induction bs arbitrary: s) (auto split: prod.splits option.splits)

lemma segments_sent:
  "list_all ascii bs \<Longrightarrow>
     (case stmts (map (\<lambda>b. test_segment (lit b)) bs) s of (r, s') \<Rightarrow>
        r = (if presses s < length bs then Some EOFError else None)
        \<and> presses s' = presses s - length bs
        \<and> sends (done_io s') = sends (done_io s) @ take (presses s) bs)"
proof (induction bs arbitrary: s)
  case (Cons b bs)
  from Cons.prems have "ascii b" by simp
  then obtain s' where s': "test_segment (lit b) s = ((if presses s = 0 then Some EOFError else None), s')"
      "presses s' = presses s - 1" "sends (done_io s') = sends (done_io s) @ (if presses s = 0 then [] else [b])"
    by (rule test_segment_runs)
  show ?case
  proof (cases "presses s")
    case 0
    with s' show ?thesis by simp
  next
    case (Suc n)
    with s' Cons.IH [of s'] Cons.prems show ?thesis by (auto split: prod.splits)
  qed
qed simp

lemma segments_ascii: "list_all ascii segments"
  by (simp add: segments_def ascii_def ord_def crlf_def)

lemma stream_script_sends:
  "case stream_script \<lparr>presses = n, done_io = []\<rparr> of (r, s') \<Rightarrow>
     r = (if n \<le> length segments then Some EOFError else None)
     \<and> sends (done_io s') = take n segments"
proof -
  let ?s = "\<lparr>presses = n, done_io = [Bind 4567, Listen, Print (lit ''socket is bound and listening'' @ [10]),
    Accept, Print (lit ''connected'' @ [10])]\<rparr>"
  obtain r s' where rs: "stmts (map (\<lambda>b. test_segment (lit b)) segments) ?s = (r, s')" by fastforce
  have sent: "r = (if n < length segments then Some EOFError else None)"
      "presses s' = n - length segments" "sends (done_io s') = take n segments"
    using segments_sent [OF segments_ascii, of ?s] rs by (simp_all add: sends_def)
  show ?thesis
    using sent
    by (simp add: stream_script_def call_def println_def segments_run [OF segments_ascii] rs
        input_line_def split: if_splits)
qed

section \<open>The client at the other end\<close>

definition dialogue :: "action list" where
  "dialogue =
     [ArmTimer 0, WriteOut (''Action Success: oK'' @ [newline]), StdinEvents True]
     @ map (\<lambda>c. WriteOut ([c] @ '': '' @ [c, newline])) ''2345678''"

definition script_msgs :: "tcp_msg list" where
  "script_msgs =
     [\<lparr>kw_from = ''MSg FROM '', kw_is = '' is '', msg_name = ''2'', msg_content = ''2''\<rparr>,
      \<lparr>kw_from = ''msg from '', kw_is = '' is '', msg_name = ''3'', msg_content = ''3''\<rparr>,
      \<lparr>kw_from = ''msg from '', kw_is = '' is '', msg_name = ''4'', msg_content = ''4''\<rparr>,
      \<lparr>kw_from = ''msg fROm '', kw_is = '' is '', msg_name = ''5'', msg_content = ''5''\<rparr>,
      \<lparr>kw_from = ''msg from '', kw_is = '' is '', msg_name = ''6'', msg_content = ''6''\<rparr>,
      \<lparr>kw_from = ''msg from '', kw_is = '' is '', msg_name = ''7'', msg_content = ''7''\<rparr>,
      \<lparr>kw_from = ''msg from '', kw_is = '' is '', msg_name = ''8'', msg_content = ''8''\<rparr>]"

lemma script_msgs_ok: "list_all msg_ok script_msgs"
  by (simp add: script_msgs_def msg_ok_def icase_def to_upper_table name_ok_def content_ok_def
      text_of_def printableChar_def printableCharSpaceLf_def) (simp add: ord_def)

definition first_line :: bytes where
  "first_line = ''RePLy Ok iS oK''"

definition last_line :: bytes where
  "last_line = ''bYE from xd''"

text \<open>The whole conversation: a reply, seven messages, the end.\<close>

lemma segments_concat:
  "concat segments = (first_line @ crlf) @ concat (map (\<lambda>m. line_of m @ crlf) script_msgs)
     @ last_line @ crlf"
  by (simp add: segments_def script_msgs_def line_of_def crlf_def first_line_def last_line_def)

lemma script_reply:
  "match_reply (first_line @ crlf) = Some (True, ''oK'')"
  "getServerMsgType (first_line @ rest) = M_REPLY"
  "content_ok ''oK''"
  by (simp_all add: first_line_def match_reply_def getServerMsgType_def Let_def crlf_def icase_def to_upper_table
      printableCharSpaceLf_def content_ok_def text_of_def) (simp_all add: ord_def newline_def)

lemma script_bye:
  "regex_match icase byeMsgRegex (last_line @ crlf) = Some [''xd'']"
  "getServerMsgType (last_line @ rest) = M_BYE"
  "name_ok ''xd''"
  by (simp_all add: last_line_def byeMsgRegex_def getServerMsgType_def Let_def crlf_def icase_def to_upper_table
      printableChar_def name_ok_def text_of_def) (simp_all add: ord_def)

lemma script_lines:
  "CHR 0x0D \<notin> set first_line" "CHR 0x0D \<notin> set last_line"
  "length first_line + 2 \<le> s_MAX_MSG_SIZE" "length last_line + 2 \<le> s_MAX_MSG_SIZE"
  by (simp_all add: first_line_def last_line_def s_MAX_MSG_SIZE_def s_DISPLAY_NAME_MAX_LENGTH_def)

lemma conversation:
  assumes "awaiting_reply s" "m_msg_from_server s = concat segments"
  shows "\<exists>s'. receive_loop s = (Value 0, s') \<and> emitted s' = emitted s @ dialogue"
proof -
  let ?bye = "last_line @ crlf @ []"
  let ?msgs = "concat (map (\<lambda>m. line_of m @ crlf) script_msgs)"
  let ?s = "with_buffer (?msgs @ ?bye) (after_reply True ''oK'' s)"
  let ?t = "?s\<lparr>m_msg_from_server := ?bye, emitted := emitted ?s @ map printed_line script_msgs\<rparr>"
  have b: "m_msg_from_server s = first_line @ crlf @ ?msgs @ ?bye"
    using assms(2) segments_concat by simp
  have "receive_loop s = receive_loop ?s"
    using receive_line [OF b script_lines(1,3) process_reply [OF assms(1) _ script_reply(1,3)]]
    by (simp add: b script_reply(2))
  also have "\<dots> = receive_loop ?t"
    by (rule receive_msgs [OF script_msgs_ok]) (simp_all add: receiving_def after_reply_def with_buffer_def)
  also have "\<dots> = (Value 0, ?t)"
    using receive_line [of ?t "last_line" "[]", OF _ script_lines(2,4) process_bye [OF _ script_bye(1,3)]]
      script_bye(2) [of crlf]
    by simp
  finally show ?thesis
    by (simp add: with_buffer_def after_reply_def dialogue_def script_msgs_def printed_line_def)
qed

text \<open>
  C29. The script with nine lines on standard input and the client waiting for the reply to its
  \<open>AUTH\<close>: the script ends without an exception, and what it sends makes the client report the
  success, print the seven messages in order and return 0, although the pieces neither begin nor
  end where the messages do and mix upper and lower case.
\<close>

theorem stream_script_dialogue:
  assumes "awaiting_reply s" "m_msg_from_server s = []" "8 < n"
    and "stream_script \<lparr>presses = n, done_io = []\<rparr> = (r, script')"
    and "feed (sends (done_io script')) s = (result, s')"
  shows "r = None \<and> result = Value 0 \<and> emitted s' = emitted s @ dialogue"
proof -
  have n: "length segments < n" using assms(3) by (simp add: segments_def)
  have script: "r = None" "sends (done_io script') = segments"
    using stream_script_sends [of n] n assms(4) by simp_all
  have ne: "segments \<noteq> []" "[] \<notin> set segments" "concat segments \<noteq> []"
    by (simp_all add: segments_def crlf_def)
  obtain t where t: "receive_loop (with_buffer (concat segments) s) = (Value 0, t)" "emitted t = emitted s @ dialogue"
    using conversation [of "with_buffer (concat segments) s"] assms(1)
    by (auto simp: awaiting_reply_def with_buffer_def)
  then have "tcp_processSocketEvent 0 (concat segments) s = (Value 0, t)"
    using ne(3) assms(2) by (simp add: socket_event_def go_on_simps(2))
  with feed_concat [OF ne(1,2), of s] assms(5) script(2)
  have "observed (result, s') = observed (Value 0, t)" by (auto simp: same_def)
  then show ?thesis using t(2) script(1) by (auto simp: observed_def with_buffer_def dest: arg_cong [of _ _ emitted])
qed

definition waiting_client :: client where
  "waiting_client = (Client (default_args\<lparr>m_is_tcp := True\<rparr>))
     \<lparr>m_current_state := S_AUTH, m_is_waiting_for_reply := True, stdin_polled := False\<rparr>"

theorem stream_script_dialogue_witness:
  "let run = stream_script \<lparr>presses = 9, done_io = []\<rparr>;
       end = feed (sends (done_io (snd run))) waiting_client
   in fst run = None \<and> fst end = Value 0 \<and> emitted (snd end) = dialogue"
proof -
  have "awaiting_reply waiting_client" "m_msg_from_server waiting_client = []" "emitted waiting_client = []"
    by (simp_all add: waiting_client_def awaiting_reply_def Client_def)
  with stream_script_dialogue [of waiting_client 9, OF _ _ _ prod.collapse [symmetric] prod.collapse [symmetric]]
  show ?thesis by (simp add: Let_def)
qed

end
