(* ===== verification/Client_Invariants.thy ===== *)
theory Client_Invariants
  imports Tcp_Delivery
begin

text \<open>
  The event loop as a transition system: the states a client can reach by handling events, the
  contract \<open>client_preserved\<close> under which every event keeps a predicate, and its extension
  \<open>client_invariant\<close> under which it holds in all reachable states. A timer event is
  only possible while the timer is armed.
\<close>

section \<open>Reachable states\<close>

text \<open>Whether the one-shot timer is armed after the actions.\<close>

fun armed_after :: "bool \<Rightarrow> action list \<Rightarrow> bool" where
  "armed_after b [] = b"
| "armed_after b (ArmTimer t # as) = armed_after (t \<noteq> 0) as"
| "armed_after b (_ # as) = armed_after b as"

lemma armed_after_append [simp]: "armed_after b (xs @ ys) = armed_after (armed_after b xs) ys"
  by (induction b xs rule: armed_after.induct) simp_all

inductive reachable :: "cargs \<Rightarrow> client \<Rightarrow> bool \<Rightarrow> bool" for a where
  start: "reachable a (Client a) False"
| event: "reachable a s armed \<Longrightarrow> ev \<noteq> EvTimer \<Longrightarrow> run_event ev (s\<lparr>emitted := []\<rparr>) = (Value r, s')
    \<Longrightarrow> r \<noteq> 0 \<Longrightarrow> r \<noteq> 1 \<Longrightarrow> reachable a s' (armed_after armed (emitted s'))"
| timer: "reachable a s True \<Longrightarrow> run_event EvTimer (s\<lparr>emitted := []\<rparr>) = (Value r, s')
    \<Longrightarrow> r \<noteq> 0 \<Longrightarrow> r \<noteq> 1 \<Longrightarrow> reachable a s' (armed_after False (emitted s'))"

inductive_cases reachable_cases: "reachable a s armed"

text \<open>What a method keeps as long as it returns: an exception ends the program.\<close>

definition stable :: "(client \<Rightarrow> bool) \<Rightarrow> 'a C \<Rightarrow> bool" where
  "stable P m = ensures P m (\<lambda>_. P) (\<lambda>_ _. True)"

lemma stableI: "(\<And>s x s'. P s \<Longrightarrow> m s = (Value x, s') \<Longrightarrow> P s') \<Longrightarrow> stable P m"
  by (auto simp: stable_def ensures_def split: prod.splits cres.splits)

lemma stableD: "stable P m \<Longrightarrow> P s \<Longrightarrow> m s = (Value x, s') \<Longrightarrow> P s'"
  unfolding stable_def by (rule ensuresD(1))

lemma stable_bind: "stable P m \<Longrightarrow> (\<And>x. stable P (f x)) \<Longrightarrow> stable P (cbind m f)"
  by (rule stableI) (auto simp: cbind_def split: prod.splits cres.splits dest: stableD)

lemma stable_ret: "stable P (cret x)"
  by (rule stableI) (simp add: cret_def)

lemma stable_throw: "stable P (cthrow e)"
  by (rule stableI) (simp add: cthrow_def)

lemma stable_with: "(\<And>s. P s \<Longrightarrow> stable P (f s)) \<Longrightarrow> stable P (cwith f)"
  by (rule stableI) (auto simp: cwith_def dest: stableD)

lemma stable_and_go_on: "stable P m \<Longrightarrow> stable P (and_go_on m)"
  unfolding and_go_on_def by (intro stable_bind stable_ret)

section \<open>The contract\<close>

text \<open>
  \<open>I b\<close> speaks about a state in the middle of handling an event: \<open>b\<close> says whether the timer was
  armed when it began, \<open>emitted\<close> what has been done since.
\<close>

definition class_of :: "bool \<Rightarrow> client_class" where
  "class_of tcp = (if tcp then tcp_methods else udp_methods)"

locale client_preserved =
  fixes tcp :: bool and I :: "bool \<Rightarrow> client \<Rightarrow> bool"
  assumes kind: "I b s \<Longrightarrow> m_is_tcp (m_args s) = tcp"
    and next_event: "I b s \<Longrightarrow> I (armed_after b (emitted s)) (s\<lparr>emitted := []\<rparr>)"
    and input_irrelevant: "I b (s\<lparr>cin_buffer := x, stdin_pipe := y\<rparr>) = I b s"
    and on_line: "I b s \<Longrightarrow> stdin_polled s \<Longrightarrow> processStdinEvent (class_of tcp) False (Some line) s = (Value u, s') \<Longrightarrow> I b s'"
    and on_eof: "stable (I b) (processStdinEvent (class_of tcp) hup None)"
    and on_socket: "I b s \<Longrightarrow> processSocketEvent (class_of tcp) src d s = (Value r, s') \<Longrightarrow> r \<noteq> 0 \<Longrightarrow> r \<noteq> 1 \<Longrightarrow> I b s'"
    and on_timer: "I True s \<Longrightarrow> emitted s = [] \<Longrightarrow> processTimerEvent (class_of tcp) s = (Value u, s') \<Longrightarrow> I False s'"
    and on_sigint: "stable (I b) (sigintHandler (class_of tcp))"
begin

lemma methods_fixed: "I b s \<Longrightarrow> methods s = class_of tcp"
  using kind by (simp add: methods_def class_of_def)

lemma input_irrelevant_1: "I b (s\<lparr>stdin_pipe := y\<rparr>) = I b s"
  using input_irrelevant [where b = b and s = s and x = "cin_buffer s" and y = y] by simp

lemma stdin_event_keeps:
  assumes "I b s" "stdin_polled s" "stdin_event (methods s) s = (Value u, s')"
  shows "I b s'"
proof -
  obtain buf pipe where f: "fill_cin (cin_buffer s) (stdin_pipe s) = (buf, pipe)" by fastforce
  show ?thesis
  proof (cases "next_line buf")
    case None
    with f assms input_irrelevant show ?thesis by (auto simp: stdin_event_def)
  next
    case (Some lr)
    obtain l r where lr: "lr = (l, r)" by fastforce
    let ?s = "s\<lparr>cin_buffer := r, stdin_pipe := pipe\<rparr>"
    have "I b ?s" "stdin_polled ?s" using assms input_irrelevant by simp_all
    moreover have "processStdinEvent (class_of tcp) False (Some l) ?s = (Value u, s')"
      using assms(3) f Some lr methods_fixed [OF assms(1)] by (simp add: stdin_event_def)
    ultimately show ?thesis by (rule on_line)
  qed
qed

lemma stdin_loop_keeps: "I b s \<Longrightarrow> stdin_loop s = (Value u, s') \<Longrightarrow> I b s'"
proof (induction s rule: stdin_loop.induct)
  case (1 s)
  show ?case
  proof (cases "stdin_polled s \<and> stdin_pipe s \<noteq> []")
    case True
    with "1.prems"(2) obtain v t where t: "stdin_event (methods s) s = (Value v, t)" "stdin_loop t = (Value u, s')"
      by (subst (asm) stdin_loop.simps) (auto split: prod.splits cres.splits)
    with True "1.prems"(1) have "I b t" using stdin_event_keeps by blast
    with "1.IH" [OF True t(1) [symmetric] refl] t(2) show ?thesis by simp
  next
    case False
    with "1.prems" show ?thesis by (subst (asm) stdin_loop.simps) simp
  qed
qed

lemma stream_keeps: "I b s \<Longrightarrow> stream_events data s = (Value r, s') \<Longrightarrow> r \<noteq> 0 \<Longrightarrow> r \<noteq> 1 \<Longrightarrow> I b s'"
proof (induction data s rule: stream_events.induct)
  case (1 data s)
  show ?case
  proof (cases "data = []")
    case True
    with "1.prems" show ?thesis by (subst (asm) stream_events.simps) simp
  next
    case False
    let ?d = "take (s_MAX_MSG_SIZE + 1) data"
    from False "1.prems"(2) obtain q t where t: "processSocketEvent (methods s) 0 ?d s = (Value q, t)"
      "(if q = 0 \<or> q = 1 then (Value q, t) else stream_events (drop (s_MAX_MSG_SIZE + 1) data) t) = (Value r, s')"
      by (subst (asm) stream_events.simps) (auto split: prod.splits cres.splits)
    with "1.prems"(3,4) have q: "q \<noteq> 0" "q \<noteq> 1" by (auto split: if_splits)
    then have "I b t" using t(1) "1.prems"(1) methods_fixed [OF "1.prems"(1)] by (simp add: on_socket)
    with t q "1.prems" "1.IH" [OF False t(1) [symmetric] refl] show ?thesis by (auto split: if_splits)
  qed
qed

lemma dispatch_keeps:
  assumes ev: "ev \<noteq> EvTimer" and s: "I b s" and d: "dispatch ev s = (Value r, s')" and r: "r \<noteq> 0" "r \<noteq> 1"
  shows "I b s'"
proof -
  have eof: "stable (I b) (and_go_on (processStdinEvent (class_of tcp) hup None))" for hup
    by (intro stable_and_go_on on_eof)
  have sig: "stable (I b) (and_go_on (sigintHandler (class_of tcp)))"
    by (intro stable_and_go_on on_sigint)
  show ?thesis
    using ev s d methods_fixed [OF s] stableD [OF eof s] stableD [OF sig s] on_socket [OF s _ r]
      stream_keeps [OF s _ r] input_irrelevant_1
    by (cases ev) (auto simp: dispatch_def cwith_def cret_def cset_def cbind_def split: if_splits)
qed

lemma run_event_keeps:
  assumes "ev \<noteq> EvTimer" "I b s" "run_event ev s = (Value r, s')" "r \<noteq> 0" "r \<noteq> 1"
  shows "I b s'"
proof -
  obtain q t where t: "dispatch ev s = (Value q, t)"
    using assms(3) by (auto simp: run_event_def cbind_def split: prod.splits cres.splits)
  have "q \<noteq> 0" "q \<noteq> 1"
    using assms(3-5) t by (auto simp: run_event_def cbind_def cret_def split: if_splits)
  with assms t have "I b t" by (blast intro: dispatch_keeps)
  with assms(3) t show ?thesis
    by (auto simp: run_event_def and_go_on_def cbind_def cret_def split: if_splits prod.splits cres.splits
        dest: stdin_loop_keeps)
qed

lemma timer_keeps:
  assumes "I True s" "emitted s = []" "run_event EvTimer s = (Value r, s')"
  shows "I False s'"
proof -
  obtain u t where t: "processTimerEvent (class_of tcp) s = (Value u, t)"
    using assms(3) methods_fixed [OF assms(1)]
    by (auto simp: run_event_def dispatch_def cwith_def and_go_on_def cbind_def split: prod.splits cres.splits)
  from assms t have "I False t" by (blast intro: on_timer)
  with assms(3) t methods_fixed [OF assms(1)] show ?thesis
    by (auto simp: run_event_def dispatch_def cwith_def and_go_on_def cbind_def cret_def
        split: if_splits prod.splits cres.splits dest: stdin_loop_keeps)
qed

end

text \<open>What is preserved and holds at the start holds in every reachable state.\<close>

locale client_invariant = client_preserved +
  assumes at_start: "m_is_tcp a = tcp \<Longrightarrow> I False (Client a)"
begin

lemma holds_within:
  "reachable a s armed \<Longrightarrow> m_is_tcp a = tcp \<Longrightarrow> \<exists>b. I b s \<and> armed = armed_after b (emitted s)"
proof (induction rule: reachable.induct)
  case start
  then show ?case using at_start [of a] by (intro exI [of _ False]) (simp add: Client_def)
next
  case (event s armed ev r s')
  then obtain b where "I b s" "armed = armed_after b (emitted s)" by blast
  then have "I armed (s\<lparr>emitted := []\<rparr>)" using next_event by blast
  with event show ?case using run_event_keeps by blast
next
  case (timer s r s')
  then obtain b where "I b s" "armed_after b (emitted s)" by auto
  then have "I True (s\<lparr>emitted := []\<rparr>)" using next_event [of b s] by simp
  with timer show ?case using timer_keeps [of "s\<lparr>emitted := []\<rparr>"] by auto
qed

end

end
