(* ===== verification/Client_Commands.thy ===== *)
theory Client_Commands
  imports Client_Text
begin

text \<open>
  The grammar of what the user types: the five kinds of lines as a data type, how each is
  written, and that \<open>parseUserInput\<close> accepts exactly these lines, in the states that allow them.
\<close>

datatype command =
    Auth bytes bytes bytes   \<comment> \<open>user name, secret, display name\<close>
  | Join bytes
  | Rename bytes
  | Help
  | Say bytes

text \<open>How the user writes a command, and the words \<open>parseUserInput\<close> makes of it.\<close>

fun line_text :: "command \<Rightarrow> bytes" where
  "line_text (Auth u p d) = ''/auth '' @ u @ '' '' @ p @ '' '' @ d"
| "line_text (Join c) = ''/join '' @ c"
| "line_text (Rename d) = ''/rename '' @ d"
| "line_text Help = ''/help''"
| "line_text (Say c) = c"

fun words :: "command \<Rightarrow> bytes list" where
  "words (Auth u p d) = [''/auth'', u, p, d]"
| "words (Join c) = [''/join'', c]"
| "words (Rename d) = [''/rename'', d]"
| "words Help = [''/help'']"
| "words (Say c) = [c]"

text \<open>The characters each part may have.\<close>

fun well_formed :: "command \<Rightarrow> bool" where
  "well_formed (Auth u p d) \<longleftrightarrow> text_of alphaNumericUnderlineDash u \<and> text_of alphaNumericUnderlineDash p
     \<and> text_of printableChar d"
| "well_formed (Join c) \<longleftrightarrow> text_of alphaNumericUnderlineDash c"
| "well_formed (Rename d) \<longleftrightarrow> text_of printableChar d"
| "well_formed Help \<longleftrightarrow> True"
| "well_formed (Say c) \<longleftrightarrow> text_of printableCharSpaceLf c \<and> hd c \<noteq> CHR ''/''"

text \<open>The states that allow it.\<close>

fun allowed :: "command \<Rightarrow> FSM_state \<Rightarrow> bool" where
  "allowed (Auth u p d) st \<longleftrightarrow> st = S_START \<or> st = S_AUTH"
| "allowed (Join c) st \<longleftrightarrow> st = S_OPEN"
| "allowed (Rename d) st \<longleftrightarrow> st \<noteq> S_JOIN"
| "allowed Help st \<longleftrightarrow> True"
| "allowed (Say c) st \<longleftrightarrow> st = S_OPEN"

text \<open>The lengths that are checked.\<close>

fun sizes_ok :: "command \<Rightarrow> bool" where
  "sizes_ok (Auth u p d) \<longleftrightarrow> length u \<le> 20 \<and> length p \<le> 128 \<and> isValidDisplayNameLength (of_nat (length d))"
| "sizes_ok (Join c) \<longleftrightarrow> length c \<le> 20"
| "sizes_ok (Rename d) \<longleftrightarrow> isValidDisplayNameLength (of_nat (length d))"
| "sizes_ok Help \<longleftrightarrow> True"
| "sizes_ok (Say c) \<longleftrightarrow> isValidMsgContentLength (of_nat (length c))"

lemma say_not_keyword:
  "well_formed (Say c) \<Longrightarrow> c \<noteq> ''/auth'' \<and> c \<noteq> ''/join'' \<and> c \<noteq> ''/rename'' \<and> c \<noteq> ''/help''"
  by auto

section \<open>The patterns\<close>

lemma regex_end: "regex_match eq [] s = Some gs \<longleftrightarrow> s = [] \<and> gs = []"
  by auto

lemma last_group: "regex_match eq [Group cls] s = Some gs \<longleftrightarrow> text_of cls s \<and> gs = [s]"
proof
  assume "regex_match eq [Group cls] s = Some gs"
  then show "text_of cls s \<and> gs = [s]" by (rule regex_groupD) (auto simp: regex_end simp del: regex_match.simps)
next
  assume "text_of cls s \<and> gs = [s]"
  then show "regex_match eq [Group cls] s = Some gs"
    using regex_group [of cls s "[]" eq "[]"] by simp
qed

lemma exact_prefix:
  "regex_match exact (Literal t # ps) s = Some gs \<longleftrightarrow> (\<exists>rest. s = t @ rest \<and> regex_match exact ps rest = Some gs)"
  by (auto simp del: regex_match.simps simp: regex_literal [OF list_all2_exact] elim!: regex_literalD
      simp: exact_literal)

lemma word_then_blank:
  assumes "\<not> cls (CHR '' '')"
  shows "regex_match exact (Group cls # Literal '' '' # ps) s = Some gs
    \<longleftrightarrow> (\<exists>w rest hs. s = w @ '' '' @ rest \<and> text_of cls w \<and> gs = w # hs \<and> regex_match exact ps rest = Some hs)"
proof
  assume "regex_match exact (Group cls # Literal '' '' # ps) s = Some gs"
  then obtain w rest hs where "s = w @ rest" "gs = w # hs" "text_of cls w" "regex_match exact (Literal '' '' # ps) rest = Some hs"
    by (rule regex_groupD)
  then show "\<exists>w rest hs. s = w @ '' '' @ rest \<and> text_of cls w \<and> gs = w # hs \<and> regex_match exact ps rest = Some hs"
    by (auto simp: exact_prefix simp del: regex_match.simps)
next
  assume "\<exists>w rest hs. s = w @ '' '' @ rest \<and> text_of cls w \<and> gs = w # hs \<and> regex_match exact ps rest = Some hs"
  then obtain w rest hs where w: "s = w @ '' '' @ rest" "text_of cls w" "gs = w # hs" "regex_match exact ps rest = Some hs"
    by blast
  have "regex_match exact (Literal '' '' # ps) ('' '' @ rest) = Some hs"
    using w(4) by (subst exact_prefix) blast
  with w assms show "regex_match exact (Group cls # Literal '' '' # ps) s = Some gs"
    by (simp add: regex_group del: regex_match.simps)
qed

lemma command_patterns:
  "regex_match exact authCommandRegex line = Some gs
     \<longleftrightarrow> (\<exists>u p d. line = line_text (Auth u p d) \<and> well_formed (Auth u p d) \<and> gs = [u, p, d])"
  "regex_match exact joinCommandRegex line = Some gs
     \<longleftrightarrow> (\<exists>c. line = line_text (Join c) \<and> well_formed (Join c) \<and> gs = [c])"
  "regex_match exact renameCommandRegex line = Some gs
     \<longleftrightarrow> (\<exists>d. line = line_text (Rename d) \<and> well_formed (Rename d) \<and> gs = [d])"
  "regex_match exact helpCommandRegex line = Some gs \<longleftrightarrow> line = line_text Help \<and> gs = []"
  "regex_match exact userMsgRegex line = Some gs \<longleftrightarrow> text_of printableCharSpaceLf line \<and> gs = [line]"
  unfolding authCommandRegex_def joinCommandRegex_def renameCommandRegex_def helpCommandRegex_def userMsgRegex_def
  by (auto simp: exact_prefix word_then_blank last_group regex_end simp del: regex_match.simps)

section \<open>A line\<close>

lemma no_match: "(\<And>gs. regex_match eq ps s \<noteq> Some gs) \<Longrightarrow> regex_match eq ps s = None"
  by (metis option.exhaust)

lemmas is_match = command_patterns [THEN iffD2]

text \<open>Which patterns a command does not match.\<close>

lemma earlier_patterns:
  "regex_match exact authCommandRegex (line_text (Join c)) = None"
  "regex_match exact authCommandRegex (line_text (Rename d)) = None"
  "regex_match exact joinCommandRegex (line_text (Rename d)) = None"
  "regex_match exact authCommandRegex (line_text Help) = None"
  "regex_match exact joinCommandRegex (line_text Help) = None"
  "regex_match exact renameCommandRegex (line_text Help) = None"
  by (rule no_match; simp add: command_patterns)+

lemma no_command_patterns:
  assumes "line = [] \<or> hd line \<noteq> CHR ''/''"
  shows "regex_match exact authCommandRegex line = None" "regex_match exact joinCommandRegex line = None"
    "regex_match exact renameCommandRegex line = None" "regex_match exact helpCommandRegex line = None"
  using assms by (auto intro!: no_match simp: command_patterns)

definition complain :: "bytes \<Rightarrow> client \<Rightarrow> client" where
  "complain text s = s\<lparr>emitted := emitted s @ [WriteOut (''ERROR: '' @ text @ [newline])]\<rparr>"

lemma reject_eq: "reject m s = (Value [], complain m s)"
  by (simp add: reject_def printErrMsg_def cout_line_def cpp_simps complain_def)

lemma parse_well_formed:
  assumes "well_formed c"
  shows "parse_line (line_text c) s =
    (if \<not> allowed c (m_current_state s)
     then (Value [], complain (case c of Rename d \<Rightarrow> ''you can't rename yourself in the current application state.''
       | _ \<Rightarrow> wrong_state) s)
     else if \<not> sizes_ok c then (Value [], complain wrong_length s)
     else (Value (words c), s))"
proof (cases c)
  case (Auth u p d)
  with assms have "regex_match exact authCommandRegex (line_text c) = Some [u, p, d]"
    by (subst command_patterns(1)) auto
  with Auth show ?thesis
    by (auto simp: parse_line_def cwith_def canSendMessageType_def reject_eq cret_def not_le)
next
  case (Join x)
  with assms have "regex_match exact joinCommandRegex (line_text c) = Some [x]"
    by (subst command_patterns(2)) auto
  with Join earlier_patterns show ?thesis
    by (simp add: parse_line_def cwith_def canSendMessageType_def reject_eq cret_def not_le del: line_text.simps)
next
  case (Rename d)
  with assms have "regex_match exact renameCommandRegex (line_text c) = Some [d]"
    by (subst command_patterns(3)) auto
  with Rename earlier_patterns show ?thesis
    by (simp add: parse_line_def cwith_def reject_eq cret_def del: line_text.simps)
next
  case Help
  have "regex_match exact helpCommandRegex (line_text Help) = Some []"
    by (subst command_patterns(4)) simp
  with Help earlier_patterns show ?thesis
    by (simp add: parse_line_def cwith_def cret_def del: line_text.simps) simp
next
  case (Say x)
  with assms have "x \<noteq> []" "hd x \<noteq> CHR ''/''" "regex_match exact userMsgRegex x = Some [x]"
    by (auto simp: text_of_def command_patterns)
  with Say no_command_patterns [of x] show ?thesis
    by (simp add: parse_line_def cwith_def canSendMessageType_def reject_eq cret_def)
qed

lemma parse_other:
  assumes "\<nexists>c. well_formed c \<and> line = line_text c"
  shows "parse_line line s = (Value [], complain ''invalid user input.'' s)"
proof -
  have "regex_match exact authCommandRegex line = None" "regex_match exact joinCommandRegex line = None"
    "regex_match exact renameCommandRegex line = None" "regex_match exact helpCommandRegex line = None"
    using assms well_formed.simps(4) by (auto intro!: no_match simp only: command_patterns; blast)+
  moreover have "(if line \<noteq> [] \<and> hd line \<noteq> CHR ''/'' then regex_match exact userMsgRegex line else None) = None"
    using assms by (auto intro!: no_match simp: command_patterns dest: spec [of _ "Say line"])
  ultimately show ?thesis
    by (simp add: parse_line_def cwith_def reject_eq)
qed

lemma parse_cases:
  obtains (bad) t where "parse_line line s = (Value [], complain t s)"
  | (good) c where "well_formed c" "line = line_text c" "allowed c (m_current_state s)" "sizes_ok c"
      "parse_line line s = (Value (words c), s)"
proof (cases "\<exists>c. well_formed c \<and> line = line_text c")
  case True
  then obtain c where "well_formed c" "line = line_text c" by blast
  with parse_well_formed [of c s] good bad show thesis by (auto split: if_splits)
next
  case False
  with bad parse_other show thesis by blast
qed

text \<open>
  C21. The grammar of user input: a line is understood as a command exactly when it is that
  command's text with the right characters, the state of the client allows the command and the
  lengths pass their checks. Nothing is printed or changed then; every other line prints exactly one
  error and changes nothing else.
\<close>

theorem user_input_grammar:
  "(fst (parse_line line s) \<noteq> Value []
      \<longleftrightarrow> (\<exists>c. well_formed c \<and> line = line_text c \<and> allowed c (m_current_state s) \<and> sizes_ok c))
   \<and> parse_line line s \<in> range (\<lambda>text. (Value [], complain text s))
        \<union> {(Value (words c), s) | c. well_formed c \<and> line = line_text c}"
proof (cases "\<exists>c. well_formed c \<and> line = line_text c")
  case True
  then obtain c where c: "well_formed c" "line = line_text c" by blast
  have "words c' \<noteq> []" for c' by (cases c') simp_all
  then have "fst (parse_line line s) \<noteq> Value []
      \<longleftrightarrow> (\<exists>c. well_formed c \<and> line = line_text c \<and> allowed c (m_current_state s) \<and> sizes_ok c)"
    using parse_well_formed [where s = s] c by (metis cres.inject(1) fst_conv)
  moreover have "parse_line line s \<in> {(Value (words c), s)} \<union> range (\<lambda>text. (Value [], complain text s))"
    using parse_well_formed [OF c(1), of s] c(2) by auto
  ultimately show ?thesis using c by blast
next
  case False
  then show ?thesis using parse_other [OF False, of s] by auto
qed

end
