(* ===== verification/Tcp_Invariant.thy ===== *)
theory Tcp_Invariant
  imports Client_Invariants Client_Commands
begin

text \<open>
  The TCP client as a state machine: what each command does, and the invariant of its reachable
  states.
\<close>

section \<open>Commands\<close>

definition tcp_request :: "bytes \<Rightarrow> client \<Rightarrow> client" where
  "tcp_request m s = s\<lparr>m_msg_to_server := m @ crlf, emitted := emitted s @ [SendStream (m @ crlf)]\<rparr>"

definition tcp_await :: "client \<Rightarrow> client" where
  "tcp_await s = s\<lparr>m_is_waiting_for_reply := True, stdin_polled := False,
     emitted := emitted s @ [StdinEvents False, ArmTimer 5000]\<rparr>"

definition say_help :: "client \<Rightarrow> client" where
  "say_help s = snd (printSupportedCommands s)"

text \<open>The effect of a command that is accepted.\<close>

fun tcp_effect :: "command \<Rightarrow> client \<Rightarrow> client" where
  "tcp_effect (Auth u p d) s =
     tcp_await (tcp_request (''AUTH '' @ u @ '' AS '' @ d @ '' USING '' @ p) (s\<lparr>m_user_display_name := d, m_current_state := S_AUTH\<rparr>))"
| "tcp_effect (Join c) s =
     tcp_await (tcp_request (''JOIN '' @ c @ '' AS '' @ m_user_display_name s) (s\<lparr>m_current_state := S_JOIN\<rparr>))"
| "tcp_effect (Rename d) s = s\<lparr>m_user_display_name := d\<rparr>"
| "tcp_effect Help s = say_help s"
| "tcp_effect (Say c) s = tcp_request (''MSG FROM '' @ m_user_display_name s @ '' IS '' @ c) s"

lemmas tcp_command_defs = tcp_processStdinEvent_def tcp_on_input_def parseUserInput_def processNonMsgToServer_def
  tcp_user_action_def buildUserMsgToServer_def getUserMsgType_def tcp_builders_def tcp_buildAuthMsg_def
  tcp_buildJoinMsg_def tcp_buildMsgMsg_def tcp_sendMsgToServer_def disableStdinEvents_def startTimer_def

lemma tcp_command:
  assumes "well_formed c" "allowed c (m_current_state s)" "sizes_ok c"
  shows "tcp_processStdinEvent False (Some (line_text c)) s = (Value (), tcp_effect c s)"
proof -
  have parse: "parse_line (line_text c) s = (Value (words c), s)"
    using parse_well_formed [OF assms(1), of s] assms by simp
  show ?thesis
  proof (cases c)
    case (Say x)
    with assms say_not_keyword [of x] parse show ?thesis
      by (simp add: tcp_command_defs cpp_simps tcp_request_def)
  qed (use assms parse in \<open>auto simp: tcp_command_defs cpp_simps tcp_request_def tcp_await_def say_help_def
        printSupportedCommands_def cout_line_def\<close>)
qed

lemma tcp_line_cases:
  obtains (bad) t where "tcp_processStdinEvent False (Some line) s = (Value (), complain t s)"
  | (good) c where "well_formed c" "allowed c (m_current_state s)" "sizes_ok c"
      "tcp_processStdinEvent False (Some line) s = (Value (), tcp_effect c s)"
proof (cases rule: parse_cases [of line s])
  case (bad t)
  then show ?thesis
    by (intro that(1)) (simp add: tcp_processStdinEvent_def tcp_on_input_def parseUserInput_def cbind_def cret_def)
next
  case (good c)
  then show ?thesis using that(2) tcp_command by blast
qed

section \<open>The invariant\<close>

text \<open>A message on the stream is one line: its only carriage return is that of its end.\<close>

definition is_line :: "bytes \<Rightarrow> bool" where
  "is_line b \<longleftrightarrow> find_eom b = Some (length b - 2) \<and> CHR 0x0D \<notin> set (take (length b - 2) b)"

lemma is_line_crlf [simp]: "is_line (m @ crlf) \<longleftrightarrow> CHR 0x0D \<notin> set m"
  using find_eom_line [of m "[]"] by (auto simp: is_line_def crlf_def)

fun one_line :: "action \<Rightarrow> bool" where
  "one_line (SendStream b) = is_line b"
| "one_line (SendTo p b) = False"
| "one_line _ = True"

definition tcp_invariant :: "bool \<Rightarrow> client \<Rightarrow> bool" where
  "tcp_invariant b s \<longleftrightarrow> m_is_tcp (m_args s)
     \<and> stdin_polled s = (\<not> m_is_waiting_for_reply s)
     \<and> armed_after b (emitted s) = m_is_waiting_for_reply s
     \<and> (m_is_waiting_for_reply s \<longrightarrow> m_current_state s = S_AUTH \<or> m_current_state s = S_JOIN)
     \<and> (m_current_state s = S_JOIN \<longrightarrow> m_is_waiting_for_reply s)
     \<and> text_of printableChar (m_user_display_name s)
     \<and> find_eom (m_msg_from_server s) = None
     \<and> length (m_msg_from_server s) < s_MAX_MSG_SIZE
     \<and> list_all one_line (emitted s)"

lemma request_keeps [simp]:
  "tcp_invariant b (tcp_request m s) \<longleftrightarrow> tcp_invariant b s \<and> CHR 0x0D \<notin> set m"
  by (auto simp: tcp_invariant_def tcp_request_def)

lemma text_no_cr:
  "text_of printableChar w \<Longrightarrow> CHR 0x0D \<notin> set w"
  "text_of printableCharSpaceLf w \<Longrightarrow> CHR 0x0D \<notin> set w"
  "text_of alphaNumericUnderlineDash w \<Longrightarrow> CHR 0x0D \<notin> set w"
  by (auto simp: text_of_def list_all_iff dest: class_excludes)

lemma name_no_cr: "tcp_invariant b s \<Longrightarrow> CHR 0x0D \<notin> set (m_user_display_name s)"
  by (simp add: tcp_invariant_def text_no_cr)

text \<open>Sending a request and starting to wait for its reply.\<close>

lemma await_keeps:
  assumes "tcp_invariant b s" "stdin_polled s" "st = S_AUTH \<or> st = S_JOIN" "text_of printableChar d" "CHR 0x0D \<notin> set m"
  shows "tcp_invariant b (tcp_await (tcp_request m (s\<lparr>m_user_display_name := d, m_current_state := st\<rparr>)))"
  using assms by (auto simp: tcp_invariant_def tcp_await_def tcp_request_def)

lemma tcp_effect_keeps:
  assumes "tcp_invariant b s" "well_formed c" "allowed c (m_current_state s)" "stdin_polled s"
  shows "tcp_invariant b (tcp_effect c s)"
proof (cases c)
  case (Auth u p d)
  with assms show ?thesis by (simp add: await_keeps text_no_cr)
next
  case (Join x)
  have "text_of printableChar (m_user_display_name s)" using assms(1) by (simp add: tcp_invariant_def)
  with Join assms await_keeps [of b s S_JOIN "m_user_display_name s"] show ?thesis by (simp add: text_no_cr)
next
  case (Rename d)
  with assms show ?thesis by (simp add: tcp_invariant_def)
next
  case Help
  with assms show ?thesis
    by (auto simp: tcp_invariant_def say_help_def printSupportedCommands_def cout_line_def cpp_simps)
next
  case (Say x)
  with assms show ?thesis by (simp add: name_no_cr text_no_cr)
qed

lemma complain_keeps: "tcp_invariant b s \<Longrightarrow> tcp_invariant b (complain t s)"
  by (simp add: tcp_invariant_def complain_def)

section \<open>Events\<close>

lemma err_not_value: "sendErrMsgAndTerminate e s \<noteq> (Value x, s')"
  using err_throws [of e s] by (metis cres.distinct(1) fst_conv)

text \<open>While the buffer is being emptied the rest of the invariant holds.\<close>

definition tcp_open_buffer :: "bool \<Rightarrow> client \<Rightarrow> bool" where
  "tcp_open_buffer b s \<longleftrightarrow> tcp_invariant b (with_buffer [] s)"

lemma message_keeps:
  assumes "tcp_open_buffer b s" "tcp_processMessageFromServer m s = (Value r, s')"
  shows "tcp_open_buffer b s'"
  using assms
  by (auto simp: tcp_processMessageFromServer_def tcp_processServerByeMsg_def tcp_processServerErrMsg_def
      tcp_processServerMsgMsg_def tcp_processServerReplyMsg_def cwith_def cbind_def cret_def err_not_value Let_def
      outputIncomingMsg_def outputIncomingReply_def printErrFromServer_def cout_line_def emit_def cset_def stopTimer_def
      enableStdinEvents_def tcp_open_buffer_def tcp_invariant_def with_buffer_def
      split: if_splits FSM_state.splits option.splits list.splits prod.splits cres.splits)

lemma receive_keeps:
  "tcp_open_buffer b s \<Longrightarrow> \<not> final (fst (receive_loop s)) \<Longrightarrow> tcp_open_buffer b (snd (receive_loop s))"
proof (induction "length (m_msg_from_server s)" arbitrary: s rule: less_induct)
  case less
  show ?case
  proof (cases "find_eom (m_msg_from_server s)")
    case None
    with less.prems show ?thesis by (simp add: receive_loop_idle)
  next
    case (Some n)
    obtain r t where rt: "tcp_processMessageFromServer (take (n + 2) (m_msg_from_server s)) s = (r, t)"
      by fastforce
    have le: "n + 2 \<le> s_MAX_MSG_SIZE"
      using less.prems(2) receive_loop_long [OF Some] err_throws [where 'a = nat]
      by (metis final.simps(1) not_le)
    let ?t = "with_buffer (drop (n + 2) (m_msg_from_server s)) t"
    obtain q where q: "r = Value q" "receive_loop s = receive_loop ?t"
      using less.prems(2) receive_loop_step [OF Some le rt] by (auto split: cres.splits if_splits)
    from less.prems(1) rt q(1) have "tcp_open_buffer b t" by (metis message_keeps)
    then have "tcp_open_buffer b ?t" by (simp add: tcp_open_buffer_def)
    with less find_eom_bound [OF Some] q(2) show ?thesis by simp
  qed
qed

lemma socket_keeps:
  assumes "tcp_invariant b s" "tcp_processSocketEvent src d s = (Value r, s')" "r \<noteq> 0" "r \<noteq> 1"
  shows "tcp_invariant b s'"
proof -
  have d: "d \<noteq> []" using assms(2,3) by (auto simp: tcp_processSocketEvent_def cret_def)
  let ?s = "with_buffer (m_msg_from_server s @ d) s"
  have ev: "go_on receive_loop check_length ?s = (Value r, s')"
    using assms(2) socket_event_def [OF d] by simp
  have open_s: "tcp_open_buffer b ?s"
    using assms(1) by (auto simp: tcp_open_buffer_def tcp_invariant_def with_buffer_def s_MAX_MSG_SIZE_def)
  have nf: "\<not> final (fst (receive_loop ?s))"
    using ev assms(3,4) by (auto simp: go_on_final)
  let ?t = "snd (receive_loop ?s)"
  have "check_length ?t = (Value r, s')" using ev go_on_more [of receive_loop, OF nf] by simp
  then have "s' = ?t" "length (m_msg_from_server ?t) < s_MAX_MSG_SIZE"
    by (auto simp: check_length_def cwith_def cret_def err_not_value split: if_splits)
  with receive_keeps [OF open_s nf] receive_loop_drains [OF nf] show ?thesis
    by (simp add: tcp_open_buffer_def tcp_invariant_def with_buffer_def)
qed

lemma tcp_class: "class_of True = tcp_methods"
  by (simp add: class_of_def)

lemma tcp_dispatch [simp]:
  "processStdinEvent (class_of True) = tcp_processStdinEvent"
  "processSocketEvent (class_of True) = tcp_processSocketEvent"
  "processTimerEvent (class_of True) = tcp_processTimerEvent"
  "sigintHandler (class_of True) = tcp_sigintHandler"
  by (simp_all add: tcp_class tcp_methods_def tcp_builders_def)

text \<open>The exceptions of the other events end the program.\<close>

lemma tcp_eof_throws: "tcp_processStdinEvent hup None s \<noteq> (Value u, s')" if "m_is_tcp (m_args s)"
  using that
  by (auto simp: tcp_processStdinEvent_def tcp_on_input_def parseUserInput_def tcp_builders_def
      tcp_sendByeMsgToServer_def tcp_buildByeMsg_def tcp_sendMsgToServer_def cpp_simps)

lemma tcp_timer_throws: "tcp_processTimerEvent s \<noteq> (Value u, s')"
  by (simp add: tcp_processTimerEvent_def cwith_def err_not_value cthrow_def)

lemma tcp_sigint_throws: "tcp_sigintHandler s \<noteq> (Value u, s')"
  by (simp add: tcp_sigintHandler_def tcp_sendByeMsgToServer_def tcp_buildByeMsg_def tcp_sendMsgToServer_def cpp_simps)

lemma tcp_line_keeps:
  assumes "tcp_invariant b s" "stdin_polled s" "tcp_processStdinEvent False (Some line) s = (Value u, s')"
  shows "tcp_invariant b s'"
proof (cases rule: tcp_line_cases [of line s])
  case (bad t)
  with assms show ?thesis by (auto simp: complain_keeps)
next
  case (good c)
  with assms tcp_effect_keeps [of b s c] show ?thesis by simp
qed

lemma tcp_invariant_start: "m_is_tcp a \<Longrightarrow> tcp_invariant False (Client a)"
  by (simp add: tcp_invariant_def Client_def text_of_def printableChar_def ord_def s_MAX_MSG_SIZE_def)

interpretation tcp_flow: client_invariant True tcp_invariant
proof (unfold_locales, unfold tcp_dispatch)
  show "m_is_tcp a = True \<Longrightarrow> tcp_invariant False (Client a)" for a
    using tcp_invariant_start by simp
next
  fix b s assume "tcp_invariant b s"
  then show "m_is_tcp (m_args s) = True" "tcp_invariant (armed_after b (emitted s)) (s\<lparr>emitted := []\<rparr>)"
    by (simp_all add: tcp_invariant_def)
next
  show "tcp_invariant b (s\<lparr>cin_buffer := x, stdin_pipe := y\<rparr>) = tcp_invariant b s" for b s x y
    by (simp add: tcp_invariant_def)
next
  fix b s line u s'
  assume "tcp_invariant b s" "stdin_polled s" "tcp_processStdinEvent False (Some line) s = (Value u, s')"
  then show "tcp_invariant b s'" by (rule tcp_line_keeps)
next
  show "stable (tcp_invariant b) (tcp_processStdinEvent hup None)" for b hup
  proof (rule stableI)
    fix s u s' assume "tcp_invariant b s" "tcp_processStdinEvent hup None s = (Value u, s')"
    then show "tcp_invariant b s'" using tcp_eof_throws [of s hup u s'] by (simp add: tcp_invariant_def)
  qed
next
  fix b s src d r s'
  assume "tcp_invariant b s" "tcp_processSocketEvent src d s = (Value r, s')" "r \<noteq> 0" "r \<noteq> 1"
  then show "tcp_invariant b s'" by (rule socket_keeps)
next
  show "tcp_invariant False s'" if "tcp_processTimerEvent s = (Value u, s')" for s u s'
    using that tcp_timer_throws by simp
next
  show "stable (tcp_invariant b) tcp_sigintHandler" for b
    by (rule stableI) (simp add: tcp_sigint_throws)
qed

text \<open>
  C14. In every state the TCP client reaches: standard input is polled exactly when no reply is
  awaited, and the timer is armed exactly when one is; a reply is awaited only in the states
  \<open>AUTH\<close> and \<open>JOIN\<close>, and always in \<open>JOIN\<close>; the buffer holds no complete message and less than
  \<open>s_MAX_MSG_SIZE\<close> octets; everything the last event sent is one line of the protocol each.
  In particular a timer event always finds the client waiting for a reply.
\<close>

theorem tcp_client_states:
  assumes "reachable a s armed" "m_is_tcp a"
  shows "stdin_polled s = (\<not> m_is_waiting_for_reply s) \<and> armed = m_is_waiting_for_reply s
    \<and> (m_current_state s = S_START \<or> m_current_state s = S_OPEN \<or> m_current_state s = S_AUTH \<or> m_is_waiting_for_reply s)
    \<and> (m_is_waiting_for_reply s = False \<or> m_current_state s = S_AUTH \<or> m_current_state s = S_JOIN)
    \<and> find_eom (m_msg_from_server s) = None \<and> length (m_msg_from_server s) < s_MAX_MSG_SIZE
    \<and> list_all one_line (emitted s)"
proof -
  obtain b where "tcp_invariant b s" "armed = armed_after b (emitted s)"
    using tcp_flow.holds_within [OF assms(1)] assms(2) by auto
  then show ?thesis
    by (cases "m_current_state s") (auto simp: tcp_invariant_def)
qed

theorem tcp_client_states_witness:
  "let a = default_args\<lparr>m_is_tcp := True\<rparr>; s = Client a
   in reachable a s False \<and> stdin_polled s = (\<not> m_is_waiting_for_reply s)
      \<and> length (m_msg_from_server s) < s_MAX_MSG_SIZE"
  using tcp_client_states [of "default_args\<lparr>m_is_tcp := True\<rparr>", OF reachable.start] reachable.start
  by (simp add: Let_def)

end
