(* ===== verification/Udp_Invariant.thy ===== *)
theory Udp_Invariant
  imports Client_Invariants Client_Commands
begin

text \<open>
  The UDP client as a state machine: closed forms of its methods, what each command does, and the
  invariant of its reachable states.
\<close>

section \<open>Closed forms\<close>

text \<open>Send the current message to the server's current address.\<close>

definition transmit :: "client \<Rightarrow> client" where
  "transmit s = s\<lparr>emitted := emitted s @ [SendTo (uint (m_server_addr (m_args s))) (m_msg_to_server s)]\<rparr>"

definition compose :: "char \<Rightarrow> bytes \<Rightarrow> client \<Rightarrow> client" where
  "compose t payload s = s\<lparr>m_msg_to_server := [t] @ id_octets (m_msg_to_server_id s) @ payload\<rparr>"

definition next_id :: "client \<Rightarrow> client" where
  "next_id s = s\<lparr>m_msg_to_server_id := m_msg_to_server_id s + 1\<rparr>"

text \<open>Stop reading input and arm the timer for the confirmation.\<close>

definition await_confirm :: "client \<Rightarrow> client" where
  "await_confirm s = s\<lparr>stdin_polled := False,
     emitted := emitted s @ [StdinEvents False, ArmTimer (uint (m_udp_confirm_timeout (m_args s)))]\<rparr>"

definition confirm_to :: "16 word \<Rightarrow> client \<Rightarrow> client" where
  "confirm_to i s = s\<lparr>m_confirmed_server_messages := i # m_confirmed_server_messages s,
     emitted := emitted s @ [SendTo (uint (m_server_addr (m_args s))) ([CHR 0x00] @ id_octets i)]\<rparr>"

definition report_error :: "bytes \<Rightarrow> client \<Rightarrow> client" where
  "report_error e s =
     (let s1 = compose (CHR 0xFE) (m_user_display_name s @ [CHR 0x00] @ e @ [CHR 0x00]) (next_id s);
          s2 = complain (drop 7 (e @ [CHR 0x00])) s1
      in (await_confirm (transmit s2))\<lparr>m_is_waiting_for_confirm := True, m_is_waiting_for_reply := False\<rparr>)"

definition say_bye :: "client \<Rightarrow> client" where
  "say_bye s = reset_retransmissions ((await_confirm (transmit (compose (CHR 0xFF) (m_user_display_name s @ [CHR 0x00]) (next_id s))))
     \<lparr>m_is_waiting_for_confirm := False, m_is_waiting_for_reply := False, m_is_waiting_for_bye_confirm := True\<rparr>)"

lemmas udp_primitive_defs = send_to_server_def udp_sendMsgToServer_def start_confirm_timer_def startTimer_def
  stopTimer_def disableStdinEvents_def enableStdinEvents_def with_id_def cpp_simps
  transmit_def compose_def next_id_def await_confirm_def

lemma sendConfirmMsg_eq: "sendConfirmMsg i s = (Value (), confirm_to i s)"
  by (simp add: sendConfirmMsg_def confirm_to_def udp_primitive_defs)

text \<open>The part of the datagram that is printed.\<close>

lemma error_tail: "drop (11 + length d) (a # b # c # d @ z # r) = drop 7 r"
proof -
  have "11 + length d = Suc (Suc (Suc (length d + Suc 7)))" by simp
  then show ?thesis
    by (simp only: drop_Suc_Cons drop_append diff_add_inverse drop_all append_Nil le_add1)
qed

lemma sendErrMsg_eq: "sendErrMsg e s = (Value (), report_error e s)"
  by (simp add: sendErrMsg_def udp_buildErrMsg_def report_error_def printErrMsg_def cout_line_def complain_def
      id_octets_def Let_def error_tail udp_primitive_defs)

lemma sendBye_eq: "udp_sendByeMsgToServer s = (Value (), say_bye s)"
  by (simp add: udp_sendByeMsgToServer_def udp_buildByeMsg_def say_bye_def udp_primitive_defs)

section \<open>Commands\<close>

text \<open>A request: the message, then the wait for its confirmation and perhaps a reply.\<close>

definition udp_request :: "char \<Rightarrow> bytes \<Rightarrow> bool \<Rightarrow> client \<Rightarrow> client" where
  "udp_request t payload wants_reply s =
     (await_confirm (transmit (compose t payload s)))\<lparr>m_is_waiting_for_confirm := True, m_is_waiting_for_reply := wants_reply\<rparr>"

fun udp_effect :: "command \<Rightarrow> client \<Rightarrow> client" where
  "udp_effect (Auth u p d) s =
     udp_request (CHR 0x02) (u @ [CHR 0x00] @ d @ [CHR 0x00] @ p @ [CHR 0x00]) True
       (s\<lparr>m_user_display_name := d, m_current_state := S_AUTH\<rparr>)"
| "udp_effect (Join c) s =
     udp_request (CHR 0x03) (c @ [CHR 0x00] @ m_user_display_name s @ [CHR 0x00]) True s"
| "udp_effect (Rename d) s = s\<lparr>m_user_display_name := d\<rparr>"
| "udp_effect Help s = snd (printSupportedCommands s)"
| "udp_effect (Say c) s =
     udp_request (CHR 0x04) (m_user_display_name s @ [CHR 0x00] @ c @ [CHR 0x00]) False s"

lemmas udp_command_defs = udp_processStdinEvent_def udp_on_input_def parseUserInput_def processNonMsgToServer_def
  udp_user_action_def buildUserMsgToServer_def getUserMsgType_def udp_builders_def udp_buildAuthMsg_def
  udp_buildJoinMsg_def udp_buildMsgMsg_def udp_request_def

lemma udp_command:
  assumes "well_formed c" "allowed c (m_current_state s)" "sizes_ok c"
  shows "udp_processStdinEvent False (Some (line_text c)) s = (Value (), udp_effect c s)"
proof -
  have parse: "parse_line (line_text c) s = (Value (words c), s)"
    using parse_well_formed [OF assms(1), of s] assms by simp
  show ?thesis
  proof (cases c)
    case (Say x)
    with assms say_not_keyword [of x] parse show ?thesis
      by (simp add: udp_command_defs udp_primitive_defs)
  qed (use assms parse in \<open>auto simp: udp_command_defs udp_primitive_defs printSupportedCommands_def cout_line_def\<close>)
qed

lemma udp_line_cases:
  obtains (bad) t where "udp_processStdinEvent False (Some line) s = (Value (), complain t s)"
  | (good) c where "well_formed c" "allowed c (m_current_state s)" "sizes_ok c"
      "udp_processStdinEvent False (Some line) s = (Value (), udp_effect c s)"
proof (cases rule: parse_cases [of line s])
  case (bad t)
  then show ?thesis
    by (intro that(1)) (simp add: udp_processStdinEvent_def udp_on_input_def parseUserInput_def cbind_def cret_def)
next
  case (good c)
  then show ?thesis using that(2) udp_command by blast
qed

lemma udp_eof: "m_is_tcp (m_args s) = False \<Longrightarrow> udp_processStdinEvent hup None s = (Value (), say_bye s)"
proof -
  assume *: "m_is_tcp (m_args s) = False"
  have "m_args (say_bye s) = m_args s" by (simp add: say_bye_def reset_retransmissions_def udp_primitive_defs)
  with * show ?thesis
    by (simp add: udp_processStdinEvent_def udp_on_input_def parseUserInput_def udp_builders_def cbind_def cwith_def
        cret_def sendBye_eq)
qed

section \<open>The invariant\<close>

text \<open>The client has sent \<open>ERR\<close> or \<open>BYE\<close> and waits for its confirmation to end.\<close>

definition closing :: "client \<Rightarrow> bool" where
  "closing s \<longleftrightarrow> first_octet (m_msg_to_server s) = CHR 0xFE \<or> first_octet (m_msg_to_server s) = CHR 0xFF"

text \<open>A datagram has a header, of one of the types \<open>ts\<close>; nothing is written to a stream.\<close>

fun datagram_of :: "char set \<Rightarrow> action \<Rightarrow> bool" where
  "datagram_of ts (SendTo p b) \<longleftrightarrow> 3 \<le> length b \<and> hd b \<in> ts"
| "datagram_of ts (SendStream b) \<longleftrightarrow> False"
| "datagram_of ts _ \<longleftrightarrow> True"

definition closing_types :: "char set" where
  "closing_types = {CHR 0x00, CHR 0xFE, CHR 0xFF}"

definition client_types :: "char set" where
  "client_types = {CHR 0x02, CHR 0x03, CHR 0x04} \<union> closing_types"

text \<open>The message to send again is a whole one.\<close>

definition current_ok :: "client \<Rightarrow> bool" where
  "current_ok s \<longleftrightarrow> (m_is_waiting_for_confirm s \<or> m_is_waiting_for_bye_confirm s)
     \<longrightarrow> 3 \<le> length (m_msg_to_server s) \<and> hd (m_msg_to_server s) \<in> client_types"

definition udp_invariant :: "bool \<Rightarrow> client \<Rightarrow> bool" where
  "udp_invariant b s \<longleftrightarrow> \<not> m_is_tcp (m_args s)
     \<and> (armed_after b (emitted s) \<longrightarrow> m_is_waiting_for_confirm s \<or> m_is_waiting_for_bye_confirm s \<or> m_is_waiting_for_reply s)
     \<and> m_allowed_retransmissions s \<le> m_udp_max_retrans_count (m_args s)
     \<and> (closing s \<longrightarrow> \<not> m_is_waiting_for_reply s \<and> \<not> stdin_polled s
          \<and> (m_is_waiting_for_confirm s \<or> m_is_waiting_for_bye_confirm s))
     \<and> current_ok s
     \<and> list_all (datagram_of client_types) (emitted s)"

lemmas udp_invariant_defs = udp_invariant_def current_ok_def closing_def client_types_def closing_types_def

lemmas udp_step_defs = report_error_def say_bye_def confirm_to_def udp_request_def complain_def Let_def
  transmit_def compose_def next_id_def await_confirm_def reset_retransmissions_def id_octets_def first_octet_def

lemma udp_invariant_steps:
  assumes "udp_invariant b s"
  shows "udp_invariant b (report_error e s)" "udp_invariant b (say_bye s)" "udp_invariant b (confirm_to i s)"
    "udp_invariant b (complain t s)"
  using assms by (auto simp: udp_invariant_defs udp_step_defs)

text \<open>An error report waits for its confirmation, whatever the timer was doing before.\<close>

lemma report_error_rearms: "udp_invariant b s \<Longrightarrow> udp_invariant b' (report_error e s)"
  by (auto simp: udp_invariant_defs udp_step_defs)

lemma udp_effect_keeps:
  assumes "udp_invariant b s" "stdin_polled s"
  shows "udp_invariant b (udp_effect c s)"
  using assms
  by (cases c) (auto simp: udp_invariant_defs udp_step_defs printSupportedCommands_def cout_line_def cpp_simps)

section \<open>Events\<close>

lemma printed_keeps: "udp_invariant b s \<Longrightarrow> udp_invariant b (s\<lparr>emitted := emitted s @ [WriteOut t]\<rparr>)"
  by (simp add: udp_invariant_defs)

lemma addr_keeps: "udp_invariant b s \<Longrightarrow> udp_invariant b (s\<lparr>m_args := (m_args s)\<lparr>m_server_addr := p\<rparr>\<rparr>)"
  by (simp add: udp_invariant_defs)

lemma udp_msg_keeps:
  "udp_invariant b s \<Longrightarrow> udp_processServerMsgMsg m s = (Value u, s') \<Longrightarrow> udp_invariant b s'"
  by (auto simp: udp_processServerMsgMsg_def isValidMsgMsg_def outputIncomingMsg_def cout_line_def cpp_simps
      sendConfirmMsg_eq sendErrMsg_eq udp_invariant_steps printed_keeps
      split: if_splits option.splits list.splits)

lemma udp_err_keeps:
  "udp_invariant b s \<Longrightarrow> udp_processServerErrMsg m s = (Value r, s') \<Longrightarrow> udp_invariant b s'"
  by (auto simp: udp_processServerErrMsg_def isValidErrMsg_def printErrFromServer_def cout_line_def cpp_simps
      sendConfirmMsg_eq sendErrMsg_eq udp_invariant_steps printed_keeps
      split: if_splits option.splits list.splits)

lemma udp_bye_keeps:
  "udp_invariant b s \<Longrightarrow> udp_processServerByeMsg m s = (Value r, s') \<Longrightarrow> udp_invariant b s'"
  by (auto simp: udp_processServerByeMsg_def cpp_simps sendConfirmMsg_eq sendErrMsg_eq udp_invariant_steps
      split: if_splits)

lemma udp_ping_keeps:
  "udp_invariant b s \<Longrightarrow> processServerPingMsg m s = (Value u, s') \<Longrightarrow> udp_invariant b s'"
  by (auto simp: processServerPingMsg_def sendConfirmMsg_eq sendErrMsg_eq udp_invariant_steps split: if_splits)

text \<open>The reply that is awaited: it is printed unless seen before, confirmed, and input is read again.\<close>

definition accept_reply :: "bytes \<Rightarrow> client \<Rightarrow> client" where
  "accept_reply m s =
     (let s1 = s\<lparr>emitted := emitted s @ [ArmTimer 0]
            @ (if getMsgId m \<in> set (m_confirmed_server_messages s) then []
               else [WriteOut (''Action '' @ (if m ! 3 \<noteq> CHR 0x00 then ''Success'' else ''Failure'') @ '': ''
                      @ takeWhile (\<lambda>c. c \<noteq> CHR 0x00) (drop 6 m) @ [newline])])\<rparr>;
          s2 = confirm_to (getMsgId m) s1
      in s2\<lparr>m_current_state := (if m_current_state s = S_JOIN \<or> m ! 3 \<noteq> CHR 0x00 then S_OPEN else m_current_state s),
           m_is_waiting_for_reply := False, stdin_polled := True, emitted := emitted s2 @ [StdinEvents True]\<rparr>)"

definition new_server :: "int \<Rightarrow> client \<Rightarrow> client" where
  "new_server src s = (if m_current_state s = S_AUTH
     then s\<lparr>m_args := (m_args s)\<lparr>m_server_addr := word_of_int src\<rparr>\<rparr> else s)"

definition expected_reply :: "bytes \<Rightarrow> client \<Rightarrow> bool" where
  "expected_reply m s \<longleftrightarrow> m_is_waiting_for_reply s \<and> uint (m_msg_to_server_id s) - 1 = uint (getRefMsgId m)"

lemma reply_eq:
  assumes "m_current_state s = S_AUTH \<or> m_current_state s = S_JOIN"
  shows "udp_processServerReplyMsg src m s =
    (if isValidReplyMsg m
     then (Value (), if expected_reply m s then accept_reply m (new_server src s) else new_server src s)
     else (Value (), report_error ''ERROR: received a malformed REPLY message from the server.'' s))"
  using assms
  by (auto simp: udp_processServerReplyMsg_def expected_reply_def accept_reply_def new_server_def sendConfirmMsg_eq
      sendErrMsg_eq outputIncomingReply_def cout_line_def stopTimer_def enableStdinEvents_def confirm_to_def
      cpp_simps Let_def)

lemma accept_keeps:
  assumes "udp_invariant b s" "m_is_waiting_for_reply s"
  shows "udp_invariant b (accept_reply m s)"
  using assms by (auto simp: udp_invariant_defs accept_reply_def confirm_to_def id_octets_def Let_def)

lemma new_server_keeps: "udp_invariant b s \<Longrightarrow> udp_invariant b (new_server src s)"
  by (simp add: new_server_def addr_keeps)

lemma new_server_waits [simp]: "m_is_waiting_for_reply (new_server src s) = m_is_waiting_for_reply s"
  by (simp add: new_server_def)

lemma udp_reply_keeps:
  assumes "udp_invariant b s" "m_current_state s = S_AUTH \<or> m_current_state s = S_JOIN"
    and "udp_processServerReplyMsg src m s = (Value u, s')"
  shows "udp_invariant b s'"
  using assms(1,3) reply_eq [OF assms(2), of src m] new_server_keeps [OF assms(1), of src]
  by (auto simp: udp_invariant_steps accept_keeps expected_reply_def split: if_splits)

text \<open>What the confirmation of the current message does.\<close>

definition request_confirmed :: "client \<Rightarrow> client" where
  "request_confirmed s = (confirmed_request s)\<lparr>emitted := emitted s @ [ArmTimer 5000]\<rparr>"

definition msg_confirmed :: "client \<Rightarrow> client" where
  "msg_confirmed s = (reset_retransmissions s)\<lparr>m_is_waiting_for_confirm := False, m_msg_to_server_id := m_msg_to_server_id s + 1,
     stdin_polled := True, emitted := emitted s @ [ArmTimer 0, StdinEvents True]\<rparr>"

definition confirmed :: "client \<Rightarrow> client" where
  "confirmed s =
     (if m_current_state s = S_AUTH \<and> first_octet (m_msg_to_server s) = CHR 0x02 then request_confirmed s
      else if m_current_state s = S_OPEN \<and> first_octet (m_msg_to_server s) = CHR 0x04 then msg_confirmed s
      else if m_current_state s = S_OPEN \<and> first_octet (m_msg_to_server s) = CHR 0x03
      then (request_confirmed s)\<lparr>m_current_state := S_JOIN\<rparr>
      else s)"

lemma confirm_eq:
  "processServerConfirmMsg m s =
    (if isValidConfirmMsg m then
       if getMsgId m = m_msg_to_server_id s then
         if first_octet (m_msg_to_server s) = CHR 0xFF then (Value 0, s)
         else if first_octet (m_msg_to_server s) = CHR 0xFE then (Value 1, s)
         else (Value 2, confirmed s)
       else (Value 2, s)
     else (Value 2, report_error ''ERROR: received a malformed CONFIRM message from the server.'' s))"
  by (cases "m_current_state s")
     (simp_all add: processServerConfirmMsg_def cwith_def Let_def cret_def cbind_def cset_def emit_def
      startTimer_def stopTimer_def enableStdinEvents_def sendErrMsg_eq confirmed_def request_confirmed_def
      msg_confirmed_def confirmed_request_def reset_retransmissions_def)

lemma request_confirmed_keeps:
  "udp_invariant b s \<Longrightarrow> \<not> closing s \<Longrightarrow> udp_invariant b (request_confirmed s)"
  by (auto simp: udp_invariant_defs request_confirmed_def confirmed_request_def reset_retransmissions_def)

lemma msg_confirmed_keeps: "udp_invariant b s \<Longrightarrow> \<not> closing s \<Longrightarrow> udp_invariant b (msg_confirmed s)"
  by (auto simp: udp_invariant_defs msg_confirmed_def reset_retransmissions_def)

lemma state_keeps [simp]: "udp_invariant b (s\<lparr>m_current_state := st\<rparr>) = udp_invariant b s"
  by (simp add: udp_invariant_defs)

lemma confirm_keeps:
  assumes "udp_invariant b s" "processServerConfirmMsg m s = (Value r, s')" "r \<noteq> 0" "r \<noteq> 1"
  shows "udp_invariant b s'"
proof (cases "closing s")
  case True
  with assms show ?thesis by (auto simp: confirm_eq closing_def udp_invariant_steps split: if_splits)
next
  case False
  with assms(1) have "udp_invariant b (confirmed s)"
    by (simp add: confirmed_def request_confirmed_keeps msg_confirmed_keeps)
  with assms show ?thesis by (auto simp: confirm_eq udp_invariant_steps split: if_splits)
qed

text \<open>A datagram by its type and the state.\<close>

lemma dispatch_cases:
  assumes "udp_processMessageFromServer src m s = (Value r, s')"
  obtains (bye) "udp_processServerByeMsg m s = (Value r, s')"
  | (err) "udp_processServerErrMsg m s = (Value r, s')"
  | (confirm) "processServerConfirmMsg m s = (Value r, s')"
  | (reply) "r = 2" "m_current_state s = S_AUTH \<or> m_current_state s = S_JOIN" "udp_processServerReplyMsg src m s = (Value (), s')"
  | (msg) "r = 2" "receiving s" "udp_processServerMsgMsg m s = (Value (), s')"
  | (ping) "r = 2" "processServerPingMsg m s = (Value (), s')"
  | (unexpected) e where "r = 2" "s' = report_error e s"
proof (cases "first_octet m \<in> {CHR 0x00, CHR 0xFE, CHR 0xFF}")
  case True
  with assms bye err confirm show ?thesis
    by (auto simp: udp_processMessageFromServer_def Let_def cwith_def)
next
  case False
  have go: "cbind k (\<lambda>_. cret 2) s = (Value r, s') \<Longrightarrow> r = 2 \<and> k s = (Value (), s')" for k :: "unit C"
    by (auto simp: cbind_def cret_def split: prod.splits cres.splits)
  show ?thesis
    using assms False reply msg ping unexpected
    by (cases "m_current_state s")
       (auto simp: udp_processMessageFromServer_def Let_def cwith_def receiving_def sendErrMsg_eq dest!: go split: if_splits)
qed

lemma udp_socket_keeps:
  assumes "udp_invariant b s" "udp_processSocketEvent src d s = (Value r, s')" "r \<noteq> 0" "r \<noteq> 1"
  shows "udp_invariant b s'"
proof (cases "udp_MAX_MSG_SIZE < length (take (udp_MAX_MSG_SIZE + 1) d)")
  case True
  with assms show ?thesis
    by (auto simp: udp_processSocketEvent_def cbind_def cret_def sendErrMsg_eq udp_invariant_steps)
next
  case False
  then have "udp_processMessageFromServer src d s = (Value r, s')"
    using assms(2) by (simp add: udp_processSocketEvent_def)
  then show ?thesis
  proof (cases rule: dispatch_cases)
    case confirm
    with assms show ?thesis by (blast intro: confirm_keeps)
  next
    case reply
    with assms(1) show ?thesis by (blast intro: udp_reply_keeps)
  qed (use assms(1) in \<open>auto simp: udp_invariant_steps intro: udp_bye_keeps udp_err_keeps udp_msg_keeps udp_ping_keeps\<close>)
qed

lemma word_pred_le: "n \<noteq> 0 \<Longrightarrow> n \<le> m \<Longrightarrow> n - 1 \<le> m" for n m :: "8 word"
  by (simp add: word_le_nat_alt unat_minus_one)

definition retransmit :: "client \<Rightarrow> client" where
  "retransmit s = s\<lparr>m_allowed_retransmissions := m_allowed_retransmissions s - 1,
     emitted := emitted s @ [SendTo (uint (m_server_addr (m_args s))) (m_msg_to_server s),
       ArmTimer (uint (m_udp_confirm_timeout (m_args s)))]\<rparr>"

lemma retransmit_eq:
  assumes "m_is_waiting_for_confirm s \<or> m_is_waiting_for_bye_confirm s"
  shows "udp_processTimerEvent s =
    (if m_allowed_retransmissions s = 0 then (Throw ''exceeded udp max retransmission number.'', s)
     else (Value (), retransmit s))"
  using assms
  by (auto simp: udp_processTimerEvent_def retransmit_def udp_sendMsgToServer_def send_to_server_def
      start_confirm_timer_def startTimer_def cpp_simps)

lemma retransmit_keeps:
  assumes "udp_invariant b s" "m_is_waiting_for_confirm s \<or> m_is_waiting_for_bye_confirm s" "m_allowed_retransmissions s \<noteq> 0"
  shows "udp_invariant b' (retransmit s)"
proof -
  have "closing (retransmit s) = closing s" by (simp add: closing_def retransmit_def)
  with assms show ?thesis
    by (simp add: udp_invariant_def current_ok_def) (auto simp: retransmit_def word_pred_le)
qed

lemma udp_timer_keeps:
  assumes "udp_invariant True s" "emitted s = []" "udp_processTimerEvent s = (Value u, s')"
  shows "udp_invariant False s'"
proof (cases "m_is_waiting_for_confirm s \<or> m_is_waiting_for_bye_confirm s")
  case True
  with assms(1,3) retransmit_keeps [OF assms(1) True] show ?thesis
    by (auto simp: retransmit_eq split: if_splits)
next
  case False
  then have "m_is_waiting_for_reply s" using assms(1,2) by (simp add: udp_invariant_def)
  with False assms(3) have "s' = report_error ''ERROR: waited too long for the server's reply.'' s"
    by (auto simp: udp_processTimerEvent_def cwith_def sendErrMsg_eq)
  with assms(1) show ?thesis by (simp add: report_error_rearms)
qed

lemma udp_dispatch [simp]:
  "processStdinEvent (class_of False) = udp_processStdinEvent"
  "processSocketEvent (class_of False) = udp_processSocketEvent"
  "processTimerEvent (class_of False) = udp_processTimerEvent"
  "sigintHandler (class_of False) = udp_sigintHandler"
  by (simp_all add: class_of_def udp_methods_def udp_builders_def)

lemma udp_invariant_start: "\<not> m_is_tcp a \<Longrightarrow> udp_invariant False (Client a)"
  by (simp add: udp_invariant_defs Client_def first_octet_def)

lemma udp_line_keeps:
  assumes "udp_invariant b s" "stdin_polled s" "udp_processStdinEvent False (Some line) s = (Value u, s')"
  shows "udp_invariant b s'"
proof (cases rule: udp_line_cases [of line s])
  case (bad t)
  with assms show ?thesis by (auto simp: udp_invariant_steps)
next
  case (good c)
  with assms udp_effect_keeps [of b s c] show ?thesis by simp
qed

lemma udp_is_udp: "udp_invariant b s \<Longrightarrow> m_is_tcp (m_args s) = False"
  by (simp add: udp_invariant_def)

interpretation udp_flow: client_invariant False udp_invariant
proof (unfold_locales, unfold udp_dispatch)
  show "udp_invariant False (Client a)" if "m_is_tcp a = False" for a
    using that udp_invariant_start by simp
next
  fix b s assume "udp_invariant b s"
  then show "m_is_tcp (m_args s) = False" "udp_invariant (armed_after b (emitted s)) (s\<lparr>emitted := []\<rparr>)"
    by (simp_all add: udp_invariant_def current_ok_def closing_def)
next
  show "udp_invariant b (s\<lparr>cin_buffer := x, stdin_pipe := y\<rparr>) = udp_invariant b s" for b s x y
    by (simp add: udp_invariant_def current_ok_def closing_def)
next
  fix b s line u s'
  assume "udp_invariant b s" "stdin_polled s" "udp_processStdinEvent False (Some line) s = (Value u, s')"
  then show "udp_invariant b s'" by (rule udp_line_keeps)
next
  show "stable (udp_invariant b) (udp_processStdinEvent hup None)" for b hup
    by (rule stableI) (auto simp: udp_is_udp udp_eof udp_invariant_steps)
next
  fix b s src d r s'
  assume "udp_invariant b s" "udp_processSocketEvent src d s = (Value r, s')" "r \<noteq> 0" "r \<noteq> 1"
  then show "udp_invariant b s'" by (rule udp_socket_keeps)
next
  fix s u s'
  assume "udp_invariant True s" "emitted s = []" "udp_processTimerEvent s = (Value u, s')"
  then show "udp_invariant False s'" by (rule udp_timer_keeps)
next
  show "stable (udp_invariant b) udp_sigintHandler" for b
    by (rule stableI) (auto simp: udp_sigintHandler_def sendBye_eq udp_invariant_steps)
qed

section \<open>Closing\<close>

text \<open>While it closes the client sends nothing but \<open>CONFIRM\<close>, \<open>ERR\<close> and \<open>BYE\<close>.\<close>

definition udp_closing :: "bool \<Rightarrow> client \<Rightarrow> bool" where
  "udp_closing b s \<longleftrightarrow> udp_invariant b s \<and> closing s \<and> list_all (datagram_of closing_types) (emitted s)"

lemma closing_steps:
  assumes "udp_closing b s"
  shows "udp_closing b' (report_error e s)" "udp_closing b (say_bye s)" "udp_closing b (confirm_to i s)"
    "udp_closing b (s\<lparr>emitted := emitted s @ [WriteOut t]\<rparr>)" "udp_closing b (new_server src s)"
  using assms report_error_rearms udp_invariant_steps printed_keeps new_server_keeps
  by (auto simp: udp_closing_def) (auto simp: closing_def closing_types_def udp_step_defs new_server_def)

lemma closing_facts: "udp_closing b s \<Longrightarrow> closing s \<and> \<not> m_is_waiting_for_reply s \<and> \<not> stdin_polled s"
  by (simp add: udp_closing_def udp_invariant_def)

lemma closing_messages:
  assumes "udp_closing b s"
  shows "udp_processServerMsgMsg m s = (Value u, s') \<Longrightarrow> udp_closing b s'"
    and "udp_processServerErrMsg m s = (Value r, s') \<Longrightarrow> udp_closing b s'"
    and "udp_processServerByeMsg m s = (Value r, s') \<Longrightarrow> udp_closing b s'"
    and "processServerPingMsg m s = (Value u, s') \<Longrightarrow> udp_closing b s'"
  using assms
  by (auto simp: udp_processServerMsgMsg_def isValidMsgMsg_def udp_processServerErrMsg_def isValidErrMsg_def
      udp_processServerByeMsg_def processServerPingMsg_def outputIncomingMsg_def printErrFromServer_def cout_line_def
      cpp_simps sendConfirmMsg_eq sendErrMsg_eq closing_steps split: if_splits option.splits list.splits)

lemma closing_socket:
  assumes "udp_closing b s" "udp_processSocketEvent src d s = (Value r, s')" "r \<noteq> 0" "r \<noteq> 1"
  shows "udp_closing b s'"
proof (cases "udp_MAX_MSG_SIZE < length (take (udp_MAX_MSG_SIZE + 1) d)")
  case True
  with assms show ?thesis
    by (auto simp: udp_processSocketEvent_def cbind_def cret_def sendErrMsg_eq closing_steps)
next
  case False
  then have "udp_processMessageFromServer src d s = (Value r, s')"
    using assms(2) by (simp add: udp_processSocketEvent_def)
  then show ?thesis
  proof (cases rule: dispatch_cases)
    case confirm
    with assms closing_facts [OF assms(1)] show ?thesis
      by (auto simp: confirm_eq closing_def closing_steps split: if_splits)
  next
    case reply
    with assms(1) closing_facts [OF assms(1)] reply_eq [OF reply(2), of src d] show ?thesis
      by (auto simp: expected_reply_def closing_steps split: if_splits)
  qed (use assms(1) in \<open>auto simp: closing_steps intro: closing_messages\<close>)
qed

lemma closing_timer:
  assumes "udp_closing True s" "udp_processTimerEvent s = (Value u, s')"
  shows "udp_closing False s'"
proof -
  have w: "m_is_waiting_for_confirm s \<or> m_is_waiting_for_bye_confirm s"
    using assms(1) by (simp add: udp_closing_def udp_invariant_def)
  then have s': "s' = retransmit s" "m_allowed_retransmissions s \<noteq> 0"
    using assms(2) by (simp_all add: retransmit_eq split: if_splits)
  then have "udp_invariant False s'" using retransmit_keeps [OF _ w, of True] assms(1) by (simp add: udp_closing_def)
  moreover have "3 \<le> length (m_msg_to_server s)" "hd (m_msg_to_server s) \<in> closing_types"
    using assms(1) w
    by (auto simp: udp_closing_def udp_invariant_def current_ok_def closing_def closing_types_def first_octet_def
        split: list.splits)
  ultimately show ?thesis
    using assms(1) s'(1) by (simp add: udp_closing_def closing_def retransmit_def)
qed

interpretation udp_close: client_preserved False udp_closing
proof (unfold_locales, unfold udp_dispatch)
  fix b s assume "udp_closing b s"
  then show "m_is_tcp (m_args s) = False" "udp_closing (armed_after b (emitted s)) (s\<lparr>emitted := []\<rparr>)"
    using udp_is_udp [of b s] udp_flow.next_event [of b s] by (simp_all add: udp_closing_def closing_def)
next
  show "udp_closing b (s\<lparr>cin_buffer := x, stdin_pipe := y\<rparr>) = udp_closing b s" for b s x y
    by (simp add: udp_closing_def udp_flow.input_irrelevant) (simp add: closing_def)
next
  fix b s line u s'
  assume "udp_closing b s" "stdin_polled s"
  then show "udp_closing b s'" using closing_facts by blast
next
  show "stable (udp_closing b) (udp_processStdinEvent hup None)" for b hup
  proof (rule stableI)
    fix s u s' assume s: "udp_closing b s" "udp_processStdinEvent hup None s = (Value u, s')"
    then have "m_is_tcp (m_args s) = False" using udp_is_udp [of b s] by (simp add: udp_closing_def)
    with s show "udp_closing b s'" by (auto simp: udp_eof closing_steps)
  qed
next
  fix b s src d r s'
  assume "udp_closing b s" "udp_processSocketEvent src d s = (Value r, s')" "r \<noteq> 0" "r \<noteq> 1"
  then show "udp_closing b s'" by (rule closing_socket)
next
  fix s u s'
  assume "udp_closing True s" "udp_processTimerEvent s = (Value u, s')"
  then show "udp_closing False s'" by (rule closing_timer)
next
  show "stable (udp_closing b) udp_sigintHandler" for b
    by (rule stableI) (auto simp: udp_sigintHandler_def sendBye_eq closing_steps)
qed

text \<open>Events that leave standard input alone.\<close>

lemma stdin_idle: "\<not> stdin_polled s \<Longrightarrow> stdin_loop s = (Value (), s)"
  by (simp add: stdin_loop.simps)

lemma udp_methods_of: "\<not> m_is_tcp (m_args s) \<Longrightarrow> methods s = class_of False"
  by (simp add: methods_def class_of_def)

lemma run_sigint: "\<not> m_is_tcp (m_args s) \<Longrightarrow> run_event EvSigint s = (Value 2, say_bye s)"
proof -
  assume "\<not> m_is_tcp (m_args s)"
  moreover have "\<not> stdin_polled (say_bye s)" by (simp add: say_bye_def udp_step_defs)
  ultimately show ?thesis
    by (simp add: run_event_def dispatch_def cwith_def and_go_on_def cbind_def cret_def udp_methods_of udp_sigintHandler_def
        sendBye_eq stdin_idle)
qed

lemma run_retransmit:
  assumes "\<not> m_is_tcp (m_args s)" "m_is_waiting_for_confirm s \<or> m_is_waiting_for_bye_confirm s" "\<not> stdin_polled s"
  shows "run_event EvTimer s =
    (if m_allowed_retransmissions s = 0 then (Throw ''exceeded udp max retransmission number.'', s)
     else (Value 2, retransmit s))"
  using assms
  by (simp add: run_event_def dispatch_def cwith_def and_go_on_def cbind_def cret_def udp_methods_of retransmit_eq
      stdin_idle retransmit_def)

text \<open>
  C12. In every state the UDP client reaches the timer is armed only while a confirmation or a
  reply is awaited, so the exception for an unexpected timer event is never thrown; the count of
  retransmissions never exceeds the configured maximum; everything sent is a datagram with a
  header and a type a client may send; and a client that has sent \<open>ERR\<close> or \<open>BYE\<close> no longer
  reads input or waits for a reply.
\<close>

theorem udp_client_states:
  assumes "reachable a s armed" "\<not> m_is_tcp a"
  shows "(armed = False \<or> m_is_waiting_for_confirm s \<or> m_is_waiting_for_bye_confirm s \<or> m_is_waiting_for_reply s)
    \<and> m_allowed_retransmissions s \<le> m_udp_max_retrans_count (m_args s)
    \<and> list_all (datagram_of client_types) (emitted s)
    \<and> (closing s = False \<or> (stdin_polled s = False \<and> m_is_waiting_for_reply s = False))"
proof -
  obtain b where "udp_invariant b s" "armed = armed_after b (emitted s)"
    using udp_flow.holds_within [OF assms(1)] assms(2) by auto
  then show ?thesis by (auto simp: udp_invariant_def)
qed

theorem udp_client_states_witness:
  "let s = Client default_args
   in reachable default_args s False \<and> m_allowed_retransmissions s \<le> m_udp_max_retrans_count (m_args s)"
  using udp_client_states [of default_args, OF reachable.start] reachable.start
  by (simp add: Let_def default_args_def)

text \<open>
  C20. Closing is final: after a UDP client has sent \<open>ERR\<close> or \<open>BYE\<close>, every further event that does not end the
  program leaves it closing, and no \<open>AUTH\<close>, \<open>JOIN\<close> or \<open>MSG\<close> is sent any more.
\<close>

theorem udp_closing_is_final:
  assumes "reachable a s armed" "\<not> m_is_tcp a" "closing s"
    and "ev \<noteq> EvTimer \<or> armed" "run_event ev (s\<lparr>emitted := []\<rparr>) = (Value r, s')" "r \<noteq> 0" "r \<noteq> 1"
  shows "closing s' \<and> list_all (datagram_of closing_types) (emitted s')"
proof -
  obtain b where "udp_invariant b s" "armed = armed_after b (emitted s)"
    using udp_flow.holds_within [OF assms(1)] assms(2) by auto
  then have "udp_closing armed (s\<lparr>emitted := []\<rparr>)"
    using assms(3) udp_flow.next_event [of b s] by (simp add: udp_closing_def closing_def)
  then have "\<exists>b. udp_closing b s'"
    using assms(4-7) udp_close.run_event_keeps [of ev armed "s\<lparr>emitted := []\<rparr>"] udp_close.timer_keeps [of "s\<lparr>emitted := []\<rparr>"]
    by (cases "ev = EvTimer") auto
  then show ?thesis by (auto simp: udp_closing_def)
qed

text \<open>The client is interrupted, then its \<open>BYE\<close> is not confirmed in time.\<close>

definition interrupted :: client where
  "interrupted = say_bye (Client default_args)"

lemmas interrupted_defs = interrupted_def Client_def default_args_def udp_step_defs

lemma interrupted_reachable: "reachable default_args interrupted True"
proof -
  have "(Client default_args)\<lparr>emitted := []\<rparr> = Client default_args" by (simp add: Client_def)
  then have "run_event EvSigint ((Client default_args)\<lparr>emitted := []\<rparr>) = (Value 2, interrupted)"
    using run_sigint [of "Client default_args"] by (simp add: interrupted_defs)
  from reachable.event [OF reachable.start _ this] show ?thesis by (simp add: interrupted_defs)
qed

theorem udp_closing_is_final_witness:
  "closing interrupted \<and> run_event EvTimer (interrupted\<lparr>emitted := []\<rparr>) = (Value 2, retransmit (interrupted\<lparr>emitted := []\<rparr>))
   \<and> list_all (datagram_of closing_types) (emitted (retransmit (interrupted\<lparr>emitted := []\<rparr>)))"
proof -
  have c: "closing interrupted" by (simp add: closing_def interrupted_defs)
  have run: "run_event EvTimer (interrupted\<lparr>emitted := []\<rparr>) = (Value 2, retransmit (interrupted\<lparr>emitted := []\<rparr>))"
    by (subst run_retransmit) (simp_all add: interrupted_defs)
  from udp_closing_is_final [OF interrupted_reachable _ c _ run] c run show ?thesis
    by (simp add: default_args_def)
qed

end
