(* ===== verification/Udp_Laws.thy ===== *)
theory Udp_Laws
  imports Udp_Invariant Codec
begin

text \<open>
  What the UDP client guarantees: bounded retransmission, delivery of each message once, the
  matching of replies, and that it speaks the same wire format as the encoders and the decoder of
  the test harness.
\<close>

section \<open>Retransmission\<close>

text \<open>The state after the timer has expired \<open>n\<close> times and nothing else has happened.\<close>

definition timeouts :: "nat \<Rightarrow> client \<Rightarrow> client" where
  "timeouts n s = ((\<lambda>s. fst (chat_handle EvTimer s)) ^^ n) s"

definition unconfirmed :: "client \<Rightarrow> bool" where
  "unconfirmed s \<longleftrightarrow> \<not> m_is_tcp (m_args s) \<and> (m_is_waiting_for_confirm s \<or> m_is_waiting_for_bye_confirm s) \<and> \<not> stdin_polled s"

lemma unconfirmed_timer:
  assumes "unconfirmed s"
  shows "chat_handle EvTimer s =
    (if m_allowed_retransmissions s = 0
     then (s\<lparr>emitted := []\<rparr>, [WriteOut (''ERROR: exceeded udp max retransmission number.'' @ [newline]), Exit 1])
     else (retransmit (s\<lparr>emitted := []\<rparr>), [SendTo (uint (m_server_addr (m_args s))) (m_msg_to_server s),
       ArmTimer (uint (m_udp_confirm_timeout (m_args s)))]))"
  using assms run_retransmit [of "s\<lparr>emitted := []\<rparr>"]
  by (auto simp: chat_handle_def unconfirmed_def exit_actions_def retransmit_def)

lemma timeouts_Suc: "timeouts (Suc n) s = fst (chat_handle EvTimer (timeouts n s))"
  by (simp add: timeouts_def)

lemma retransmissions_left: "n \<le> unat w \<Longrightarrow> w - of_nat n = 0 \<longleftrightarrow> n = unat w" for w :: "8 word"
proof -
  assume "n \<le> unat w"
  then have "n < 256" using unsigned_less [of w, where 'a = nat] by simp
  then have "unat (of_nat n :: 8 word) = n" by (simp add: unat_of_nat)
  then show ?thesis by (auto simp: word_unat_eq_iff [of w])
qed

text \<open>Only the count of retransmissions and the record of actions change.\<close>

lemma timeouts_eq:
  assumes "unconfirmed s" "n \<le> unat (m_allowed_retransmissions s)"
  shows "\<exists>as. timeouts n s = s\<lparr>m_allowed_retransmissions := m_allowed_retransmissions s - of_nat n, emitted := as\<rparr>"
  using assms(2)
proof (induction n)
  case 0
  then show ?case by (intro exI [of _ "emitted s"]) (simp add: timeouts_def)
next
  case (Suc n)
  then obtain as where as: "timeouts n s
      = s\<lparr>m_allowed_retransmissions := m_allowed_retransmissions s - of_nat n, emitted := as\<rparr>" by auto
  have "m_allowed_retransmissions s - of_nat n \<noteq> 0"
    using Suc.prems retransmissions_left [of n "m_allowed_retransmissions s"] by simp
  moreover have "unconfirmed (timeouts n s)" using assms(1) as by (simp add: unconfirmed_def)
  ultimately show ?case
    using unconfirmed_timer [of "timeouts n s"] as
    by (intro exI [of _ "[SendTo (uint (m_server_addr (m_args s))) (m_msg_to_server s),
          ArmTimer (uint (m_udp_confirm_timeout (m_args s)))]"]) (simp add: timeouts_Suc retransmit_def diff_diff_eq add.commute)
qed

text \<open>
  C16. A message that is never confirmed is sent again, unchanged and to the same address, each time the
  timer expires, exactly as often as retransmissions are allowed; at the next expiry the client
  reports the failure and exits with 1.
\<close>

theorem udp_retransmission_bounded:
  assumes "unconfirmed s" "n \<le> unat (m_allowed_retransmissions s)"
  shows "snd (chat_handle EvTimer (timeouts n s)) =
    (if n < unat (m_allowed_retransmissions s)
     then [SendTo (uint (m_server_addr (m_args s))) (m_msg_to_server s), ArmTimer (uint (m_udp_confirm_timeout (m_args s)))]
     else [WriteOut (''ERROR: exceeded udp max retransmission number.'' @ [newline]), Exit 1])"
proof -
  obtain as where as: "timeouts n s
      = s\<lparr>m_allowed_retransmissions := m_allowed_retransmissions s - of_nat n, emitted := as\<rparr>"
    using timeouts_eq [OF assms] by blast
  have "m_allowed_retransmissions s - of_nat n = 0 \<longleftrightarrow> n = unat (m_allowed_retransmissions s)"
    using assms(2) by (rule retransmissions_left)
  moreover have "unconfirmed (timeouts n s)" using assms(1) as by (simp add: unconfirmed_def)
  ultimately show ?thesis
    using as assms(2) unconfirmed_timer [of "timeouts n s"] by auto
qed

theorem udp_retransmission_bounded_witness:
  "snd (chat_handle EvTimer (timeouts 3 interrupted)) = [WriteOut (''ERROR: exceeded udp max retransmission number.'' @ [newline]), Exit 1]
   \<and> snd (chat_handle EvTimer (timeouts 2 interrupted)) \<noteq> []"
proof -
  have "unconfirmed interrupted" "unat (m_allowed_retransmissions interrupted) = 3"
    by (simp_all add: unconfirmed_def interrupted_defs)
  then show ?thesis
    using udp_retransmission_bounded [of interrupted 3] udp_retransmission_bounded [of interrupted 2] by simp
qed

section \<open>One wire format\<close>

text \<open>The identifiers of the client are those of the harness.\<close>

lemma to_bytes2_id: "to_bytes2 (uint i) = Inr (id_octets i)" for i :: "16 word"
  using unsigned_less [of i, where 'a = int] by (simp add: to_bytes2_def id_octets_def)

lemma octets_id_octets: "octets_id (chr8 (uint i div 256)) (chr8 (uint i mod 256)) = i" for i :: "16 word"
proof -
  have "0 \<le> uint i div 256" "uint i div 256 < 256"
    using unsigned_less [of i, where 'a = int] by (simp_all add: div_less_iff_less_mult pos_imp_zdiv_nonneg_iff)
  then have "256 * ord (chr8 (uint i div 256)) + ord (chr8 (uint i mod 256)) = uint i" by simp
  then show ?thesis by (simp only: octets_id_def word_of_int_uint)
qed

text \<open>ASCII texts are their own encoding.\<close>

lemma encode_ascii_lit:
  assumes "list_all (\<lambda>c. 0 < ord c \<and> ord c < 128) w"
  shows "encode (lit w) = Inr w" "0 \<notin> set (lit w)"
proof -
  have "list_all scalar (lit w)" using assms by (auto simp: lit_def scalar_def list_all_iff)
  moreover have "concat (map utf8_char (lit w)) = w"
    using assms by (induction w) (auto simp: lit_def utf8_char_def)
  ultimately show "encode (lit w) = Inr w" by (simp add: encode_ok encodable_def)
  show "0 \<notin> set (lit w)" using assms by (auto simp: lit_def list_all_iff)
qed

lemma class_ascii:
  "printableChar c \<Longrightarrow> 0 < ord c \<and> ord c < 128" "printableCharSpaceLf c \<Longrightarrow> 0 < ord c \<and> ord c < 128"
  "alphaNumericUnderlineDash c \<Longrightarrow> 0 < ord c \<and> ord c < 128"
  by (auto simp: printableChar_def printableCharSpaceLf_def alphaNumericUnderlineDash_def is_digit_def newline_def ord_def)

lemma text_of_ascii:
  "text_of printableChar w \<Longrightarrow> list_all (\<lambda>c. 0 < ord c \<and> ord c < 128) w"
  "text_of printableCharSpaceLf w \<Longrightarrow> list_all (\<lambda>c. 0 < ord c \<and> ord c < 128) w"
  "text_of alphaNumericUnderlineDash w \<Longrightarrow> list_all (\<lambda>c. 0 < ord c \<and> ord c < 128) w"
  using class_ascii by (auto simp: text_of_def list_all_iff)

lemmas text_encodes = text_of_ascii [THEN encode_ascii_lit(1)]
lemmas text_no_nul = text_of_ascii [THEN encode_ascii_lit(2)]

text \<open>The message of the harness's codec that a command stands for.\<close>

fun chat_of :: "command \<Rightarrow> client \<Rightarrow> chat_msg option" where
  "chat_of (command.Auth u p d) s = Some (chat_msg.Auth (uint (m_msg_to_server_id s)) (lit u) (lit d) (lit p))"
| "chat_of (command.Join c) s = Some (chat_msg.Join (uint (m_msg_to_server_id s)) (lit c) (lit (m_user_display_name s)))"
| "chat_of (Say c) s = Some (Msg (uint (m_msg_to_server_id s)) (lit (m_user_display_name s)) (lit c))"
| "chat_of _ s = None"

lemma command_datagram:
  assumes "well_formed c" "text_of printableChar (m_user_display_name s)" "chat_of c s = Some m"
  shows "\<exists>d. encode_msg m = Inr d
    \<and> emitted (udp_effect c s) = emitted s @ [SendTo (uint (m_server_addr (m_args s))) d,
         StdinEvents False, ArmTimer (uint (m_udp_confirm_timeout (m_args s)))]
    \<and> (\<forall>t \<in> set (msg_texts m). 0 \<notin> set t)"
  using assms
  by (cases c)
     (auto simp: auth_def join_def msg_def zstring_def to_bytes2_id text_encodes text_no_nul
       udp_request_def await_confirm_def transmit_def compose_def)

text \<open>
  C19. Client and harness agree on the wire format: for every request the user can enter, the
  datagram the UDP client sends is the one the encoder of \<open>UDPMessages.py\<close> makes of the same fields
  and the client's message identifier, and \<open>translateMessage\<close> renders it as that request. The client
  then stops reading input and arms its timer with the confirmation timeout.
\<close>

theorem client_datagrams_match_harness:
  assumes "well_formed c" "allowed c (m_current_state s)" "sizes_ok c" "text_of printableChar (m_user_display_name s)"
    and "chat_of c s = Some m" "udp_processStdinEvent False (Some (line_text c)) s = (r, s')"
  shows "\<exists>d. encode_msg m = Inr d \<and> translateMessage d = Inr (render m)
    \<and> emitted s' = emitted s @ [SendTo (uint (m_server_addr (m_args s))) d,
         StdinEvents False, ArmTimer (uint (m_udp_confirm_timeout (m_args s)))]"
proof -
  have "s' = udp_effect c s" using udp_command [OF assms(1-3)] assms(6) by simp
  then show ?thesis using command_datagram [OF assms(1,4,5)] translate_encode_msg by blast
qed

theorem client_datagrams_match_harness_witness:
  "let s = Client default_args
   in \<exists>d. auth 0 (lit ''a'') (lit ''c'') (lit ''b'') = Inr d
      \<and> emitted (snd (udp_processStdinEvent False (Some ''/auth a b c'') s)) = [SendTo 0 d, StdinEvents False, ArmTimer 250]"
proof -
  let ?c = "command.Auth ''a'' ''b'' ''c''" and ?s = "Client default_args"
  have "well_formed ?c" "allowed ?c (m_current_state ?s)" "sizes_ok ?c" "text_of printableChar (m_user_display_name ?s)"
    using valid_display_name [of 1]
    by (simp_all add: text_of_def alphaNumericUnderlineDash_def printableChar_def ord_def Client_def)
  from client_datagrams_match_harness [OF this, of _ "fst (udp_processStdinEvent False (Some (line_text ?c)) ?s)"
      "snd (udp_processStdinEvent False (Some (line_text ?c)) ?s)"]
  show ?thesis by (auto simp: Let_def Client_def default_args_def)
qed

section \<open>Messages from the server\<close>

text \<open>A \<open>MSG\<close> as the harness encodes it.\<close>

record udp_msg =
  um_id :: "16 word"
  um_name :: bytes
  um_content :: bytes

definition um_ok :: "udp_msg \<Rightarrow> bool" where
  "um_ok m \<longleftrightarrow> name_ok (um_name m) \<and> content_ok (um_content m)"

definition um_datagram :: "udp_msg \<Rightarrow> bytes" where
  "um_datagram m = [CHR 0x04] @ id_octets (um_id m) @ um_name m @ [CHR 0x00] @ um_content m @ [CHR 0x00]"

lemma um_encodes: "um_ok m \<Longrightarrow> msg (uint (um_id m)) (lit (um_name m)) (lit (um_content m)) = Inr (um_datagram m)"
  by (simp add: um_ok_def name_ok_def content_ok_def msg_def zstring_def to_bytes2_id text_encodes um_datagram_def)

definition um_line :: "udp_msg \<Rightarrow> bytes" where
  "um_line m = um_name m @ '': '' @ um_content m @ [newline]"

text \<open>What the client does with it.\<close>

definition receive_msg :: "udp_msg \<Rightarrow> client \<Rightarrow> client" where
  "receive_msg m s = confirm_to (um_id m)
     (if um_id m \<in> set (m_confirmed_server_messages s) then s
      else s\<lparr>emitted := emitted s @ [WriteOut (um_line m)]\<rparr>)"

lemma um_regex:
  assumes "um_ok m"
  shows "regex_match exact udp_errMsgRegex (drop 3 (um_datagram m)) = Some [um_name m, um_content m]"
proof -
  have 1: "regex_match exact [Literal [CHR 0x00]] [CHR 0x00] = Some []"
    using regex_literal [OF list_all2_exact, of "[CHR 0x00]" "[]" "[]"] by simp
  have 2: "regex_match exact [Group printableCharSpaceLf, Literal [CHR 0x00]] (um_content m @ [CHR 0x00]) = Some [um_content m]"
    using assms by (subst regex_group) (simp_all add: um_ok_def content_ok_def 1 del: regex_match.simps)
  have 3: "regex_match exact [Literal [CHR 0x00], Group printableCharSpaceLf, Literal [CHR 0x00]]
      ([CHR 0x00] @ um_content m @ [CHR 0x00]) = Some [um_content m]"
    by (subst regex_literal [OF list_all2_exact]) (rule 2)
  have "regex_match exact udp_errMsgRegex (um_name m @ [CHR 0x00] @ um_content m @ [CHR 0x00]) = Some [um_name m, um_content m]"
    unfolding udp_errMsgRegex_def using assms 3
    by (subst regex_group) (simp_all add: um_ok_def name_ok_def del: regex_match.simps)
  then show ?thesis by (simp add: um_datagram_def id_octets_def)
qed

lemma um_facts:
  "first_octet (um_datagram m) = CHR 0x04" "getMsgId (um_datagram m) = um_id m"
  "length (um_datagram m) = 5 + length (um_name m) + length (um_content m)"
  by (simp_all add: um_datagram_def first_octet_def getMsgId_def id_octets_def octets_id_octets)

lemma um_valid:
  assumes "um_ok m"
  shows "isValidMsgMsg (um_datagram m) s =
    (Value True, if um_id m \<in> set (m_confirmed_server_messages s) then s else s\<lparr>emitted := emitted s @ [WriteOut (um_line m)]\<rparr>)"
proof -
  have "isValidMsgMsgLength (length (um_datagram m))"
    using assms by (cases "um_name m"; cases "um_content m")
      (auto simp: isValidMsgMsgLength_def um_facts um_ok_def name_ok_def content_ok_def text_of_def
        s_DISPLAY_NAME_MAX_LENGTH_def s_MSG_CONTENT_MAX_LENGTH_def)
  then show ?thesis
    using assms um_regex [OF assms] ok_lengths(1) [of "um_name m"] ok_lengths(2) [of "um_content m"]
    by (simp add: isValidMsgMsg_def um_facts um_ok_def outputIncomingMsg_def cout_line_def cpp_simps um_line_def)
qed

lemma msg_received:
  assumes "um_ok m" "receiving s" "length (um_name m) + length (um_content m) \<le> 60002"
  shows "udp_processSocketEvent src (um_datagram m) s = (Value 2, receive_msg m s)"
proof -
  have "udp_processServerMsgMsg (um_datagram m) s = (Value (), receive_msg m s)"
    using um_valid [OF assms(1)]
    by (simp add: udp_processServerMsgMsg_def cbind_def sendConfirmMsg_eq um_facts receive_msg_def)
  with assms(2,3) show ?thesis
    by (auto simp: udp_processSocketEvent_def udp_MAX_MSG_SIZE_def s_MSG_CONTENT_MAX_LENGTH_def um_facts
        udp_processMessageFromServer_def Let_def cwith_def receiving_def cbind_def cret_def)
qed

text \<open>
  C33. The size limit of the UDP client is 18 octets too small: of the messages the protocol allows, an
  open client prints and confirms exactly those whose display name and content together have at
  most 60002 octets; a longer one is answered with \<open>ERR\<close> and ends the conversation.
\<close>

theorem udp_message_size_limit:
  assumes "um_ok m" "receiving s"
  shows "udp_processSocketEvent src (um_datagram m) s =
    (Value 2, if length (um_name m) + length (um_content m) \<le> 60002 then receive_msg m s
       else report_error ''ERROR: too long message from server.'' s)"
proof (cases "length (um_name m) + length (um_content m) \<le> 60002")
  case True
  with msg_received [OF assms True] show ?thesis by simp
next
  case False
  then show ?thesis
    by (simp add: udp_processSocketEvent_def udp_MAX_MSG_SIZE_def s_MSG_CONTENT_MAX_LENGTH_def um_facts cbind_def cret_def
        sendErrMsg_eq)
qed

definition udp_open_client :: client where
  "udp_open_client = (Client default_args)\<lparr>m_current_state := S_OPEN\<rparr>"

definition longest_msg :: udp_msg where
  "longest_msg = \<lparr>um_id = 0, um_name = ''abc'', um_content = replicate 60000 CHR ''x''\<rparr>"

lemma longest_msg_ok: "um_ok longest_msg"
  by (simp add: um_ok_def longest_msg_def name_ok_def content_ok_def text_of_def list_all_iff printableChar_def
      printableCharSpaceLf_def ord_def)

theorem udp_message_size_limit_witness:
  "um_ok longest_msg \<and> udp_processSocketEvent 4567 (um_datagram longest_msg) udp_open_client
    = (Value 2, report_error ''ERROR: too long message from server.'' udp_open_client)"
proof -
  have "receiving udp_open_client" by (simp add: receiving_def udp_open_client_def)
  moreover have "\<not> length (um_name longest_msg) + length (um_content longest_msg) \<le> 60002"
    by (simp add: longest_msg_def)
  ultimately show ?thesis
    using udp_message_size_limit [OF longest_msg_ok] longest_msg_ok by simp
qed

section \<open>Each message once\<close>

text \<open>Datagrams handled one after the other, and the messages whose identifier is new.\<close>

fun udp_feed :: "(int \<times> bytes) list \<Rightarrow> nat C" where
  "udp_feed [] = cret 2"
| "udp_feed ((src, d) # ds) = go_on (udp_processSocketEvent src d) (udp_feed ds)"

fun first_seen :: "16 word set \<Rightarrow> udp_msg list \<Rightarrow> udp_msg list" where
  "first_seen seen [] = []"
| "first_seen seen (m # ms) =
     (if um_id m \<in> seen then first_seen seen ms else m # first_seen (insert (um_id m) seen) ms)"

fun printed :: "action list \<Rightarrow> bytes list" where
  "printed [] = []"
| "printed (WriteOut t # as) = t # printed as"
| "printed (_ # as) = printed as"

fun datagrams :: "action list \<Rightarrow> (int \<times> bytes) list" where
  "datagrams [] = []"
| "datagrams (SendTo p b # as) = (p, b) # datagrams as"
| "datagrams (_ # as) = datagrams as"

lemma printed_append [simp]: "printed (xs @ ys) = printed xs @ printed ys"
  by (induction xs rule: printed.induct) simp_all

lemma datagrams_append [simp]: "datagrams (xs @ ys) = datagrams xs @ datagrams ys"
  by (induction xs rule: datagrams.induct) simp_all

lemma receive_msg_effect:
  "printed (emitted (receive_msg m s)) = printed (emitted s)
     @ (if um_id m \<in> set (m_confirmed_server_messages s) then [] else [um_line m])"
  "datagrams (emitted (receive_msg m s)) = datagrams (emitted s)
     @ [(uint (m_server_addr (m_args s)), confirm (id_octets (um_id m)))]"
  "set (m_confirmed_server_messages (receive_msg m s)) = insert (um_id m) (set (m_confirmed_server_messages s))"
  "receiving (receive_msg m s) = receiving s" "m_args (receive_msg m s) = m_args s"
  by (simp_all add: receive_msg_def confirm_to_def receiving_def confirm_def)

text \<open>
  C10. Messages may arrive any number of times: an open UDP client prints each identifier once, in
  the order of first arrival, and confirms every arrival with the \<open>CONFIRM\<close> the harness's encoder would
  make, so that the server stops sending it again.
\<close>

theorem udp_prints_each_message_once:
  assumes "list_all (\<lambda>(src, m). um_ok m \<and> length (um_name m) + length (um_content m) \<le> 60002) ms" "receiving s"
    and "udp_feed (map (\<lambda>(src, m). (src, um_datagram m)) ms) s = (r, s')"
  shows "r = Value 2
    \<and> printed (emitted s') = printed (emitted s) @ map um_line (first_seen (set (m_confirmed_server_messages s)) (map snd ms))
    \<and> datagrams (emitted s') = datagrams (emitted s)
        @ map (\<lambda>(src, m). (uint (m_server_addr (m_args s)), confirm (id_octets (um_id m)))) ms"
  using assms
proof (induction ms arbitrary: s)
  case Nil
  then show ?case by (simp add: cret_def)
next
  case (Cons x ms)
  obtain src m where x: "x = (src, m)" by fastforce
  have "udp_processSocketEvent src (um_datagram m) s = (Value 2, receive_msg m s)"
    using Cons.prems x by (intro msg_received) auto
  then have "udp_feed (map (\<lambda>(src, m). (src, um_datagram m)) ms) (receive_msg m s) = (r, s')"
    using Cons.prems(3) x by (simp add: go_on_simps(2))
  from Cons.IH [OF _ _ this] Cons.prems(1,2) x show ?case by (simp add: receive_msg_effect insert_absorb)
qed

definition twice :: "(int \<times> udp_msg) list" where
  "twice = [(4567, \<lparr>um_id = 7, um_name = ''bob'', um_content = ''hi''\<rparr>),
     (4567, \<lparr>um_id = 7, um_name = ''bob'', um_content = ''hi''\<rparr>)]"

theorem udp_prints_each_message_once_witness:
  "let s' = snd (udp_feed (map (\<lambda>(src, m). (src, um_datagram m)) twice) udp_open_client)
   in printed (emitted s') = [''bob: hi'' @ [newline]] \<and> length (datagrams (emitted s')) = 2"
proof -
  have "list_all (\<lambda>(src, m). um_ok m \<and> length (um_name m) + length (um_content m) \<le> 60002) twice"
    by (simp add: twice_def um_ok_def name_ok_def content_ok_def text_of_def printableChar_def printableCharSpaceLf_def ord_def)
  moreover have "receiving udp_open_client" by (simp add: receiving_def udp_open_client_def)
  ultimately show ?thesis
    using udp_prints_each_message_once [OF _ _ prod.collapse [symmetric], of twice udp_open_client]
    by (simp add: Let_def udp_open_client_def Client_def twice_def um_line_def)
qed

section \<open>Replies\<close>


text \<open>A reply of the server with identifier 0 to the message with the identifier in the last two arguments.\<close>

definition sample_reply :: "char \<Rightarrow> char \<Rightarrow> bytes" where
  "sample_reply hi lo = [CHR 0x01, CHR 0x00, CHR 0x00, CHR 0x00, hi, lo, CHR ''n'', CHR ''o'', CHR 0x00]"

lemma sample_reply_valid: "isValidReplyMsg (sample_reply hi lo)"
  by (simp add: sample_reply_def isValidReplyMsg_def isValidReplyMsgLength_def s_MSG_CONTENT_MAX_LENGTH_def first_octet_def
      udp_replyMsgRegex_def printableCharSpaceLf_def exact_def newline_def ord_def)

definition wrapping :: client where
  "wrapping = (Client default_args)\<lparr>m_current_state := S_AUTH, m_is_waiting_for_confirm := True, m_msg_to_server_id := 65535,
     m_msg_to_server := [CHR 0x02, CHR 0xFF, CHR 0xFF, CHR ''a'', CHR 0x00, CHR ''c'', CHR 0x00, CHR ''b'', CHR 0x00]\<rparr>"


text \<open>
  C34. A reply is matched against the request before the current one even while the current request is
  not confirmed: a late copy of the reply to the previous \<open>AUTH\<close> disarms the retransmission timer and
  reads input again, although the confirmation is still outstanding. The copy is confirmed but not
  printed.
\<close>

theorem udp_late_reply_cancels_retransmission:
  assumes "m_current_state s = S_AUTH" "m_is_waiting_for_confirm s" "m_is_waiting_for_reply s"
    and "isValidReplyMsg m" "uint (getRefMsgId m) = uint (m_msg_to_server_id s) - 1"
    and "getMsgId m \<in> set (m_confirmed_server_messages s)" "udp_processServerReplyMsg src m s = (r, s')"
  shows "m_is_waiting_for_confirm s' \<and> stdin_polled s' \<and> armed_after True (emitted s') = False
    \<and> printed (emitted s') = printed (emitted s)
    \<and> datagrams (emitted s') = datagrams (emitted s) @ [(uint (word_of_int src :: 16 word), confirm (id_octets (getMsgId m)))]"
proof -
  have "s' = accept_reply m (new_server src s)"
    using assms reply_eq [of s src m] by (simp add: expected_reply_def)
  with assms(1,2,6) show ?thesis
    by (simp add: accept_reply_def new_server_def confirm_to_def confirm_def Let_def)
qed

text \<open>The second \<open>AUTH\<close> is on its way when the refusal of the first one arrives again.\<close>

definition second_auth :: client where
  "second_auth = (Client default_args)\<lparr>m_current_state := S_AUTH, m_is_waiting_for_confirm := True, m_is_waiting_for_reply := True,
     stdin_polled := False, m_msg_to_server_id := 1, m_confirmed_server_messages := [0],
     m_msg_to_server := [CHR 0x02, CHR 0x00, CHR 0x01, CHR ''a'', CHR 0x00, CHR ''c'', CHR 0x00, CHR ''b'', CHR 0x00]\<rparr>"

theorem udp_late_reply_cancels_retransmission_witness:
  "let s' = snd (udp_processServerReplyMsg 4567 (sample_reply (CHR 0x00) (CHR 0x00)) second_auth)
   in m_is_waiting_for_confirm s' \<and> stdin_polled s' \<and> armed_after True (emitted s') = False \<and> printed (emitted s') = []"
proof -
  let ?m = "sample_reply (CHR 0x00) (CHR 0x00)"
  have "uint (getRefMsgId ?m) = uint (m_msg_to_server_id second_auth) - 1"
    "getMsgId ?m \<in> set (m_confirmed_server_messages second_auth)"
    "m_current_state second_auth = S_AUTH" "m_is_waiting_for_confirm second_auth" "m_is_waiting_for_reply second_auth"
    "emitted second_auth = []"
    by (simp_all add: getMsgId_def getRefMsgId_def sample_reply_def octets_id_def ord_def second_auth_def Client_def)
  with udp_late_reply_cancels_retransmission [of second_auth ?m, OF _ _ _ sample_reply_valid _ _ prod.collapse [symmetric]]
  show ?thesis by (simp add: Let_def)
qed

end
