(* ===== verification/Client_Args.thy ===== *)
theory Client_Args
  imports Client_Base
begin

text \<open>
  The command line of the client: the options as a data type, how they are written, and what
  \<open>Args\<close> makes of any sequence of them.
\<close>

section \<open>Numbers\<close>

fun dec :: "nat \<Rightarrow> bytes" where
  "dec n = (if n < 10 then [chr8 (48 + int n)] else dec (n div 10) @ [chr8 (48 + int (n mod 10))])"

declare dec.simps [simp del]

lemma decimal_append: "decimal (s @ [c]) = 10 * decimal s + (ord c - 48)"
  by (simp add: decimal_def)

lemma decimal_dec: "decimal (dec n) = int n"
proof (induction n rule: dec.induct)
  case (1 n)
  show ?case
  proof (cases "n < 10")
    case True
    then show ?thesis by (subst dec.simps) (simp add: decimal_def)
  next
    case False
    with 1 have "decimal (dec n) = 10 * int (n div 10) + int (n mod 10)"
      by (subst dec.simps) (simp add: decimal_append)
    also have "\<dots> = int n" by (metis div_mult_mod_eq mult.commute of_nat_add of_nat_mult of_nat_numeral)
    finally show ?thesis .
  qed
qed

lemma dec_digits: "dec n \<noteq> [] \<and> list_all is_digit (dec n)"
proof (induction n rule: dec.induct)
  case (1 n)
  show ?case
  proof (cases "n < 10")
    case True
    then show ?thesis by (subst (1 2) dec.simps) (simp add: is_digit_def)
  next
    case False
    moreover have "is_digit (chr8 (48 + int (n mod 10)))"
      using mod_less_divisor [of 10 n] by (simp add: is_digit_def del: mod_less_divisor)
    ultimately show ?thesis using 1 by (subst (1 2) dec.simps) simp
  qed
qed

lemma stoi_dec: "n < 2 ^ 31 \<Longrightarrow> stoi (dec n) = Some (int n)"
proof -
  assume n: "n < 2 ^ 31"
  obtain c cs where d: "dec n = c # cs" "is_digit c" using dec_digits [of n] by (cases "dec n") auto
  have sp: "c \<noteq> CHR '' ''" "\<not> (9 \<le> ord c \<and> ord c \<le> 13)" "c \<noteq> CHR ''-''" "c \<noteq> CHR ''+''"
    using d(2) by (auto simp: is_digit_def ord_def)
  have tw: "takeWhile is_digit cs = cs" using dec_digits [of n] d by (simp add: list_all_iff)
  have "dropWhile (\<lambda>c. c = CHR '' '' \<or> 9 \<le> ord c \<and> ord c \<le> 13) (c # cs) = c # cs"
    using sp by auto
  moreover have "int n < 2 ^ 31" using n by simp
  ultimately show ?thesis
    using sp(3,4) decimal_dec [of n] d by (simp add: stoi_def Let_def tw del: dropWhile.simps)
qed

section \<open>Options\<close>

datatype opt = Transport bool | Server bytes | Port nat | Timeout nat | Retrans nat

fun opt_words :: "opt \<Rightarrow> bytes list" where
  "opt_words (Transport tcp) = [''-t'', if tcp then ''tcp'' else ''udp'']"
| "opt_words (Server h) = [''-s'', h]"
| "opt_words (Port n) = [''-p'', dec n]"
| "opt_words (Timeout n) = [''-d'', dec n]"
| "opt_words (Retrans n) = [''-r'', dec n]"

fun opt_ok :: "opt \<Rightarrow> bool" where
  "opt_ok (Port n) = (n < 2 ^ 31)"
| "opt_ok (Timeout n) = (n < 2 ^ 31)"
| "opt_ok (Retrans n) = (n < 2 ^ 31)"
| "opt_ok _ = True"

text \<open>Numbers are cut to the width of the attribute.\<close>

fun apply_opt :: "opt \<Rightarrow> cargs \<Rightarrow> cargs" where
  "apply_opt (Transport tcp) a = a\<lparr>m_is_tcp := tcp\<rparr>"
| "apply_opt (Server h) a = a"
| "apply_opt (Port n) a = a\<lparr>m_server_port := of_nat n\<rparr>"
| "apply_opt (Timeout n) a = a\<lparr>m_udp_confirm_timeout := of_nat n\<rparr>"
| "apply_opt (Retrans n) a = a\<lparr>m_udp_max_retrans_count := of_nat n\<rparr>"

fun server_of :: "bytes option \<Rightarrow> opt list \<Rightarrow> bytes option" where
  "server_of h [] = h"
| "server_of h (Server g # os) = server_of (Some g) os"
| "server_of h (_ # os) = server_of h os"

lemma parse_opt:
  "opt_ok x \<Longrightarrow> parse_argv resolves (opt_words x @ ws) h a
    = parse_argv resolves ws (server_of h [x]) (apply_opt x a)"
  by (cases x) (simp_all add: int_value_def stoi_dec)

lemma server_of_Cons: "server_of h (x # os) = server_of (server_of h [x]) os"
  by (cases x) simp_all

lemma parse_opts:
  "list_all opt_ok os \<Longrightarrow> parse_argv resolves (concat (map opt_words os)) h a
    = processServerAddress resolves (server_of h os) (fold apply_opt os a)"
proof (induction os arbitrary: h a)
  case (Cons x os)
  then show ?case
    using parse_opt [of x resolves "concat (map opt_words os)" h a]
    by (simp add: server_of_Cons [of h x os] del: parse_argv.simps server_of.simps(2,3))
qed simp

text \<open>
  C23. The client's command line: for options in any order and any number, the last value of each
  counts, numbers are reduced to the 16 or 8 bits of their attribute, the transport is UDP unless
  \<open>-t\<close> says otherwise, and the server's address gets the final port whatever the order of \<open>-s\<close> and
  \<open>-p\<close>. A host that does not resolve is an error; without \<open>-s\<close> the program
  dereferences a null pointer.
\<close>

theorem client_args_spec:
  assumes "list_all opt_ok os"
  shows "Args resolves (concat (map opt_words os)) =
    (let a = fold apply_opt os default_args in
     case server_of None os of
       None \<Rightarrow> Crashed
     | Some h \<Rightarrow> if resolves h then Built (a\<lparr>m_server_addr := m_server_port a\<rparr>)
         else Thrown ''couldn't convert a hostname to IP address.'')"
  by (simp add: Args_def parse_opts [OF assms] processServerAddress_def Let_def split: option.splits)

theorem client_args_spec_witness:
  "let os = [Server ''localhost'', Transport True, Port 70103]
   in concat (map opt_words os) = [''-s'', ''localhost'', ''-t'', ''tcp'', ''-p'', ''70103'']
      \<and> Args (\<lambda>h. h = ''localhost'') (concat (map opt_words os))
        = Built (default_args\<lparr>m_is_tcp := True, m_server_port := 4567, m_server_addr := 4567\<rparr>)
      \<and> Args (\<lambda>h. True) (concat (map opt_words (tl os))) = Crashed"
proof -
  have "dec 70103 = ''70103''" by (simp add: dec.simps chr8_def char_of_eq_iff)
  moreover have "list_all opt_ok [Server ''localhost'', Transport True, Port 70103]" by simp
  ultimately show ?thesis
    using client_args_spec [of "[Server ''localhost'', Transport True, Port 70103]" "\<lambda>h. h = ''localhost''"]
      client_args_spec [of "[Transport True, Port 70103]" "\<lambda>h. True"]
    by (simp add: Let_def)
qed

end
