(* ===== verification/Pty_Reader.thy ===== *)
theory Pty_Reader
  imports Tester_Laws
begin

text \<open>
  How \<open>setup\<close> collects the client's output on macOS. There the client writes to a pseudo-terminal, and the
  thread \<open>buffer_stdout_fd\<close> moves what arrives at its master side to the queue, in pieces of at most
  1024 octets. The thread and the client run concurrently: an execution is a list of events, each a
  step of the client, of the kernel or of one of the threads, and the theorems hold for every
  interleaving. Octets written to the terminal are those that reach its master side; what \<open>os.read\<close>
  gives once the client has closed the other side (an empty string, or an error) is the parameter
  \<open>hangup\<close>, and how an exception prints is the parameter \<open>shown\<close>.
\<close>

section \<open>The threads of \<open>setup\<close>\<close>

datatype target = Read_stdout | Read_stderr | Buffer_stdout_fd

definition setup_targets :: "pystr \<Rightarrow> target list" where
  "setup_targets platform =
     (if platform = lit ''linux'' \<or> platform = lit ''linux2'' then [Read_stdout, Read_stderr]
      else if platform = lit ''darwin'' then [Buffer_stdout_fd, Read_stdout]
      else [])"

definition hobza_setup_targets :: "pystr \<Rightarrow> target list" where
  "hobza_setup_targets platform =
     (if platform = lit ''linux'' \<or> platform = lit ''linux2'' then [Read_stdout, Read_stderr]
      else if platform = lit ''darwin'' then [Buffer_stdout_fd, Read_stderr]
      else [])"

text \<open>
  The state between \<open>setup\<close> and \<open>teardown\<close>: the threads that run, whether \<open>buffer_stdout_fd\<close> is inside
  \<open>os.read\<close>, the octets at the master side and in the pipe of standard error, the line reader of standard
  error, the queues, and what the harness printed.
\<close>

record tty =
  threads :: "target list"
  reading :: bool
  master :: bytes
  err_pipe :: bytes
  err_tail :: "bytes option"
  exited :: bool
  out_queue :: "pystr list"
  err_queue :: "pystr list"
  printed :: "pystr list"

definition start_threads :: "target list \<Rightarrow> tty" where
  "start_threads ts = \<lparr>threads = ts, reading = False, master = [], err_pipe = [], err_tail = Some [],
     exited = False, out_queue = [], err_queue = [], printed = []\<rparr>"

datatype tty_event =
    Child_out bytes | Child_err bytes | Child_exits
  | Poll_pty             \<comment> \<open>the test at the head of the loop of \<open>buffer_stdout_fd\<close>\<close>
  | Read_pty nat         \<comment> \<open>the rest of an iteration, with what \<open>os.read\<close> found available\<close>
  | Readline_stdout      \<comment> \<open>\<open>read_stdout\<close> on macOS, where \<open>process.stdout\<close> is \<open>None\<close>\<close>
  | Read_err nat         \<comment> \<open>\<open>read_stderr\<close> gets octets of the pipe, or its end\<close>

section \<open>Steps\<close>

definition ends :: "target \<Rightarrow> tty \<Rightarrow> tty" where
  "ends t s = s\<lparr>threads := filter (\<lambda>u. u \<noteq> t) (threads s)\<rparr>"

text \<open>The condition of the loop: the process is there until \<open>teardown\<close>, so only its exit ends it.\<close>

definition poll_pty :: "tty \<Rightarrow> tty" where
  "poll_pty s = (if exited s then ends Buffer_stdout_fd s else s\<lparr>reading := True\<rparr>)"

definition buffer_stdout_fd :: "bytes res \<Rightarrow> (pyexc \<Rightarrow> pystr) \<Rightarrow> nat \<Rightarrow> tty \<Rightarrow> tty" where
  "buffer_stdout_fd hangup shown n s =
     (let s' = s\<lparr>reading := False, master := drop n (master s)\<rparr> in
      case rbind (if master s = [] then hangup else Inr (take n (master s))) decode of
        Inr line \<Rightarrow> if line = [] then s' else s'\<lparr>out_queue := out_queue s @ [line]\<rparr>
      | Inl e \<Rightarrow> ends Buffer_stdout_fd
          (s'\<lparr>printed := printed s @ [lit ''Error reading from pty: '' @ shown e]\<rparr>))"

definition read_stderr :: "nat \<Rightarrow> tty \<Rightarrow> tty" where
  "read_stderr n s =
     (if err_pipe s = [] then ends Read_stderr (s\<lparr>err_queue := err_queue s @ flush_reader (err_tail s)\<rparr>)
      else (case feed_reader (err_tail s) (take n (err_pipe s)) of (qs, t) \<Rightarrow>
        (if t = None then ends Read_stderr else id)
          (s\<lparr>err_queue := err_queue s @ qs, err_tail := t, err_pipe := drop n (err_pipe s)\<rparr>)))"

text \<open>A step, or \<open>None\<close> where the event cannot happen: a dead client writes nothing, a read blocks.\<close>

fun tty_step :: "bytes res \<Rightarrow> (pyexc \<Rightarrow> pystr) \<Rightarrow> tty_event \<Rightarrow> tty \<Rightarrow> tty option" where
  "tty_step hangup shown (Child_out b) s = (if exited s then None else Some (s\<lparr>master := master s @ b\<rparr>))"
| "tty_step hangup shown (Child_err b) s = (if exited s then None else Some (s\<lparr>err_pipe := err_pipe s @ b\<rparr>))"
| "tty_step hangup shown Child_exits s = (if exited s then None else Some (s\<lparr>exited := True\<rparr>))"
| "tty_step hangup shown Poll_pty s =
     (if Buffer_stdout_fd \<in> set (threads s) \<and> \<not> reading s then Some (poll_pty s) else None)"
| "tty_step hangup shown (Read_pty n) s =
     (if Buffer_stdout_fd \<in> set (threads s) \<and> reading s \<and> 1 \<le> n \<and> n \<le> 1024 \<and> (master s \<noteq> [] \<or> exited s)
      then Some (buffer_stdout_fd hangup shown n s) else None)"
| "tty_step hangup shown Readline_stdout s =
     (if Read_stdout \<in> set (threads s) then Some (ends Read_stdout s) else None)"
| "tty_step hangup shown (Read_err n) s =
     (if Read_stderr \<in> set (threads s) \<and> 1 \<le> n \<and> (err_pipe s \<noteq> [] \<or> exited s)
      then Some (read_stderr n s) else None)"

fun tty_run :: "bytes res \<Rightarrow> (pyexc \<Rightarrow> pystr) \<Rightarrow> tty_event list \<Rightarrow> tty \<Rightarrow> tty option" where
  "tty_run hangup shown [] s = Some s"
| "tty_run hangup shown (e # es) s = Option.bind (tty_step hangup shown e s) (tty_run hangup shown es)"

text \<open>What the client wrote in an execution.\<close>

fun stdout_of :: "tty_event list \<Rightarrow> bytes" where
  "stdout_of [] = []"
| "stdout_of (Child_out b # es) = b @ stdout_of es"
| "stdout_of (_ # es) = stdout_of es"

fun stderr_of :: "tty_event list \<Rightarrow> bytes" where
  "stderr_of [] = []"
| "stderr_of (Child_err b # es) = b @ stderr_of es"
| "stderr_of (_ # es) = stderr_of es"

section \<open>Every interleaving\<close>

text \<open>
  The rule for executions: an invariant that relates the octets written so far on both streams to the
  state and that every step keeps.
\<close>

lemma tty_run_invariant:
  assumes "tty_run hangup shown es s = Some s'" "I outs errs s"
    and step: "\<And>e outs errs s s'. I outs errs s \<Longrightarrow> tty_step hangup shown e s = Some s' \<Longrightarrow>
      I (outs @ stdout_of [e]) (errs @ stderr_of [e]) s'"
  shows "I (outs @ stdout_of es) (errs @ stderr_of es) s'"
  using assms(1,2)
proof (induction es arbitrary: s outs errs)
  case (Cons e es)
  obtain s1 where s1: "tty_step hangup shown e s = Some s1" "tty_run hangup shown es s1 = Some s'"
    using Cons.prems(1) by (auto simp: bind_eq_Some_conv)
  have "stdout_of (e # es) = stdout_of [e] @ stdout_of es" "stderr_of (e # es) = stderr_of [e] @ stderr_of es"
    by (cases e; simp)+
  with Cons.IH [OF s1(2) step [OF Cons.prems(2) s1(1)]] show ?case by simp
qed simp

lemma decode_append: "decode a = Inr s \<Longrightarrow> decode b = Inr t \<Longrightarrow> decode (a @ b) = Inr (s @ t)"
  by (metis decode_canonical decode_encode_concat concat_append list_all_append map_append)

text \<open>Without \<open>read_stderr\<close> nothing takes standard error out of its pipe.\<close>

lemma unread_stderr:
  assumes "tty_run hangup shown es s = Some s'" "Read_stderr \<notin> set (threads s)" "err_pipe s = []" "err_queue s = []"
  shows "Read_stderr \<notin> set (threads s') \<and> err_queue s' = [] \<and> err_pipe s' = [] @ stderr_of es"
proof (rule tty_run_invariant [OF assms(1), of "\<lambda>_ errs s. Read_stderr \<notin> set (threads s) \<and> err_queue s = [] \<and> err_pipe s = errs" "[]" "[]"])
  fix e errs u u'
  assume "Read_stderr \<notin> set (threads u) \<and> err_queue u = [] \<and> err_pipe u = errs" "tty_step hangup shown e u = Some u'"
  then show "Read_stderr \<notin> set (threads u') \<and> err_queue u' = [] \<and> err_pipe u' = errs @ stderr_of [e]"
    by (cases e) (auto simp: poll_pty_def buffer_stdout_fd_def ends_def Let_def split: if_splits sum.splits)
qed (simp add: assms)

text \<open>Without \<open>buffer_stdout_fd\<close> nothing is added to the queue of standard output.\<close>

lemma unread_stdout:
  assumes "tty_run hangup shown es s = Some s'" "Buffer_stdout_fd \<notin> set (threads s)"
  shows "Buffer_stdout_fd \<notin> set (threads s') \<and> out_queue s' = out_queue s"
proof (rule tty_run_invariant [OF assms(1), of "\<lambda>_ _ u. Buffer_stdout_fd \<notin> set (threads u) \<and> out_queue u = out_queue s" "[]" "[]"])
  fix e u u'
  assume "Buffer_stdout_fd \<notin> set (threads u) \<and> out_queue u = out_queue s" "tty_step hangup shown e u = Some u'"
  then show "Buffer_stdout_fd \<notin> set (threads u') \<and> out_queue u' = out_queue s"
    by (cases e) (auto simp: read_stderr_def ends_def split: if_splits prod.splits)
qed (simp add: assms)

text \<open>While \<open>read_stderr\<close> runs, its queue, the line reader and the pipe make up what was written.\<close>

definition err_exact :: "bytes \<Rightarrow> tty \<Rightarrow> bool" where
  "err_exact errs s \<longleftrightarrow> (Read_stderr \<in> set (threads s) \<longrightarrow>
     (\<exists>taken t. errs = taken @ err_pipe s \<and> err_tail s = Some t \<and> feed_reader (Some []) taken = (err_queue s, Some t)))"

lemma err_exact_step:
  assumes "err_exact errs s" "tty_step hangup shown e s = Some s'"
  shows "err_exact (errs @ stderr_of [e]) s'"
proof (cases e)
  case (Read_err n)
  show ?thesis
  proof (cases "Read_stderr \<in> set (threads s')")
    case True
    with assms(2) Read_err have pipe: "err_pipe s \<noteq> []" "Read_stderr \<in> set (threads s)"
      by (auto simp: read_stderr_def ends_def split: if_splits)
    with assms(1) obtain taken t where t: "errs = taken @ err_pipe s" "err_tail s = Some t"
        "feed_reader (Some []) taken = (err_queue s, Some t)" by (auto simp: err_exact_def)
    obtain qs t' where f: "feed_reader (Some t) (take n (err_pipe s)) = (qs, Some t')"
      using assms(2) Read_err True pipe t(2)
      by (cases "feed_reader (Some t) (take n (err_pipe s))") (auto simp: read_stderr_def ends_def split: if_splits)
    with assms(2) Read_err pipe t(2) have s': "err_queue s' = err_queue s @ qs" "err_tail s' = Some t'"
        "err_pipe s' = drop n (err_pipe s)" by (auto simp: read_stderr_def split: if_splits)
    have "feed_reader (Some []) (taken @ take n (err_pipe s)) = (err_queue s @ qs, Some t')"
      by (rule feed_reader_append [OF t(3) f])
    with s' t(1) Read_err show ?thesis
      unfolding err_exact_def by (intro impI exI [of _ "taken @ take n (err_pipe s)"] exI [of _ t']) simp
  qed (simp add: err_exact_def)
qed (use assms in \<open>auto simp: err_exact_def poll_pty_def buffer_stdout_fd_def ends_def Let_def split: if_splits sum.splits\<close>)

text \<open>While \<open>buffer_stdout_fd\<close> runs, its queue holds the text of what it took out of the terminal.\<close>

definition out_exact :: "bytes \<Rightarrow> tty \<Rightarrow> bool" where
  "out_exact outs s \<longleftrightarrow> (Buffer_stdout_fd \<in> set (threads s) \<longrightarrow>
     (\<exists>taken. outs = taken @ master s \<and> decode taken = Inr (concat (out_queue s))))"

lemma out_exact_step:
  assumes "out_exact outs s" "tty_step hangup shown e s = Some s'" "\<And>b. hangup = Inr b \<Longrightarrow> b = []"
  shows "out_exact (outs @ stdout_of [e]) s'"
proof (cases e)
  case (Read_pty n)
  show ?thesis
  proof (cases "Buffer_stdout_fd \<in> set (threads s')")
    case True
    with assms(2) Read_pty have "Buffer_stdout_fd \<in> set (threads s)" by (simp split: if_splits)
    with assms(1) obtain taken where t: "outs = taken @ master s" "decode taken = Inr (concat (out_queue s))"
      by (auto simp: out_exact_def)
    obtain line where line: "rbind (if master s = [] then hangup else Inr (take n (master s))) decode = Inr line"
      using assms(2) Read_pty True
      by (auto simp: buffer_stdout_fd_def ends_def Let_def split: if_splits sum.splits)
    then have "decode (take n (master s)) = Inr line"
      using assms(3) by (auto simp: rbind_eq_Inr split: if_splits)
    from decode_append [OF t(2) this] assms(2) Read_pty line t(1) show ?thesis
      unfolding out_exact_def
      by (intro impI exI [of _ "taken @ take n (master s)"]) (auto simp: buffer_stdout_fd_def Let_def split: if_splits)
  qed (simp add: out_exact_def)
next
  case (Read_err n)
  with assms(1,2) show ?thesis
    by (auto simp: out_exact_def read_stderr_def ends_def split: if_splits prod.splits)
qed (use assms in \<open>auto simp: out_exact_def poll_pty_def ends_def split: if_splits\<close>)

section \<open>Text that survives\<close>

definition ascii :: "bytes \<Rightarrow> bool" where
  "ascii b \<longleftrightarrow> list_all (\<lambda>c. ord c < 0x80) b"

lemma ascii_simps [simp]:
  "ascii []" "ascii (c # b) \<longleftrightarrow> ord c < 0x80 \<and> ascii b" "ascii (a @ b) \<longleftrightarrow> ascii a \<and> ascii b"
  by (simp_all add: ascii_def)

lemma ascii_cut: "ascii b \<Longrightarrow> ascii (take n b)" "ascii b \<Longrightarrow> ascii (drop n b)"
  by (auto simp: ascii_def list_all_iff dest: in_set_takeD in_set_dropD)

lemma decode_ascii_append: "ascii a \<Longrightarrow> decode (a @ b) = rbind (decode b) (\<lambda>s. Inr (map ord a @ s))"
proof (induction a)
  case (Cons c a)
  then show ?case by (subst decode.simps) (simp add: utf8_step_def rbind_assoc)
qed (simp add: rbind_Inr_right)

lemma decode_ascii: "ascii a \<Longrightarrow> decode a = Inr (map ord a)"
  using decode_ascii_append [of a "[]"] by simp

text \<open>As long as the client runs and writes ASCII, \<open>buffer_stdout_fd\<close> runs.\<close>

definition ascii_runs :: "bytes \<Rightarrow> tty \<Rightarrow> bool" where
  "ascii_runs outs s \<longleftrightarrow> (ascii outs \<longrightarrow> ascii (master s) \<and> (exited s \<or> Buffer_stdout_fd \<in> set (threads s)))"

lemma ascii_runs_step:
  assumes "ascii_runs outs s" "tty_step hangup shown e s = Some s'"
  shows "ascii_runs (outs @ stdout_of [e]) s'"
proof (cases e)
  case (Read_pty n)
  with assms ascii_cut [of "master s" n] show ?thesis
    by (auto simp: ascii_runs_def buffer_stdout_fd_def ends_def Let_def decode_ascii split: if_splits sum.splits)
next
  case (Read_err n)
  with assms show ?thesis
    by (auto simp: ascii_runs_def read_stderr_def ends_def split: if_splits prod.splits)
qed (use assms in \<open>auto simp: ascii_runs_def poll_pty_def ends_def split: if_splits\<close>)

text \<open>Rounds of the thread alone move everything at the master side to the queue.\<close>

fun rounds :: "nat \<Rightarrow> tty_event list" where
  "rounds 0 = []"
| "rounds (Suc k) = Poll_pty # Read_pty 1024 # rounds k"

lemma rounds_drain:
  assumes "Buffer_stdout_fd \<in> set (threads s)" "\<not> exited s" "\<not> reading s" "ascii (master s)" "length (master s) \<le> 1024 * k"
  shows "\<exists>j s'. j \<le> k \<and> tty_run hangup shown (rounds j) s = Some s' \<and> master s' = []
    \<and> concat (out_queue s') = concat (out_queue s) @ map ord (master s)"
  using assms
proof (induction k arbitrary: s)
  case 0
  then show ?case by (intro exI [of _ 0]) simp
next
  case (Suc k)
  show ?case
  proof (cases "master s = []")
    case True
    then show ?thesis by (intro exI [of _ 0]) simp
  next
    case False
    let ?s = "s\<lparr>reading := False, master := drop 1024 (master s), out_queue := out_queue s @ [map ord (take 1024 (master s))]\<rparr>"
    have "tty_run hangup shown (rounds (Suc j)) s = tty_run hangup shown (rounds j) ?s" for j
      using Suc.prems False ascii_cut(1) [of "master s" 1024]
      by (simp add: poll_pty_def buffer_stdout_fd_def decode_ascii Let_def)
    moreover obtain j s' where "j \<le> k" "tty_run hangup shown (rounds j) ?s = Some s'" "master s' = []"
      "concat (out_queue s') = concat (out_queue ?s) @ map ord (master ?s)"
      using Suc.IH [of ?s] Suc.prems ascii_cut(2) [of "master s" 1024] by (auto simp: le_diff_conv)
    ultimately show ?thesis
      by (intro exI [of _ "Suc j"] exI [of _ s']) (simp add: map_append [symmetric] del: map_append)
  qed
qed

section \<open>Properties\<close>

text \<open>
  C28. On macOS \<open>testo.py\<close> never sees standard error: \<open>setup\<close> starts \<open>read_stdout\<close> a second time where
  \<open>read_stderr\<close> is meant, so in every interleaving the queue of \<open>get_stderr\<close> stays empty and all that the
  client wrote stays in the pipe. Under \<open>hobza.py\<close>, as long as the thread \<open>read_stderr\<close> runs, the queue holds
  exactly the lines of what it has taken from the pipe.
\<close>

theorem darwin_stderr_unread:
  assumes "tty_run hangup shown es (start_threads (setup_targets (lit ''darwin''))) = Some s"
    and "tty_run hangup shown fs (start_threads (hobza_setup_targets (lit ''darwin''))) = Some u"
    and "Read_stderr \<in> set (threads u)"
  shows "err_queue s = [] \<and> err_pipe s = stderr_of es
    \<and> (\<exists>taken t. stderr_of fs = taken @ err_pipe u \<and> feed_reader (Some []) taken = (err_queue u, Some t))"
proof -
  have darwin: "setup_targets (lit ''darwin'') = [Buffer_stdout_fd, Read_stdout]"
    by (simp add: setup_targets_def lit_inject)
  have "err_exact ([] @ stderr_of fs) u"
    by (rule tty_run_invariant [OF assms(2), of "\<lambda>_ errs s. err_exact errs s" "[]"])
       (simp add: err_exact_def start_threads_def feed_reader_def, rule err_exact_step)
  with unread_stderr [OF assms(1)] assms(3) darwin show ?thesis
    by (auto simp: start_threads_def err_exact_def)
qed

theorem darwin_stderr_unread_witness:
  "\<exists>s u. tty_run (Inr []) (\<lambda>_. []) [Child_err ''no'', Readline_stdout] (start_threads (setup_targets (lit ''darwin''))) = Some s
     \<and> tty_run (Inr []) (\<lambda>_. []) [Child_err (''a'' @ [newline]), Read_err 2] (start_threads (hobza_setup_targets (lit ''darwin''))) = Some u
     \<and> err_queue s = [] \<and> err_pipe s = ''no'' \<and> err_queue u = [[97, 10]]"
proof -
  obtain s u where run: "tty_run (Inr []) (\<lambda>_. []) [Child_err ''no'', Readline_stdout] (start_threads (setup_targets (lit ''darwin''))) = Some s"
    "tty_run (Inr []) (\<lambda>_. []) [Child_err (''a'' @ [newline]), Read_err 2] (start_threads (hobza_setup_targets (lit ''darwin''))) = Some u"
    by (simp add: start_threads_def setup_targets_def hobza_setup_targets_def lit_inject)
  have "map_option (\<lambda>u. (Read_stderr \<in> set (threads u), err_queue u))
      (tty_run (Inr []) (\<lambda>_. []) [Child_err (''a'' @ [newline]), Read_err 2] (start_threads (hobza_setup_targets (lit ''darwin''))))
    = Some (True, [[97, 10]])" by code_simp
  with run(2) have "Read_stderr \<in> set (threads u) \<and> err_queue u = [[97, 10]]" by simp
  with darwin_stderr_unread [OF run] run show ?thesis by auto
qed



text \<open>
  C27. Two ways in which the macOS reader loses output, for good: \<open>buffer_stdout_fd\<close> decodes each piece on its own,
  so a character that straddles the 1024-octet boundary of a read ends the thread with an error and nothing of
  this piece and of all that follows is ever delivered; and it leaves its loop as soon as the client has
  exited, so that what the client wrote just before is not read.
\<close>

theorem pty_output_lost:
  assumes "ascii a" "length a = 1023" "0x80 \<le> ord (hd c)"
    and "tty_run hangup shown (Child_out (a @ c @ b) # Poll_pty # Read_pty 1024 # es)
      (start_threads (setup_targets (lit ''darwin''))) = Some s"
    and "tty_run hangup shown (Child_out b # Child_exits # Poll_pty # fs)
      (start_threads (setup_targets (lit ''darwin''))) = Some u"
    and "c \<noteq> []"
  shows "out_queue s = [] \<and> Buffer_stdout_fd \<notin> set (threads s) \<and> out_queue u = []"
proof -
  let ?s0 = "start_threads (setup_targets (lit ''darwin''))"
  obtain d c' where c: "c = d # c'" using assms(6) by (cases c) auto
  then have "take 1024 (a @ c @ b) = a @ [d]" using assms(2) by simp
  moreover have "decode [d] = Inl UnicodeDecodeError"
    using assms(3) c by (subst decode.simps) (simp add: utf8_step_def)
  ultimately have "decode (take 1024 (a @ c @ b)) = Inl UnicodeDecodeError"
    using assms(1) by (simp add: decode_ascii_append)
  moreover have "a @ c @ b \<noteq> []" using c by simp
  ultimately obtain s1 where "tty_run hangup shown es s1 = Some s" "Buffer_stdout_fd \<notin> set (threads s1)" "out_queue s1 = []"
    using assms(4)
    by (auto simp: start_threads_def setup_targets_def lit_inject poll_pty_def buffer_stdout_fd_def ends_def Let_def
        simp del: append_assoc append_is_Nil_conv take_append drop_append)
  moreover obtain u1 where "tty_run hangup shown fs u1 = Some u" "Buffer_stdout_fd \<notin> set (threads u1)" "out_queue u1 = []"
    using assms(5)
    by (auto simp: start_threads_def setup_targets_def lit_inject poll_pty_def ends_def)
  ultimately show ?thesis using unread_stdout by metis
qed

theorem pty_output_lost_witness:
  "\<exists>s u. tty_run (Inr []) (\<lambda>_. []) [Child_out (replicate 1023 CHR ''a'' @ [CHR 0xC3, CHR 0xA9]), Poll_pty, Read_pty 1024]
       (start_threads (setup_targets (lit ''darwin''))) = Some s \<and> out_queue s = []
     \<and> tty_run (Inr []) (\<lambda>_. []) [Child_out [], Child_exits, Poll_pty] (start_threads (setup_targets (lit ''darwin''))) = Some u"
proof -
  let ?run = "\<lambda>es. tty_run (Inr []) (\<lambda>_. []) es (start_threads (setup_targets (lit ''darwin'')))"
  have runs: "?run [Child_out (replicate 1023 CHR ''a'' @ [CHR 0xC3, CHR 0xA9] @ []), Poll_pty, Read_pty 1024] \<noteq> None"
    "?run [Child_out [], Child_exits, Poll_pty] \<noteq> None"
    by (simp_all add: start_threads_def setup_targets_def lit_inject poll_pty_def)
  then obtain s u where s: "?run [Child_out (replicate 1023 CHR ''a'' @ [CHR 0xC3, CHR 0xA9] @ []), Poll_pty, Read_pty 1024] = Some s"
      and u: "?run [Child_out [], Child_exits, Poll_pty] = Some u" by blast
  have "ascii (replicate 1023 CHR ''a'')" "0x80 \<le> ord (hd [CHR 0xC3, CHR 0xA9])"
    by (simp_all add: ascii_def list_all_iff ord_def)
  from pty_output_lost [OF this(1) length_replicate this(2) s u] s u show ?thesis by simp
qed

end
