(* ===== verification/Independence.thy ===== *)
theory Independence
  imports Suite_Laws
begin

text \<open>
  A test case runs in a world that earlier test cases have marked: the clock has advanced, the console is
  full, the history of commands is not empty. This theory shows that its verdict cannot depend on that.
  \<open>move\<close> shifts a world in time and forgets what no test case reads; every operation of the harness
  commutes with it, so harness code that is built from them is \<open>uniform\<close>: in two worlds that are alike it
  returns, raises or blocks alike. All test cases of both suites are. So a full run is the sequence
  of the verdicts that the test cases have on their own, which is proved once in the locale
  \<open>uniform_suite\<close> and interpreted on both suites.
\<close>

named_theorems moving \<open>how moving passes through the operations\<close>

section \<open>The same world, moved\<close>

text \<open>
  The world \<open>k\<close> milliseconds later, with what the test cases never read replaced by fixed values:
  the history, the terminal, the texts of exceptions, the path of the executable.
\<close>

definition postpone :: "int \<Rightarrow> 'c proc \<Rightarrow> 'c proc" where
  "postpone k p = p\<lparr>p_timer := map_option ((+) k) (p_timer p)\<rparr>"

definition move :: "int \<Rightarrow> 'c world \<Rightarrow> 'c world" where
  "move k w = w\<lparr>process := map_option (postpone k) (process w), clock := k + clock w, history := [],
     columns := None, exc_text := (\<lambda>_. []), console := [],
     executable := (\<lambda>_. executable w (executable_path w)), executable_path := []\<rparr>"

lemma postpone_simps [simp]:
  "p_state (postpone k p) = p_state p" "p_exit (postpone k p) = p_exit p"
  "p_timer (postpone k p) = map_option ((+) k) (p_timer p)" "p_polls_stdin (postpone k p) = p_polls_stdin p"
  "p_stdin_pipe (postpone k p) = p_stdin_pipe p" "p_stdin_closed (postpone k p) = p_stdin_closed p"
  "p_out_tail (postpone k p) = p_out_tail p" "p_err_tail (postpone k p) = p_err_tail p"
  by (simp_all add: postpone_def)

lemma move_simps [simp]:
  "process (move k w) = map_option (postpone k) (process w)" "stdout_queue (move k w) = stdout_queue w"
  "stderr_queue (move k w) = stderr_queue w" "return_code (move k w) = return_code w"
  "server_socket (move k w) = server_socket w" "connection_socket (move k w) = connection_socket w"
  "client_address (move k w) = client_address w" "send_confirm (move k w) = send_confirm w"
  "accept_thread (move k w) = accept_thread w" "clock (move k w) = k + clock w"
  "udp_sockets (move k w) = udp_sockets w" "tcp_listening (move k w) = tcp_listening w"
  "executable_path (move k w) = []" "executable (move k w) = (\<lambda>_. executable w (executable_path w))"
  "history (move k w) = []" "columns (move k w) = None" "exc_text (move k w) = (\<lambda>_. [])"
  "console (move k w) = []"
  by (simp_all add: move_def)

lemma postpone_update [moving]:
  "postpone k (p\<lparr>p_state := c\<rparr>) = (postpone k p)\<lparr>p_state := c\<rparr>"
  "postpone k (p\<lparr>p_exit := e\<rparr>) = (postpone k p)\<lparr>p_exit := e\<rparr>"
  "postpone k (p\<lparr>p_timer := t\<rparr>) = (postpone k p)\<lparr>p_timer := map_option ((+) k) t\<rparr>"
  "postpone k (p\<lparr>p_polls_stdin := b\<rparr>) = (postpone k p)\<lparr>p_polls_stdin := b\<rparr>"
  "postpone k (p\<lparr>p_stdin_pipe := i\<rparr>) = (postpone k p)\<lparr>p_stdin_pipe := i\<rparr>"
  "postpone k (p\<lparr>p_stdin_closed := b\<rparr>) = (postpone k p)\<lparr>p_stdin_closed := b\<rparr>"
  "postpone k (p\<lparr>p_out_tail := x\<rparr>) = (postpone k p)\<lparr>p_out_tail := x\<rparr>"
  "postpone k (p\<lparr>p_err_tail := x\<rparr>) = (postpone k p)\<lparr>p_err_tail := x\<rparr>"
  by (rule proc.equality; simp)+

lemma move_update [moving]:
  "move k (w\<lparr>process := p\<rparr>) = (move k w)\<lparr>process := map_option (postpone k) p\<rparr>"
  "move k (w\<lparr>stdout_queue := q\<rparr>) = (move k w)\<lparr>stdout_queue := q\<rparr>"
  "move k (w\<lparr>stderr_queue := q\<rparr>) = (move k w)\<lparr>stderr_queue := q\<rparr>"
  "move k (w\<lparr>return_code := r\<rparr>) = (move k w)\<lparr>return_code := r\<rparr>"
  "move k (w\<lparr>server_socket := s\<rparr>) = (move k w)\<lparr>server_socket := s\<rparr>"
  "move k (w\<lparr>connection_socket := c\<rparr>) = (move k w)\<lparr>connection_socket := c\<rparr>"
  "move k (w\<lparr>client_address := a\<rparr>) = (move k w)\<lparr>client_address := a\<rparr>"
  "move k (w\<lparr>send_confirm := b\<rparr>) = (move k w)\<lparr>send_confirm := b\<rparr>"
  "move k (w\<lparr>clock := t\<rparr>) = (move k w)\<lparr>clock := k + t\<rparr>"
  "move k (w\<lparr>udp_sockets := u\<rparr>) = (move k w)\<lparr>udp_sockets := u\<rparr>"
  "move k (w\<lparr>tcp_listening := l\<rparr>) = (move k w)\<lparr>tcp_listening := l\<rparr>"
  "move k (w\<lparr>history := h\<rparr>) = move k w"
  "move k (w\<lparr>console := out\<rparr>) = move k w"
  by (rule world.equality; simp)+


text \<open>The operations of the machine do the same in the moved world.\<close>

lemma move_apply_action [moving]: "move k (apply_action a w) = apply_action a (move k w)"
proof (cases a)
  case (ArmTimer ms)
  have "postpone k (p\<lparr>p_timer := (if ms \<le> 0 then None else Some (clock w + ms))\<rparr>)
      = (postpone k p)\<lparr>p_timer := (if ms \<le> 0 then None else Some (k + clock w + ms))\<rparr>" for p :: "'a proc"
    by (simp add: moving add.assoc)
  with ArmTimer show ?thesis
    by (simp add: moving with_proc_def option.map_comp o_def add.assoc del: if_split)
qed (auto simp: moving with_proc_def accept_connection_def option.map_comp o_def split: option.splits prod.splits)

lemma move_running [simp]: "running (move k w) = running w"
  by (simp add: running_def split: option.splits)

lemma move_apply_actions [moving]: "move k (apply_actions as w) = apply_actions as (move k w)"
  by (induction as arbitrary: w) (simp_all add: moving del: apply_action.simps)

lemma move_run_child [moving]: "move k (run_child ev w) = run_child ev (move k w)"
  by (auto simp: run_child_def moving split: option.splits prod.splits)

lemma move_poll_stdin [moving]: "move k (poll_stdin w) = poll_stdin (move k w)"
  by (auto simp: poll_stdin_def moving split: option.splits)

lemma move_deliver [moving]: "move k (deliver ev w) = deliver ev (move k w)"
  by (simp add: deliver_def moving)

lemma move_next_wakeup [simp]: "next_wakeup (move k w) = map_option ((+) k) (next_wakeup w)"
  by (auto simp: next_wakeup_def max_def option.map_comp o_def intro!: option.map_cong
      split: option.splits)

lemma move_wake [moving]: "move k (wake t w) = wake (k + t) (move k w)"
  by (auto simp: wake_def moving split: option.splits)

lemma move_advance [moving]: "move k (advance until w) = advance (k + until) (move k w)"
proof (induction until w rule: advance.induct)
  case (1 until w)
  then show ?case
    by (auto simp: advance.simps [of until w] advance.simps [of "k + until" "move k w"] moving max_def
        split: option.splits)
qed

lemma move_sleep [moving]: "apsnd (move k) (sleep ms w) = sleep ms (move k w)"
  by (simp add: sleep_def moving algebra_simps)

lemma move_close_sock [moving]: "move k (close_sock s w) = close_sock s (move k w)"
  by (simp add: close_sock_def moving split: sock.splits)

lemma move_udp_bind [moving]: "apsnd (move k) (udp_bind p w) = udp_bind p (move k w)"
  by (simp add: udp_bind_def bound_udp_def moving)

lemma move_tcp_listen [moving]: "apsnd (move k) (tcp_listen p w) = tcp_listen p (move k w)"
  by (simp add: tcp_listen_def moving)

lemma move_udp_queue [simp]: "udp_queue p (move k w) = udp_queue p w"
  by (simp add: udp_queue_def)

lemma move_set_udp_queue [moving]: "move k (set_udp_queue p q w) = set_udp_queue p q (move k w)"
  by (simp add: set_udp_queue_def moving)

lemma move_udp_recvfrom [moving]:
  "apsnd (move k) (udp_recvfrom p deadline w) = udp_recvfrom p (k + deadline) (move k w)"
proof (induction p deadline w rule: udp_recvfrom.induct)
  case (1 p deadline w)
  then show ?case
    by (auto simp: udp_recvfrom.simps [of p deadline w] udp_recvfrom.simps [of p "k + deadline" "move k w"]
        moving max_def split: option.splits list.splits)
qed

lemma move_udp_sendto [moving]: "move k (udp_sendto p d a w) = udp_sendto p d a (move k w)"
  by (simp add: udp_sendto_def moving)

lemma move_tcp_recv [moving]: "apsnd (move k) (tcp_recv n w) = tcp_recv n (move k w)"
proof (induction n arbitrary: w)
  case 0
  show ?case by (auto simp: tcp_recv.simps [of 0] moving split: option.splits)
next
  case (Suc n)
  then show ?case
    by (auto simp: tcp_recv.simps [of "Suc n"] moving split: option.splits)
qed

lemma move_tcp_sendall [moving]: "apsnd (move k) (tcp_sendall b w) = tcp_sendall b (move k w)"
  by (auto simp: tcp_sendall_def moving split: option.splits)

lemma move_popen [moving]: "move k (popen args w) = popen args (move k w)"
  by (simp add: popen_def moving case_prod_unfold postpone_def)

lemma move_torn_down [moving]: "move k (torn_down w) = torn_down (move k w)"
  by (auto simp: torn_down_def terminate_process_def Let_def moving simp del: apply_action.simps split: option.splits)

lemma move_launched [moving]: "move k (launched args w) = launched args (move k w)"
  by (simp add: launched_def moving)

section \<open>Code that cannot tell the worlds apart\<close>

text \<open>
  Two worlds are alike when the second is the first \<open>k\<close> milliseconds later, up to what test cases never
  read. Code is uniform when it keeps worlds alike and has the same outcome in both.
\<close>

definition alike :: "int \<Rightarrow> 'c world \<Rightarrow> 'c world \<Rightarrow> bool" where
  "alike k w w' \<longleftrightarrow> move 0 w' = move k w"

definition uniform :: "('c, 'a) T \<Rightarrow> bool" where
  "uniform f \<longleftrightarrow> (\<forall>k w w'. alike k w w' \<longrightarrow> fst (f w') = fst (f w) \<and> alike k (snd (f w)) (snd (f w')))"

lemma postpone_postpone [simp]: "postpone j (postpone k p) = postpone (j + k) p"
proof -
  have "(+) j \<circ> (+) k = (+) (j + k)" by auto
  then show ?thesis by (simp add: postpone_def option.map_comp)
qed

lemma postpone_0 [simp]: "postpone 0 = id"
proof
  have "(+) (0 :: int) = id" by auto
  then show "postpone 0 p = id p" for p :: "'c proc" by (simp add: postpone_def option.map_id)
qed

lemma move_move [simp]: "move j (move k w) = move (j + k) w"
  by (rule world.equality) (simp_all add: option.map_comp o_def add.assoc)

lemma alike_sees:
  assumes "alike k w w'"
  shows "process w' = map_option (postpone k) (process w)" "stdout_queue w' = stdout_queue w"
    "stderr_queue w' = stderr_queue w" "return_code w' = return_code w"
    "server_socket w' = server_socket w" "connection_socket w' = connection_socket w"
    "client_address w' = client_address w" "send_confirm w' = send_confirm w"
  using assms [unfolded alike_def, THEN arg_cong, of process] assms [unfolded alike_def, THEN arg_cong, of stdout_queue]
    assms [unfolded alike_def, THEN arg_cong, of stderr_queue] assms [unfolded alike_def, THEN arg_cong, of return_code]
    assms [unfolded alike_def, THEN arg_cong, of server_socket] assms [unfolded alike_def, THEN arg_cong, of connection_socket]
    assms [unfolded alike_def, THEN arg_cong, of client_address] assms [unfolded alike_def, THEN arg_cong, of send_confirm]
  by (simp_all add: option.map_id)

lemma uniformD:
  assumes "uniform f" "alike k w w'"
  shows "fst (f w') = fst (f w)" "alike k (snd (f w)) (snd (f w'))"
  using assms by (auto simp: uniform_def)

lemma uniformI:
  assumes "\<And>k w w'. alike k w w' \<Longrightarrow> fst (f w') = fst (f w) \<and> alike k (snd (f w)) (snd (f w'))"
  shows "uniform f"
  using assms unfolding uniform_def by blast

lemma uniformE:
  assumes "uniform f" "alike k w w'" "f w = (r, u)"
  obtains u' where "f w' = (r, u')" "alike k u u'"
  using uniformD [OF assms(1,2)] assms(3) by (cases "f w'") auto

lemma uniform_by_move:
  assumes "\<And>k w. apsnd (move 0) (f (move k w)) = apsnd (move k) (f w)"
  shows "uniform f"
proof (rule uniformI)
  fix k and w w' :: "'a world"
  assume *: "alike k w w'"
  have "apsnd (move 0) (f w') = apsnd (move k) (f w)"
    using assms [of 0 w'] assms [of k w] * unfolding alike_def by metis
  then have "fst (f w') = fst (f w)" "move 0 (snd (f w')) = move k (snd (f w))"
    by (metis fst_apsnd, metis snd_apsnd)
  then show "fst (f w') = fst (f w) \<and> alike k (snd (f w)) (snd (f w'))"
    by (simp add: alike_def)
qed

lemma uniform_by_commuting:
  assumes "\<And>k w. apsnd (move k) (f w) = f (move k w)"
  shows "uniform f"
  by (rule uniform_by_move, unfold assms [symmetric]) (simp add: prod_eq_iff)

lemma uniform_modify: "(\<And>k w. move k (f w) = f (move k w)) \<Longrightarrow> uniform (modify f)"
  by (rule uniform_by_commuting) (simp add: modify_def)

lemma uniform_sees:
  assumes "\<And>k w w'. alike k w w' \<Longrightarrow> g w' = g w" "\<And>x. uniform (h x)"
  shows "uniform (\<lambda>w. h (g w) w)"
  using assms by (simp add: uniform_def)

lemma uniform_ret: "uniform (ret x)"
  by (simp add: uniform_def ret_def)

lemma uniform_throw: "uniform (throw e)"
  by (simp add: uniform_def throw_def)

lemma uniform_lift: "uniform (lift r)"
  by (cases r) (simp_all add: uniform_ret uniform_throw)

lemma uniform_assert: "uniform (assert_that b m)"
  by (cases b) (simp_all add: uniform_ret uniform_throw)

lemma uniform_bind:
  assumes "uniform m" "\<And>x. uniform (f x)"
  shows "uniform (bind m f)"
proof -
  have "fst (bind m f w') = fst (bind m f w) \<and> alike k (snd (bind m f w)) (snd (bind m f w'))"
    if *: "alike k w w'" for k w w'
  proof -
    obtain r u where r: "m w = (r, u)" by fastforce
    obtain u' where "m w' = (r, u')" "alike k u u'" by (rule uniformE [OF assms(1) * r])
    with r assms(2) show ?thesis by (cases r) (auto simp: bind_def uniform_def)
  qed
  then show ?thesis by (rule uniformI)
qed

lemma uniform_catch:
  assumes "uniform m" "uniform h"
  shows "uniform (catch_timeout m h)"
proof -
  have "fst (catch_timeout m h w') = fst (catch_timeout m h w)
      \<and> alike k (snd (catch_timeout m h w)) (snd (catch_timeout m h w'))" if *: "alike k w w'" for k w w'
  proof -
    obtain r u where r: "m w = (r, u)" by fastforce
    obtain u' where "m w' = (r, u')" "alike k u u'" by (rule uniformE [OF assms(1) * r])
    with r assms(2) show ?thesis
      by (auto simp: catch_timeout_def uniform_def split: outcome.splits pyexc.splits)
  qed
  then show ?thesis by (rule uniformI)
qed

lemma uniform_if: "uniform m \<Longrightarrow> uniform m' \<Longrightarrow> uniform (if b then m else m')"
  by simp

lemma uniform_prod: "(\<And>x y. uniform (f x y)) \<Longrightarrow> uniform (case p of (x, y) \<Rightarrow> f x y)"
  by (cases p) simp

section \<open>The methods of the tester\<close>

lemma uniform_sleep: "uniform (sleep ms)"
  by (rule uniform_by_commuting) (rule move_sleep)

lemma uniform_start: "uniform (start_server protocol port)"
proof -
  have "uniform (modify fresh_socket)"
    by (rule uniform_modify) (auto simp: fresh_socket_def moving split: option.splits sock.splits)
  moreover have "uniform (tcp_listen port)" "uniform (udp_bind port)"
    by (rule uniform_by_commuting, simp only: moving)+
  moreover have "uniform (modify (\<lambda>w. w\<lparr>server_socket := s\<rparr>))" for s
    by (rule uniform_modify) (simp add: moving)
  ultimately show ?thesis
    by (auto simp: start_server_def intro!: uniform_bind uniform_ret)
qed

lemma uniform_setup: "uniform (setup_tester args)"
  by (rule uniform_by_commuting) (simp add: setup_eq moving add.assoc)

lemma uniform_close: "uniform stdin_close"
  by (rule uniform_by_commuting) (auto simp: stdin_close_def moving split: option.splits)

lemma uniform_sigint: "uniform send_sigint"
  by (rule uniform_by_commuting) (auto simp: send_sigint_def moving split: option.splits)

lemma uniform_history: "uniform (modify (\<lambda>w. w\<lparr>history := f w\<rparr>))"
  by (rule uniform_by_move) (simp add: modify_def moving)

lemma uniform_execute: "uniform (execute line)"
proof -
  have "uniform (stdin_write t)" for t
    by (rule uniform_by_commuting) (auto simp: stdin_write_def moving split: option.splits sum.splits)
  then show ?thesis
    unfolding execute_def seq.simps by (intro uniform_bind uniform_history uniform_sleep)
qed

lemma uniform_stdout: "uniform get_stdout"
  by (rule uniform_by_move) (simp add: get_stdout_def Let_def moving)

lemma uniform_stderr: "uniform get_stderr"
  by (rule uniform_by_move) (simp add: get_stderr_def Let_def moving)

lemma uniform_hobza_stderr: "uniform hobza_get_stderr"
  by (rule uniform_by_move) (simp add: hobza_get_stderr_def Let_def moving)

lemma uniform_return_code: "uniform get_return_code"
  by (simp add: uniform_def get_return_code_def get_def alike_sees)

lemma uniform_poll: "uniform poll"
  by (rule uniform_by_commuting) (auto simp: poll_def split: option.splits)

lemma uniform_address: "uniform (setClientAddress a)"
  by (simp add: setClientAddress_def uniform_modify moving)

lemma uniform_no_confirm: "uniform (modify (\<lambda>w. w\<lparr>send_confirm := b\<rparr>))"
  by (rule uniform_modify) (simp add: moving)

lemma uniform_sendto: "uniform (modify (udp_sendto p d a))"
  by (rule uniform_modify) (simp add: moving)

lemma uniform_recvfrom: "uniform (recvfrom_within p t)"
  by (rule uniform_by_commuting) (simp add: recvfrom_within_def moving add.assoc)

lemma uniform_send: "uniform (send_message v)"
proof (rule uniform_by_commuting)
  fix k and w :: "'a world"
  have "apsnd (move k) (bind (lift r) tcp_sendall w) = bind (lift r) tcp_sendall (move k w)" for r
    by (cases r) (simp_all add: throw_def moving)
  then show "apsnd (move k) (send_message v w) = send_message v (move k w)"
    by (auto simp: send_message_def moving split: option.splits pyval.splits sock.splits)
qed

lemma uniform_confirm: "uniform (confirm_message v)"
  by (auto simp: confirm_message_def intro!: uniform_bind uniform_lift uniform_send uniform_throw split: pyval.splits)

lemma uniform_datagram: "uniform (receive_datagram confirms p t)"
proof -
  let ?k = "\<lambda>m. bind (lift (index m 0)) (\<lambda>first. seq (if ord first \<noteq> 0 \<and> confirms
     then [confirm_message (VBytes m)] else []) (ret (VBytes m)))"
  have k: "uniform (?k m)" for m
    by (auto intro!: uniform_bind uniform_lift uniform_ret uniform_confirm)
  have "fst (receive_datagram confirms p t w') = fst (receive_datagram confirms p t w)
      \<and> alike i (snd (receive_datagram confirms p t w)) (snd (receive_datagram confirms p t w'))"
    if *: "alike i w w'" for i w w'
  proof -
    obtain r u where r: "recvfrom_within p t w = (r, u)" by fastforce
    obtain u' where u': "recvfrom_within p t w' = (r, u')" "alike i u u'"
      by (rule uniformE [OF uniform_recvfrom * r])
    have "alike i (u\<lparr>client_address := a\<rparr>) (u'\<lparr>client_address := a\<rparr>)" for a
      using u'(2) by (simp add: alike_def moving)
    from uniformD [OF k this]
    have "fst (?k m (u'\<lparr>client_address := a\<rparr>)) = fst (?k m (u\<lparr>client_address := a\<rparr>))"
      "alike i (snd (?k m (u\<lparr>client_address := a\<rparr>))) (snd (?k m (u'\<lparr>client_address := a\<rparr>)))" for m a
      by blast+
    with r u' show ?thesis
      by (auto simp: receive_datagram_def simp flip: recvfrom_within_def split: outcome.splits pyexc.splits)
  qed
  then show ?thesis by (rule uniformI)
qed

lemma uniform_receive: "uniform (receive_with confirms t)"
proof -
  have "uniform (bind (tcp_recv recv_rounds) (\<lambda>d. bind (lift (decode d)) (\<lambda>t. ret (VStr t))))"
    by (intro uniform_bind uniform_lift uniform_ret uniform_by_commuting [OF move_tcp_recv])
  from uniformD [OF this] uniformD [OF uniform_datagram] show ?thesis
    by (intro uniformI) (auto simp: receive_with_def alike_sees split: option.splits sock.splits)
qed

lemma uniform_receive_message: "uniform (receive_message t)"
  unfolding receive_message_def [abs_def]
  by (rule uniform_sees) (simp_all add: alike_sees uniform_receive)

lemma uniform_hobza_receive_message: "uniform (hobza_receive_message t)"
  by (simp add: hobza_receive_message_def uniform_receive)

lemma uniform_collect: "uniform (collect_parts n received :: ('c, pystr) T)"
proof (induction n arbitrary: received)
  case (Suc n)
  have "fst (collect_parts (Suc n) received w') = fst (collect_parts (Suc n) received w)
      \<and> alike k (snd (collect_parts (Suc n) received w)) (snd (collect_parts (Suc n) received w'))"
    if *: "alike k w w'" for k and w w' :: "'c world"
  proof -
    obtain r u where r: "receive_message 500 w = (r, u)" by fastforce
    obtain u' where "receive_message 500 w' = (r, u')" "alike k u u'"
      by (rule uniformE [OF uniform_receive_message * r])
    with r uniformD [OF Suc \<open>alike k u u'\<close>] show ?thesis
      by (auto split: outcome.splits pyval.splits pyexc.splits)
  qed
  then show ?case by (rule uniformI)
qed (simp add: uniform_ret)

lemma uniform_own_socket:
  assumes "uniform body"
  shows "uniform (with_udp_socket port body)"
proof -
  have "uniform (\<lambda>w. case body w of (r, w') \<Rightarrow> (r, close_sock s w'))" for s
    using assms by (auto simp: uniform_def alike_def moving split: prod.splits)
      (metis fst_conv snd_conv, metis fst_conv snd_conv)
  then show ?thesis
    unfolding with_udp_socket_def
    by (intro uniform_bind uniform_by_commuting [OF move_udp_bind])
qed

lemmas uniform_rules = uniform_bind uniform_own_socket uniform_start uniform_setup uniform_execute
  uniform_close [folded send_eof_def] uniform_close uniform_sigint uniform_sleep uniform_send
  uniform_receive_message uniform_hobza_receive_message uniform_stdout uniform_stderr uniform_hobza_stderr
  uniform_address uniform_no_confirm uniform_recvfrom uniform_sendto uniform_poll uniform_return_code
  uniform_collect uniform_confirm uniform_ret uniform_throw uniform_lift uniform_assert uniform_catch
  uniform_if uniform_prod

section \<open>The test cases\<close>

lemma testo_uniform: "list_all (\<lambda>(n, f). uniform f) (testo_udp_cases @ testo_tcp_cases)"
  unfolding testo_udp_cases_def testo_tcp_cases_def testo_udp_defs testo_tcp_defs case_simps
  by (intro conjI uniform_rules list.pred_inject(1))

lemma hobza_uniform: "list_all (\<lambda>(n, f). uniform f) (hobza_udp_cases @ hobza_tcp_cases)"
  unfolding hobza_udp_cases_def hobza_tcp_cases_def hobza_defs case_simps
  by (intro conjI uniform_rules list.pred_inject(1))

section \<open>Suites of such test cases\<close>

text \<open>What a test case does on its own: a new tester, nothing bound, time 0, no terminal.\<close>

definition alone :: "'c program \<Rightarrow> ('c, unit) T \<Rightarrow> unit outcome" where
  "alone prog f = fst (f (ExecutableTester [] (initial_world prog None)))"

definition outcomes :: "'c program \<Rightarrow> (pystr \<times> ('c, unit) T) list \<Rightarrow> unit outcome list" where
  "outcomes prog fs = map (\<lambda>(n, f). alone prog f) fs"

lemma outcomes_simps [simp]:
  "outcomes prog [] = []" "outcomes prog ((n, f) # fs) = alone prog f # outcomes prog fs"
  by (simp_all add: outcomes_def)

lemma alike_new:
  assumes "udp_sockets w = []" "tcp_listening w = []"
  shows "alike (clock w) (ExecutableTester [] (initial_world (executable w path) None)) (ExecutableTester path w)"
  unfolding alike_def
  by (rule world.equality) (simp_all add: assms ExecutableTester_def initial_world_def)

lemma alike_print: "alike k w w' \<Longrightarrow> alike k w (snd (print_coloured colour t w'))"
  by (simp add: alike_def print_coloured_def modify_def moving)

lemma case_alone:
  assumes "uniform f" "udp_sockets w = []" "tcp_listening w = []"
  shows "fst (f (ExecutableTester path w)) = alone (executable w path) f"
  using uniformD(1) [OF assms(1) alike_new [OF assms(2,3)]] by (simp add: alone_def)

text \<open>
  A suite of uniform test cases that leave the executable alone: the verdict of a decorated test case,
  the verdicts of a sequence of them and the summary of a run are those of the test cases on their own.
\<close>

locale uniform_suite = suite +
  assumes cases_uniform: "list_all (\<lambda>(n, f). uniform f) (udp_cases @ tcp_cases)"
    and cases_executable: "list_all (\<lambda>(n, f). holds False (\<lambda>w. executable w = e) f (\<lambda>w. executable w = e))
        (udp_cases @ tcp_cases)"
begin

lemma wrapper_alone:
  assumes "(n, f) \<in> set (udp_cases @ tcp_cases)" "columns w = Some cols"
    and "udp_sockets w = []" "tcp_listening w = []"
  shows "fst (wrapper dump_state n f (ExecutableTester path w)) =
    (case alone (executable w path) f of Ret _ \<Rightarrow> Ret True | Raise _ \<Rightarrow> Ret False | Hang \<Rightarrow> Hang)"
proof -
  have "uniform f" using cases_uniform assms(1) by (auto simp: list_all_iff)
  from uniformD(1) [OF this alike_print [OF alike_new [OF assms(3,4)]]]
  have "fst (f (snd (print_coloured ''yellow'' (banner cols n) (ExecutableTester path w)))) =
      alone (executable w path) f" by (simp add: alone_def)
  moreover have "columns (ExecutableTester path w) = Some cols"
    using assms(2) by (simp add: ExecutableTester_def)
  ultimately show ?thesis by (simp add: wrapper_verdict)
qed

lemma wrapper_keeps_executable:
  assumes "(n, f) \<in> set (udp_cases @ tcp_cases)" "columns w = Some cols"
    and "fst (wrapper dump_state n f w) \<noteq> Hang"
  shows "executable (snd (wrapper dump_state n f w)) = executable w"
proof -
  let ?w0 = "snd (print_coloured ''yellow'' (banner cols n) w)"
  obtain r u where f: "f ?w0 = (r, u)" by fastforce
  with assms wrapper_hangs [OF assms(2)] have "r \<noteq> Hang" by auto
  from wrapper_ends [where func = f and name = n, OF assms(2) f this] obtain v where
    v: "reported u v" "snd (wrapper dump_state n f w) = torn_down v" by (metis snd_conv)
  moreover have "executable (snd (f ?w0)) = executable w"
    using cases_executable [unfolded list_all_iff, THEN bspec, OF assms(1), of "executable w"]
    by (simp add: holds_def)
  ultimately show ?thesis using f by (simp add: reported_keeps un_executable.frame_torn_down)
qed

lemma verdicts_alone:
  assumes "set fs \<subseteq> set (udp_cases @ tcp_cases)" "columns w = Some cols"
    and "udp_sockets w = []" "tcp_listening w = []"
  shows "fst (verdicts path (map (\<lambda>(n, f). (n, wrapper dump_state n f)) fs) w) =
    (if Hang \<in> set (outcomes (executable w path) fs) then Hang
     else Ret (map (\<lambda>r. r = Ret ()) (outcomes (executable w path) fs)))"
  using assms
proof (induction fs arbitrary: w)
  case (Cons nf fs)
  obtain n f where nf: "nf = (n, f)" by fastforce
  let ?w0 = "ExecutableTester path w"
  have f: "(n, f) \<in> set (udp_cases @ tcp_cases)" using Cons.prems(1) nf by simp
  have w0: "columns ?w0 = Some cols" "ports_ok [] ?w0" "server_socket ?w0 = None" "executable ?w0 = executable w"
    using Cons.prems(2-4)
    by (simp_all add: ExecutableTester_def ports_ok_def bound_ports_def owned_udp_def owned_tcp_def)
  note this_case = wrapper_alone [OF f Cons.prems(2-4), of path]
  obtain r w1 where w1: "wrapper dump_state n f ?w0 = (r, w1)" by fastforce
  show ?case
  proof (cases r)
    case (Ret ok)
    with w1 have live: "fst (wrapper dump_state n f ?w0) \<noteq> Hang" by simp
    have "columns w1 = Some cols" "udp_sockets w1 = []" "tcp_listening w1 = []" "executable w1 = executable w"
      using case_leaves_no_trace [OF f w0(1-3) live] wrapper_keeps_executable [OF f w0(1) live] w1 w0(4)
      by (simp_all add: ports_ok_def bound_ports_def owned_udp_def owned_tcp_def)
    with Cons.IH [of w1] Cons.prems(1)
    have "fst (verdicts path (map (\<lambda>(n, f). (n, wrapper dump_state n f)) fs) w1) =
        (if Hang \<in> set (outcomes (executable w path) fs) then Hang
         else Ret (map (\<lambda>r. r = Ret ()) (outcomes (executable w path) fs)))" by simp
    moreover have "alone (executable w path) f \<noteq> Hang" "ok = (alone (executable w path) f = Ret ())"
      using this_case w1 Ret by (auto split: outcome.splits)
    ultimately show ?thesis
      using w1 Ret by (auto simp: nf bind_def modify_def ret_def split: prod.splits outcome.splits if_splits)
  next
    case (Raise e)
    with this_case w1 show ?thesis by (simp split: outcome.splits)
  next
    case Hang
    with this_case w1 have "alone (executable w path) f = Hang" by (simp split: outcome.splits)
    with w1 Hang show ?thesis by (simp add: nf bind_def modify_def)
  qed
qed (simp add: ret_def)

lemma run_alone:
  assumes "columns w = Some cols" "udp_sockets w = []" "tcp_listening w = []"
    and "fs = (if udp then udp_cases else []) @ (if tcp then tcp_cases else [])"
  shows "if Hang \<in> set (outcomes (executable w path) fs)
    then fst (run_tests (load dump_state (cli_cases @ udp_cases @ tcp_cases)) path udp tcp None w) = Hang
    else \<exists>u. run_tests (load dump_state (cli_cases @ udp_cases @ tcp_cases)) path udp tcp None w
      = summary (map (\<lambda>r. r = Ret ()) (outcomes (executable w path) fs)) u"
proof -
  let ?w0 = "ExecutableTester path w"
  let ?ts = "map (\<lambda>(n, f). (n, wrapper dump_state n f)) fs"
  obtain r u where r: "verdicts path ?ts ?w0 = (r, u)" by fastforce
  have "columns ?w0 = Some cols" "udp_sockets ?w0 = []" "tcp_listening ?w0 = []" "executable ?w0 = executable w"
    using assms by (simp_all add: ExecutableTester_def)
  moreover have "set fs \<subseteq> set (udp_cases @ tcp_cases)" using assms(4) by auto
  ultimately have "r = (if Hang \<in> set (outcomes (executable w path) fs) then Hang
     else Ret (map (\<lambda>r. r = Ret ()) (outcomes (executable w path) fs)))"
    using verdicts_alone [of fs ?w0 cols path] r by simp
  moreover have "run_tests (load dump_state (cli_cases @ udp_cases @ tcp_cases)) path udp tcp None w
      = bind (verdicts path ?ts) summary ?w0"
    by (simp add: run_tests_verdicts registered assms(4) bind_def [of "modify _"] modify_def)
  ultimately show ?thesis using r by (auto simp: bind_def)
qed

end

interpretation testo_alone: uniform_suite dump testo_cli_cases testo_udp_cases testo_tcp_cases
  by unfold_locales
     (rule testo_uniform, simp add: un_executable.tests.testo_hold [unfolded testo_functions_def list_all_append])

interpretation hobza_alone: uniform_suite hobza_dump hobza_cli_cases hobza_udp_cases hobza_tcp_cases
  by unfold_locales
     (rule hobza_uniform, simp add: un_executable.tests.hobza_hold [unfolded hobza_functions_def list_all_append])

section \<open>Properties of the suites\<close>

lemma all_uniform:
  "(n, f) \<in> set (testo_udp_cases @ testo_tcp_cases @ hobza_udp_cases @ hobza_tcp_cases) \<Longrightarrow> uniform f"
  using testo_uniform hobza_uniform by (auto simp: list_all_iff)

text \<open>
  C4. The verdict of a test case is a function of the client program alone. For every test case of both
  suites, every client and any two worlds in which no socket is bound: a new tester for the same program
  gives the same outcome (it returns, raises the same exception, or blocks), whatever the time, the
  console, the terminal, the history and the remains of earlier test cases in the two worlds.
\<close>

theorem test_cases_intrinsic:
  assumes "(n, f) \<in> set (testo_udp_cases @ testo_tcp_cases @ hobza_udp_cases @ hobza_tcp_cases)"
    and "udp_sockets w = []" "tcp_listening w = []" "udp_sockets w' = []" "tcp_listening w' = []"
    and "executable w path = executable w' path'"
  shows "fst (f (ExecutableTester path w)) = fst (f (ExecutableTester path' w'))"
proof -
  note u = all_uniform [OF assms(1)]
  show ?thesis using case_alone [OF u assms(2,3), of path] case_alone [OF u assms(4,5), of path'] assms(6) by simp
qed

theorem test_cases_intrinsic_witness:
  "fst (udp_auth (ExecutableTester (lit ''./a'') (initial_world silent (Some 80)))) =
   fst (udp_auth (ExecutableTester (lit ''./b'') ((initial_world silent None)\<lparr>clock := 5000, client_address := Some 4000\<rparr>)))"
proof (rule test_cases_intrinsic)
  show "(lit ''udp_auth'', udp_auth) \<in> set (testo_udp_cases @ testo_tcp_cases @ hobza_udp_cases @ hobza_tcp_cases)"
    by (simp add: testo_udp_cases_def)
qed (simp_all add: initial_world_def)



end
