(* ===== verification/Stage.thy ===== *)
theory Stage
  imports Udp_Laws Adequacy Client_Args
begin

text \<open>
  The client running under the harness, reduced to what a test case changes. Each operation of the
  harness becomes a step from one stage to the next, in which the client's reaction to one event is a
  hypothesis; a test case is then executed by applying these steps in its order. What the steps need of
  the world behind a stage is the contract \<open>staging\<close>, met by the UDP and by the TCP world.
\<close>

section \<open>A line typed by the harness\<close>

lemma fill_cin_all:
  assumes "length line < 4096"
  shows "fill_cin [] (line @ [newline]) = (line @ [newline], [])"
  using assms by (subst fill_cin.simps) (simp add: fill_cin.simps [of "line @ [newline]"])

lemma next_line_only: "newline \<notin> set line \<Longrightarrow> next_line (line @ [newline]) = Some (line, [])"
proof -
  assume "newline \<notin> set line"
  then have "takeWhile (\<lambda>c. c \<noteq> newline) (line @ [newline]) = line"
    by (subst takeWhile_append2) auto
  then show ?thesis by (simp add: next_line_def Let_def)
qed

lemma typed_line:
  assumes "pending s = ([], [])" "stdin_polled s" "newline \<notin> set line" "length line < 4096"
    and "processStdinEvent (methods s) False (Some line) s = (Value u, s')"
  shows "run_event (EvStdin (line @ [newline])) s = (Value 2, s')"
proof -
  let ?s = "s\<lparr>stdin_pipe := line @ [newline]\<rparr>"
  have s: "cin_buffer s = []" "stdin_pipe s = []" using assms(1) by (simp_all add: pending_def)
  have same: "s\<lparr>cin_buffer := [], stdin_pipe := []\<rparr> = s" using s by simp
  have "stdin_event (methods ?s) ?s = (Value u, s')"
    using assms(5) s by (simp add: same stdin_event_def fill_cin_all [OF assms(4)] next_line_only [OF assms(3)] methods_def)
  moreover have "pending s' = ([], [])"
    using stdin_pending [of s False "Some line" s] assms(1,5) by simp
  ultimately have "stdin_loop ?s = (Value (), s')"
    using assms(2) by (subst stdin_loop.simps) (simp add: stdin_loop.simps [of s'] pending_def)
  with s show ?thesis
    by (simp add: run_event_def dispatch_def cbind_def cset_def cret_def and_go_on_def)
qed

section \<open>Lines between the two programs\<close>

text \<open>An ASCII line written by the client is one item of the queue.\<close>

lemma cut_one_line:
  "newline \<notin> set t \<Longrightarrow> carriage_return \<notin> set t \<Longrightarrow> cut_lines acc (t @ [newline]) = ([acc @ t @ [newline]], [])"
proof (induction t arbitrary: acc)
  case (Cons c t)
  then obtain d ds where "t @ [newline] = d # ds" by (cases t) auto
  moreover have "cut_lines (acc @ [c]) (t @ [newline]) = ([(acc @ [c]) @ t @ [newline]], [])"
    using Cons by (intro Cons.IH) auto
  ultimately show ?case using Cons.prems by (auto simp: eq_commute [of c])
qed simp

definition plain_line :: "bytes \<Rightarrow> bool" where
  "plain_line t \<longleftrightarrow> list_all (\<lambda>c. 0 < ord c \<and> ord c < 128 \<and> c \<noteq> newline \<and> c \<noteq> carriage_return) t"

lemma read_line:
  assumes "plain_line t"
  shows "feed_reader (Some []) (t @ [newline]) = ([lit (t @ [newline])], Some [])"
proof -
  have ascii: "list_all (\<lambda>c. 0 < ord c \<and> ord c < 128) (t @ [newline])"
    using assms by (auto simp: plain_line_def list_all_iff newline_def ord_def)
  have "decode (t @ [newline]) = Inr (lit (t @ [newline]))"
    using decode_encode [OF encode_ascii_lit(1) [OF ascii]] .
  moreover have "cut_lines [] (t @ [newline]) = ([t @ [newline]], [])"
    using cut_one_line [of t "[]"] assms by (auto simp: plain_line_def list_all_iff)
  ultimately show ?thesis by (simp add: feed_reader_def)
qed

lemma typed_bytes:
  assumes "list_all (\<lambda>c. 0 < ord c \<and> ord c < 128) t"
  shows "encode (lit t @ [10]) = Inr (t @ [newline])"
proof -
  have "list_all (\<lambda>c. 0 < ord c \<and> ord c < 128) (t @ [newline])" using assms by (simp add: newline_def ord_def)
  from encode_ascii_lit(1) [OF this] show ?thesis by (simp add: lit_def newline_def ord_def)
qed

text \<open>The command every test case begins with, and its port as it is written.\<close>

definition test_auth :: command where
  "test_auth = command.Auth ''a'' ''b'' ''c''"

lemma test_auth_ok:
  "well_formed test_auth" "sizes_ok test_auth" "line_text test_auth = ''/auth a b c''"
  using valid_display_name [of 1]
  by (simp_all add: test_auth_def text_of_def alphaNumericUnderlineDash_def printableChar_def ord_def)

lemma dec_4567: "dec 4567 = ''4567''"
  by (simp add: dec.simps chr8_def char_of_eq_iff)

section \<open>The stage\<close>

text \<open>
  What changes during a test case: the client's state, what it polls, its timer and exit status, the
  messages and lines that the harness has not taken yet, the address it answers to, its history and the
  clock.
\<close>

record stage =
  g_client :: client
  g_polls :: bool
  g_timer :: "int option"
  g_exit :: "int option"
  g_queue :: "bytes list"
  g_out :: "pystr list"
  g_addr :: "int option"
  g_history :: pystr
  g_clock :: int

definition child_of :: "stage \<Rightarrow> client proc" where
  "child_of g = \<lparr>p_state = g_client g, p_exit = g_exit g, p_timer = g_timer g, p_polls_stdin = g_polls g,
     p_stdin_pipe = [], p_stdin_closed = False, p_out_tail = Some [], p_err_tail = Some []\<rparr>"

text \<open>What an action does to the stage.\<close>

fun stage_action :: "action \<Rightarrow> stage \<Rightarrow> stage" where
  "stage_action (WriteOut b) g = g\<lparr>g_out := g_out g @ fst (feed_reader (Some []) b)\<rparr>"
| "stage_action (SendTo port b) g = g\<lparr>g_queue := g_queue g @ [b]\<rparr>"
| "stage_action (SendStream b) g = g\<lparr>g_queue := g_queue g @ [b]\<rparr>"
| "stage_action (ArmTimer ms) g = g\<lparr>g_timer := (if ms \<le> 0 then None else Some (g_clock g + ms))\<rparr>"
| "stage_action (StdinEvents b) g = g\<lparr>g_polls := b\<rparr>"
| "stage_action (Exit n) g = g\<lparr>g_exit := Some n, g_timer := None\<rparr>"
| "stage_action _ g = g"

fun stage_actions :: "action list \<Rightarrow> stage \<Rightarrow> stage" where
  "stage_actions [] g = g"
| "stage_actions (a # as) g = (if g_exit g = None then stage_actions as (stage_action a g) else g)"

lemma child_fields:
  "p_state (child_of g) = g_client g" "p_exit (child_of g) = g_exit g" "p_timer (child_of g) = g_timer g"
  "p_polls_stdin (child_of g) = g_polls g" "p_stdin_pipe (child_of g) = []" "\<not> p_stdin_closed (child_of g)"
  "(child_of g)\<lparr>p_stdin_pipe := []\<rparr> = child_of g"
  by (simp_all add: child_of_def)

section \<open>The contract\<close>

text \<open>
  \<open>scene w g\<close> is the world of the stage \<open>g\<close> with \<open>w\<close> behind it; \<open>ok\<close> says which worlds may stand behind
  a stage, and \<open>tidy\<close> which actions lead from a stage to a stage.
\<close>

locale staging =
  fixes scene :: "client world \<Rightarrow> stage \<Rightarrow> client world" and ok :: "client world \<Rightarrow> bool" and tidy :: "action \<Rightarrow> bool"
  assumes fields: "process (scene w g) = Some (child_of g)" "clock (scene w g) = g_clock g" "stdout_queue (scene w g) = g_out g"
      "history (scene w g) = g_history g"
    and handler: "ok w \<Longrightarrow> p_handle (executable (scene w g) (executable_path (scene w g))) = chat_handle"
    and set_client: "(scene w g)\<lparr>process := Some ((child_of g)\<lparr>p_state := c\<rparr>)\<rparr> = scene w (g\<lparr>g_client := c\<rparr>)"
    and set_child: "(scene w g)\<lparr>process := Some (child_of g)\<rparr> = scene w g"
    and set_clock: "(scene w g)\<lparr>clock := t\<rparr> = scene w (g\<lparr>g_clock := t\<rparr>)"
    and set_wake: "(scene w g)\<lparr>clock := t, process := Some ((child_of g)\<lparr>p_timer := None\<rparr>)\<rparr>
      = scene w (g\<lparr>g_timer := None, g_clock := t\<rparr>)"
    and set_history: "(scene w g)\<lparr>history := h\<rparr> = scene w (g\<lparr>g_history := h\<rparr>)"
    and set_out: "(scene w g)\<lparr>stdout_queue := q, history := h\<rparr> = scene w (g\<lparr>g_out := q, g_history := h\<rparr>)"
    and action: "ok w \<Longrightarrow> tidy a \<Longrightarrow> g_exit g = None \<Longrightarrow> apply_action a (scene w g) = scene w (stage_action a g)"
begin

lemma actions_step:
  assumes "ok w" "list_all tidy as"
  shows "apply_actions as (scene w g) = scene w (stage_actions as g)"
  using assms(2)
proof (induction as arbitrary: g)
  case (Cons a as)
  have "running (scene w g) \<longleftrightarrow> g_exit g = None" by (simp add: running_def fields child_fields)
  with Cons action [OF assms(1)] show ?case by simp
qed simp

lemma run_step:
  assumes "ok w" "g_exit g = None" "chat_handle ev (g_client g) = (c, as)" "list_all tidy as"
  shows "run_child ev (scene w g) = scene w (stage_actions as (g\<lparr>g_client := c\<rparr>))"
  using assms actions_step [OF assms(1,4)] by (simp add: run_child_def fields child_fields handler set_client)

lemma poll_step [simp]: "poll_stdin (scene w g) = scene w g"
  by (simp add: poll_stdin_def fields child_fields)

lemma deliver_step:
  assumes "ok w" "g_exit g = None" "chat_handle ev (g_client g) = (c, as)" "list_all tidy as"
  shows "deliver ev (scene w g) = scene w (stage_actions as (g\<lparr>g_client := c\<rparr>))"
  using run_step [OF assms] by (simp add: deliver_def)

lemma sleep_step:
  assumes "0 \<le> ms" "\<forall>t. g_timer g = Some t \<longrightarrow> g_clock g + ms < t"
  shows "sleep ms (scene w g) = (Ret (), scene w (g\<lparr>g_clock := g_clock g + ms\<rparr>))"
proof -
  have "next_wakeup (scene w g) = None \<or> (\<exists>t. next_wakeup (scene w g) = Some t \<and> g_clock g + ms < t)"
    using assms by (cases "g_timer g") (auto simp: next_wakeup_def fields child_fields)
  then show ?thesis using assms(1)
    by (auto simp: sleep_def advance.simps [of _ "scene w g"] fields set_clock)
qed

lemma stdout_step:
  "get_stdout (scene w g)
    = (Ret (join_with [] (g_out g)),
       scene w (g\<lparr>g_out := [], g_history := g_history g @ join_with (lit ''stdout:'') (g_out g)\<rparr>))"
  by (simp add: get_stdout_def Let_def fields set_out)

lemma type_step:
  assumes "ok w" "g_exit g = None" "g_polls g" "encode (text @ [10]) = Inr b" "b \<noteq> []"
    and "chat_handle (EvStdin b) (g_client g) = (c, as)" "list_all tidy as"
  shows "execute text (scene w g)
    = sleep 200 (scene w (stage_actions as (g\<lparr>g_history := g_history g @ lit ''stdin:'' @ text @ [10], g_client := c\<rparr>)))"
proof -
  let ?g = "g\<lparr>g_history := g_history g @ lit ''stdin:'' @ text @ [10]\<rparr>"
  have "stdin_write (text @ [10]) (scene w ?g) = (Ret (), run_child (EvStdin b) (scene w ?g))"
    using assms(2-5) by (simp add: stdin_write_def fields child_fields poll_stdin_def set_child)
  then show ?thesis
    using run_step [OF assms(1), of ?g] assms(2,6,7) by (simp add: execute_def bind_def modify_def fields set_history)
qed

lemma sigint_step:
  assumes "ok w" "g_exit g = None" "chat_handle EvSigint (g_client g) = (c, as)" "list_all tidy as"
  shows "send_sigint (scene w g) = (Ret (), scene w (stage_actions as (g\<lparr>g_client := c\<rparr>)))"
  using deliver_step [OF assms] by (simp add: send_sigint_def fields)

lemma exit_step: "poll (scene w g) = (Ret (g_exit g), scene w g)"
  by (simp add: poll_def fields child_fields)

text \<open>The timer expires while the harness waits.\<close>

lemma wake_step:
  assumes "ok w" "g_exit g = None" "g_timer g = Some t" "chat_handle EvTimer (g_client g) = (c, as)" "list_all tidy as"
  shows "wake t (scene w g) = scene w (stage_actions as (g\<lparr>g_timer := None, g_clock := t, g_client := c\<rparr>))"
proof -
  let ?g = "g\<lparr>g_timer := None, g_clock := t\<rparr>"
  have "wake t (scene w g) = deliver EvTimer (scene w ?g)"
    using assms(3) by (simp add: wake_def fields child_fields set_wake)
  also have "\<dots> = scene w (stage_actions as (?g\<lparr>g_client := c\<rparr>))"
    using assms by (intro deliver_step) simp_all
  finally show ?thesis by simp
qed

end

end
