(* ===== verification/Udp_Stage.thy ===== *)
theory Udp_Stage
  imports Stage
begin

text \<open>
  The stage of a test case over UDP: the harness serves port 4567 and the client runs. The contract
  \<open>staging\<close>, and the steps that receive and send datagrams.
\<close>

section \<open>The stage over UDP\<close>

definition scene :: "client world \<Rightarrow> stage \<Rightarrow> client world" where
  "scene w g = w\<lparr>process := Some (child_of g), stdout_queue := g_out g, stderr_queue := [], return_code := None,
     server_socket := Some (UdpSocket 4567), client_address := g_addr g,
     udp_sockets := (4567, map (Pair client_port) (g_queue g)) # udp_sockets w,
     history := g_history g, clock := g_clock g\<rparr>"

text \<open>Output is tidy when it ends with a line end.\<close>

fun tidy :: "action \<Rightarrow> bool" where
  "tidy (WriteOut b) \<longleftrightarrow> snd (feed_reader (Some []) b) = Some []"
| "tidy (SendTo port b) \<longleftrightarrow> port = 4567"
| "tidy (ArmTimer ms) \<longleftrightarrow> True"
| "tidy (StdinEvents b) \<longleftrightarrow> True"
| "tidy (Exit n) \<longleftrightarrow> True"
| "tidy _ \<longleftrightarrow> False"

text \<open>The worlds behind a stage, and those in which a test case of this group can start.\<close>

definition stage_ok :: "(bytes \<Rightarrow> bool) \<Rightarrow> client world \<Rightarrow> bool" where
  "stage_ok resolves w \<longleftrightarrow> executable w = (\<lambda>_. ipk25chat resolves) \<and> resolves ''localhost'' \<and> process w = None
     \<and> server_socket w = None \<and> connection_socket w = None \<and> \<not> bound_udp 4567 w"

definition lab :: "(bytes \<Rightarrow> bool) \<Rightarrow> client world \<Rightarrow> bool" where
  "lab resolves w \<longleftrightarrow> stage_ok resolves w \<and> send_confirm w"

lemma lab_stage: "lab resolves w \<Longrightarrow> stage_ok resolves w"
  by (simp add: lab_def)

lemma enqueue_other: "\<not> bound_udp port w \<Longrightarrow> enqueue port d (udp_sockets w) = udp_sockets w"
  by (force simp: enqueue_def bound_udp_def intro!: map_idI)

lemma dequeue_other:
  "\<not> bound_udp port w \<Longrightarrow> map (\<lambda>(p, q'). if p = port then (p, q) else (p, q')) (udp_sockets w) = udp_sockets w"
  by (force simp: bound_udp_def intro!: map_idI)

lemma enqueue_here:
  "\<not> bound_udp port w \<Longrightarrow> enqueue port d ((port, q) # udp_sockets w) = (port, q @ [d]) # udp_sockets w"
  using enqueue_other [of port w d] by (simp add: enqueue_def)

lemma scene_fields:
  "process (scene w g) = Some (child_of g)" "clock (scene w g) = g_clock g" "client_address (scene w g) = g_addr g"
  "server_socket (scene w g) = Some (UdpSocket 4567)" "connection_socket (scene w g) = connection_socket w"
  "send_confirm (scene w g) = send_confirm w" "executable (scene w g) = executable w"
  by (simp_all add: scene_def)

lemma ord_eq_0: "ord c = 0 \<longleftrightarrow> c = CHR 0x00"
  using ord_inject [of c "CHR 0x00"] by (simp add: ord_def)

text \<open>The contract.\<close>

interpretation on_udp: staging scene "stage_ok resolves" tidy for resolves
proof unfold_locales
  fix w :: "client world" and g :: stage and a
  assume ok: "stage_ok resolves w" and "tidy a" "g_exit g = None"
  show "apply_action a (scene w g) = scene w (stage_action a g)"
  proof (cases a)
    case (WriteOut b)
    then obtain qs where "feed_reader (Some []) b = (qs, Some [])"
      using \<open>tidy a\<close> by (cases "feed_reader (Some []) b") simp
    with WriteOut show ?thesis by (simp add: scene_def child_of_def)
  next
    case (SendTo port b)
    with ok \<open>tidy a\<close> show ?thesis by (simp add: scene_def child_of_def enqueue_here stage_ok_def)
  next
    case (Exit n)
    with ok show ?thesis by (simp add: scene_def child_of_def flush_reader_def stage_ok_def)
  qed (use \<open>tidy a\<close> in \<open>simp_all add: scene_def child_of_def with_proc_def\<close>)
qed (simp_all add: scene_def child_of_def stage_ok_def ipk25chat_def)

section \<open>Datagrams\<close>

lemma scene_send:
  assumes "stage_ok resolves w" "g_exit g = None" "chat_handle (EvDgram 4567 d) (g_client g) = (c, as)" "list_all tidy as"
    and "g_addr g = Some client_port"
  shows "send_message (VBytes d) (scene w g) = (Ret (), scene w (stage_actions as (g\<lparr>g_client := c\<rparr>)))"
proof -
  have "connection_socket (scene w g) = None" "server_socket (scene w g) = Some (UdpSocket 4567)"
    "client_address (scene w g) = Some client_port"
    using assms(1,5) by (simp_all add: scene_def stage_ok_def)
  then show ?thesis using on_udp.deliver_step [OF assms(1-4)] by (simp add: send_message_def udp_sendto_def)
qed

lemma scene_recvfrom:
  assumes "stage_ok resolves w" "g_queue g = d # q" "length d \<le> 1024"
  shows "udp_recvfrom 4567 deadline (scene w g) = (Ret (d, client_port), scene w (g\<lparr>g_queue := q\<rparr>))"
  using assms by (simp add: udp_recvfrom.simps udp_queue_def set_udp_queue_def scene_def child_of_def dequeue_other stage_ok_def)

lemma scene_receive:
  assumes "stage_ok resolves w" "g_queue g = d # q" "length d \<le> 1024" "d \<noteq> []"
  shows "receive_message timeout (scene w g)
    = bind (seq (if ord (d ! 0) \<noteq> 0 \<and> send_confirm w then [confirm_message (VBytes d)] else []) (ret (VBytes d))) ret
        (scene w (g\<lparr>g_queue := q, g_addr := Some client_port\<rparr>))"
proof -
  have "(scene w (g\<lparr>g_queue := q\<rparr>))\<lparr>client_address := Some client_port\<rparr> = scene w (g\<lparr>g_queue := q, g_addr := Some client_port\<rparr>)"
    by (simp add: scene_def child_of_def)
  moreover have "server_socket (scene w g) = Some (UdpSocket 4567)" "connection_socket (scene w g) = None" "send_confirm (scene w g) = send_confirm w"
    using assms(1) by (simp_all add: scene_def stage_ok_def)
  moreover have "index d 0 = Inr (d ! 0)" using assms(4) by (simp add: index_def)
  ultimately show ?thesis
    using scene_recvfrom [OF assms(1-3)] by (simp add: receive_message_def receive_with_def receive_datagram_def)
qed

lemma scene_take_confirm:
  assumes "stage_ok resolves w" "g_queue g = d # q" "length d \<le> 1024" "d \<noteq> []" "d ! 0 = CHR 0x00 \<or> \<not> send_confirm w"
  shows "receive_message timeout (scene w g) = (Ret (VBytes d), scene w (g\<lparr>g_queue := q, g_addr := Some client_port\<rparr>))"
  using scene_receive [OF assms(1-4)] assms(5) by (auto simp: ord_def ret_def)

text \<open>A datagram that the harness confirms before it returns it.\<close>

lemma scene_take:
  assumes "lab resolves w" "g_queue g = d # q" "length d \<le> 1024" "d \<noteq> []" "d ! 0 \<noteq> CHR 0x00" "g_exit g = None"
    and "chat_handle (EvDgram 4567 (CHR 0x00 # getMessageId d)) (g_client g) = (c, as)" "list_all tidy as"
  shows "receive_message timeout (scene w g)
    = (Ret (VBytes d), scene w (stage_actions as (g\<lparr>g_queue := q, g_addr := Some client_port, g_client := c\<rparr>)))"
proof -
  have "ord (d ! 0) \<noteq> 0" using assms(5) by (simp add: ord_eq_0)
  moreover have "send_message (VBytes (CHR 0x00 # getMessageId d)) (scene w (g\<lparr>g_queue := q, g_addr := Some client_port\<rparr>))
      = (Ret (), scene w (stage_actions as (g\<lparr>g_queue := q, g_addr := Some client_port, g_client := c\<rparr>)))"
    using scene_send [OF lab_stage [OF assms(1)], of "g\<lparr>g_queue := q, g_addr := Some client_port\<rparr>"] assms(6-8) by simp
  ultimately show ?thesis
    using scene_receive [OF lab_stage [OF assms(1)] assms(2-4)] assms(1) by (simp add: confirm_message_def message_id_of_def bind_def ret_def lab_def)
qed

text \<open>Waiting for a datagram that the client sends when its timer expires.\<close>

lemma scene_timer:
  assumes "stage_ok resolves w" "g_queue g = []" "g_exit g = None" "g_timer g = Some t" "g_clock g < t" "t \<le> deadline"
    and "chat_handle EvTimer (g_client g) = (c, as)" "list_all tidy as"
  shows "udp_recvfrom 4567 deadline (scene w g)
    = udp_recvfrom 4567 deadline (scene w (stage_actions as (g\<lparr>g_timer := None, g_clock := t, g_client := c\<rparr>)))"
proof -
  have "udp_queue 4567 (scene w g) = []" using assms(2) by (simp add: udp_queue_def scene_def)
  moreover have "next_wakeup (scene w g) = Some t" using assms(3-5) by (simp add: next_wakeup_def scene_fields child_fields)
  ultimately show ?thesis
    using on_udp.wake_step [OF assms(1,3,4,7,8)] assms(6) by (subst udp_recvfrom.simps) simp
qed

lemma scene_resent:
  assumes "stage_ok resolves w" "\<not> send_confirm w" "g_queue g = []" "g_exit g = None" "g_timer g = Some t"
    and "g_clock g < t" "t \<le> g_clock g + timeout" "0 < ms" "length d \<le> 1024" "d \<noteq> []"
    and "chat_handle EvTimer (g_client g) = (c, [SendTo 4567 d, ArmTimer ms])"
  shows "receive_message timeout (scene w g)
    = (Ret (VBytes d), scene w (g\<lparr>g_timer := Some (t + ms), g_clock := t, g_client := c, g_addr := Some client_port\<rparr>))"
proof -
  let ?g = "g\<lparr>g_timer := Some (t + ms), g_clock := t, g_client := c, g_queue := [d]\<rparr>"
  have "stage_actions [SendTo 4567 d, ArmTimer ms] (g\<lparr>g_timer := None, g_clock := t, g_client := c\<rparr>) = ?g"
    using assms(3,4,8) by simp
  then have "udp_recvfrom 4567 (g_clock g + timeout) (scene w g) = udp_recvfrom 4567 (g_clock g + timeout) (scene w ?g)"
    using scene_timer [OF assms(1,3-7,11)] by simp
  moreover have "udp_recvfrom 4567 (g_clock g + timeout) (scene w ?g) = (Ret (d, client_port), scene w (?g\<lparr>g_queue := []\<rparr>))"
    by (rule scene_recvfrom [OF assms(1)]) (simp_all add: assms(9))
  moreover have "(scene w (?g\<lparr>g_queue := []\<rparr>))\<lparr>client_address := Some client_port\<rparr>
      = scene w (g\<lparr>g_timer := Some (t + ms), g_clock := t, g_client := c, g_addr := Some client_port\<rparr>)"
    using assms(3) by (simp add: scene_def child_of_def)
  moreover have "index d 0 = Inr (d ! 0)" using assms(10) by (simp add: index_def)
  moreover have "connection_socket w = None" using assms(1) by (simp add: stage_ok_def)
  ultimately show ?thesis
    using assms(2) by (simp add: receive_message_def receive_with_def receive_datagram_def scene_fields bind_def ret_def)
qed

end
