(* ===== verification/Closed_Loop.thy ===== *)
theory Closed_Loop
  imports Udp_Stage
begin

text \<open>
  The two programs together: the model of the client as the executable of the harness. What the
  harness writes to the client's standard input reaches \<open>parseUserInput\<close> as a line, what the client sends
  reaches \<open>receive_message\<close>, and the verdict of a test case is computed from both.
\<close>

section \<open>A command typed by the harness\<close>

lemma typed_command:
  assumes "\<not> m_is_tcp (m_args s)" "pending s = ([], [])" "stdin_polled s"
    and "well_formed c" "allowed c (m_current_state s)" "sizes_ok c" "newline \<notin> set (line_text c)" "length (line_text c) < 4096"
  shows "chat_handle (EvStdin (line_text c @ [newline])) s
    = (udp_effect c (s\<lparr>emitted := []\<rparr>), emitted (udp_effect c (s\<lparr>emitted := []\<rparr>)))"
proof -
  let ?s = "s\<lparr>emitted := []\<rparr>"
  have "processStdinEvent (methods ?s) False (Some (line_text c)) ?s = (Value (), udp_effect c ?s)"
    using assms udp_command [of c ?s] by (simp add: udp_methods_of)
  then have "run_event (EvStdin (line_text c @ [newline])) ?s = (Value 2, udp_effect c ?s)"
    using assms by (intro typed_line) (simp_all add: pending_def)
  then show ?thesis by (simp add: chat_handle_def exit_actions_def)
qed

section \<open>The client under test\<close>

definition test_args :: cargs where
  "test_args = default_args\<lparr>m_server_addr := 4567\<rparr>"

lemma boot_udp:
  assumes "resolves ''localhost''"
  shows "chat_boot resolves (map octets_of (client_args ''udp'' ''4567'')) listening = (Client test_args, [])"
proof -
  have "map octets_of (client_args ''udp'' ''4567'')
      = concat (map opt_words [Transport False, Server ''localhost'', Port 4567])"
    by (simp add: client_args_def octets_of_def encode_ascii_lit(1) ord_def dec_4567)
  then have "Args resolves (map octets_of (client_args ''udp'' ''4567''))
      = processServerAddress resolves (Some ''localhost'') (default_args\<lparr>m_is_tcp := False, m_server_port := 4567\<rparr>)"
    using parse_opts [of "[Transport False, Server ''localhost'', Port 4567]" resolves None default_args]
    unfolding Args_def by simp
  then show ?thesis
    using assms by (simp add: chat_boot_def processServerAddress_def test_args_def default_args_def)
qed

text \<open>The datagram the client sends, and what it asks of the kernel.\<close>

definition auth_datagram :: bytes where
  "auth_datagram = [CHR 0x02, CHR 0x00, CHR 0x00] @ ''a'' @ [CHR 0x00] @ ''c'' @ [CHR 0x00] @ ''b'' @ [CHR 0x00]"

lemma client_answers:
  "chat_handle (EvStdin (''/auth a b c'' @ [newline])) (Client test_args)
    = (udp_effect test_auth (Client test_args), [SendTo 4567 auth_datagram, StdinEvents False, ArmTimer 250])"
proof -
  have "newline \<notin> set ''/auth a b c''" by (simp add: newline_def)
  moreover have "(Client test_args)\<lparr>emitted := []\<rparr> = Client test_args" by (simp add: Client_def)
  moreover have "emitted (udp_effect test_auth (Client test_args)) = [SendTo 4567 auth_datagram, StdinEvents False, ArmTimer 250]"
    by (simp add: test_auth_def Client_def test_args_def default_args_def udp_request_def await_confirm_def transmit_def
        compose_def id_octets_def auth_datagram_def chr8_def char_of_eq_iff)
  ultimately show ?thesis
    using typed_command [of "Client test_args" test_auth] test_auth_ok
    by (simp add: Client_def test_args_def default_args_def pending_def test_auth_def)
qed

section \<open>The test case\<close>

text \<open>What the harness reads in it.\<close>

lemma auth_datagram_text: "translateMessage auth_datagram = Inr (lit (''AUTH IS a AS c USING b'' @ crlf))"
proof -
  let ?m = "chat_msg.Auth 0 (lit ''a'') (lit ''c'') (lit ''b'')"
  have "encode_msg ?m = Inr auth_datagram"
    by (simp add: auth_def zstring_def to_bytes2_def encode_ascii_lit(1) ord_def auth_datagram_def chr8_def char_of_eq_iff)
  moreover have "\<forall>t \<in> set (msg_texts ?m). 0 \<notin> set t" by (simp add: encode_ascii_lit(2) ord_def)
  ultimately have "translateMessage auth_datagram = Inr (render ?m)" by (rule translate_encode_msg)
  then show ?thesis by (simp add: lit_def)
qed

section \<open>The handshake\<close>

text \<open>The client after its request, after the confirmation, and after the reply.\<close>

definition asked :: client where
  "asked = udp_effect test_auth (Client test_args)"

definition waits :: client where
  "waits = request_confirmed (asked\<lparr>emitted := []\<rparr>)"

definition reply_datagram :: bytes where
  "reply_datagram = [CHR 0x01, CHR 0x00, CHR 0x00, CHR 0x01, CHR 0x00, CHR 0x00] @ ''jojo'' @ [CHR 0x00]"

definition joined :: client where
  "joined = accept_reply reply_datagram (new_server 4567 (waits\<lparr>emitted := []\<rparr>))"

lemmas client_state_defs = joined_def waits_def asked_def test_auth_def Client_def test_args_def default_args_def
  udp_request_def await_confirm_def transmit_def compose_def id_octets_def request_confirmed_def confirmed_request_def
  reset_retransmissions_def accept_reply_def new_server_def confirm_to_def

text \<open>A datagram that the client handles without reading input afterwards.\<close>

lemma handle_datagram:
  assumes "\<not> m_is_tcp (m_args s)" "stdin_pipe s' = []" "udp_processSocketEvent src d (s\<lparr>emitted := []\<rparr>) = (Value 2, s')"
  shows "chat_handle (EvDgram src d) s = (s', emitted s')"
proof -
  have "stdin_loop s' = (Value (), s')" using assms(2) by (simp add: stdin_loop.simps)
  with assms show ?thesis
    by (simp add: chat_handle_def run_event_def dispatch_def cwith_def udp_methods_of cbind_def and_go_on_def cret_def
        exit_actions_def)
qed

lemma client_confirmed:
  "chat_handle (EvDgram 4567 [CHR 0x00, CHR 0x00, CHR 0x00]) asked = (waits, [ArmTimer 5000])"
proof -
  have "isValidConfirmMsg [CHR 0x00, CHR 0x00, CHR 0x00]" "getMsgId [CHR 0x00, CHR 0x00, CHR 0x00] = 0"
    by (simp_all add: isValidConfirmMsg_def first_octet_def getMsgId_def octets_id_def ord_def)
  moreover have "m_msg_to_server_id (asked\<lparr>emitted := []\<rparr>) = 0" "first_octet (m_msg_to_server (asked\<lparr>emitted := []\<rparr>)) = CHR 0x02"
    "m_current_state (asked\<lparr>emitted := []\<rparr>) = S_AUTH"
    by (simp_all add: client_state_defs first_octet_def)
  ultimately have "processServerConfirmMsg [CHR 0x00, CHR 0x00, CHR 0x00] (asked\<lparr>emitted := []\<rparr>) = (Value 2, waits)"
    by (simp add: confirm_eq confirmed_def waits_def)
  then have "udp_processSocketEvent 4567 [CHR 0x00, CHR 0x00, CHR 0x00] (asked\<lparr>emitted := []\<rparr>) = (Value 2, waits)"
    by (simp add: udp_processSocketEvent_def udp_MAX_MSG_SIZE_def udp_processMessageFromServer_def Let_def first_octet_def cwith_def)
  from handle_datagram [OF _ _ this] show ?thesis by (simp add: client_state_defs)
qed

lemma client_accepted:
  "chat_handle (EvDgram 4567 reply_datagram) waits
    = (joined, [ArmTimer 0, WriteOut (''Action Success: jojo'' @ [newline]), SendTo 4567 [CHR 0x00, CHR 0x00, CHR 0x00], StdinEvents True])"
proof -
  have valid: "isValidReplyMsg reply_datagram"
    by (simp add: reply_datagram_def isValidReplyMsg_def isValidReplyMsgLength_def s_MSG_CONTENT_MAX_LENGTH_def first_octet_def
        udp_replyMsgRegex_def printableCharSpaceLf_def exact_def newline_def ord_def)
  have st: "m_current_state (waits\<lparr>emitted := []\<rparr>) = S_AUTH" by (simp add: client_state_defs)
  have ex: "expected_reply reply_datagram (waits\<lparr>emitted := []\<rparr>)"
    by (simp add: expected_reply_def client_state_defs reply_datagram_def getRefMsgId_def octets_id_def ord_def)
  have "udp_processServerReplyMsg 4567 reply_datagram (waits\<lparr>emitted := []\<rparr>) = (Value (), joined)"
    using reply_eq [of "waits\<lparr>emitted := []\<rparr>" 4567 reply_datagram] valid st ex by (simp add: joined_def)
  then have "udp_processSocketEvent 4567 reply_datagram (waits\<lparr>emitted := []\<rparr>) = (Value 2, joined)"
    using st by (simp add: udp_processSocketEvent_def udp_MAX_MSG_SIZE_def udp_processMessageFromServer_def Let_def first_octet_def
        cwith_def reply_datagram_def cbind_def cret_def s_MSG_CONTENT_MAX_LENGTH_def)
  from handle_datagram [OF _ _ this] show ?thesis
    by (simp add: client_state_defs reply_datagram_def getMsgId_def octets_id_def ord_def chr8_def char_of_eq_iff)
qed

section \<open>An open conversation\<close>

text \<open>
  The client after a successful authentication as \<open>c\<close>: its next message has the identifier \<open>i\<close>, and it
  has confirmed the messages with the identifiers in \<open>seen\<close>.
\<close>

definition conversing :: "16 word \<Rightarrow> 16 word set \<Rightarrow> client \<Rightarrow> bool" where
  "conversing i seen s \<longleftrightarrow> \<not> m_is_tcp (m_args s) \<and> m_server_addr (m_args s) = 4567 \<and> m_udp_confirm_timeout (m_args s) = 250
     \<and> m_udp_max_retrans_count (m_args s) = 3 \<and> m_allowed_retransmissions s = 3 \<and> m_current_state s = S_OPEN \<and> m_user_display_name s = ''c'' \<and> m_msg_to_server_id s = i
     \<and> set (m_confirmed_server_messages s) = seen \<and> pending s = ([], []) \<and> stdin_polled s"

lemma open_joined: "conversing 1 {0} joined"
  by (simp add: conversing_def client_state_defs pending_def reply_datagram_def getMsgId_def octets_id_def ord_def)

text \<open>A line that is no command, and the confirmation of the message it became.\<close>

definition said :: "bytes \<Rightarrow> client \<Rightarrow> client" where
  "said t s = udp_effect (Say t) (s\<lparr>emitted := []\<rparr>)"

definition say_ok :: "bytes \<Rightarrow> bool" where
  "say_ok t \<longleftrightarrow> well_formed (Say t) \<and> sizes_ok (Say t) \<and> newline \<notin> set t \<and> length t < 1000"

definition say_datagram :: "16 word \<Rightarrow> bytes \<Rightarrow> bytes" where
  "say_datagram i t = [CHR 0x04] @ id_octets i @ ''c'' @ [CHR 0x00] @ t @ [CHR 0x00]"

lemma open_says:
  assumes "conversing i seen s" "say_ok t"
  shows "chat_handle (EvStdin (t @ [newline])) s
    = (said t s, [SendTo 4567 (say_datagram i t), StdinEvents False, ArmTimer 250])"
proof -
  have "chat_handle (EvStdin (line_text (Say t) @ [newline])) s = (said t s, emitted (said t s))"
    unfolding said_def using assms by (intro typed_command) (simp_all add: conversing_def say_ok_def)
  moreover have "emitted (said t s) = [SendTo 4567 (say_datagram i t), StdinEvents False, ArmTimer 250]"
    using assms(1)
    by (simp add: said_def say_datagram_def udp_request_def await_confirm_def transmit_def compose_def conversing_def)
  ultimately show ?thesis by simp
qed

lemma confirm_datagram:
  "isValidConfirmMsg (CHR 0x00 # id_octets i)" "getMsgId (CHR 0x00 # id_octets i) = i"
  by (simp_all add: isValidConfirmMsg_def first_octet_def getMsgId_def id_octets_def octets_id_octets)

lemma confirm_event:
  "udp_processSocketEvent src (CHR 0x00 # id_octets i) s = processServerConfirmMsg (CHR 0x00 # id_octets i) s"
  by (simp add: udp_processSocketEvent_def udp_MAX_MSG_SIZE_def udp_processMessageFromServer_def Let_def first_octet_def cwith_def
      id_octets_def)

lemma open_confirmed:
  assumes "conversing i seen s"
  shows "\<exists>s'. chat_handle (EvDgram 4567 (CHR 0x00 # id_octets i)) (said t s) = (s', [ArmTimer 0, StdinEvents True])
    \<and> conversing (i + 1) seen s'"
proof -
  let ?s = "(said t s)\<lparr>emitted := []\<rparr>"
  have s: "m_msg_to_server_id ?s = i" "first_octet (m_msg_to_server ?s) = CHR 0x04" "m_current_state ?s = S_OPEN"
    "\<not> m_is_tcp (m_args ?s)" "pending ?s = ([], [])"
    using assms by (simp_all add: said_def udp_request_def await_confirm_def transmit_def compose_def conversing_def
        first_octet_def pending_def)
  then have "udp_processSocketEvent 4567 (CHR 0x00 # id_octets i) ?s = (Value 2, msg_confirmed ?s)"
    by (simp add: confirm_event confirm_eq confirm_datagram confirmed_def)
  moreover have "stdin_pipe (msg_confirmed ?s) = []" "emitted (msg_confirmed ?s) = [ArmTimer 0, StdinEvents True]"
    using s by (simp_all add: msg_confirmed_def reset_retransmissions_def pending_def)
  ultimately have "chat_handle (EvDgram 4567 (CHR 0x00 # id_octets i)) (said t s) = (msg_confirmed ?s, [ArmTimer 0, StdinEvents True])"
    using s(4) handle_datagram [of "said t s" "msg_confirmed ?s" 4567 "CHR 0x00 # id_octets i"] by simp
  moreover have "conversing (i + 1) seen (msg_confirmed ?s)"
    using assms by (simp add: conversing_def msg_confirmed_def reset_retransmissions_def said_def udp_request_def await_confirm_def
        transmit_def compose_def pending_def)
  ultimately show ?thesis by blast
qed

text \<open>Messages of the server: a \<open>MSG\<close>, a \<open>PING\<close>.\<close>

lemma open_receives:
  assumes "conversing i seen s" "um_ok m" "length (um_name m) + length (um_content m) \<le> 60002"
  shows "\<exists>s'. chat_handle (EvDgram 4567 (um_datagram m)) s
      = (s', (if um_id m \<in> seen then [] else [WriteOut (um_line m)]) @ [SendTo 4567 (CHR 0x00 # id_octets (um_id m))])
    \<and> conversing i (insert (um_id m) seen) s'"
proof -
  let ?s = "s\<lparr>emitted := []\<rparr>"
  have "udp_processSocketEvent 4567 (um_datagram m) ?s = (Value 2, receive_msg m ?s)"
    using assms by (intro msg_received) (simp_all add: conversing_def receiving_def)
  then have "chat_handle (EvDgram 4567 (um_datagram m)) s = (receive_msg m ?s, emitted (receive_msg m ?s))"
    using assms(1) by (intro handle_datagram) (simp_all add: conversing_def receive_msg_def confirm_to_def pending_def)
  then show ?thesis
    using assms(1) by (intro exI [of _ "receive_msg m ?s"]) (auto simp: conversing_def receive_msg_def confirm_to_def pending_def)
qed

lemma open_pinged:
  assumes "conversing i seen s"
  shows "\<exists>s'. chat_handle (EvDgram 4567 (CHR 0xFD # id_octets n)) s = (s', [SendTo 4567 (CHR 0x00 # id_octets n)])
    \<and> conversing i (insert n seen) s'"
proof -
  let ?s = "s\<lparr>emitted := []\<rparr>"
  have "getMsgId (CHR 0xFD # id_octets n) = n" by (simp add: getMsgId_def id_octets_def octets_id_octets)
  then have "udp_processSocketEvent 4567 (CHR 0xFD # id_octets n) ?s = (Value 2, confirm_to n ?s)"
    using assms by (simp add: udp_processSocketEvent_def udp_MAX_MSG_SIZE_def udp_processMessageFromServer_def Let_def first_octet_def
        cwith_def conversing_def processServerPingMsg_def sendConfirmMsg_eq cbind_def cret_def id_octets_def)
  then have "chat_handle (EvDgram 4567 (CHR 0xFD # id_octets n)) s = (confirm_to n ?s, emitted (confirm_to n ?s))"
    using assms by (intro handle_datagram) (simp_all add: conversing_def confirm_to_def pending_def)
  then show ?thesis
    using assms by (intro exI [of _ "confirm_to n ?s"]) (simp add: conversing_def confirm_to_def pending_def)
qed

text \<open>The end of the conversation: an interrupt, and a \<open>BYE\<close> or \<open>ERR\<close> of the server.\<close>

lemma final_datagram:
  assumes "\<not> m_is_tcp (m_args s)" "n = 0 \<or> n = 1" "udp_processSocketEvent src d (s\<lparr>emitted := []\<rparr>) = (Value n, s')"
  shows "chat_handle (EvDgram src d) s = (s', emitted s' @ [Exit (int n)])"
  using assms
  by (auto simp: chat_handle_def run_event_def dispatch_def cwith_def udp_methods_of cbind_def cret_def exit_actions_def)

lemma open_interrupted:
  assumes "conversing i seen s"
  shows "\<exists>s'. chat_handle EvSigint s
      = (s', [SendTo 4567 ([CHR 0xFF] @ id_octets (i + 1) @ ''c'' @ [CHR 0x00]), StdinEvents False, ArmTimer 250])
    \<and> (\<exists>s''. chat_handle (EvDgram 4567 (CHR 0x00 # id_octets (i + 1))) s' = (s'', [Exit 0]))"
proof -
  let ?s = "say_bye (s\<lparr>emitted := []\<rparr>)"
  have s: "m_msg_to_server_id ?s = i + 1" "first_octet (m_msg_to_server ?s) = CHR 0xFF" "\<not> m_is_tcp (m_args ?s)"
    and out: "emitted ?s = [SendTo 4567 ([CHR 0xFF] @ id_octets (i + 1) @ ''c'' @ [CHR 0x00]), StdinEvents False, ArmTimer 250]"
    using assms by (simp_all add: say_bye_def reset_retransmissions_def await_confirm_def transmit_def compose_def next_id_def
        conversing_def first_octet_def)
  have "chat_handle EvSigint s = (?s, emitted ?s)"
    using assms run_sigint [of "s\<lparr>emitted := []\<rparr>"] by (simp add: chat_handle_def exit_actions_def conversing_def)
  moreover have "udp_processSocketEvent 4567 (CHR 0x00 # id_octets (i + 1)) (?s\<lparr>emitted := []\<rparr>) = (Value 0, ?s\<lparr>emitted := []\<rparr>)"
    using s by (simp add: confirm_event confirm_eq confirm_datagram)
  then have "chat_handle (EvDgram 4567 (CHR 0x00 # id_octets (i + 1))) ?s = (?s\<lparr>emitted := []\<rparr>, [Exit 0])"
    using final_datagram [of ?s 0] s(3) by simp
  ultimately show ?thesis using out by metis
qed

lemma open_dismissed:
  assumes "conversing i seen s"
  shows "\<exists>s'. chat_handle (EvDgram 4567 ([CHR 0xFF] @ id_octets n @ ''c'' @ [CHR 0x00])) s
    = (s', [SendTo 4567 (CHR 0x00 # id_octets n), Exit 0])"
proof -
  let ?s = "s\<lparr>emitted := []\<rparr>" and ?d = "[CHR 0xFF] @ id_octets n @ ''c'' @ [CHR 0x00]"
  have "isValidByeMsg ?d" "getMsgId ?d = n"
    by (simp_all add: isValidByeMsg_def isValidByeMsgLength_def s_DISPLAY_NAME_MAX_LENGTH_def first_octet_def id_octets_def
        udp_byeMsgRegex_def printableChar_def exact_def ord_def getMsgId_def octets_id_octets)
  then have "udp_processServerByeMsg ?d ?s = (Value 0, confirm_to n ?s)"
    by (simp add: udp_processServerByeMsg_def sendConfirmMsg_eq cbind_def cret_def)
  then have "udp_processSocketEvent 4567 ?d ?s = (Value 0, confirm_to n ?s)"
    by (simp add: udp_processSocketEvent_def udp_MAX_MSG_SIZE_def s_MSG_CONTENT_MAX_LENGTH_def udp_processMessageFromServer_def Let_def
        first_octet_def id_octets_def)
  from final_datagram [OF _ _ this] assms show ?thesis by (simp add: conversing_def confirm_to_def)
qed

section \<open>The harness and the open client\<close>

text \<open>A stage on which nothing is pending.\<close>

definition rest :: "client \<Rightarrow> pystr \<Rightarrow> int \<Rightarrow> stage" where
  "rest s h t = \<lparr>g_client = s, g_polls = True, g_timer = None, g_exit = None, g_queue = [], g_out = [],
     g_addr = Some client_port, g_history = h, g_clock = t\<rparr>"

text \<open>The user writes a message, which the harness receives and confirms.\<close>

definition unanswered :: "client \<Rightarrow> bytes \<Rightarrow> pystr \<Rightarrow> int \<Rightarrow> stage" where
  "unanswered s d h k = \<lparr>g_client = s, g_polls = False, g_timer = Some (k + 250), g_exit = None, g_queue = [d], g_out = [],
     g_addr = Some client_port, g_history = h, g_clock = k + 200\<rparr>"

lemma types_step:
  assumes "stage_ok resolves w" "conversing i seen s" "say_ok t"
  shows "execute (lit t) (scene w (rest s h k))
    = (Ret (), scene w (unanswered (said t s) (say_datagram i t) (h @ lit ''stdin:'' @ lit t @ [10]) k))"
proof -
  have "list_all (\<lambda>c. 0 < ord c \<and> ord c < 128) t" using assms(3) by (intro text_of_ascii(2)) (simp add: say_ok_def)
  then show ?thesis
    using on_udp.type_step [OF assms(1) _ _ typed_bytes, of "rest s h k" t] open_says [OF assms(2,3)]
    by (simp add: rest_def unanswered_def on_udp.sleep_step)
qed

lemma says_step:
  assumes "lab resolves w" "conversing i seen s" "say_ok t"
  shows "\<exists>g s' h'. execute (lit t) (scene w (rest s h k)) = (Ret (), scene w g)
    \<and> (\<forall>timeout. receive_message timeout (scene w g) = (Ret (VBytes (say_datagram i t)), scene w (rest s' h' (k + 200))))
    \<and> conversing (i + 1) seen s'"
proof -
  let ?h = "h @ lit ''stdin:'' @ lit t @ [10]"
  let ?g = "unanswered (said t s) (say_datagram i t) ?h k"
  obtain s' where s': "chat_handle (EvDgram 4567 (CHR 0x00 # id_octets i)) (said t s) = (s', [ArmTimer 0, StdinEvents True])"
      "conversing (i + 1) seen s'"
    using open_confirmed [OF assms(2)] by blast
  have "receive_message timeout (scene w ?g) = (Ret (VBytes (say_datagram i t)), scene w (rest s' ?h (k + 200)))" for timeout
    using scene_take [OF assms(1), of ?g "say_datagram i t" "[]" s' "[ArmTimer 0, StdinEvents True]" timeout] s'(1) assms(3)
    by (simp add: say_datagram_def say_ok_def id_octets_def getMessageId_def slice_def rest_def unanswered_def)
  then show ?thesis using types_step [OF lab_stage [OF assms(1)] assms(2,3), of h k] s'(2) by blast
qed

lemma say_text:
  assumes "say_ok t"
  shows "translate (VBytes (say_datagram i t)) = Inr (lit (''MSG FROM c IS '' @ t @ crlf))"
proof -
  let ?m = "chat_msg.Msg (uint i) (lit ''c'') (lit t)"
  have t: "text_of printableCharSpaceLf t" using assms by (simp add: say_ok_def)
  have "encode_msg ?m = Inr (say_datagram i t)"
    by (simp add: msg_def zstring_def to_bytes2_id text_encodes(2) [OF t] encode_ascii_lit(1) ord_def say_datagram_def)
  moreover have "\<forall>x \<in> set (msg_texts ?m). 0 \<notin> set x" using text_no_nul(2) [OF t] by (simp add: encode_ascii_lit(2) ord_def)
  ultimately have "translateMessage (say_datagram i t) = Inr (render ?m)" by (rule translate_encode_msg)
  then show ?thesis by (simp add: translate_def translate_with_def lit_def)
qed

text \<open>A message of the server, which the client prints and confirms.\<close>

definition um_plain :: "udp_msg \<Rightarrow> bool" where
  "um_plain m \<longleftrightarrow> um_ok m \<and> plain_line (um_name m @ '': '' @ um_content m) \<and> length (um_name m) + length (um_content m) \<le> 60002"

lemma serves_step:
  assumes "lab resolves w" "conversing i seen s" "um_plain m"
  shows "\<exists>s'. send_message (VBytes (um_datagram m)) (scene w ((rest s h k)\<lparr>g_out := out, g_queue := q\<rparr>))
      = (Ret (), scene w ((rest s' h k)\<lparr>g_out := out @ (if um_id m \<in> seen then [] else [lit (um_line m)]),
           g_queue := q @ [CHR 0x00 # id_octets (um_id m)]\<rparr>))
    \<and> conversing i (insert (um_id m) seen) s'"
proof -
  obtain s' where s': "chat_handle (EvDgram 4567 (um_datagram m)) s
      = (s', (if um_id m \<in> seen then [] else [WriteOut (um_line m)]) @ [SendTo 4567 (CHR 0x00 # id_octets (um_id m))])"
      "conversing i (insert (um_id m) seen) s'"
    using open_receives [OF assms(2)] assms(3) unfolding um_plain_def by blast
  have "feed_reader (Some []) (um_line m) = ([lit (um_line m)], Some [])"
    using read_line [of "um_name m @ '': '' @ um_content m"] assms(3) by (simp add: um_plain_def um_line_def)
  then have "send_message (VBytes (um_datagram m)) (scene w ((rest s h k)\<lparr>g_out := out, g_queue := q\<rparr>))
      = (Ret (), scene w ((rest s' h k)\<lparr>g_out := out @ (if um_id m \<in> seen then [] else [lit (um_line m)]),
           g_queue := q @ [CHR 0x00 # id_octets (um_id m)]\<rparr>))"
    using scene_send [OF lab_stage [OF assms(1)], of "(rest s h k)\<lparr>g_out := out, g_queue := q\<rparr>"] s'(1) by (simp add: rest_def)
  with s'(2) show ?thesis by blast
qed

lemma rest_sleep:
  "0 \<le> ms \<Longrightarrow> sleep ms (scene w ((rest s h k)\<lparr>g_out := out, g_queue := q\<rparr>))
    = (Ret (), scene w ((rest s h (k + ms))\<lparr>g_out := out, g_queue := q\<rparr>))"
  using on_udp.sleep_step [of ms "(rest s h k)\<lparr>g_out := out, g_queue := q\<rparr>" w] by (simp add: rest_def)

lemma rest_stdout:
  "\<exists>h'. get_stdout (scene w ((rest s h k)\<lparr>g_out := out, g_queue := q\<rparr>))
    = (Ret (join_with [] out), scene w ((rest s h' k)\<lparr>g_out := [], g_queue := q\<rparr>))"
  using on_udp.stdout_step [of w "(rest s h k)\<lparr>g_out := out, g_queue := q\<rparr>"]
  by (intro exI [of _ "h @ join_with (lit ''stdout:'') out"]) (simp add: rest_def)

lemma rest_confirm:
  assumes "lab resolves w"
  shows "receive_message timeout (scene w ((rest s h k)\<lparr>g_out := out, g_queue := (CHR 0x00 # id_octets n) # q\<rparr>))
    = (Ret (VBytes (CHR 0x00 # id_octets n)), scene w ((rest s h k)\<lparr>g_out := out, g_queue := q\<rparr>))"
  using scene_take_confirm [OF lab_stage [OF assms], of "(rest s h k)\<lparr>g_out := out, g_queue := (CHR 0x00 # id_octets n) # q\<rparr>"]
  by (simp add: rest_def id_octets_def)

section \<open>The handshake on the stage\<close>

definition serving :: "client world \<Rightarrow> client world" where
  "serving w = w\<lparr>server_socket := Some (UdpSocket 4567), udp_sockets := (4567, []) # udp_sockets w\<rparr>"

text \<open>After the client was started, after the command was typed, and after the harness confirmed the request.\<close>

definition prologue :: "client world \<Rightarrow> stage" where
  "prologue w = \<lparr>g_client = Client test_args, g_polls = True, g_timer = None, g_exit = None, g_queue = [], g_out = [],
     g_addr = client_address w, g_history = history w, g_clock = clock w + 200\<rparr>"

definition asking :: "client world \<Rightarrow> stage" where
  "asking w = (prologue w)\<lparr>g_client := asked, g_polls := False, g_timer := Some (clock w + 450), g_queue := [auth_datagram],
     g_history := history w @ lit ''stdin:'' @ lit ''/auth a b c'' @ [10], g_clock := clock w + 400\<rparr>"

definition waiting :: "client world \<Rightarrow> stage" where
  "waiting w = (asking w)\<lparr>g_client := waits, g_timer := Some (clock w + 5400), g_queue := [], g_addr := Some client_port\<rparr>"

lemma serving_step: "lab resolves w \<Longrightarrow> start_server (lit ''udp'') 4567 w = (Ret (), serving w)"
  by (auto simp: start_server_def lower_literals lit_udp_not_tcp bind_def modify_def fresh_socket_def udp_bind_def
      bound_udp_def serving_def lab_def stage_ok_def)

lemma launch_step:
  assumes "lab resolves w"
  shows "setup_tester (client_args ''udp'' ''4567'') (serving w) = (Ret (), scene w (prologue w))"
proof -
  have "p_boot (ipk25chat resolves) (client_args ''udp'' ''4567'') l = (Client test_args, [])" for l
    using boot_udp [of resolves] assms by (simp add: ipk25chat_def lab_def stage_ok_def)
  with assms show ?thesis
    by (simp add: setup_tester_def bind_def modify_def ret_def popen_def serving_def sleep_def advance.simps next_wakeup_def
        scene_def prologue_def child_of_def lab_def stage_ok_def)
qed

lemma ask_step:
  assumes "lab resolves w"
  shows "execute (lit ''/auth a b c'') (scene w (prologue w)) = (Ret (), scene w (asking w))"
proof -
  have "encode (lit ''/auth a b c'' @ [10]) = Inr (''/auth a b c'' @ [newline])"
    by (rule typed_bytes) (simp add: ord_def)
  from on_udp.type_step [OF lab_stage [OF assms] _ _ this, of "prologue w"] client_answers show ?thesis
    by (simp add: prologue_def asking_def on_udp.sleep_step asked_def add.commute)
qed

lemma auth_step:
  assumes "lab resolves w"
  shows "receive_message timeout (scene w (asking w)) = (Ret (VBytes auth_datagram), scene w (waiting w))"
  using scene_take [OF assms, of "asking w" auth_datagram "[]" waits "[ArmTimer 5000]" timeout] client_confirmed
  by (simp add: asking_def waiting_def prologue_def auth_datagram_def getMessageId_def slice_def add.commute)

lemma reply_encodes: "reply_to 0 1 (VBytes [CHR 0x00, CHR 0x00]) (lit ''jojo'') = Inr reply_datagram"
  by (simp add: reply_to_def reply_def zstring_def to_bytes2_def bytes1_def encode_ascii_lit(1) ord_def reply_datagram_def
      chr8_def char_of_eq_iff)

lemma reply_step:
  assumes "lab resolves w"
  shows "send_message (VBytes reply_datagram) (scene w (waiting w))
    = (Ret (), scene w ((rest joined (g_history (asking w)) (clock w + 400))
        \<lparr>g_out := [lit (''Action Success: jojo'' @ [newline])], g_queue := [CHR 0x00 # id_octets 0]\<rparr>))"
proof -
  have "feed_reader (Some []) (''Action Success: jojo'' @ [newline]) = ([lit (''Action Success: jojo'' @ [newline])], Some [])"
    by (rule read_line) (simp add: plain_line_def newline_def carriage_return_def ord_def)
  moreover have "id_octets 0 = [CHR 0x00, CHR 0x00]" by (simp add: id_octets_def chr8_def char_of_eq_iff)
  ultimately show ?thesis
    using scene_send [OF lab_stage [OF assms], of "waiting w" reply_datagram] client_accepted
    by (simp add: waiting_def asking_def prologue_def rest_def)
qed

text \<open>The older harness always confirms, which is what the newer one does unless it is told otherwise.\<close>

lemma hobza_receive_lab: "lab resolves w \<Longrightarrow> hobza_receive_message timeout (scene w g) = receive_message timeout (scene w g)"
  by (simp add: hobza_receive_message_def receive_message_def scene_fields lab_def)

lemma handshake_end:
  assumes "lab resolves w"
  obtains w1 w2 w3 h where "send_message (VBytes reply_datagram) (scene w (waiting w)) = (Ret (), w1)" "sleep 200 w1 = (Ret (), w2)"
    "get_stdout w2 = (Ret (lit (''Action Success: jojo'' @ [newline])), w3)"
    "receive_message 5000 w3 = (Ret (VBytes [CHR 0x00, CHR 0x00, CHR 0x00]), scene w (rest joined h (clock w + 600)))"
    "hobza_receive_message 5000 w3 = receive_message 5000 w3"
proof -
  let ?g = "\<lambda>h k out q. scene w ((rest joined h k)\<lparr>g_out := out, g_queue := q\<rparr>)"
  let ?line = "lit (''Action Success: jojo'' @ [newline])" and ?c = "CHR 0x00 # id_octets 0"
  have "sleep 200 (?g (g_history (asking w)) (clock w + 400) [?line] [?c])
      = (Ret (), ?g (g_history (asking w)) (clock w + 600) [?line] [?c])"
    by (simp add: rest_sleep add.commute)
  moreover obtain h where "get_stdout (?g (g_history (asking w)) (clock w + 600) [?line] [?c]) = (Ret ?line, ?g h (clock w + 600) [] [?c])"
    using rest_stdout [where out = "[?line]"] by fastforce
  moreover have "receive_message 5000 (?g h (clock w + 600) [] [?c]) = (Ret (VBytes ?c), ?g h (clock w + 600) [] [])"
    by (rule rest_confirm [OF assms])
  moreover have "?c = [CHR 0x00, CHR 0x00, CHR 0x00]" by (simp add: id_octets_def chr8_def char_of_eq_iff)
  moreover have "?g h (clock w + 600) [] [] = scene w (rest joined h (clock w + 600))" by (simp add: rest_def)
  ultimately show ?thesis
    using reply_step [OF assms] hobza_receive_lab [OF assms] by (intro that [of _ _ _ h]) simp_all
qed

lemmas handshake_start = serving_step launch_step ask_step auth_step

lemma auth_id: "message_id_of (VBytes auth_datagram) = Inr (VBytes [CHR 0x00, CHR 0x00])"
  by (simp add: message_id_of_def getMessageId_def slice_def auth_datagram_def)

lemma accepted_shown: "any_line_has ''Action Success: jojo'' (lit (''Action Success: jojo'' @ [newline]))"
  by (simp add: any_line_has_def lit_def ord_def newline_def)

lemma handshake:
  assumes "lab resolves w"
  shows "\<exists>h. auth_and_reply w = (Ret (), scene w (rest joined h (clock w + 600)))"
proof -
  have "translate (VBytes auth_datagram) = Inr (lit (''AUTH IS a AS c USING b'' @ crlf))"
    by (simp add: translate_def translate_with_def auth_datagram_text)
  moreover obtain w1 w2 w3 h where "send_message (VBytes reply_datagram) (scene w (waiting w)) = (Ret (), w1)" "sleep 200 w1 = (Ret (), w2)"
    "get_stdout w2 = (Ret (lit (''Action Success: jojo'' @ [newline])), w3)"
    "receive_message 5000 w3 = (Ret (VBytes [CHR 0x00, CHR 0x00, CHR 0x00]), scene w (rest joined h (clock w + 600)))"
    by (rule handshake_end [OF assms])
  ultimately show ?thesis
    using handshake_start [OF assms] reply_encodes auth_id accepted_shown
    by (intro exI [of _ h]) (simp add: auth_and_reply_def bind_def ret_def)
qed

lemma hobza_handshake:
  assumes "lab resolves w"
  shows "\<exists>h. hobza_auth_and_reply w = (Ret (), scene w (rest joined h (clock w + 600)))"
proof -
  have "hobza_translate (VBytes auth_datagram) = Inr (lit (''AUTH IS a AS c USING b'' @ crlf))"
    by code_simp
  moreover obtain w1 w2 w3 h where "send_message (VBytes reply_datagram) (scene w (waiting w)) = (Ret (), w1)" "sleep 200 w1 = (Ret (), w2)"
    "get_stdout w2 = (Ret (lit (''Action Success: jojo'' @ [newline])), w3)"
    "hobza_receive_message 5000 w3 = (Ret (VBytes [CHR 0x00, CHR 0x00, CHR 0x00]), scene w (rest joined h (clock w + 600)))"
    using handshake_end [OF assms] by metis
  ultimately show ?thesis
    using handshake_start [OF assms] reply_encodes auth_id accepted_shown hobza_receive_lab [OF assms]
    by (intro exI [of _ h]) (simp add: hobza_auth_and_reply_def bind_def ret_def)
qed

section \<open>Test cases\<close>

text \<open>Exchanges from one resting world to the next.\<close>

definition at_rest :: "client world \<Rightarrow> 16 word \<Rightarrow> 16 word set \<Rightarrow> client world \<Rightarrow> bool" where
  "at_rest w i seen w' \<longleftrightarrow> (\<exists>s h k. w' = scene w (rest s h k) \<and> conversing i seen s)"

lemma after_handshake: "lab resolves w \<Longrightarrow> \<exists>w'. auth_and_reply w = (Ret (), w') \<and> at_rest w 1 {0} w'"
  using handshake [of resolves w] open_joined unfolding at_rest_def by blast

lemma says:
  assumes "lab resolves w" "at_rest w i seen w1" "say_ok t"
  shows "\<exists>w2 w3. execute (lit t) w1 = (Ret (), w2) \<and> (\<forall>timeout. receive_message timeout w2 = (Ret (VBytes (say_datagram i t)), w3))
    \<and> at_rest w (i + 1) seen w3"
  using says_step [OF assms(1) _ assms(3)] assms(2) unfolding at_rest_def by metis

lemma serves:
  assumes "lab resolves w" "at_rest w i seen w1" "um_plain m" "um_id m \<notin> seen"
  shows "\<exists>w2 w3 w4 w5. send_message (VBytes (um_datagram m)) w1 = (Ret (), w2) \<and> sleep 200 w2 = (Ret (), w3)
    \<and> get_stdout w3 = (Ret (lit (um_line m)), w4)
    \<and> (\<forall>timeout. receive_message timeout w4 = (Ret (VBytes (CHR 0x00 # id_octets (um_id m))), w5))
    \<and> at_rest w i (insert (um_id m) seen) w5"
proof -
  obtain s h k where w1: "w1 = scene w (rest s h k)" and s: "conversing i seen s"
    using assms(2) unfolding at_rest_def by blast
  let ?g = "\<lambda>s h k out q. scene w ((rest s h k)\<lparr>g_out := out, g_queue := q\<rparr>)"
  let ?line = "lit (um_line m)" and ?c = "CHR 0x00 # id_octets (um_id m)"
  have idle: "?g s h k [] [] = scene w (rest s h k)" for s h k by (simp add: rest_def)
  obtain s' where s': "send_message (VBytes (um_datagram m)) (?g s h k [] []) = (Ret (), ?g s' h k [?line] [?c])"
      "conversing i (insert (um_id m) seen) s'"
    using serves_step [OF assms(1) s assms(3), where h = h and k = k and out = "[]" and q = "[]"] assms(4) by auto
  have "sleep 200 (?g s' h k [?line] [?c]) = (Ret (), ?g s' h (k + 200) [?line] [?c])" by (simp add: rest_sleep)
  moreover obtain h' where "get_stdout (?g s' h (k + 200) [?line] [?c]) = (Ret ?line, ?g s' h' (k + 200) [] [?c])"
    using rest_stdout [where out = "[?line]"] by fastforce
  moreover have "receive_message timeout (?g s' h' (k + 200) [] [?c]) = (Ret (VBytes ?c), scene w (rest s' h' (k + 200)))" for timeout
    using rest_confirm [OF assms(1), where out = "[]" and q = "[]"] by (simp add: idle)
  ultimately show ?thesis using s' w1 idle unfolding at_rest_def by metis
qed

lemma duplicated:
  assumes "lab resolves w" "at_rest w i seen w1" "um_plain m" "um_id m \<notin> seen"
  shows "\<exists>w2 w3 w4 w5 w6 w7 w8. send_message (VBytes (um_datagram m)) w1 = (Ret (), w2) \<and> sleep 200 w2 = (Ret (), w3)
    \<and> send_message (VBytes (um_datagram m)) w3 = (Ret (), w4) \<and> sleep 200 w4 = (Ret (), w5)
    \<and> get_stdout w5 = (Ret (lit (um_line m)), w6)
    \<and> (\<forall>timeout. receive_message timeout w6 = (Ret (VBytes (CHR 0x00 # id_octets (um_id m))), w7))
    \<and> (\<forall>timeout. receive_message timeout w7 = (Ret (VBytes (CHR 0x00 # id_octets (um_id m))), w8))"
proof -
  obtain s h k where w1: "w1 = scene w (rest s h k)" and s: "conversing i seen s"
    using assms(2) unfolding at_rest_def by blast
  let ?g = "\<lambda>s h k out q. scene w ((rest s h k)\<lparr>g_out := out, g_queue := q\<rparr>)"
  let ?line = "lit (um_line m)" and ?c = "CHR 0x00 # id_octets (um_id m)"
  have idle: "?g s h k [] [] = scene w (rest s h k)" for s h k by (simp add: rest_def)
  obtain s' where s': "send_message (VBytes (um_datagram m)) (?g s h k [] []) = (Ret (), ?g s' h k [?line] [?c])"
      "conversing i (insert (um_id m) seen) s'"
    using serves_step [OF assms(1) s assms(3), where h = h and k = k and out = "[]" and q = "[]"] assms(4) by auto
  obtain s'' where "send_message (VBytes (um_datagram m)) (?g s' h (k + 200) [?line] [?c]) = (Ret (), ?g s'' h (k + 200) [?line] [?c, ?c])"
    using serves_step [OF assms(1) s'(2) assms(3), where h = h and k = "k + 200" and out = "[?line]" and q = "[?c]"] by auto
  moreover have "sleep 200 (?g s h k out q) = (Ret (), ?g s h (k + 200) out q)" for s h k out q by (simp add: rest_sleep)
  moreover obtain h' where "get_stdout (?g s'' h (k + 200 + 200) [?line] [?c, ?c]) = (Ret ?line, ?g s'' h' (k + 200 + 200) [] [?c, ?c])"
    using rest_stdout [where out = "[?line]"] by fastforce
  moreover have "receive_message timeout (?g s'' h' k' [] (?c # q)) = (Ret (VBytes ?c), ?g s'' h' k' [] q)" for timeout k' q
    using rest_confirm [OF assms(1)] by simp
  ultimately show ?thesis using s' w1 idle by metis
qed

lemma pings:
  assumes "lab resolves w" "at_rest w i seen w1"
  shows "\<exists>w2 w3. send_message (VBytes (CHR 0xFD # id_octets n)) w1 = (Ret (), w2)
    \<and> (\<forall>timeout. receive_message timeout w2 = (Ret (VBytes (CHR 0x00 # id_octets n)), w3)) \<and> at_rest w i (insert n seen) w3"
proof -
  obtain s h k where w1: "w1 = scene w (rest s h k)" and s: "conversing i seen s"
    using assms(2) unfolding at_rest_def by blast
  obtain s' where s': "chat_handle (EvDgram 4567 (CHR 0xFD # id_octets n)) s = (s', [SendTo 4567 (CHR 0x00 # id_octets n)])"
      "conversing i (insert n seen) s'"
    using open_pinged [OF s] by blast
  let ?g = "(rest s' h k)\<lparr>g_out := [], g_queue := [CHR 0x00 # id_octets n]\<rparr>"
  have "send_message (VBytes (CHR 0xFD # id_octets n)) w1 = (Ret (), scene w ?g)"
    using scene_send [OF lab_stage [OF assms(1)], of "rest s h k"] s'(1) by (simp add: w1 rest_def)
  moreover have "receive_message timeout (scene w ?g) = (Ret (VBytes (CHR 0x00 # id_octets n)), scene w (rest s' h k))" for timeout
    using rest_confirm [OF assms(1), where s = s' and h = h and k = k and out = "[]" and n = n and q = "[]"] by (simp add: rest_def)
  ultimately show ?thesis using s'(2) unfolding at_rest_def by metis
qed

lemma interrupts:
  assumes "lab resolves w" "at_rest w i seen w1"
  shows "\<exists>w2 w3. send_sigint w1 = (Ret (), w2)
    \<and> receive_message timeout w2 = (Ret (VBytes ([CHR 0xFF] @ id_octets (i + 1) @ ''c'' @ [CHR 0x00])), w3)
    \<and> poll w3 = (Ret (Some 0), w3)"
proof -
  obtain s h k where w1: "w1 = scene w (rest s h k)" and s: "conversing i seen s"
    using assms(2) unfolding at_rest_def by blast
  let ?d = "[CHR 0xFF] @ id_octets (i + 1) @ ''c'' @ [CHR 0x00]"
  obtain s' s'' where s': "chat_handle EvSigint s = (s', [SendTo 4567 ?d, StdinEvents False, ArmTimer 250])"
      "chat_handle (EvDgram 4567 (CHR 0x00 # id_octets (i + 1))) s' = (s'', [Exit 0])"
    using open_interrupted [OF s] by blast
  let ?g = "(rest s' h k)\<lparr>g_polls := False, g_timer := Some (k + 250), g_queue := [?d]\<rparr>"
  let ?g' = "(rest s'' h k)\<lparr>g_polls := False, g_exit := Some 0\<rparr>"
  have "send_sigint w1 = (Ret (), scene w ?g)"
    using on_udp.sigint_step [OF lab_stage [OF assms(1)], of "rest s h k"] s'(1) by (simp add: w1 rest_def)
  moreover have "receive_message timeout (scene w ?g) = (Ret (VBytes ?d), scene w ?g')"
    using scene_take [OF assms(1), of ?g ?d "[]" s'' "[Exit 0]" timeout] s'(2)
    by (simp add: rest_def id_octets_def getMessageId_def slice_def)
  moreover have "poll (scene w ?g') = (Ret (Some 0), scene w ?g')" by (simp add: on_udp.exit_step)
  ultimately show ?thesis by blast
qed

lemma dismisses:
  assumes "lab resolves w" "at_rest w i seen w1"
  shows "\<exists>w2 w3 w4. send_message (VBytes ([CHR 0xFF] @ id_octets n @ ''c'' @ [CHR 0x00])) w1 = (Ret (), w2)
    \<and> sleep 200 w2 = (Ret (), w3) \<and> poll w3 = (Ret (Some 0), w3)
    \<and> receive_message timeout w3 = (Ret (VBytes (CHR 0x00 # id_octets n)), w4)"
proof -
  obtain s h k where w1: "w1 = scene w (rest s h k)" and s: "conversing i seen s"
    using assms(2) unfolding at_rest_def by blast
  obtain s' where s': "chat_handle (EvDgram 4567 ([CHR 0xFF] @ id_octets n @ ''c'' @ [CHR 0x00])) s
      = (s', [SendTo 4567 (CHR 0x00 # id_octets n), Exit 0])"
    using open_dismissed [OF s] by blast
  let ?g = "\<lambda>k. (rest s' h k)\<lparr>g_exit := Some 0, g_queue := [CHR 0x00 # id_octets n]\<rparr>"
  have "send_message (VBytes ([CHR 0xFF] @ id_octets n @ ''c'' @ [CHR 0x00])) w1 = (Ret (), scene w (?g k))"
    using scene_send [OF lab_stage [OF assms(1)], of "rest s h k"] s' by (simp add: w1 rest_def)
  moreover have "sleep 200 (scene w (?g k)) = (Ret (), scene w (?g (k + 200)))" by (simp add: on_udp.sleep_step rest_def)
  moreover have "poll (scene w (?g (k + 200))) = (Ret (Some 0), scene w (?g (k + 200)))" by (simp add: on_udp.exit_step)
  moreover have "\<exists>w4. receive_message timeout (scene w (?g (k + 200))) = (Ret (VBytes (CHR 0x00 # id_octets n)), w4)"
    using scene_take_confirm [OF lab_stage [OF assms(1)], of "?g (k + 200)" "CHR 0x00 # id_octets n" "[]" timeout] by (simp add: id_octets_def)
  ultimately show ?thesis by blast
qed

text \<open>What the harness encodes and reads in these exchanges.\<close>

lemma small_ids:
  "id_octets 1 = [CHR 0x00, CHR 0x01]" "id_octets 2 = [CHR 0x00, CHR 0x02]"
  by (simp_all add: id_octets_def chr8_def char_of_eq_iff)

lemma server_bye_encodes: "bye 1 (lit ''c'') = Inr ([CHR 0xFF] @ id_octets 1 @ ''c'' @ [CHR 0x00])"
  by (simp add: bye_def zstring_def to_bytes2_def encode_ascii_lit(1) ord_def id_octets_def)

lemma ping_encodes: "ping 1 = Inr (CHR 0xFD # id_octets 1)"
  by (simp add: ping_def to_bytes2_def id_octets_def)

lemma bye_text: "translate (VBytes ([CHR 0xFF] @ id_octets i @ ''c'' @ [CHR 0x00])) = Inr (lit (''BYE FROM c'' @ crlf))"
proof -
  let ?m = "chat_msg.Bye (uint i) (lit ''c'')"
  have "encode_msg ?m = Inr ([CHR 0xFF] @ id_octets i @ ''c'' @ [CHR 0x00])"
    by (simp add: bye_def zstring_def to_bytes2_id encode_ascii_lit(1) ord_def)
  moreover have "\<forall>x \<in> set (msg_texts ?m). 0 \<notin> set x" by (simp add: encode_ascii_lit(2) ord_def)
  ultimately have "translateMessage ([CHR 0xFF] @ id_octets i @ ''c'' @ [CHR 0x00]) = Inr (render ?m)" by (rule translate_encode_msg)
  then show ?thesis by (simp add: translate_def translate_with_def lit_def)
qed

lemma occurs_in_refl: "occurs_in x x"
  using occurs_in_iff [of x x] by (metis append_Nil append_Nil2)

lemma caught_return: "fst (m v) = Ret x \<Longrightarrow> fst (catch_timeout m m' v) = Ret x"
  by (cases "m v") (simp add: catch_timeout_def)

definition server_msg :: "16 word \<Rightarrow> bytes \<Rightarrow> bytes \<Rightarrow> udp_msg" where
  "server_msg i n c = \<lparr>um_id = i, um_name = n, um_content = c\<rparr>"

lemma server_msg_plain:
  assumes "text_of printableChar n" "length n \<le> 20" "text_of printableCharSpaceLf c" "length c \<le> 1000" "newline \<notin> set c"
  shows "um_plain (server_msg i n c)" "msg (uint i) (lit n) (lit c) = Inr (um_datagram (server_msg i n c))"
    "um_id (server_msg i n c) = i" "um_line (server_msg i n c) = n @ '': '' @ c @ [newline]"
proof -
  have ok: "um_ok (server_msg i n c)"
    using assms by (simp add: um_ok_def server_msg_def name_ok_def content_ok_def)
  moreover have "plain_line (n @ '': '' @ c)"
    using assms text_of_ascii(1) [OF assms(1)] text_of_ascii(2) [OF assms(3)]
    by (auto simp: plain_line_def text_of_def list_all_iff printableChar_def printableCharSpaceLf_def newline_def
        carriage_return_def ord_def)
  ultimately show "um_plain (server_msg i n c)"
    using assms by (simp add: um_plain_def server_msg_def)
  show "msg (uint i) (lit n) (lit c) = Inr (um_datagram (server_msg i n c))"
    using um_encodes [OF ok] by (simp add: server_msg_def)
qed (simp_all add: server_msg_def um_line_def)

text \<open>The test cases, each played from the world of the harness.\<close>

lemma plays_udp_auth: "lab resolves w \<Longrightarrow> fst (udp_auth w) = Ret ()"
  using serving_step [of resolves w] launch_step [of resolves w] ask_step [of resolves w] auth_step [of resolves w] auth_datagram_text
  by (simp add: udp_auth_def bind_def translate_def translate_with_def ret_def)

lemma plays_udp_msg:
  assumes "lab resolves w"
  shows "fst (udp_msg w) = Ret ()"
proof -
  have t: "say_ok ''ahojky''"
    by (simp add: say_ok_def text_of_def printableCharSpaceLf_def newline_def ord_def isValidMsgContentLength_def s_MSG_CONTENT_MAX_LENGTH_def)
  obtain w1 where w1: "auth_and_reply w = (Ret (), w1)" "at_rest w 1 {0} w1" using after_handshake [OF assms] by blast
  from says [OF assms w1(2) t] w1(1) say_text [OF t] show ?thesis by (auto simp: udp_msg_def bind_def ret_def)
qed

lemma plays_udp_ping:
  assumes "lab resolves w"
  shows "fst (udp_ping w) = Ret ()"
proof -
  obtain w1 where w1: "auth_and_reply w = (Ret (), w1)" "at_rest w 1 {0} w1" using after_handshake [OF assms] by blast
  from pings [OF assms w1(2), of 1] w1(1) show ?thesis by (auto simp: udp_ping_def bind_def ping_encodes ret_def small_ids)
qed

lemma plays_udp_svr_msg:
  assumes "lab resolves w"
  shows "fst (udp_svr_msg w) = Ret ()"
proof -
  have m: "text_of printableChar ''smrt''" "text_of printableCharSpaceLf ''ahojky''" "newline \<notin> set ''ahojky''"
    by (simp_all add: text_of_def printableChar_def printableCharSpaceLf_def newline_def ord_def)
  note m = server_msg_plain [OF m(1) _ m(2) _ m(3), where i = 1, simplified]
  obtain w1 where w1: "auth_and_reply w = (Ret (), w1)" "at_rest w 1 {0} w1" using after_handshake [OF assms] by blast
  from serves [OF assms w1(2) m(1)] w1(1) m(2-4) show ?thesis
    by (auto simp: udp_svr_msg_def bind_def ret_def small_ids any_line_has_def lit_def ord_def newline_def)
qed

lemma plays_udp_duplicate:
  assumes "lab resolves w"
  shows "fst (udp_ignore_duplicate_server_msg w) = Ret ()"
proof -
  have m: "text_of printableChar ''server''" "text_of printableCharSpaceLf ''duplicate test''" "newline \<notin> set ''duplicate test''"
    by (simp_all add: text_of_def printableChar_def printableCharSpaceLf_def newline_def ord_def)
  note m = server_msg_plain [OF m(1) _ m(2) _ m(3), where i = 1, simplified]
  have "count_occ (lit ''server: duplicate test'') (lit (''server: duplicate test'' @ [newline])) = 1"
    by (simp add: count_occ.simps lit_def ord_def newline_def)
  moreover obtain w1 where w1: "auth_and_reply w = (Ret (), w1)" "at_rest w 1 {0} w1" using after_handshake [OF assms] by blast
  ultimately show ?thesis using duplicated [OF assms w1(2) m(1)] w1(1) m(2-4)
    by (auto simp: udp_ignore_duplicate_server_msg_def bind_def ret_def small_ids Let_def)
qed

lemma plays_udp_bye1:
  assumes "lab resolves w"
  shows "fst (udp_bye1 w) = Ret ()"
proof -
  obtain w1 where w1: "auth_and_reply w = (Ret (), w1)" "at_rest w 1 {0} w1" using after_handshake [OF assms] by blast
  from interrupts [OF assms w1(2), of 5000] w1(1) bye_text show ?thesis by (auto simp: udp_bye1_def bind_def ret_def)
qed

lemma plays_udp_server_bye:
  assumes "lab resolves w"
  shows "fst (udp_server_bye w) = Ret ()"
proof -
  obtain w1 where w1: "auth_and_reply w = (Ret (), w1)" "at_rest w 1 {0} w1" using after_handshake [OF assms] by blast
  from dismisses [OF assms w1(2), of 1 5000] w1(1) server_bye_encodes show ?thesis
    by (auto simp: udp_server_bye_def bind_def ret_def small_ids)
qed

lemma plays_udp_multiple:
  assumes "lab resolves w"
  shows "fst (udp_send_receive_multiple w) = Ret ()"
proof -
  have t: "say_ok ''client msg 1''" "say_ok ''client msg 2''"
    by (simp_all add: say_ok_def text_of_def printableCharSpaceLf_def newline_def ord_def isValidMsgContentLength_def s_MSG_CONTENT_MAX_LENGTH_def)
  have m: "text_of printableChar ''server''" "text_of printableCharSpaceLf ''server msg 1''" "newline \<notin> set ''server msg 1''"
      "text_of printableCharSpaceLf ''server msg 2''" "newline \<notin> set ''server msg 2''"
    by (simp_all add: text_of_def printableChar_def printableCharSpaceLf_def newline_def ord_def)
  note m1 = server_msg_plain [OF m(1) _ m(2) _ m(3), where i = 1, simplified]
  note m2 = server_msg_plain [OF m(1) _ m(4) _ m(5), where i = 2, simplified]
  obtain w1 where w1: "auth_and_reply w = (Ret (), w1)" "at_rest w 1 {0} w1" using after_handshake [OF assms] by blast
  obtain w2 w3 where e1: "execute (lit ''client msg 1'') w1 = (Ret (), w2)"
      "receive_message 5000 w2 = (Ret (VBytes (say_datagram 1 ''client msg 1'')), w3)" "at_rest w 2 {0} w3"
    using says [OF assms w1(2) t(1)] by auto
  obtain v1 v2 v3 v4 where s1: "send_message (VBytes (um_datagram (server_msg 1 ''server'' ''server msg 1''))) w3 = (Ret (), v1)"
      "sleep 200 v1 = (Ret (), v2)" "get_stdout v2 = (Ret (lit (''server: server msg 1'' @ [newline])), v3)"
      "receive_message 5000 v3 = (Ret (VBytes (CHR 0x00 # id_octets 1)), v4)" "at_rest w 2 {1, 0} v4"
    using serves [OF assms e1(3) m1(1)] m1(3,4) by auto
  obtain x2 x3 where e2: "execute (lit ''client msg 2'') v4 = (Ret (), x2)"
      "receive_message 5000 x2 = (Ret (VBytes (say_datagram 2 ''client msg 2'')), x3)" "at_rest w 3 {1, 0} x3"
    using says [OF assms s1(5) t(2)] by auto
  obtain y1 y2 y3 y4 where s2: "send_message (VBytes (um_datagram (server_msg 2 ''server'' ''server msg 2''))) x3 = (Ret (), y1)"
      "sleep 200 y1 = (Ret (), y2)" "get_stdout y2 = (Ret (lit (''server: server msg 2'' @ [newline])), y3)"
      "receive_message 5000 y3 = (Ret (VBytes (CHR 0x00 # id_octets 2)), y4)"
    using serves [OF assms e2(3) m2(1)] m2(3,4) by auto
  have "occurs_in (lit ''server: server msg 1'') (lit (''server: server msg 1'' @ [newline]))"
      "occurs_in (lit ''server: server msg 2'') (lit (''server: server msg 2'' @ [newline]))"
    by (simp_all add: lit_def ord_def newline_def)
  then show ?thesis using w1(1) e1 s1 e2 s2 m1(2) m2(2) say_text [OF t(1)] say_text [OF t(2)]
    by (simp add: udp_send_receive_multiple_def bind_def ret_def small_ids occurs_in_refl)
qed

text \<open>A harness that withholds its confirmation receives the same datagram again.\<close>

definition muted :: "client world \<Rightarrow> client world" where
  "muted w = w\<lparr>send_confirm := False\<rparr>"

lemma muted_stage: "stage_ok resolves w \<Longrightarrow> stage_ok resolves (muted w)" "\<not> send_confirm (muted w)"
  by (simp_all add: muted_def stage_ok_def bound_udp_def)

lemma mute_step: "modify (\<lambda>w. w\<lparr>send_confirm := False\<rparr>) (scene w g) = (Ret (), scene (muted w) g)"
  by (simp add: modify_def muted_def scene_def)

lemma confirm_returns:
  assumes "stage_ok resolves w" "g_addr g = Some client_port"
  shows "fst (confirm_message (VBytes d) (scene w g)) = Ret ()"
  using assms by (simp add: confirm_message_def message_id_of_def bind_def ret_def send_message_def scene_fields stage_ok_def)

lemma resends:
  assumes "stage_ok resolves w" "g_queue g = [d]" "length d \<le> 1024" "d \<noteq> []" "g_exit g = None"
    and "g_timer g = Some t" "g_clock g < t" "t \<le> g_clock g + 3000"
    and "chat_handle EvTimer (g_client g) = (c, [SendTo 4567 d, ArmTimer 250])"
  shows "\<exists>w1 w2. receive_message 1000 (scene (muted w) g) = (Ret (VBytes d), w1) \<and> receive_message 3000 w1 = (Ret (VBytes d), w2)
    \<and> fst (confirm_message (VBytes d) w2) = Ret ()"
proof -
  let ?g = "g\<lparr>g_queue := [], g_addr := Some client_port\<rparr>"
  let ?g' = "?g\<lparr>g_timer := Some (t + 250), g_clock := t, g_client := c, g_addr := Some client_port\<rparr>"
  note ok = muted_stage(1) [OF assms(1)]
  have "receive_message 1000 (scene (muted w) g) = (Ret (VBytes d), scene (muted w) ?g)"
    using assms(2-4) muted_stage(2) by (intro scene_take_confirm [OF ok]) simp_all
  moreover have "receive_message 3000 (scene (muted w) ?g) = (Ret (VBytes d), scene (muted w) ?g')"
    using scene_resent [OF ok muted_stage(2), of ?g t 3000 250 d c] assms(3-9) by simp
  moreover have "fst (confirm_message (VBytes d) (scene (muted w) ?g')) = Ret ()"
    by (rule confirm_returns [OF ok]) simp
  ultimately show ?thesis by blast
qed

lemma open_resends:
  assumes "conversing i seen s"
  shows "\<exists>s'. chat_handle EvTimer (said t s) = (s', [SendTo 4567 (say_datagram i t), ArmTimer 250])"
proof -
  have s: "unconfirmed (said t s)" "m_allowed_retransmissions (said t s) = 3" "m_msg_to_server (said t s) = say_datagram i t"
    "m_server_addr (m_args (said t s)) = 4567" "m_udp_confirm_timeout (m_args (said t s)) = 250"
    using assms by (simp_all add: unconfirmed_def said_def say_datagram_def udp_request_def await_confirm_def transmit_def compose_def
        conversing_def)
  then show ?thesis using unconfirmed_timer [OF s(1)] by simp
qed

lemma plays_udp_retransmit1:
  assumes "lab resolves w"
  shows "fst (udp_retransmit_missing_confirm1 w) = Ret ()"
proof -
  let ?t = "''test retransmit message''"
  have t: "say_ok ?t"
    by (simp add: say_ok_def text_of_def printableCharSpaceLf_def newline_def ord_def isValidMsgContentLength_def s_MSG_CONTENT_MAX_LENGTH_def)
  obtain s h k where w1: "auth_and_reply w = (Ret (), scene w (rest s h k))" and s: "conversing 1 {0} s"
    using after_handshake [OF assms] unfolding at_rest_def by blast
  note ok = lab_stage [OF assms]
  let ?g = "unanswered (said ?t s) (say_datagram 1 ?t) (h @ lit ''stdin:'' @ lit ?t @ [10]) k"
  have "execute (lit ?t) (scene (muted w) (rest s h k)) = (Ret (), scene (muted w) ?g)"
    by (rule types_step [OF muted_stage(1) [OF ok] s t])
  moreover obtain s' where "chat_handle EvTimer (said ?t s) = (s', [SendTo 4567 (say_datagram 1 ?t), ArmTimer 250])"
    using open_resends [OF s] by blast
  then obtain w2 w3 where "receive_message 1000 (scene (muted w) ?g) = (Ret (VBytes (say_datagram 1 ?t)), w2)"
      "receive_message 3000 w2 = (Ret (VBytes (say_datagram 1 ?t)), w3)" "fst (confirm_message (VBytes (say_datagram 1 ?t)) w3) = Ret ()"
    using resends [OF ok, of ?g "say_datagram 1 ?t" "k + 250" s'] by (auto simp: unanswered_def say_datagram_def id_octets_def)
  ultimately show ?thesis
    using w1 mute_step [of w "rest s h k"] say_text [OF t]
    by (simp add: udp_retransmit_missing_confirm1_def bind_def ret_def message_id_of_def caught_return occurs_in_refl)
qed

lemma plays_udp_retransmit2:
  assumes "lab resolves w"
  shows "fst (udp_retransmit_missing_confirm2 w) = Ret ()"
proof -
  note ok = lab_stage [OF assms]
  have s: "unconfirmed asked" "m_allowed_retransmissions asked = 3" "m_msg_to_server asked = auth_datagram"
    "m_server_addr (m_args asked) = 4567" "m_udp_confirm_timeout (m_args asked) = 250"
    by (simp_all add: unconfirmed_def client_state_defs auth_datagram_def chr8_def char_of_eq_iff)
  then obtain s' where "chat_handle EvTimer asked = (s', [SendTo 4567 auth_datagram, ArmTimer 250])"
    using unconfirmed_timer [OF s(1)] by simp
  then obtain w2 w3 where "receive_message 1000 (scene (muted w) (asking w)) = (Ret (VBytes auth_datagram), w2)"
      "receive_message 3000 w2 = (Ret (VBytes auth_datagram), w3)" "fst (confirm_message (VBytes auth_datagram) w3) = Ret ()"
    using resends [OF ok, of "asking w" auth_datagram "clock w + 450" s'] by (auto simp: asking_def prologue_def auth_datagram_def)
  then show ?thesis
    using serving_step [OF assms] launch_step [OF assms] ask_step [OF assms] mute_step [of w "asking w"] auth_datagram_text
    by (simp add: udp_retransmit_missing_confirm2_def bind_def ret_def translate_def translate_with_def message_id_of_def
        caught_return occurs_in_refl)
qed

lemmas udp_plays = plays_udp_auth plays_udp_msg plays_udp_svr_msg plays_udp_ping plays_udp_bye1 plays_udp_server_bye
  plays_udp_multiple plays_udp_duplicate plays_udp_retransmit1 plays_udp_retransmit2

end
