(* ===== verification/Tcp_Stage.thy ===== *)
theory Tcp_Stage
  imports Stage Tcp_Invariant
begin

text \<open>
  The stage of a test case over TCP: the harness listens on port 4567, the client is connected, and the
  queue of the stage is what the client sent and the harness has not received. The contract
  \<open>staging\<close>, the steps that send and receive, and the reactions of the client to lines and segments.
\<close>

section \<open>The stage over TCP\<close>

definition tcp_scene :: "client world \<Rightarrow> stage \<Rightarrow> client world" where
  "tcp_scene w g = w\<lparr>process := Some (child_of g), stdout_queue := g_out g, stderr_queue := [], return_code := None,
     server_socket := Some (TcpListener 4567),
     connection_socket := Some \<lparr>c_unread = concat (g_queue g), c_peer_closed = (g_exit g \<noteq> None), c_reset = False\<rparr>,
     tcp_listening := 4567 # tcp_listening w, history := g_history g, clock := g_clock g\<rparr>"

fun tcp_tidy :: "action \<Rightarrow> bool" where
  "tcp_tidy (WriteOut b) \<longleftrightarrow> snd (feed_reader (Some []) b) = Some []"
| "tcp_tidy (SendStream b) \<longleftrightarrow> True"
| "tcp_tidy (ArmTimer ms) \<longleftrightarrow> True"
| "tcp_tidy (StdinEvents b) \<longleftrightarrow> True"
| "tcp_tidy (Exit n) \<longleftrightarrow> True"
| "tcp_tidy _ \<longleftrightarrow> False"

text \<open>The worlds in which a test case of this group can start.\<close>

definition tcp_lab :: "(bytes \<Rightarrow> bool) \<Rightarrow> client world \<Rightarrow> bool" where
  "tcp_lab resolves w \<longleftrightarrow> executable w = (\<lambda>_. ipk25chat resolves) \<and> resolves ''localhost'' \<and> process w = None
     \<and> server_socket w = None \<and> connection_socket w = None \<and> 4567 \<notin> set (tcp_listening w)"

interpretation on_tcp: staging tcp_scene "tcp_lab resolves" tcp_tidy for resolves
proof unfold_locales
  fix w :: "client world" and g :: stage and a
  assume "tcp_lab resolves w" "tcp_tidy a" "g_exit g = None"
  then show "apply_action a (tcp_scene w g) = tcp_scene w (stage_action a g)"
  proof (cases a)
    case (WriteOut b)
    then obtain qs where "feed_reader (Some []) b = (qs, Some [])"
      using \<open>tcp_tidy a\<close> by (cases "feed_reader (Some []) b") simp
    with WriteOut show ?thesis by (simp add: tcp_scene_def child_of_def)
  qed (simp_all add: tcp_scene_def child_of_def with_proc_def flush_reader_def)
qed (simp_all add: tcp_scene_def child_of_def tcp_lab_def ipk25chat_def)

section \<open>Text over the connection\<close>

lemma tcp_send_step:
  assumes "tcp_lab resolves w" "g_exit g = None" "list_all (\<lambda>c. 0 < ord c \<and> ord c < 128) b" "b \<noteq> []"
    and "chat_handle (EvStream b) (g_client g) = (c, as)" "list_all tcp_tidy as"
  shows "send_message (VStr (lit b)) (tcp_scene w g) = (Ret (), tcp_scene w (stage_actions as (g\<lparr>g_client := c\<rparr>)))"
proof -
  have "connection_socket (tcp_scene w g) = Some \<lparr>c_unread = concat (g_queue g), c_peer_closed = False, c_reset = False\<rparr>"
    using assms(2) by (simp add: tcp_scene_def)
  then show ?thesis
    using encode_ascii_lit(1) [OF assms(3)] on_tcp.deliver_step [OF assms(1,2,5,6)] assms(4)
    by (simp add: send_message_def bind_def ret_def tcp_sendall_def)
qed

lemma tcp_receive_step:
  assumes "g_queue g = [b]" "list_all (\<lambda>c. 0 < ord c \<and> ord c < 128) b" "b \<noteq> []" "length b \<le> 1024"
  shows "receive_message timeout (tcp_scene w g) = (Ret (VStr (lit b)), tcp_scene w (g\<lparr>g_queue := []\<rparr>))"
proof -
  have "decode b = Inr (lit b)" using decode_encode [OF encode_ascii_lit(1) [OF assms(2)]] .
  moreover have "tcp_recv recv_rounds (tcp_scene w g) = (Ret b, tcp_scene w (g\<lparr>g_queue := []\<rparr>))"
    using assms(1,3,4) by (subst tcp_recv.simps) (simp add: tcp_scene_def child_of_def)
  moreover have "server_socket (tcp_scene w g) = Some (TcpListener 4567)" "connection_socket (tcp_scene w g) \<noteq> None"
    by (simp_all add: tcp_scene_def)
  ultimately show ?thesis by (simp add: receive_message_def receive_with_def bind_def ret_def)
qed

section \<open>The client\<close>

lemma tcp_methods_of: "m_is_tcp (m_args s) \<Longrightarrow> methods s = class_of True"
  by (simp add: methods_def class_of_def)

lemma tcp_typed_command:
  assumes "m_is_tcp (m_args s)" "pending s = ([], [])" "stdin_polled s"
    and "well_formed c" "allowed c (m_current_state s)" "sizes_ok c" "newline \<notin> set (line_text c)" "length (line_text c) < 4096"
  shows "chat_handle (EvStdin (line_text c @ [newline])) s
    = (tcp_effect c (s\<lparr>emitted := []\<rparr>), emitted (tcp_effect c (s\<lparr>emitted := []\<rparr>)))"
proof -
  let ?s = "s\<lparr>emitted := []\<rparr>"
  have "processStdinEvent (methods ?s) False (Some (line_text c)) ?s = (Value (), tcp_effect c ?s)"
    using assms tcp_command [of c ?s] by (simp add: tcp_methods_of)
  then have "run_event (EvStdin (line_text c @ [newline])) ?s = (Value 2, tcp_effect c ?s)"
    using assms by (intro typed_line) (simp_all add: pending_def)
  then show ?thesis by (simp add: chat_handle_def exit_actions_def)
qed

text \<open>A segment that one call of \<open>recv\<close> takes, in the conversation and at its end.\<close>

lemma one_segment:
  assumes "m_is_tcp (m_args s)" "d \<noteq> []" "length d \<le> s_MAX_MSG_SIZE + 1"
    and "tcp_processSocketEvent 0 d s = (Value r, s')"
  shows "stream_events d s = (Value (if r = 0 \<or> r = 1 then r else 2), s')"
  using assms by (subst stream_events.simps) (simp add: tcp_methods_of stream_events.simps [of "[]"])

lemma handle_segment:
  assumes "m_is_tcp (m_args s)" "d \<noteq> []" "length d \<le> s_MAX_MSG_SIZE + 1" "stdin_pipe s' = []"
    and "tcp_processSocketEvent 0 d (s\<lparr>emitted := []\<rparr>) = (Value 2, s')"
  shows "chat_handle (EvStream d) s = (s', emitted s')"
  using assms one_segment [of "s\<lparr>emitted := []\<rparr>" d 2 s']
  by (simp add: chat_handle_def run_event_def dispatch_def cwith_def cbind_def and_go_on_def cret_def exit_actions_def
      stdin_loop.simps)

lemma final_segment:
  assumes "m_is_tcp (m_args s)" "d \<noteq> []" "length d \<le> s_MAX_MSG_SIZE + 1" "r = 0 \<or> r = 1"
    and "tcp_processSocketEvent 0 d (s\<lparr>emitted := []\<rparr>) = (Value r, s')"
  shows "chat_handle (EvStream d) s = (s', emitted s' @ [Exit (int r)])"
  using assms one_segment [of "s\<lparr>emitted := []\<rparr>" d r s']
  by (auto simp: chat_handle_def run_event_def dispatch_def cwith_def cbind_def cret_def exit_actions_def)

text \<open>
  The client after a successful authentication as \<open>name\<close>, with the beginning \<open>buf\<close> of a message in its
  buffer.
\<close>

definition chatting :: "bytes \<Rightarrow> bytes \<Rightarrow> client \<Rightarrow> bool" where
  "chatting name buf s \<longleftrightarrow> m_is_tcp (m_args s) \<and> m_current_state s = S_OPEN \<and> m_user_display_name s = name
     \<and> m_msg_from_server s = buf \<and> pending s = ([], []) \<and> stdin_polled s"

lemma chatting_segment:
  assumes "chatting name buf s" "d \<noteq> []" "length d \<le> s_MAX_MSG_SIZE + 1"
    and "buf @ d = concat (map (\<lambda>m. line_of m @ crlf) ms) @ rest" "list_all msg_ok ms"
    and "find_eom rest = None" "length rest < s_MAX_MSG_SIZE"
  shows "\<exists>s'. chat_handle (EvStream d) s = (s', map printed_line ms) \<and> chatting name rest s'"
proof -
  let ?s = "with_buffer (buf @ d) (s\<lparr>emitted := []\<rparr>)"
  let ?t = "?s\<lparr>m_msg_from_server := rest, emitted := map printed_line ms\<rparr>"
  have "receive_loop ?s = (Value 2, ?t)"
    using receive_msgs [of ms ?s rest] assms(1,4-6)
    by (simp add: receiving_def chatting_def with_buffer_def receive_loop_idle)
  then have "tcp_processSocketEvent 0 d (s\<lparr>emitted := []\<rparr>) = (Value 2, ?t)"
    using assms(1,2,7)
    by (simp add: socket_event_def go_on_simps(2) check_length_def cwith_def cret_def chatting_def)
  then have "chat_handle (EvStream d) s = (?t, emitted ?t)"
    using assms(1-3) by (intro handle_segment) (simp_all add: chatting_def with_buffer_def pending_def)
  moreover have "chatting name rest ?t" using assms(1) by (simp add: chatting_def with_buffer_def pending_def)
  ultimately show ?thesis by auto
qed

lemma chatting_says:
  assumes "chatting name buf s" "well_formed (Say t)" "sizes_ok (Say t)" "newline \<notin> set t" "length t < 4096"
  shows "\<exists>s'. chat_handle (EvStdin (t @ [newline])) s = (s', [SendStream (''MSG FROM '' @ name @ '' IS '' @ t @ crlf)])
    \<and> chatting name buf s'"
proof -
  let ?s = "tcp_effect (Say t) (s\<lparr>emitted := []\<rparr>)"
  have "chat_handle (EvStdin (line_text (Say t) @ [newline])) s = (?s, emitted ?s)"
    using assms by (intro tcp_typed_command) (simp_all add: chatting_def)
  then show ?thesis using assms(1)
    by (intro exI [of _ ?s]) (simp add: chatting_def tcp_request_def pending_def)
qed

lemma chatting_renamed:
  assumes "chatting name buf s" "well_formed (Rename d)" "sizes_ok (Rename d)" "newline \<notin> set d" "length d < 1000"
  shows "\<exists>s'. chat_handle (EvStdin (''/rename '' @ d @ [newline])) s = (s', []) \<and> chatting d buf s'"
proof -
  let ?s = "tcp_effect (Rename d) (s\<lparr>emitted := []\<rparr>)"
  have "chat_handle (EvStdin (line_text (Rename d) @ [newline])) s = (?s, emitted ?s)"
    using assms by (intro tcp_typed_command) (simp_all add: chatting_def newline_def)
  then show ?thesis using assms(1)
    by (intro exI [of _ ?s]) (simp add: chatting_def pending_def)
qed

lemma chatting_interrupted:
  assumes "m_is_tcp (m_args s)"
  shows "\<exists>s'. chat_handle EvSigint s = (s', [SendStream (''BYE FROM '' @ m_user_display_name s @ crlf), Exit 0])"
  using assms
  by (simp add: chat_handle_def run_event_def dispatch_def cwith_def tcp_methods_of and_go_on_def cbind_def tcp_sigintHandler_def
      tcp_sendByeMsgToServer_def tcp_buildByeMsg_def tcp_sendMsgToServer_def cset_def emit_def cthrow_def exit_actions_def)

lemma chatting_dismissed:
  assumes "chatting name [] s" "regex_match icase byeMsgRegex (line @ crlf) = Some [d]" "name_ok d"
    and "getServerMsgType (line @ crlf) = M_BYE" "CHR 0x0D \<notin> set line" "length line + 2 \<le> s_MAX_MSG_SIZE"
  shows "\<exists>s'. chat_handle (EvStream (line @ crlf)) s = (s', [Exit 0])"
proof -
  let ?s = "with_buffer (line @ crlf) (s\<lparr>emitted := []\<rparr>)"
  have "tcp_processMessageFromServer (line @ crlf) ?s = (Value 0, ?s)"
    using assms(2-4) by (intro process_bye) simp_all
  then have "receive_loop ?s = (Value 0, ?s)"
    using receive_line [of ?s line "[]" 0 ?s] assms(5,6) by simp
  then have "tcp_processSocketEvent 0 (line @ crlf) (s\<lparr>emitted := []\<rparr>) = (Value 0, ?s)"
    using assms(1) by (simp add: socket_event_def go_on_simps(2) chatting_def crlf_def)
  then have "chat_handle (EvStream (line @ crlf)) s = (?s, emitted ?s @ [Exit (int 0)])"
    using assms(1,6) by (intro final_segment) (simp_all add: chatting_def crlf_def)
  then show ?thesis by (simp add: with_buffer_def)
qed

end
