(* ===== verification/Tcp_Loop.thy ===== *)
theory Tcp_Loop
  imports Tcp_Stage
begin

text \<open>
  The two programs together over TCP: the handshake, messages in both directions however the server cuts
  them into segments, and the test cases that consist of these exchanges.
\<close>

section \<open>The client under test\<close>

definition tcp_args :: cargs where
  "tcp_args = default_args\<lparr>m_is_tcp := True, m_server_addr := 4567\<rparr>"

lemma boot_tcp:
  assumes "resolves ''localhost''" "listening 4567"
  shows "chat_boot resolves (map octets_of (client_args ''tcp'' ''4567'')) listening = (Client tcp_args, [Connect 4567])"
proof -
  have "map octets_of (client_args ''tcp'' ''4567'')
      = concat (map opt_words [Transport True, Server ''localhost'', Port 4567])"
    by (simp add: client_args_def octets_of_def encode_ascii_lit(1) ord_def dec_4567)
  then have "Args resolves (map octets_of (client_args ''tcp'' ''4567''))
      = processServerAddress resolves (Some ''localhost'') (default_args\<lparr>m_is_tcp := True, m_server_port := 4567\<rparr>)"
    using parse_opts [of "[Transport True, Server ''localhost'', Port 4567]" resolves None default_args]
    unfolding Args_def by simp
  then show ?thesis
    using assms by (simp add: chat_boot_def processServerAddress_def tcp_args_def default_args_def)
qed

definition tcp_listening_world :: "client world \<Rightarrow> client world" where
  "tcp_listening_world w = w\<lparr>server_socket := Some (TcpListener 4567), tcp_listening := 4567 # tcp_listening w\<rparr>"

definition tcp_prologue :: "client world \<Rightarrow> stage" where
  "tcp_prologue w = \<lparr>g_client = Client tcp_args, g_polls = True, g_timer = None, g_exit = None, g_queue = [], g_out = [],
     g_addr = None, g_history = history w, g_clock = clock w + 200\<rparr>"

lemma tcp_listen_step: "tcp_lab resolves w \<Longrightarrow> start_server (lit ''tcp'') 4567 w = (Ret (), tcp_listening_world w)"
  by (simp add: start_server_def lower_literals bind_def modify_def fresh_socket_def tcp_listen_def
      tcp_listening_world_def tcp_lab_def)

lemma tcp_launch_step:
  assumes "tcp_lab resolves w"
  shows "setup_tester (client_args ''tcp'' ''4567'') (tcp_listening_world w) = (Ret (), tcp_scene w (tcp_prologue w))"
proof -
  have "p_boot (ipk25chat resolves) (client_args ''tcp'' ''4567'') l = (Client tcp_args, [Connect 4567])" if "l 4567" for l
    using boot_tcp [of resolves l] that assms by (simp add: ipk25chat_def tcp_lab_def)
  with assms show ?thesis
    by (simp add: setup_tester_def bind_def modify_def ret_def popen_def tcp_listening_world_def sleep_def advance.simps
        next_wakeup_def tcp_scene_def tcp_prologue_def child_of_def tcp_lab_def running_def accept_connection_def)
qed

section \<open>The handshake\<close>

definition tcp_asked :: client where
  "tcp_asked = tcp_effect test_auth (Client tcp_args)"

definition tcp_joined :: client where
  "tcp_joined = after_reply True ''vsechno cajk'' (tcp_asked\<lparr>emitted := []\<rparr>)"

lemma tcp_client_answers:
  "chat_handle (EvStdin (''/auth a b c'' @ [newline])) (Client tcp_args)
    = (tcp_asked, [SendStream (''AUTH a AS c USING b'' @ crlf), StdinEvents False, ArmTimer 5000])"
proof -
  have "newline \<notin> set ''/auth a b c''" by (simp add: newline_def)
  moreover have "(Client tcp_args)\<lparr>emitted := []\<rparr> = Client tcp_args" by (simp add: Client_def)
  moreover have "emitted tcp_asked = [SendStream (''AUTH a AS c USING b'' @ crlf), StdinEvents False, ArmTimer 5000]"
    by (simp add: tcp_asked_def test_auth_def Client_def tcp_request_def tcp_await_def)
  ultimately show ?thesis
    using tcp_typed_command [of "Client tcp_args" test_auth] test_auth_ok
    by (simp add: Client_def tcp_args_def default_args_def pending_def test_auth_def tcp_asked_def)
qed

lemma reply_matches:
  assumes "content_ok c"
  shows "match_reply (''REPLY OK IS '' @ c @ crlf) = Some (True, c)"
proof -
  have "regex_match icase [Literal crlf] crlf = Some []"
    using regex_literal [OF list_all2_icase, of crlf "[]" "[]"] by simp
  then have "regex_match icase [Group printableCharSpaceLf, Literal crlf] (c @ crlf) = Some [c]"
    using assms by (subst regex_group) (simp_all add: content_ok_def del: regex_match.simps, simp add: crlf_def)
  then have "regex_match icase [Literal ''REPLY OK IS '', Group printableCharSpaceLf, Literal crlf] (''REPLY OK IS '' @ c @ crlf) = Some [c]"
    by (subst regex_literal [OF list_all2_icase])
  then show ?thesis by (simp add: match_reply_def)
qed

lemma reply_line:
  "match_reply (''REPLY OK IS vsechno cajk'' @ crlf) = Some (True, ''vsechno cajk'')" "content_ok ''vsechno cajk''"
  "getServerMsgType (''REPLY OK IS vsechno cajk'' @ crlf) = M_REPLY"
proof -
  show c: "content_ok ''vsechno cajk''"
    by (simp add: content_ok_def text_of_def printableCharSpaceLf_def ord_def)
  from reply_matches [OF c] show "match_reply (''REPLY OK IS vsechno cajk'' @ crlf) = Some (True, ''vsechno cajk'')" by simp
  show "getServerMsgType (''REPLY OK IS vsechno cajk'' @ crlf) = M_REPLY"
    by (simp add: getServerMsgType_def to_upper_table)
qed

lemma tcp_client_accepted:
  "chat_handle (EvStream (''REPLY OK IS vsechno cajk'' @ crlf)) tcp_asked
    = (tcp_joined, [ArmTimer 0, WriteOut (''Action Success: vsechno cajk'' @ [newline]), StdinEvents True])"
proof -
  let ?l = "''REPLY OK IS vsechno cajk''" and ?s = "tcp_asked\<lparr>emitted := []\<rparr>"
  have s: "awaiting_reply ?s" "m_msg_from_server ?s = []" "m_is_tcp (m_args tcp_asked)" "pending ?s = ([], [])"
    by (simp_all add: awaiting_reply_def tcp_asked_def test_auth_def tcp_await_def tcp_request_def Client_def tcp_args_def pending_def)
  have "tcp_processMessageFromServer (?l @ crlf) (with_buffer (?l @ crlf) ?s)
      = (Value 2, after_reply True ''vsechno cajk'' (with_buffer (?l @ crlf) ?s))"
    using s reply_line by (intro process_reply) (simp_all add: awaiting_reply_def with_buffer_def)
  moreover have "with_buffer [] (after_reply True ''vsechno cajk'' (with_buffer (?l @ crlf) ?s)) = tcp_joined"
    using s(2) by (simp add: tcp_joined_def after_reply_def with_buffer_def)
  moreover have "length ?l + 2 \<le> s_MAX_MSG_SIZE" "CHR 0x0D \<notin> set ?l"
    by (simp_all add: s_MAX_MSG_SIZE_def s_DISPLAY_NAME_MAX_LENGTH_def)
  moreover have "m_msg_from_server tcp_joined = []" using s(2) by (simp add: tcp_joined_def after_reply_def)
  ultimately have "receive_loop (with_buffer (?l @ crlf) ?s) = (Value 2, tcp_joined)"
    using receive_line [of "with_buffer (?l @ crlf) ?s" ?l "[]"] by (simp add: receive_loop_idle)
  then have "tcp_processSocketEvent 0 (?l @ crlf) ?s = (Value 2, tcp_joined)"
    using s(2) \<open>m_msg_from_server tcp_joined = []\<close>
    by (simp add: socket_event_def go_on_simps(2) check_length_def cwith_def cret_def s_MAX_MSG_SIZE_def)
  then have "chat_handle (EvStream (?l @ crlf)) tcp_asked = (tcp_joined, emitted tcp_joined)"
    using s by (intro handle_segment)
      (simp_all add: tcp_joined_def after_reply_def pending_def crlf_def s_MAX_MSG_SIZE_def s_DISPLAY_NAME_MAX_LENGTH_def)
  then show ?thesis by (simp add: tcp_joined_def after_reply_def)
qed

lemma chatting_joined: "chatting ''c'' [] tcp_joined"
  by (simp add: chatting_def tcp_joined_def after_reply_def tcp_asked_def test_auth_def tcp_await_def tcp_request_def Client_def
      tcp_args_def pending_def)

section \<open>Exchanges\<close>

definition tcp_rest :: "client \<Rightarrow> pystr list \<Rightarrow> pystr \<Rightarrow> int \<Rightarrow> stage" where
  "tcp_rest s out h t = \<lparr>g_client = s, g_polls = True, g_timer = None, g_exit = None, g_queue = [], g_out = out,
     g_addr = None, g_history = h, g_clock = t\<rparr>"

text \<open>A world in which client and harness chat, with \<open>out\<close> printed and not yet read.\<close>

definition chat_at :: "client world \<Rightarrow> bytes \<Rightarrow> bytes \<Rightarrow> pystr list \<Rightarrow> client world \<Rightarrow> bool" where
  "chat_at w name buf out w' \<longleftrightarrow> (\<exists>s h k. w' = tcp_scene w (tcp_rest s out h k) \<and> chatting name buf s)"

lemma chat_atE:
  assumes "chat_at w name buf out w1"
  obtains s h k where "w1 = tcp_scene w (tcp_rest s out h k)" "chatting name buf s"
  using assms by (auto simp: chat_at_def)

lemma chat_sleeps: "chat_at w name buf out w1 \<Longrightarrow> 0 \<le> ms \<Longrightarrow> \<exists>w2. sleep ms w1 = (Ret (), w2) \<and> chat_at w name buf out w2"
  by (elim chat_atE) (auto simp: on_tcp.sleep_step tcp_rest_def chat_at_def)

lemma chat_reads:
  "chat_at w name buf out w1 \<Longrightarrow> \<exists>w2. get_stdout w1 = (Ret (join_with [] out), w2) \<and> chat_at w name buf [] w2"
  by (elim chat_atE) (auto simp: on_tcp.stdout_step tcp_rest_def chat_at_def)

definition out_line :: "tcp_msg \<Rightarrow> pystr" where
  "out_line m = lit (msg_name m @ '': '' @ msg_content m @ [newline])"

text \<open>A segment of the server that completes the messages \<open>ms\<close> and leaves \<open>rest\<close>.\<close>

lemma printed_lines:
  assumes "list_all (\<lambda>m. plain_line (msg_name m @ '': '' @ msg_content m)) ms" "g_exit g = None"
  shows "list_all tcp_tidy (map printed_line ms)" "stage_actions (map printed_line ms) g = g\<lparr>g_out := g_out g @ map out_line ms\<rparr>"
proof -
  have line: "feed_reader (Some []) (msg_name m @ '': '' @ msg_content m @ [newline]) = ([out_line m], Some [])"
    if "m \<in> set ms" for m
    using read_line [of "msg_name m @ '': '' @ msg_content m"] assms(1) that by (simp add: list_all_iff out_line_def)
  then show "list_all tcp_tidy (map printed_line ms)" by (simp add: list_all_iff printed_line_def)
  show "stage_actions (map printed_line ms) g = g\<lparr>g_out := g_out g @ map out_line ms\<rparr>"
    using line assms(2) by (induction ms arbitrary: g) (simp_all add: printed_line_def)
qed

lemma chat_segment:
  assumes "tcp_lab resolves w" "chat_at w name buf out w1" "list_all (\<lambda>c. 0 < ord c \<and> ord c < 128) d" "d \<noteq> []"
    and "length d \<le> 1000" "buf @ d = concat (map (\<lambda>m. line_of m @ crlf) ms) @ rest" "list_all msg_ok ms"
    and "find_eom rest = None" "length rest \<le> 1000" "list_all (\<lambda>m. plain_line (msg_name m @ '': '' @ msg_content m)) ms"
  shows "\<exists>w2. send_message (VStr (lit d)) w1 = (Ret (), w2) \<and> chat_at w name rest (out @ map out_line ms) w2"
proof -
  obtain s h k where w1: "w1 = tcp_scene w (tcp_rest s out h k)" and s: "chatting name buf s"
    using assms(2) by (rule chat_atE)
  have "length d \<le> s_MAX_MSG_SIZE + 1" "length rest < s_MAX_MSG_SIZE"
    using assms(5,9) by (simp_all add: s_MAX_MSG_SIZE_def s_MSG_CONTENT_MAX_LENGTH_def)
  then obtain s' where s': "chat_handle (EvStream d) s = (s', map printed_line ms)" "chatting name rest s'"
    using chatting_segment [OF s assms(4) _ assms(6-8)] by blast
  have "send_message (VStr (lit d)) w1 = (Ret (), tcp_scene w (tcp_rest s' (out @ map out_line ms) h k))"
    using tcp_send_step [OF assms(1), of "tcp_rest s out h k" d s'] assms(3,4) s'(1) printed_lines [OF assms(10), of "tcp_rest s' out h k"]
    by (simp add: w1 tcp_rest_def)
  with s'(2) show ?thesis by (auto simp: chat_at_def)
qed

text \<open>The user writes a message or takes another name.\<close>

lemma chat_says:
  assumes "tcp_lab resolves w" "chat_at w name buf out w1" "well_formed (Say t)" "sizes_ok (Say t)" "newline \<notin> set t" "length t < 900"
    and "list_all (\<lambda>c. 0 < ord c \<and> ord c < 128) name" "length name \<le> 20"
  shows "\<exists>w2 w3. execute (lit t) w1 = (Ret (), w2)
    \<and> (\<forall>timeout. receive_message timeout w2 = (Ret (VStr (lit (''MSG FROM '' @ name @ '' IS '' @ t @ crlf))), w3))
    \<and> chat_at w name buf out w3"
proof -
  obtain s h k where w1: "w1 = tcp_scene w (tcp_rest s out h k)" and s: "chatting name buf s"
    using assms(2) by (rule chat_atE)
  let ?d = "''MSG FROM '' @ name @ '' IS '' @ t @ crlf"
  obtain s' where s': "chat_handle (EvStdin (t @ [newline])) s = (s', [SendStream ?d])" "chatting name buf s'"
    using chatting_says [OF s assms(3-5)] assms(6) by auto
  have t: "list_all (\<lambda>c. 0 < ord c \<and> ord c < 128) t" using assms(3) by (intro text_of_ascii(2)) simp
  let ?g = "tcp_rest s' out (h @ lit ''stdin:'' @ lit t @ [10]) (k + 200)"
  have "execute (lit t) w1 = (Ret (), tcp_scene w (?g\<lparr>g_queue := [?d]\<rparr>))"
    using on_tcp.type_step [OF assms(1) _ _ typed_bytes [OF t], of "tcp_rest s out h k"] s'(1)
    by (simp add: w1 tcp_rest_def on_tcp.sleep_step)
  moreover have "receive_message timeout (tcp_scene w (?g\<lparr>g_queue := [?d]\<rparr>)) = (Ret (VStr (lit ?d)), tcp_scene w ?g)" for timeout
  proof -
    have "list_all (\<lambda>c. 0 < ord c \<and> ord c < 128) ?d" using t assms(7) by (simp add: crlf_def ord_def)
    moreover have "length ?d \<le> 1024" using assms(6,8) by (simp add: crlf_def)
    ultimately show ?thesis using tcp_receive_step [of "?g\<lparr>g_queue := [?d]\<rparr>" ?d timeout w] by (simp add: tcp_rest_def)
  qed
  ultimately show ?thesis using s'(2) unfolding chat_at_def by blast
qed

lemma chat_renames:
  assumes "tcp_lab resolves w" "chat_at w name buf out w1" "well_formed (Rename d)" "sizes_ok (Rename d)" "newline \<notin> set d" "length d < 1000"
  shows "\<exists>w2. execute (lit (''/rename '' @ d)) w1 = (Ret (), w2) \<and> chat_at w d buf out w2"
proof -
  obtain s h k where w1: "w1 = tcp_scene w (tcp_rest s out h k)" and s: "chatting name buf s"
    using assms(2) by (rule chat_atE)
  obtain s' where s': "chat_handle (EvStdin (''/rename '' @ d @ [newline])) s = (s', [])" "chatting d buf s'"
    using chatting_renamed [OF s assms(3-6)] by blast
  have "list_all (\<lambda>c. 0 < ord c \<and> ord c < 128) (''/rename '' @ d)"
    using text_of_ascii(1) [of d] assms(3) by (simp add: ord_def)
  from on_tcp.type_step [OF assms(1) _ _ typed_bytes [OF this], of "tcp_rest s out h k"] s'
  show ?thesis by (auto simp: w1 tcp_rest_def on_tcp.sleep_step chat_at_def)
qed

text \<open>Both ways to end.\<close>

lemma chat_interrupts:
  assumes "tcp_lab resolves w" "chat_at w name buf out w1" "list_all (\<lambda>c. 0 < ord c \<and> ord c < 128) name" "length name \<le> 20"
  shows "\<exists>w2 w3. send_sigint w1 = (Ret (), w2)
    \<and> (\<forall>timeout. receive_message timeout w2 = (Ret (VStr (lit (''BYE FROM '' @ name @ crlf))), w3)) \<and> poll w3 = (Ret (Some 0), w3)"
proof -
  obtain s h k where w1: "w1 = tcp_scene w (tcp_rest s out h k)" and s: "chatting name buf s"
    using assms(2) by (rule chat_atE)
  let ?d = "''BYE FROM '' @ name @ crlf"
  obtain s' where s': "chat_handle EvSigint s = (s', [SendStream ?d, Exit 0])"
    using chatting_interrupted [of s] s by (auto simp: chatting_def)
  let ?g = "(tcp_rest s' out h k)\<lparr>g_exit := Some 0\<rparr>"
  have "send_sigint w1 = (Ret (), tcp_scene w (?g\<lparr>g_queue := [?d]\<rparr>))"
    using on_tcp.sigint_step [OF assms(1), of "tcp_rest s out h k"] s' by (simp add: w1 tcp_rest_def)
  moreover have "receive_message timeout (tcp_scene w (?g\<lparr>g_queue := [?d]\<rparr>)) = (Ret (VStr (lit ?d)), tcp_scene w ?g)" for timeout
    using tcp_receive_step [of "?g\<lparr>g_queue := [?d]\<rparr>" ?d timeout w] assms(3,4) by (simp add: tcp_rest_def crlf_def ord_def)
  moreover have "poll (tcp_scene w ?g) = (Ret (Some 0), tcp_scene w ?g)" by (simp add: on_tcp.exit_step)
  ultimately show ?thesis by blast
qed

lemma chat_dismisses:
  assumes "tcp_lab resolves w" "chat_at w name [] out w1"
  shows "\<exists>w2 w3. send_message (VStr (lit (''BYE FROM server'' @ crlf))) w1 = (Ret (), w2) \<and> sleep 200 w2 = (Ret (), w3)
    \<and> poll w3 = (Ret (Some 0), w3)"
proof -
  obtain s h k where w1: "w1 = tcp_scene w (tcp_rest s out h k)" and s: "chatting name [] s"
    using assms(2) by (rule chat_atE)
  let ?d = "''BYE FROM server'' @ crlf"
  have "text_of printableChar ''server''" by (simp add: text_of_def printableChar_def ord_def)
  then have "regex_match icase [Group printableChar, Literal crlf] (''server'' @ crlf)
      = map_option (Cons ''server'') (regex_match icase [Literal crlf] crlf)"
    by (rule regex_group) (simp add: crlf_def printableChar_def ord_def)
  moreover have "regex_match icase [Literal crlf] crlf = Some []"
    using regex_literal [OF list_all2_icase, of crlf "[]" "[]"] by simp
  ultimately have "regex_match icase byeMsgRegex ?d = Some [''server'']"
    using regex_literal [OF list_all2_icase, of "''BYE FROM ''" _ "''server'' @ crlf"] by (simp add: byeMsgRegex_def del: regex_match.simps)
  moreover have "getServerMsgType ?d = M_BYE" by (simp add: getServerMsgType_def to_upper_table)
  moreover have "name_ok ''server''" by (simp add: name_ok_def text_of_def printableChar_def ord_def)
  ultimately obtain s' where s': "chat_handle (EvStream ?d) s = (s', [Exit 0])"
    using chatting_dismissed [OF s, of "''BYE FROM server''"]
    by (auto simp: s_MAX_MSG_SIZE_def s_DISPLAY_NAME_MAX_LENGTH_def)
  let ?g = "\<lambda>k. (tcp_rest s' out h k)\<lparr>g_exit := Some 0\<rparr>"
  have "send_message (VStr (lit ?d)) w1 = (Ret (), tcp_scene w (?g k))"
    using tcp_send_step [OF assms(1), of "tcp_rest s out h k" ?d] s' by (simp add: w1 tcp_rest_def crlf_def ord_def)
  moreover have "sleep 200 (tcp_scene w (?g k)) = (Ret (), tcp_scene w (?g (k + 200)))"
    by (simp add: on_tcp.sleep_step tcp_rest_def add.commute)
  moreover have "poll (tcp_scene w (?g (k + 200))) = (Ret (Some 0), tcp_scene w (?g (k + 200)))" by (simp add: on_tcp.exit_step)
  ultimately show ?thesis by blast
qed

section \<open>Test cases\<close>

definition tcp_asking :: "client world \<Rightarrow> stage" where
  "tcp_asking w = (tcp_prologue w)\<lparr>g_client := tcp_asked, g_polls := False, g_timer := Some (clock w + 5200),
     g_history := history w @ lit ''stdin:'' @ lit ''/auth a b c'' @ [10], g_clock := clock w + 400\<rparr>"

lemma tcp_ask_step:
  assumes "tcp_lab resolves w"
  shows "execute (lit ''/auth a b c'') (tcp_scene w (tcp_prologue w))
    = (Ret (), tcp_scene w ((tcp_asking w)\<lparr>g_queue := [''AUTH a AS c USING b'' @ crlf]\<rparr>))"
proof -
  have "encode (lit ''/auth a b c'' @ [10]) = Inr (''/auth a b c'' @ [newline])"
    by (rule typed_bytes) (simp add: ord_def)
  from on_tcp.type_step [OF assms _ _ this, of "tcp_prologue w"] tcp_client_answers show ?thesis
    by (simp add: tcp_prologue_def tcp_asking_def on_tcp.sleep_step add.commute)
qed

lemma tcp_auth_step:
  "receive_message timeout (tcp_scene w ((tcp_asking w)\<lparr>g_queue := [''AUTH a AS c USING b'' @ crlf]\<rparr>))
    = (Ret (VStr (lit (''AUTH a AS c USING b'' @ crlf))), tcp_scene w (tcp_asking w))"
  using tcp_receive_step [of "(tcp_asking w)\<lparr>g_queue := [''AUTH a AS c USING b'' @ crlf]\<rparr>" "''AUTH a AS c USING b'' @ crlf" timeout w]
  by (simp add: crlf_def ord_def tcp_asking_def tcp_prologue_def)

lemma tcp_accept_step:
  assumes "tcp_lab resolves w"
  shows "send_message (VStr (lit (''REPLY OK IS vsechno cajk'' @ crlf))) (tcp_scene w (tcp_asking w))
    = (Ret (), tcp_scene w (tcp_rest tcp_joined [lit (''Action Success: vsechno cajk'' @ [newline])]
        (g_history (tcp_asking w)) (clock w + 400)))"
proof -
  let ?d = "''REPLY OK IS vsechno cajk'' @ crlf" and ?l = "''Action Success: vsechno cajk'' @ [newline]"
  have "feed_reader (Some []) ?l = ([lit ?l], Some [])"
    by (rule read_line) (simp add: plain_line_def newline_def carriage_return_def ord_def)
  moreover have "list_all (\<lambda>c. 0 < ord c \<and> ord c < 128) ?d" by (simp add: crlf_def ord_def)
  ultimately show ?thesis
    using tcp_send_step [OF assms, of "tcp_asking w" ?d] tcp_client_accepted
    by (simp add: tcp_asking_def tcp_prologue_def tcp_rest_def)
qed

text \<open>The handshake of either harness; the timeout has no effect and nothing is confirmed over TCP.\<close>

lemma hobza_receive_tcp: "hobza_receive_message timeout (tcp_scene w g) = receive_message timeout (tcp_scene w g)"
  by (simp add: hobza_receive_message_def receive_message_def receive_with_def tcp_scene_def)

lemmas tcp_handshake_start = tcp_listen_step tcp_launch_step tcp_ask_step tcp_accept_step

lemma tcp_handshakes:
  assumes "tcp_lab resolves w"
  obtains h where "tcp_auth_and_reply w = (Ret (), tcp_scene w (tcp_rest tcp_joined [] h (clock w + 600)))"
    "hobza_tcp_auth_and_reply w = (Ret (), tcp_scene w (tcp_rest tcp_joined [] h (clock w + 600)))"
proof -
  let ?l = "lit (''Action Success: vsechno cajk'' @ [newline])"
  let ?g = "\<lambda>out h k. tcp_rest tcp_joined out h k" and ?h = "g_history (tcp_asking w)"
  have "sleep 200 (tcp_scene w (?g [?l] ?h (clock w + 400))) = (Ret (), tcp_scene w (?g [?l] ?h (clock w + 600)))"
    by (simp add: on_tcp.sleep_step tcp_rest_def add.commute)
  moreover have "get_stdout (tcp_scene w (?g [?l] ?h (clock w + 600)))
      = (Ret ?l, tcp_scene w (?g [] (?h @ join_with (lit ''stdout:'') [?l]) (clock w + 600)))"
    by (simp add: on_tcp.stdout_step tcp_rest_def)
  moreover have "any_line_is ''Action Success: vsechno cajk'' ?l" by (simp add: any_line_is_def lit_def ord_def newline_def)
  ultimately show ?thesis
    using tcp_handshake_start [OF assms] tcp_auth_step hobza_receive_tcp
    by (intro that) (simp_all add: tcp_auth_and_reply_def hobza_tcp_auth_and_reply_def bind_def ret_def)
qed

lemma tcp_handshake:
  assumes "tcp_lab resolves w"
  obtains w1 where "tcp_auth_and_reply w = (Ret (), w1)" "chat_at w ''c'' [] [] w1"
  using tcp_handshakes [OF assms] chatting_joined unfolding chat_at_def by metis

text \<open>Messages as the test cases write them.\<close>

definition plain_msg :: "bytes \<Rightarrow> bytes \<Rightarrow> tcp_msg" where
  "plain_msg n c = \<lparr>kw_from = ''MSG FROM '', kw_is = '' IS '', msg_name = n, msg_content = c\<rparr>"

definition plain_ok :: "bytes \<Rightarrow> bytes \<Rightarrow> bool" where
  "plain_ok n c \<longleftrightarrow> text_of printableChar n \<and> length n \<le> 20 \<and> text_of printableCharSpaceLf c \<and> length c \<le> 500 \<and> newline \<notin> set c"

lemma plain_msg_ok:
  assumes "plain_ok n c"
  shows "msg_ok (plain_msg n c)" "plain_line (msg_name (plain_msg n c) @ '': '' @ msg_content (plain_msg n c))"
proof -
  show "msg_ok (plain_msg n c)"
    using assms by (simp add: msg_ok_def plain_msg_def plain_ok_def name_ok_def content_ok_def icase_def)
  show "plain_line (msg_name (plain_msg n c) @ '': '' @ msg_content (plain_msg n c))"
    using assms text_of_ascii(1) [of n] text_of_ascii(2) [of c]
    by (auto simp: plain_line_def plain_msg_def plain_ok_def text_of_def list_all_iff printableChar_def printableCharSpaceLf_def
        newline_def carriage_return_def ord_def)
qed

text \<open>A server text that completes one message, and one that completes none.\<close>

lemma chat_serves:
  assumes "tcp_lab resolves w" "chat_at w name [] out w1" "plain_ok n c"
  shows "\<exists>w2. send_message (VStr (lit (''MSG FROM '' @ n @ '' IS '' @ c @ crlf))) w1 = (Ret (), w2)
    \<and> chat_at w name [] (out @ [lit (n @ '': '' @ c @ [newline])]) w2"
proof -
  have "list_all (\<lambda>c. 0 < ord c \<and> ord c < 128) (''MSG FROM '' @ n @ '' IS '' @ c @ crlf)"
    using assms(3) text_of_ascii(1) [of n] text_of_ascii(2) [of c] by (simp add: plain_ok_def crlf_def ord_def)
  moreover have "length (''MSG FROM '' @ n @ '' IS '' @ c @ crlf) \<le> 1000" using assms(3) by (simp add: plain_ok_def crlf_def)
  ultimately show ?thesis
    using chat_segment [OF assms(1,2), of "''MSG FROM '' @ n @ '' IS '' @ c @ crlf" "[plain_msg n c]" "[]"] plain_msg_ok [OF assms(3)]
    by (simp add: line_of_def out_line_def) (simp add: plain_msg_def)
qed

lemma chat_partial:
  assumes "tcp_lab resolves w" "chat_at w name buf out w1" "list_all (\<lambda>c. 0 < ord c \<and> ord c < 128) d" "d \<noteq> []"
    and "length d \<le> 1000" "find_eom (buf @ d) = None" "length (buf @ d) \<le> 1000"
  shows "\<exists>w2. send_message (VStr (lit d)) w1 = (Ret (), w2) \<and> chat_at w name (buf @ d) out w2"
  using chat_segment [OF assms(1-5), of "[]" "buf @ d"] assms(6,7) by simp

text \<open>A piece sent, then the pause the test cases make.\<close>

definition sends_piece :: "bytes \<Rightarrow> client world \<Rightarrow> client world \<Rightarrow> bool" where
  "sends_piece d w1 w3 \<longleftrightarrow> (\<exists>w2. send_message (VStr (lit d)) w1 = (Ret (), w2) \<and> sleep 200 w2 = (Ret (), w3))"

lemma piece_partial:
  assumes "tcp_lab resolves w" "chat_at w name buf out w1" "list_all (\<lambda>c. 0 < ord c \<and> ord c < 128) d" "d \<noteq> []"
    and "length d \<le> 1000" "find_eom (buf @ d) = None" "length (buf @ d) \<le> 1000"
  obtains w3 where "sends_piece d w1 w3" "chat_at w name (buf @ d) out w3"
proof -
  obtain w2 where w2: "send_message (VStr (lit d)) w1 = (Ret (), w2)" "chat_at w name (buf @ d) out w2"
    using chat_partial [OF assms] by blast
  from chat_sleeps [OF w2(2), of 200] w2(1) that show ?thesis by (auto simp: sends_piece_def)
qed

lemma piece_completes:
  assumes "tcp_lab resolves w" "chat_at w name buf out w1" "list_all (\<lambda>c. 0 < ord c \<and> ord c < 128) d" "d \<noteq> []"
    and "length d \<le> 1000" "buf @ d = ''MSG FROM '' @ n @ '' IS '' @ c @ crlf @ rest" "plain_ok n c"
    and "find_eom rest = None" "length rest \<le> 1000"
  obtains w3 where "sends_piece d w1 w3" "chat_at w name rest (out @ [lit (n @ '': '' @ c @ [newline])]) w3"
proof -
  have "buf @ d = concat (map (\<lambda>m. line_of m @ crlf) [plain_msg n c]) @ rest"
    using assms(6) by (simp add: line_of_def plain_msg_def)
  then obtain w2 where w2: "send_message (VStr (lit d)) w1 = (Ret (), w2)" "chat_at w name rest (out @ [out_line (plain_msg n c)]) w2"
    using chat_segment [OF assms(1-5), of "[plain_msg n c]" rest] plain_msg_ok [OF assms(7)] assms(8,9) by auto
  have "out_line (plain_msg n c) = lit (n @ '': '' @ c @ [newline])" by (simp add: out_line_def plain_msg_def)
  with chat_sleeps [OF w2(2), of 200] w2(1) that show ?thesis by (auto simp: sends_piece_def)
qed

text \<open>The texts of the test cases.\<close>

lemmas case_texts = plain_ok_def text_of_def printableChar_def printableCharSpaceLf_def newline_def ord_def crlf_def

lemma say_sizes: "t \<noteq> [] \<Longrightarrow> length t \<le> 60000 \<Longrightarrow> sizes_ok (Say t)"
  using ok_lengths(2) by (simp add: msg_content_check Suc_le_eq)

lemma plays_tcp_auth: "tcp_lab resolves w \<Longrightarrow> fst (tcp_auth w) = Ret ()"
  using tcp_listen_step [of resolves w] tcp_launch_step [of resolves w] tcp_ask_step [of resolves w] tcp_auth_step [of 5000 w]
  by (simp add: tcp_auth_def bind_def ret_def)

lemma plays_tcp_msg:
  assumes "tcp_lab resolves w"
  shows "fst (tcp_msg w) = Ret ()"
proof -
  obtain w1 where w1: "tcp_auth_and_reply w = (Ret (), w1)" "chat_at w ''c'' [] [] w1" by (rule tcp_handshake [OF assms])
  from chat_says [OF assms w1(2), of "''ahojky''"] w1(1) say_sizes [of "''ahojky''"] show ?thesis
    by (auto simp: tcp_msg_def bind_def ret_def case_texts)
qed

lemma plays_tcp_svr_msg:
  assumes "tcp_lab resolves w"
  shows "fst (tcp_svr_msg w) = Ret ()"
proof -
  have m: "plain_ok ''SeverusSnape'' ''ahojky''" by (simp add: case_texts)
  let ?l = "lit (''SeverusSnape: ahojky'' @ [newline])"
  obtain w1 where w1: "tcp_auth_and_reply w = (Ret (), w1)" "chat_at w ''c'' [] [] w1" by (rule tcp_handshake [OF assms])
  obtain w2 where w2: "send_message (VStr (lit (''MSG FROM SeverusSnape IS ahojky'' @ crlf))) w1 = (Ret (), w2)" "chat_at w ''c'' [] [?l] w2"
    using chat_serves [OF assms w1(2) m] by auto
  obtain w3 where w3: "sleep 200 w2 = (Ret (), w3)" "chat_at w ''c'' [] [?l] w3" using chat_sleeps [OF w2(2), of 200] by auto
  have "any_line_has ''SeverusSnape: ahojky'' ?l" by (simp add: any_line_has_def lit_def ord_def newline_def)
  with w1(1) w2(1) w3(1) chat_reads [OF w3(2)] show ?thesis by (auto simp: tcp_svr_msg_def bind_def ret_def)
qed

lemma plays_tcp_sigint:
  assumes "tcp_lab resolves w"
  shows "fst (tcp_sigint w) = Ret ()"
proof -
  obtain w1 where w1: "tcp_auth_and_reply w = (Ret (), w1)" "chat_at w ''c'' [] [] w1" by (rule tcp_handshake [OF assms])
  from chat_interrupts [OF assms w1(2)] w1(1) show ?thesis by (auto simp: tcp_sigint_def bind_def ret_def ord_def)
qed

lemma plays_tcp_server_bye:
  assumes "tcp_lab resolves w"
  shows "fst (tcp_server_bye w) = Ret ()"
proof -
  obtain w1 where w1: "tcp_auth_and_reply w = (Ret (), w1)" "chat_at w ''c'' [] [] w1" by (rule tcp_handshake [OF assms])
  from chat_dismisses [OF assms w1(2)] w1(1) show ?thesis by (auto simp: tcp_server_bye_def bind_def ret_def)
qed

lemma plays_tcp_rename_multiple:
  assumes "tcp_lab resolves w"
  shows "fst (tcp_rename_multiple w) = Ret ()"
proof -
  have n: "well_formed (Rename ''user1'')" "well_formed (Rename ''user2'')" "sizes_ok (Rename ''user1'')" "sizes_ok (Rename ''user2'')"
    using valid_display_name [of 5] by (simp_all add: text_of_def printableChar_def ord_def)
  have t: "well_formed (Say ''message after rename'')" "sizes_ok (Say ''message after rename'')"
    using say_sizes [of "''message after rename''"] by (simp_all add: case_texts)
  obtain w1 where w1: "tcp_auth_and_reply w = (Ret (), w1)" "chat_at w ''c'' [] [] w1" by (rule tcp_handshake [OF assms])
  obtain w2 where w2: "execute (lit ''/rename user1'') w1 = (Ret (), w2)" "chat_at w ''user1'' [] [] w2"
    using chat_renames [OF assms w1(2) n(1,3)] by (auto simp: newline_def)
  obtain w3 where w3: "sleep 200 w2 = (Ret (), w3)" "chat_at w ''user1'' [] [] w3" using chat_sleeps [OF w2(2), of 200] by auto
  obtain w4 where w4: "execute (lit ''/rename user2'') w3 = (Ret (), w4)" "chat_at w ''user2'' [] [] w4"
    using chat_renames [OF assms w3(2) n(2,4)] by (auto simp: newline_def)
  obtain w5 where w5: "sleep 200 w4 = (Ret (), w5)" "chat_at w ''user2'' [] [] w5" using chat_sleeps [OF w4(2), of 200] by auto
  from chat_says [OF assms w5(2) t] w1(1) w2(1) w3(1) w4(1) w5(1) show ?thesis
    by (auto simp: tcp_rename_multiple_def bind_def ret_def newline_def ord_def)
qed

lemma plays_tcp_send_receive:
  assumes "tcp_lab resolves w"
  shows "fst (tcp_send_receive_multiple w) = Ret ()"
proof -
  have t: "well_formed (Say ''client msg 1'')" "well_formed (Say ''client msg 2'')" "sizes_ok (Say ''client msg 1'')" "sizes_ok (Say ''client msg 2'')"
    using say_sizes [of "''client msg 1''"] say_sizes [of "''client msg 2''"] by (simp_all add: case_texts)
  have m: "plain_ok ''server'' ''server msg 1''" "plain_ok ''server'' ''server msg 2''" by (simp_all add: case_texts)
  let ?l1 = "lit (''server: server msg 1'' @ [newline])" and ?l2 = "lit (''server: server msg 2'' @ [newline])"
  obtain w1 where w1: "tcp_auth_and_reply w = (Ret (), w1)" "chat_at w ''c'' [] [] w1" by (rule tcp_handshake [OF assms])
  obtain w2 w3 where e1: "execute (lit ''client msg 1'') w1 = (Ret (), w2)"
      "receive_message 5000 w2 = (Ret (VStr (lit (''MSG FROM c IS client msg 1'' @ crlf))), w3)" "chat_at w ''c'' [] [] w3"
    using chat_says [OF assms w1(2) t(1,3)] by (auto simp: newline_def ord_def)
  obtain w4 where s1: "send_message (VStr (lit (''MSG FROM server IS server msg 1'' @ crlf))) w3 = (Ret (), w4)" "chat_at w ''c'' [] [?l1] w4"
    using chat_serves [OF assms e1(3) m(1)] by auto
  obtain w5 where p1: "sleep 200 w4 = (Ret (), w5)" "chat_at w ''c'' [] [?l1] w5" using chat_sleeps [OF s1(2), of 200] by auto
  obtain w6 where o1: "get_stdout w5 = (Ret ?l1, w6)" "chat_at w ''c'' [] [] w6" using chat_reads [OF p1(2)] by auto
  obtain v2 v3 where e2: "execute (lit ''client msg 2'') w6 = (Ret (), v2)"
      "receive_message 5000 v2 = (Ret (VStr (lit (''MSG FROM c IS client msg 2'' @ crlf))), v3)" "chat_at w ''c'' [] [] v3"
    using chat_says [OF assms o1(2) t(2,4)] by (auto simp: newline_def ord_def)
  obtain v4 where s2: "send_message (VStr (lit (''MSG FROM server IS server msg 2'' @ crlf))) v3 = (Ret (), v4)" "chat_at w ''c'' [] [?l2] v4"
    using chat_serves [OF assms e2(3) m(2)] by auto
  obtain v5 where p2: "sleep 200 v4 = (Ret (), v5)" "chat_at w ''c'' [] [?l2] v5" using chat_sleeps [OF s2(2), of 200] by auto
  obtain v6 where o2: "get_stdout v5 = (Ret ?l2, v6)" using chat_reads [OF p2(2)] by auto
  have "occurs_in (lit ''server: server msg 1'') ?l1" "occurs_in (lit ''server: server msg 2'') ?l2"
    by (simp_all add: lit_def ord_def newline_def)
  with w1(1) e1 s1(1) p1(1) o1(1) e2 s2(1) p2(1) o2 show ?thesis by (simp add: tcp_send_receive_multiple_def bind_def ret_def)
qed

lemma plays_tcp_two_in_one:
  assumes "tcp_lab resolves w"
  shows "fst (tcp_multiple_messages_single_segment w) = Ret ()"
proof -
  have m: "plain_ok ''server1'' ''msg1''" "plain_ok ''server2'' ''msg2''" by (simp_all add: case_texts)
  let ?d = "''MSG FROM server1 IS msg1'' @ crlf @ ''MSG FROM server2 IS msg2'' @ crlf"
  let ?ms = "[plain_msg ''server1'' ''msg1'', plain_msg ''server2'' ''msg2'']"
  obtain w1 where w1: "tcp_auth_and_reply w = (Ret (), w1)" "chat_at w ''c'' [] [] w1" by (rule tcp_handshake [OF assms])
  obtain w2 where w2: "send_message (VStr (lit ?d)) w1 = (Ret (), w2)" "chat_at w ''c'' [] (map out_line ?ms) w2"
    using chat_segment [OF assms w1(2), of ?d ?ms "[]"] plain_msg_ok [OF m(1)] plain_msg_ok [OF m(2)]
    by (auto simp: crlf_def ord_def line_of_def plain_msg_def)
  obtain w3 where w3: "sleep 1000 w2 = (Ret (), w3)" "chat_at w ''c'' [] (map out_line ?ms) w3" using chat_sleeps [OF w2(2), of 1000] by auto
  have "occurs_in (lit ''server1: msg1'') (join_with [] (map out_line ?ms))" "occurs_in (lit ''server2: msg2'') (join_with [] (map out_line ?ms))"
    by (simp_all add: out_line_def plain_msg_def lit_def ord_def newline_def)
  with w1(1) w2(1) w3(1) chat_reads [OF w3(2)] show ?thesis
    by (auto simp: tcp_multiple_messages_single_segment_def bind_def ret_def)
qed

lemma plays_tcp_one_in_two:
  assumes "tcp_lab resolves w"
  shows "fst (tcp_single_message_multiple_segments w) = Ret ()"
proof -
  have m: "plain_ok ''server'' ''part1part2''" by (simp add: case_texts)
  let ?l = "lit (''server: part1part2'' @ [newline])"
  obtain w1 where w1: "tcp_auth_and_reply w = (Ret (), w1)" "chat_at w ''c'' [] [] w1" by (rule tcp_handshake [OF assms])
  obtain w2 where w2: "sends_piece ''MSG FROM server IS part1'' w1 w2" "chat_at w ''c'' ''MSG FROM server IS part1'' [] w2"
    using piece_partial [OF assms w1(2), of "''MSG FROM server IS part1''"] by (auto simp: ord_def)
  obtain w3 where w3: "sends_piece (''part2'' @ crlf) w2 w3" "chat_at w ''c'' [] [?l] w3"
    using piece_completes [OF assms w2(2) _ _ _ _ m, of "''part2'' @ crlf" "[]"] by (auto simp: crlf_def ord_def)
  have "occurs_in (lit ''server: part1part2'') ?l" by (simp add: lit_def ord_def newline_def)
  with w1(1) w2(1) w3(1) chat_reads [OF w3(2)] show ?thesis
    by (auto simp: tcp_single_message_multiple_segments_def sends_piece_def bind_def ret_def)
qed

lemma plays_tcp_two_in_three:
  assumes "tcp_lab resolves w"
  shows "fst (tcp_receive_two_messages_within_3_segments w) = Ret ()"
proof -
  have m: "plain_ok ''teSter'' ''message1''" "plain_ok ''teSte'' ''message2''" by (simp_all add: case_texts)
  let ?l1 = "lit (''teSter: message1'' @ [newline])" and ?l2 = "lit (''teSte: message2'' @ [newline])"
  obtain w1 where w1: "tcp_auth_and_reply w = (Ret (), w1)" "chat_at w ''c'' [] [] w1" by (rule tcp_handshake [OF assms])
  obtain w2 where w2: "sends_piece ''MSG FROM teSter '' w1 w2" "chat_at w ''c'' ''MSG FROM teSter '' [] w2"
    using piece_partial [OF assms w1(2), of "''MSG FROM teSter ''"] by (auto simp: ord_def)
  obtain w3 where w3: "sends_piece (''IS message1'' @ crlf @ ''MSG FROM teSte'') w2 w3" "chat_at w ''c'' ''MSG FROM teSte'' [?l1] w3"
    using piece_completes [OF assms w2(2) _ _ _ _ m(1), of "''IS message1'' @ crlf @ ''MSG FROM teSte''" "''MSG FROM teSte''"]
    by (auto simp: crlf_def ord_def)
  obtain w4 where w4: "sends_piece ('' IS message2'' @ crlf) w3 w4" "chat_at w ''c'' [] [?l1, ?l2] w4"
    using piece_completes [OF assms w3(2) _ _ _ _ m(2), of "'' IS message2'' @ crlf" "[]"] by (auto simp: crlf_def ord_def)
  have "occurs_in (lit (''teSter: message1'' @ [CHR 0x0A] @ ''teSte: message2'')) (?l1 @ ?l2)" by (simp add: lit_def ord_def newline_def)
  with w1(1) w2(1) w3(1) w4(1) chat_reads [OF w4(2)] show ?thesis
    by (auto simp: tcp_receive_two_messages_within_3_segments_def sends_piece_def bind_def ret_def)
qed

lemmas tcp_plays = plays_tcp_auth plays_tcp_msg plays_tcp_svr_msg plays_tcp_sigint plays_tcp_server_bye
  plays_tcp_rename_multiple plays_tcp_send_receive plays_tcp_two_in_one plays_tcp_one_in_two
  plays_tcp_two_in_three

end
