(* ===== verification/Evaluation.thy ===== *)
theory Evaluation
  imports Independence Closed_Loop Tcp_Loop "HOL-Library.Code_Target_Nat"
begin

text \<open>
  Running a test case of the harness against the client inside the logic. A test case is uniform, so
  one world decides its verdict, and in that world it is evaluated: the beginning that all test cases
  share is taken from the steps of \<open>Closed_Loop\<close> and \<open>Tcp_Loop\<close>, for every resolver of host names that
  knows \<open>localhost\<close>, and the rest is rewritten with the defining equations. This theory holds equations
  that make the rewriting fast, each proved from the definition it speeds up, and the beginnings.
\<close>

section \<open>Equations for evaluation\<close>

text \<open>An octet from the binary digits of its number.\<close>

primrec digits :: "num \<Rightarrow> bool list" where
  "digits num.One = [True]"
| "digits (num.Bit0 n) = False # digits n"
| "digits (num.Bit1 n) = True # digits n"

fun char_of_digits :: "bool list \<Rightarrow> char" where
  "char_of_digits [] = CHR 0x00"
| "char_of_digits [a] = Char a False False False False False False False"
| "char_of_digits [a, b] = Char a b False False False False False False"
| "char_of_digits [a, b, c] = Char a b c False False False False False"
| "char_of_digits [a, b, c, d] = Char a b c d False False False False"
| "char_of_digits [a, b, c, d, e] = Char a b c d e False False False"
| "char_of_digits [a, b, c, d, e, f] = Char a b c d e f False False"
| "char_of_digits [a, b, c, d, e, f, g] = Char a b c d e f g False"
| "char_of_digits (a # b # c # d # e # f # g # h # _) = Char a b c d e f g h"

lemma bit_digits: "bit (numeral n :: int) i = (i < length (digits n) \<and> digits n ! i)"
proof (induction n arbitrary: i)
  case One
  show ?case by (auto simp: bit_1_iff)
next
  case (Bit0 n)
  then show ?case by (cases i) (auto simp: bit_0 bit_Suc)
next
  case (Bit1 n)
  then show ?case by (cases i) (auto simp: bit_0 bit_Suc)
qed

lemma char_of_numeral: "char_of (numeral n :: int) = char_of_digits (digits n)"
  by (cases "digits n" rule: char_of_digits.cases) (simp_all add: char_of_def bit_digits bit_0 [symmetric])

lemma chr8_code [code]:
  "chr8 0 = CHR 0x00"
  "chr8 (Int.Pos n) = char_of_digits (digits n)"
  "chr8 (Int.Neg n) = chr8 (Int.Neg n mod 256)"
proof -
  show "chr8 0 = CHR 0x00" by (simp add: chr8_def char_of_def)
  show "chr8 (Int.Pos n) = char_of_digits (digits n)" by (simp add: chr8_def char_of_numeral)
  have "char_of (i mod 256) = char_of i" for i :: int
    using char_of_take_bit_eq [of 8 i] by (simp add: take_bit_eq_mod)
  then show "chr8 (Int.Neg n) = chr8 (Int.Neg n mod 256)" by (simp only: chr8_def)
qed

text \<open>The length checks on integers instead of words.\<close>

lemma isValidDisplayNameLength_code [code]: "isValidDisplayNameLength n \<longleftrightarrow> uint n mod 4096 \<noteq> 0"
proof -
  have "int (unat n mod 4096) = uint n mod 4096" by (simp add: zmod_int)
  then have "unat n mod 4096 = 0 \<longleftrightarrow> uint n mod 4096 = 0" by linarith
  then show ?thesis
    by (auto simp: isValidDisplayNameLength_def s_DISPLAY_NAME_MAX_LENGTH_def push_bit_20_eq_0 one_le_word)
qed

lemma isValidMsgContentLength_code [code]: "isValidMsgContentLength n \<longleftrightarrow> 1 \<le> uint n \<and> uint n \<le> 60000"
  by (simp add: isValidMsgContentLength_def s_MSG_CONTENT_MAX_LENGTH_def word_le_def)

text \<open>Reading a string of a datagram at once, and ASCII text.\<close>

lemma read_string_loop_code [code]:
  "read_string_loop data p string = (let d = drop p data in
     case dropWhile (\<lambda>c. c \<noteq> CHR 0x00) d of
       [] \<Rightarrow> Inl IndexError
     | _ \<Rightarrow> (let s = takeWhile (\<lambda>c. c \<noteq> CHR 0x00) d in Inr (string @ s, p + length s + 1)))"
proof (cases "dropWhile (\<lambda>c. c \<noteq> CHR 0x00) (drop p data)")
  case Nil
  then have "CHR 0x00 \<notin> set (drop p data)" by (auto simp: dropWhile_eq_Nil_conv)
  have "read_string_loop data p string = Inl IndexError" by (rule read_string_loop_unterminated) fact
  then show ?thesis unfolding Let_def Nil by simp
next
  case (Cons c post)
  let ?s = "takeWhile (\<lambda>c. c \<noteq> CHR 0x00) (drop p data)"
  have c: "c = CHR 0x00" using hd_dropWhile [of "\<lambda>c. c \<noteq> CHR 0x00" "drop p data"] Cons by auto
  then have d: "drop p data = ?s @ CHR 0x00 # post"
    using takeWhile_dropWhile_id [of "\<lambda>c. c \<noteq> CHR 0x00" "drop p data"] Cons by simp
  then have p: "p \<le> length data" by (cases "p \<le> length data") auto
  have "data = take p data @ ?s @ CHR 0x00 # post" using append_take_drop_id [of p data] d by metis
  moreover have "CHR 0x00 \<notin> set ?s" by (auto dest: set_takeWhileD)
  ultimately have "read_string_loop data p string = Inr (string @ ?s, p + length ?s + 1)"
    using read_string_loop_field [of ?s "take p data" post string] p by simp
  then show ?thesis unfolding Let_def Cons by simp
qed

lemma decode_code [code]:
  "decode bs = (if list_all (\<lambda>c. \<not> digit7 c) bs then Inr (map ord bs)
     else case utf8_step bs of
        None \<Rightarrow> Inl UnicodeDecodeError
      | Some (c, r) \<Rightarrow> rbind (decode r) (\<lambda>s. Inr (c # s)))"
proof (cases "bs = [] \<or> \<not> list_all (\<lambda>c. \<not> digit7 c) bs")
  case True
  then show ?thesis by (subst decode.simps) auto
next
  case False
  have ascii: "ord c < 0x80 \<longleftrightarrow> \<not> digit7 c" for c
    by (cases c) (simp add: ord_def)
  have "decode bs = Inr (map ord bs)" if "list_all (\<lambda>c. \<not> digit7 c) bs"
    using that
  proof (induction bs)
    case (Cons c bs)
    then show ?case by (subst decode.simps) (simp add: utf8_step_def ascii)
  qed simp
  with False show ?thesis by simp
qed

text \<open>User input with one branch per pattern.\<close>

fun exactly_three :: "bytes list option \<Rightarrow> (bytes \<times> bytes \<times> bytes) option" where
  "exactly_three (Some [a, b, c]) = Some (a, b, c)"
| "exactly_three _ = None"

fun exactly_one :: "bytes list option \<Rightarrow> bytes option" where
  "exactly_one (Some [a]) = Some a"
| "exactly_one _ = None"

lemma parse_line_code [code]:
  "parse_line user_input s =
     (case exactly_three (regex_match exact authCommandRegex user_input) of
       Some (username, secret, display_name) \<Rightarrow>
         if \<not> canSendMessageType M_AUTH s then reject wrong_state s
         else if 20 < length username \<or> 128 < length secret \<or> \<not> isValidDisplayNameLength (of_nat (length display_name))
         then reject wrong_length s
         else cret [''/auth'', username, secret, display_name] s
     | None \<Rightarrow>
     (case exactly_one (regex_match exact joinCommandRegex user_input) of
       Some channel_id \<Rightarrow>
         if \<not> canSendMessageType M_JOIN s then reject wrong_state s
         else if 20 < length channel_id then reject wrong_length s
         else cret [''/join'', channel_id] s
     | None \<Rightarrow>
     (case exactly_one (regex_match exact renameCommandRegex user_input) of
       Some display_name \<Rightarrow>
         if m_current_state s = S_JOIN
         then reject ''you can't rename yourself in the current application state.'' s
         else if \<not> isValidDisplayNameLength (of_nat (length display_name)) then reject wrong_length s
         else cret [''/rename'', display_name] s
     | None \<Rightarrow>
     (case regex_match exact helpCommandRegex user_input of
       Some _ \<Rightarrow> cret [user_input] s
     | None \<Rightarrow>
     (case exactly_one (if user_input \<noteq> [] \<and> hd user_input \<noteq> CHR ''/'' then regex_match exact userMsgRegex user_input else None) of
       Some content \<Rightarrow>
         if \<not> canSendMessageType M_MSG s then reject wrong_state s
         else if \<not> isValidMsgContentLength (of_nat (length content)) then reject wrong_length s
         else cret [content] s
     | None \<Rightarrow> reject ''invalid user input.'' s)))))"
proof -
  have 3: "(case r of Some [a, b, c] \<Rightarrow> f a b c | _ \<Rightarrow> g) s = (case exactly_three r of Some (a, b, c) \<Rightarrow> f a b c s | None \<Rightarrow> g s)"
    for r s and f :: "bytes \<Rightarrow> bytes \<Rightarrow> bytes \<Rightarrow> bytes list C" and g
    by (cases r rule: exactly_three.cases) auto
  have 1: "(case r of Some [a] \<Rightarrow> f a | _ \<Rightarrow> g) s = (case exactly_one r of Some a \<Rightarrow> f a s | None \<Rightarrow> g s)"
    for r s and f :: "bytes \<Rightarrow> bytes list C" and g
    by (cases r rule: exactly_one.cases) auto
  have 0: "(case r of Some a \<Rightarrow> f | None \<Rightarrow> g) s = (case r of Some a \<Rightarrow> f s | None \<Rightarrow> g s)"
    for r :: "bytes list option" and s and f g :: "bytes list C"
    by (cases r) auto
  have app: "(if b then f else g) s = (if b then f s else g s)" for b s and f g :: "bytes list C"
    by simp
  show ?thesis unfolding parse_line_def cwith_def 3 1 0 app ..
qed

section \<open>The world of a test case on its own\<close>

definition fresh :: "(bytes \<Rightarrow> bool) \<Rightarrow> client world" where
  "fresh resolves = ExecutableTester [] (initial_world (ipk25chat resolves) None)"

lemma alone_fresh: "alone (ipk25chat resolves) f = fst (f (fresh resolves))"
  by (simp add: alone_def fresh_def)

lemma fresh_fields:
  "executable (fresh resolves) = (\<lambda>_. ipk25chat resolves)" "process (fresh resolves) = None"
  "server_socket (fresh resolves) = None" "connection_socket (fresh resolves) = None" "send_confirm (fresh resolves)"
  "udp_sockets (fresh resolves) = []" "tcp_listening (fresh resolves) = []" "clock (fresh resolves) = 0"
  by (simp_all add: fresh_def ExecutableTester_def initial_world_def)

lemma fresh_labs:
  assumes "resolves ''localhost''"
  shows "lab resolves (fresh resolves)" "tcp_lab resolves (fresh resolves)"
  using assms by (simp_all add: lab_def stage_ok_def tcp_lab_def bound_udp_def fresh_fields)

lemma bind_run: "m w = (Ret x, w') \<Longrightarrow> bind m f w = f x w'"
  by (simp add: bind_def)

section \<open>Beginnings of test cases\<close>

text \<open>The handshake.\<close>

lemma udp_opened:
  assumes "resolves ''localhost''" "\<And>h. fst (k (scene (fresh resolves) (rest joined h 600))) = Ret x"
  shows "alone (ipk25chat resolves) (bind auth_and_reply (\<lambda>_. k)) = Ret x"
    "alone (ipk25chat resolves) (bind hobza_auth_and_reply (\<lambda>_. k)) = Ret x"
proof -
  note lab = fresh_labs(1) [of resolves, OF assms(1)]
  obtain h h' where "auth_and_reply (fresh resolves) = (Ret (), scene (fresh resolves) (rest joined h 600))"
      "hobza_auth_and_reply (fresh resolves) = (Ret (), scene (fresh resolves) (rest joined h' 600))"
    using handshake [OF lab] hobza_handshake [OF lab] by (auto simp: fresh_fields)
  with assms(2) show "alone (ipk25chat resolves) (bind auth_and_reply (\<lambda>_. k)) = Ret x"
      "alone (ipk25chat resolves) (bind hobza_auth_and_reply (\<lambda>_. k)) = Ret x"
    by (simp_all add: alone_fresh bind_run)
qed

lemma tcp_opened:
  assumes "resolves ''localhost''" "\<And>h. fst (k (tcp_scene (fresh resolves) (tcp_rest tcp_joined [] h 600))) = Ret x"
  shows "alone (ipk25chat resolves) (bind tcp_auth_and_reply (\<lambda>_. k)) = Ret x"
    "alone (ipk25chat resolves) (bind hobza_tcp_auth_and_reply (\<lambda>_. k)) = Ret x"
proof -
  obtain h where "tcp_auth_and_reply (fresh resolves) = (Ret (), tcp_scene (fresh resolves) (tcp_rest tcp_joined [] h 600))"
      "hobza_tcp_auth_and_reply (fresh resolves) = (Ret (), tcp_scene (fresh resolves) (tcp_rest tcp_joined [] h 600))"
    using tcp_handshakes [OF fresh_labs(2) [of resolves, OF assms(1)]] by (auto simp: fresh_fields)
  with assms(2) show "alone (ipk25chat resolves) (bind tcp_auth_and_reply (\<lambda>_. k)) = Ret x"
      "alone (ipk25chat resolves) (bind hobza_tcp_auth_and_reply (\<lambda>_. k)) = Ret x"
    by (simp_all add: alone_fresh bind_run)
qed

text \<open>The client is started, and asked to authenticate.\<close>

lemma udp_started:
  assumes "resolves ''localhost''" "fst (k (scene (fresh resolves) (prologue (fresh resolves)))) = Ret x"
  shows "alone (ipk25chat resolves) (bind (start_server (lit ''udp'') 4567) (\<lambda>_. bind (setup_tester (client_args ''udp'' ''4567'')) (\<lambda>_. k))) = Ret x"
  using assms fresh_labs(1) [of resolves] by (simp add: alone_fresh bind_def serving_step launch_step)

lemma udp_asked:
  assumes "resolves ''localhost''" "fst (k (scene (fresh resolves) (asking (fresh resolves)))) = Ret x"
  shows "alone (ipk25chat resolves) (bind (start_server (lit ''udp'') 4567) (\<lambda>_. bind (setup_tester (client_args ''udp'' ''4567''))
    (\<lambda>_. bind (execute (lit ''/auth a b c'')) (\<lambda>_. k)))) = Ret x"
  using assms fresh_labs(1) [of resolves] ask_step [of resolves "fresh resolves"] by (intro udp_started) (simp_all add: bind_run)

lemma tcp_started:
  assumes "resolves ''localhost''" "fst (k (tcp_scene (fresh resolves) (tcp_prologue (fresh resolves)))) = Ret x"
  shows "alone (ipk25chat resolves) (bind (start_server (lit ''tcp'') 4567) (\<lambda>_. bind (setup_tester (client_args ''tcp'' ''4567'')) (\<lambda>_. k))) = Ret x"
  using assms fresh_labs(2) [of resolves] by (simp add: alone_fresh bind_def tcp_listen_step tcp_launch_step)

lemma tcp_asked:
  assumes "resolves ''localhost''"
    "fst (k (tcp_scene (fresh resolves) ((tcp_asking (fresh resolves))\<lparr>g_queue := [''AUTH a AS c USING b'' @ crlf]\<rparr>))) = Ret x"
  shows "alone (ipk25chat resolves) (bind (start_server (lit ''tcp'') 4567) (\<lambda>_. bind (setup_tester (client_args ''tcp'' ''4567''))
    (\<lambda>_. bind (execute (lit ''/auth a b c'')) (\<lambda>_. k)))) = Ret x"
  using assms fresh_labs(2) [of resolves] tcp_ask_step [of resolves "fresh resolves"] by (intro tcp_started) (simp_all add: bind_run)

text \<open>Other beginnings: no server, a server on another port, and a second socket of the test case.\<close>

definition child :: "cargs \<Rightarrow> client proc" where
  "child a = \<lparr>p_state = Client a, p_exit = None, p_timer = None, p_polls_stdin = True, p_stdin_pipe = [],
     p_stdin_closed = False, p_out_tail = Some [], p_err_tail = Some []\<rparr>"

definition args_at :: "bool \<Rightarrow> 16 word \<Rightarrow> cargs" where
  "args_at tcp p = default_args\<lparr>m_is_tcp := tcp, m_server_port := p, m_server_addr := p\<rparr>"

lemma boots_at:
  assumes "resolves ''localhost''"
  shows "chat_boot resolves (map octets_of (client_args ''udp'' ''1234'')) listening = (Client (args_at False 1234), [])"
    "listening 4321 \<Longrightarrow>
       chat_boot resolves (map octets_of (client_args ''tcp'' ''4321'')) listening = (Client (args_at True 4321), [Connect 4321])"
proof -
  have dec: "dec 1234 = ''1234''" "dec 4321 = ''4321''" by (simp_all add: dec.simps chr8_def char_of_eq_iff)
  have "map octets_of (client_args ''udp'' ''1234'') = concat (map opt_words [Transport False, Server ''localhost'', Port 1234])"
    "map octets_of (client_args ''tcp'' ''4321'') = concat (map opt_words [Transport True, Server ''localhost'', Port 4321])"
    by (simp_all add: client_args_def octets_of_def encode_ascii_lit(1) ord_def dec)
  then have "Args resolves (map octets_of (client_args ''udp'' ''1234'')) = Built (args_at False 1234)"
    "Args resolves (map octets_of (client_args ''tcp'' ''4321'')) = Built (args_at True 4321)"
    using assms parse_opts [of "[Transport False, Server ''localhost'', Port 1234]" resolves None default_args]
      parse_opts [of "[Transport True, Server ''localhost'', Port 4321]" resolves None default_args]
    unfolding Args_def by (simp_all add: processServerAddress_def args_at_def)
  then show "chat_boot resolves (map octets_of (client_args ''udp'' ''1234'')) listening = (Client (args_at False 1234), [])"
    "listening 4321 \<Longrightarrow>
       chat_boot resolves (map octets_of (client_args ''tcp'' ''4321'')) listening = (Client (args_at True 4321), [Connect 4321])"
    by (simp_all add: chat_boot_def args_at_def default_args_def)
qed

lemma set_up_at:
  assumes "executable w = (\<lambda>_. ipk25chat resolves)" "process w = None"
    "chat_boot resolves (map octets_of args) (\<lambda>p. p \<in> set (tcp_listening w)) = (Client a, [])"
  shows "setup_tester args w = (Ret (), w\<lparr>process := Some (child a), stdout_queue := [], stderr_queue := [],
    return_code := None, clock := clock w + 200\<rparr>)"
  using assms
  by (simp add: setup_tester_def bind_def modify_def ret_def popen_def ipk25chat_def sleep_def advance.simps
      next_wakeup_def child_def)

lemma udp_unserved:
  assumes "resolves ''localhost''"
    "fst (k ((fresh resolves)\<lparr>process := Some (child test_args), stdout_queue := [], stderr_queue := [], return_code := None,
       clock := 200\<rparr>)) = Ret x"
  shows "alone (ipk25chat resolves) (bind (setup_tester (client_args ''udp'' ''4567'')) (\<lambda>_. k)) = Ret x"
  using assms set_up_at [of "fresh resolves" resolves _ test_args] boot_udp [of resolves]
  by (simp add: alone_fresh bind_def fresh_fields)

lemma udp_served:
  assumes "server_socket w = None" "\<not> bound_udp p w"
  shows "start_server (lit ''udp'') p w
    = (Ret (), w\<lparr>server_socket := Some (UdpSocket p), udp_sockets := (p, []) # udp_sockets w\<rparr>)"
  using assms
  by (auto simp: start_server_def lower_literals lit_udp_not_tcp bind_def modify_def fresh_socket_def udp_bind_def bound_udp_def)

definition redirected :: "client world \<Rightarrow> int \<Rightarrow> client world" where
  "redirected w p = w\<lparr>server_socket := Some (UdpSocket p), udp_sockets := (p, []) # udp_sockets w,
     process := Some (child (args_at False 1234)), stdout_queue := [], stderr_queue := [], return_code := None,
     clock := clock w + 200\<rparr>"

lemma redirects:
  assumes "resolves ''localhost''" "executable w = (\<lambda>_. ipk25chat resolves)" "process w = None" "server_socket w = None"
    "\<not> bound_udp p w"
  shows "bind (start_server (lit ''udp'') p) (\<lambda>_. bind (setup_tester (client_args ''udp'' ''1234'')) (\<lambda>_. k)) w
    = k (redirected w p)"
  using assms udp_served [of w p] set_up_at [of _ resolves _ "args_at False 1234"] boots_at(1) [of resolves]
  by (simp add: bind_def redirected_def)

lemma udp_started_at:
  assumes "resolves ''localhost''" "fst (k (redirected (fresh resolves) 1234)) = Ret x"
  shows "alone (ipk25chat resolves) (bind (start_server (lit ''udp'') 1234) (\<lambda>_. bind (setup_tester (client_args ''udp'' ''1234'')) (\<lambda>_. k))) = Ret x"
  using assms redirects [of resolves "fresh resolves" 1234 k] by (simp add: alone_fresh fresh_fields bound_udp_def)

lemma udp_moved:
  assumes "resolves ''localhost''" "fst (k (redirected ((fresh resolves)\<lparr>udp_sockets := [(1234, [])]\<rparr>) 4567)) = Ret x"
  shows "alone (ipk25chat resolves) (with_udp_socket 1234
    (bind (start_server (lit ''udp'') 4567) (\<lambda>_. bind (setup_tester (client_args ''udp'' ''1234'')) (\<lambda>_. k)))) = Ret x"
  using assms redirects [of resolves "(fresh resolves)\<lparr>udp_sockets := [(1234, [])]\<rparr>" 4567 k]
  by (simp add: alone_fresh with_udp_socket_def bind_run [of "udp_bind 1234"] udp_bind_def fresh_fields bound_udp_def
      case_prod_unfold)

lemma tcp_started_at:
  assumes "resolves ''localhost''"
    "fst (k ((fresh resolves)\<lparr>server_socket := Some (TcpListener 4321), tcp_listening := [4321],
       connection_socket := Some \<lparr>c_unread = [], c_peer_closed = False, c_reset = False\<rparr>,
       process := Some (child (args_at True 4321)), stdout_queue := [], stderr_queue := [], return_code := None, clock := 200\<rparr>)) = Ret x"
  shows "alone (ipk25chat resolves) (bind (start_server (lit ''tcp'') 4321) (\<lambda>_. bind (setup_tester (client_args ''tcp'' ''4321'')) (\<lambda>_. k))) = Ret x"
proof -
  let ?w = "(fresh resolves)\<lparr>server_socket := Some (TcpListener 4321), tcp_listening := [4321]\<rparr>"
  have "start_server (lit ''tcp'') 4321 (fresh resolves) = (Ret (), ?w)"
    by (simp add: start_server_def lower_literals bind_def modify_def fresh_socket_def tcp_listen_def fresh_fields)
  moreover have "setup_tester (client_args ''tcp'' ''4321'') ?w = (Ret (), ?w\<lparr>
       connection_socket := Some \<lparr>c_unread = [], c_peer_closed = False, c_reset = False\<rparr>,
       process := Some (child (args_at True 4321)), stdout_queue := [], stderr_queue := [], return_code := None, clock := 200\<rparr>)"
    using boots_at(2) [of resolves "\<lambda>p. p = 4321"] assms(1)
    by (simp add: setup_tester_def bind_def modify_def ret_def popen_def ipk25chat_def sleep_def advance.simps
        next_wakeup_def child_def fresh_fields running_def accept_connection_def)
  ultimately show ?thesis using assms(2) by (simp add: alone_fresh bind_def)
qed

end
