(* ===== verification/Testo_Udp_Verdicts.thy ===== *)
theory Testo_Udp_Verdicts
  imports Evaluation
begin

text \<open>
  The verdicts of the UDP test cases of \<open>testo.py\<close> on the client: the exchanges of \<open>Closed_Loop\<close>, and
  the evaluation of the others from where their beginning leaves the two programs.
\<close>

text \<open>The handshake and the exchanges.\<close>

lemma udp_exchange_verdicts:
  assumes "resolves ''localhost''"
  shows "list_all (\<lambda>f. alone (ipk25chat resolves) f = Ret ()) [udp_auth_ok, udp_auth, udp_msg, udp_ping, udp_svr_msg,
    udp_ignore_duplicate_server_msg, udp_bye1, udp_server_bye, udp_send_receive_multiple,
    udp_retransmit_missing_confirm1, udp_retransmit_missing_confirm2]"
proof -
  note lab = fresh_labs(1) [of resolves, OF assms]
  have "fst (auth_and_reply (fresh resolves)) = Ret ()" using handshake [OF lab] by (elim exE) simp
  then show ?thesis by (simp add: alone_fresh udp_auth_ok_def udp_plays [OF lab])
qed

text \<open>The others.\<close>

lemma udp_input_verdicts:
  assumes "resolves ''localhost''"
  shows "alone (ipk25chat resolves) udp_help_command = Ret ()"
    "alone (ipk25chat resolves) udp_rename_multiple = Ret ()"
    "alone (ipk25chat resolves) udp_bye2 = Ret ()"
  unfolding udp_help_command_def udp_rename_multiple_def udp_bye2_def seq.simps
  by (rule udp_opened [of resolves, OF assms]; code_simp)+

lemma udp_join_verdicts:
  assumes "resolves ''localhost''"
  shows "alone (ipk25chat resolves) udp_join_ok = Ret ()"
    "alone (ipk25chat resolves) udp_join_nok = Ret ()"
    "alone (ipk25chat resolves) udp_multiple_auth = Ret ()"
  unfolding udp_join_ok_def udp_join_nok_def udp_multiple_auth_def seq.simps
  by (rule udp_opened [of resolves, OF assms]; code_simp)+

lemma udp_error_verdicts:
  assumes "resolves ''localhost''"
  shows "alone (ipk25chat resolves) udp_server_err2 = Ret ()"
    "alone (ipk25chat resolves) udp_invalid_msg = Ret ()"
  unfolding udp_server_err2_def udp_invalid_msg_def seq.simps
  by (rule udp_opened [of resolves, OF assms]; code_simp)+

lemma udp_silence_verdicts:
  assumes "resolves ''localhost''"
  shows "alone (ipk25chat resolves) udp_reports_error_when_missing_confirmation = Ret ()"
    "alone (ipk25chat resolves) udp_reply_5_sec_error_join = Ret ()"
  unfolding udp_reports_error_when_missing_confirmation_def udp_reply_5_sec_error_join_def seq.simps
  by (rule udp_opened [of resolves, OF assms]; code_simp)+

lemma udp_auth_verdicts:
  assumes "resolves ''localhost''"
  shows "alone (ipk25chat resolves) udp_auth_nok = Ret ()"
    "alone (ipk25chat resolves) udp_auth_nok_ok = Ret ()"
    "alone (ipk25chat resolves) udp_server_err1 = Ret ()"
  unfolding udp_auth_nok_def udp_auth_nok_ok_def udp_server_err1_def seq.simps
  by (rule udp_asked [of resolves, OF assms]; code_simp)+

lemma udp_refused_verdicts:
  assumes "resolves ''localhost''"
  shows "alone (ipk25chat resolves) udp_auth_err = Ret ()"
    "alone (ipk25chat resolves) udp_reply_5_sec_error_auth = Ret ()"
  unfolding udp_auth_err_def udp_reply_5_sec_error_auth_def seq.simps
  by (rule udp_asked [of resolves, OF assms]; code_simp)+

lemma udp_early_verdicts:
  assumes "resolves ''localhost''"
  shows "alone (ipk25chat resolves) udp_not_auth = Ret ()"
  unfolding udp_not_auth_def seq.simps
  by (rule udp_started [of resolves, OF assms]; code_simp)+

lemma udp_unserved_verdicts:
  assumes "resolves ''localhost''"
  shows "alone (ipk25chat resolves) udp_hello = Ret ()"
    "alone (ipk25chat resolves) udp_invalid_command = Ret ()"
  unfolding udp_hello_def udp_invalid_command_def seq.simps
  by (rule udp_unserved [of resolves, OF assms]; code_simp)+

lemma udp_port_verdicts:
  assumes "resolves ''localhost''"
  shows "alone (ipk25chat resolves) udp_auth_port = Ret ()"
  unfolding udp_auth_port_def seq.simps
  by (rule udp_started_at [of resolves, OF assms]; code_simp)+

lemma udp_moved_verdicts:
  assumes "resolves ''localhost''"
  shows "alone (ipk25chat resolves) udp_auth_port_change = Ret ()"
  unfolding udp_auth_port_change_def seq.simps
  by (rule udp_moved [of resolves, OF assms]; code_simp)+

section \<open>All of them\<close>

lemma testo_udp_outcomes:
  assumes "resolves ''localhost''"
  shows "outcomes (ipk25chat resolves) testo_udp_cases = replicate 31 (Ret ())"
proof -
  note verdicts = udp_input_verdicts [of resolves, OF assms] udp_join_verdicts [of resolves, OF assms]
    udp_error_verdicts [of resolves, OF assms] udp_silence_verdicts [of resolves, OF assms]
    udp_auth_verdicts [of resolves, OF assms] udp_refused_verdicts [of resolves, OF assms]
    udp_early_verdicts [of resolves, OF assms] udp_unserved_verdicts [of resolves, OF assms]
    udp_port_verdicts [of resolves, OF assms] udp_moved_verdicts [of resolves, OF assms]
    udp_exchange_verdicts [of resolves, OF assms]
  show ?thesis using udp_exchange_verdicts [of resolves, OF assms]
    by (simp add: outcomes_def testo_udp_cases_def verdicts numeral_eq_Suc)
qed

end
