(* ===== verification/Tcp_Limits.thy ===== *)
theory Tcp_Limits
  imports Tcp_Loop
begin

text \<open>
  The size limit of the stream under test: the four test cases that send one message of about sixty
  thousand octets, just below and just above what the client accepts.
\<close>

section \<open>The client refuses a stream\<close>

lemma err_terminates:
  "sendErrMsgAndTerminate e s = (Throw e, s\<lparr>m_msg_to_server := ''ERR FROM '' @ m_user_display_name s @ '' IS '' @ e @ crlf,
     emitted := emitted s @ [SendStream (''ERR FROM '' @ m_user_display_name s @ '' IS '' @ e @ crlf)]\<rparr>)"
  by (simp add: sendErrMsgAndTerminate_def tcp_buildErrMsg_def tcp_sendMsgToServer_def cset_def cbind_def cwith_def emit_def cthrow_def)

lemma refused_stream:
  assumes "m_is_tcp (m_args s)" "d \<noteq> []" "e \<noteq> []"
    and "tcp_processSocketEvent 0 (take (s_MAX_MSG_SIZE + 1) d) (s\<lparr>emitted := []\<rparr>)
      = sendErrMsgAndTerminate e (with_buffer b (s\<lparr>emitted := []\<rparr>))"
  shows "\<exists>s'. chat_handle (EvStream d) s = (s', [SendStream (''ERR FROM '' @ m_user_display_name s @ '' IS '' @ e @ crlf),
    WriteOut (''ERROR: '' @ e @ [newline]), Exit 1])"
proof -
  have "stream_events d (s\<lparr>emitted := []\<rparr>) = sendErrMsgAndTerminate e (with_buffer b (s\<lparr>emitted := []\<rparr>))"
    using assms by (subst stream_events.simps) (simp add: tcp_methods_of err_terminates)
  with assms(1,3) show ?thesis
    by (simp add: err_terminates with_buffer_def chat_handle_def run_event_def dispatch_def cwith_def cbind_def exit_actions_def)
qed

text \<open>A message that ends beyond the limit, or does not end before it.\<close>

lemma no_line_feed: "CHR 0x0A \<notin> set b \<Longrightarrow> find_eom b = None"
  by (induction b rule: find_eom.induct) auto

lemma overlong_event:
  assumes "m_msg_from_server s = []" "s_MAX_MSG_SIZE \<le> length d" "d \<noteq> []"
    and "find_eom d = None \<or> (\<exists>n. find_eom d = Some n \<and> s_MAX_MSG_SIZE < n + 2)"
  shows "tcp_processSocketEvent 0 d s = sendErrMsgAndTerminate ''too long message from server.'' (with_buffer d s)"
proof -
  let ?s = "with_buffer d s"
  have b: "m_msg_from_server ?s = d" by (simp add: with_buffer_def)
  have "go_on receive_loop check_length ?s = sendErrMsgAndTerminate ''too long message from server.'' ?s"
  proof (cases "find_eom d")
    case None
    then have "receive_loop ?s = (Value 2, ?s)" using b by (simp add: receive_loop_idle)
    then show ?thesis using assms(2) b by (simp add: go_on_simps(2) check_length_def cwith_def)
  next
    case (Some n)
    then show ?thesis using assms(4) b by (intro go_on_err receive_loop_long [of _ n]) auto
  qed
  then show ?thesis using assms(1,3) by (simp add: socket_event_def)
qed

text \<open>A message of an unknown type within the limit.\<close>

lemma unknown_event:
  assumes "m_msg_from_server s = []" "CHR 0x0D \<notin> set line" "length line + 2 \<le> s_MAX_MSG_SIZE"
    and "getServerMsgType (line @ crlf) = M_UNKNOWN"
  shows "tcp_processSocketEvent 0 (line @ crlf) s = sendErrMsgAndTerminate
    ''only messages of types BYE, ERR, MSG and REPLY are expected to be received from the server.'' (with_buffer (line @ crlf) s)"
proof -
  let ?s = "with_buffer (line @ crlf) s"
  let ?e = "''only messages of types BYE, ERR, MSG and REPLY are expected to be received from the server.''"
  have b: "m_msg_from_server ?s = line @ crlf" by (simp add: with_buffer_def)
  have "tcp_processMessageFromServer (line @ crlf) ?s = sendErrMsgAndTerminate ?e ?s"
    using assms(4) b by (simp add: tcp_processMessageFromServer_def cwith_def)
  moreover have "find_eom (line @ crlf) = Some (length line)" using find_eom_line [OF assms(2), of "[]"] by simp
  ultimately have "receive_loop ?s = sendErrMsgAndTerminate ?e ?s"
    using b assms(3) by (simp add: receive_loop.simps Let_def err_terminates crlf_def)
  then show ?thesis using assms(1) by (simp add: socket_event_def go_on_err crlf_def)
qed

section \<open>The test cases\<close>

lemma plays_refused:
  assumes "tcp_lab resolves w" "list_all (\<lambda>c. 0 < ord c \<and> ord c < 128) d" "d \<noteq> []"
    and "\<exists>s'. chat_handle (EvStream d) (Client tcp_args) = (s', [SendStream (''ERR FROM unknown IS '' @ e @ crlf),
      WriteOut (''ERROR: '' @ e @ [newline]), Exit 1])"
    and "plain_line e" "length e \<le> 900"
  obtains w1 w2 w3 w4 where "send_message (VStr (lit d)) (tcp_scene w (tcp_prologue w)) = (Ret (), w1)" "sleep 200 w1 = (Ret (), w2)"
    "get_stdout w2 = (Ret (lit (''ERROR: '' @ e @ [newline])), w3)"
    "\<And>timeout. receive_message timeout w3 = (Ret (VStr (lit (''ERR FROM unknown IS '' @ e @ crlf))), w4)"
proof -
  let ?m = "''ERR FROM unknown IS '' @ e @ crlf" and ?l = "''ERROR: '' @ e @ [newline]"
  obtain s' where s': "chat_handle (EvStream d) (Client tcp_args) = (s', [SendStream ?m, WriteOut ?l, Exit 1])" using assms(4) by blast
  let ?g = "\<lambda>q out h k. (tcp_prologue w)\<lparr>g_client := s', g_queue := q, g_out := out, g_exit := Some 1, g_timer := None, g_history := h, g_clock := k\<rparr>"
  have line: "feed_reader (Some []) ?l = ([lit ?l], Some [])"
    using read_line [of "''ERROR: '' @ e"] assms(5) by (simp add: plain_line_def newline_def carriage_return_def ord_def)
  have "send_message (VStr (lit d)) (tcp_scene w (tcp_prologue w)) = (Ret (), tcp_scene w (?g [?m] [lit ?l] (history w) (clock w + 200)))"
    using tcp_send_step [OF assms(1) _ assms(2,3), of "tcp_prologue w"] s' line by (simp add: tcp_prologue_def)
  moreover have "sleep 200 (tcp_scene w (?g [?m] [lit ?l] (history w) (clock w + 200)))
      = (Ret (), tcp_scene w (?g [?m] [lit ?l] (history w) (clock w + 400)))"
    by (simp add: on_tcp.sleep_step add.commute)
  moreover have "get_stdout (tcp_scene w (?g [?m] [lit ?l] (history w) (clock w + 400)))
      = (Ret (lit ?l), tcp_scene w (?g [?m] [] (history w @ join_with (lit ''stdout:'') [lit ?l]) (clock w + 400)))"
    by (simp add: on_tcp.stdout_step tcp_prologue_def)
  moreover have "receive_message timeout (tcp_scene w (?g [?m] [] h k)) = (Ret (VStr (lit ?m)), tcp_scene w (?g [] [] h k))" for timeout h k
  proof -
    have "list_all (\<lambda>c. 0 < ord c \<and> ord c < 128) e" using assms(5) by (auto simp: plain_line_def list_all_iff)
    then show ?thesis
      using tcp_receive_step [of "?g [?m] [] h k" ?m timeout w] assms(6) by (simp add: crlf_def ord_def tcp_prologue_def)
  qed
  ultimately show ?thesis by (rule that)
qed

lemma letters:
  "lit (replicate n (CHR ''a'') @ t) = replicate n 97 @ lit t"
  "list_all (\<lambda>c. 0 < ord c \<and> ord c < 128) (replicate n (CHR ''a'') @ t) \<longleftrightarrow> list_all (\<lambda>c. 0 < ord c \<and> ord c < 128) t"
  by (auto simp: lit_def ord_def list_all_iff)

text \<open>What the four test cases have in common.\<close>

lemma plays_refusal:
  assumes "tcp_lab resolves w" "list_all (\<lambda>c. 0 < ord c \<and> ord c < 128) t" "replicate n (CHR ''a'') @ t \<noteq> []"
    and "\<exists>s'. chat_handle (EvStream (replicate n (CHR ''a'') @ t)) (Client tcp_args) = (s', [SendStream (''ERR FROM unknown IS '' @ e @ crlf),
      WriteOut (''ERROR: '' @ e @ [newline]), Exit 1])"
    and "plain_line e" "length e \<le> 900" "any_line_is (''ERROR: '' @ e) (lit (''ERROR: '' @ e @ [newline]))"
  shows "fst ((seq [start_server (lit ''tcp'') 4567, setup_tester (client_args ''tcp'' ''4567''),
          send_message (VStr (replicate n 97 @ lit t)), sleep 200]
     (bind get_stdout (\<lambda>stdout.
     seq [assert_that (any_line_is (''ERROR: '' @ e) stdout) m1]
     (bind (receive_message 5000) (\<lambda>message.
     assert_that (message = VStr (lit (''ERR FROM unknown IS '' @ e @ crlf))) m2))))) w) = Ret ()"
proof -
  let ?d = "replicate n (CHR ''a'') @ t"
  have d: "list_all (\<lambda>c. 0 < ord c \<and> ord c < 128) ?d" "lit ?d = replicate n 97 @ lit t"
    using assms(2) letters [of n t] by auto
  obtain w1 w2 w3 w4 where "send_message (VStr (lit ?d)) (tcp_scene w (tcp_prologue w)) = (Ret (), w1)" "sleep 200 w1 = (Ret (), w2)"
    "get_stdout w2 = (Ret (lit (''ERROR: '' @ e @ [newline])), w3)"
    "\<And>timeout. receive_message timeout w3 = (Ret (VStr (lit (''ERR FROM unknown IS '' @ e @ crlf))), w4)"
    using plays_refused [OF assms(1) d(1) assms(3-6)] by metis
  then show ?thesis
    using tcp_listen_step [OF assms(1)] tcp_launch_step [OF assms(1)] assms(7) unfolding d(2) by (simp add: bind_def ret_def)
qed

text \<open>Over the limit of 60035 octets, with and without an end.\<close>

lemma max_msg_size: "s_MAX_MSG_SIZE = 60035"
  by (simp add: s_MAX_MSG_SIZE_def s_DISPLAY_NAME_MAX_LENGTH_def s_MSG_CONTENT_MAX_LENGTH_def)

lemma new_client:
  "m_msg_from_server (Client tcp_args\<lparr>emitted := []\<rparr>) = []" "m_is_tcp (m_args (Client tcp_args))"
  "m_user_display_name (Client tcp_args) = ''unknown''"
  by (simp_all add: Client_def tcp_args_def)

lemma client_refuses:
  assumes "find_eom (take 60036 d) = None \<or> find_eom (take 60036 d) = Some 60034" "60036 \<le> length d"
  shows "\<exists>s'. chat_handle (EvStream d) (Client tcp_args) = (s', [SendStream (''ERR FROM unknown IS '' @ ''too long message from server.'' @ crlf),
      WriteOut (''ERROR: '' @ ''too long message from server.'' @ [newline]), Exit 1])"
proof -
  have "tcp_processSocketEvent 0 (take (s_MAX_MSG_SIZE + 1) d) (Client tcp_args\<lparr>emitted := []\<rparr>)
      = sendErrMsgAndTerminate ''too long message from server.''
          (with_buffer (take (s_MAX_MSG_SIZE + 1) d) (Client tcp_args\<lparr>emitted := []\<rparr>))"
    by (rule overlong_event) (use assms new_client(1) in \<open>auto simp: max_msg_size\<close>)
  moreover have "d \<noteq> []" using assms(2) by auto
  ultimately show ?thesis
    using refused_stream [OF new_client(2), of d "''too long message from server.''"] by (simp add: new_client(3))
qed

lemma plays_too_long:
  assumes "tcp_lab resolves w" "list_all (\<lambda>c. 0 < ord c \<and> ord c < 128) t" "60036 \<le> n + length t"
    and "find_eom (take 60036 (replicate n (CHR ''a'') @ t)) = None \<or> find_eom (take 60036 (replicate n (CHR ''a'') @ t)) = Some 60034"
  shows "fst ((seq [start_server (lit ''tcp'') 4567, setup_tester (client_args ''tcp'' ''4567''),
          send_message (VStr (replicate n 97 @ lit t)), sleep 200]
     (bind get_stdout (\<lambda>stdout.
     seq [assert_that (any_line_is ''ERROR: too long message from server.'' stdout) m1]
     (bind (receive_message 5000) (\<lambda>message.
     assert_that (message = VStr (lit (''ERR FROM unknown IS too long message from server.'' @ crlf))) m2))))) w) = Ret ()"
  using plays_refusal [OF assms(1,2) _ client_refuses [OF assms(4)], of m1 m2] assms(3)
  by (fastforce simp: plain_line_def any_line_is_def lit_def newline_def carriage_return_def ord_def)

lemma eom_at: "CHR 0x0A \<notin> set b \<Longrightarrow> CHR 0x0D \<notin> set b \<Longrightarrow> find_eom (b @ crlf) = Some (length b)"
  using find_eom_line [of b "[]"] by simp

lemma plays_tcp_too_long:
  assumes "tcp_lab resolves w"
  shows "fst (tcp_too_long_server_msg w) = Ret ()" "fst (tcp_too_long_server_msg_plus_one w) = Ret ()"
    "fst (tcp_too_long_server_msg_plus_one_without_end w) = Ret ()"
proof -
  have ascii: "list_all (\<lambda>c. 0 < ord c \<and> ord c < 128) crlf" by (simp add: crlf_def ord_def)
  have "find_eom (take 60036 (replicate 60034 (CHR ''a'') @ crlf)) = Some 60034"
    using eom_at [of "replicate 60034 (CHR ''a'')"] by (simp add: crlf_def)
  then show "fst (tcp_too_long_server_msg w) = Ret ()"
    unfolding tcp_too_long_server_msg_def by (intro plays_too_long [OF assms ascii]) (simp_all add: crlf_def)
  have "find_eom (take 60036 (replicate 60035 (CHR ''a'') @ crlf)) = None"
    by (rule no_line_feed) (simp add: crlf_def)
  then show "fst (tcp_too_long_server_msg_plus_one w) = Ret ()"
    unfolding tcp_too_long_server_msg_plus_one_def by (intro plays_too_long [OF assms ascii]) (simp_all add: crlf_def)
  have "find_eom (take 60036 (replicate 60036 (CHR ''a'') @ [])) = None"
    by (rule no_line_feed) simp
  then show "fst (tcp_too_long_server_msg_plus_one_without_end w) = Ret ()"
    using plays_too_long [OF assms, of "[]" 60036] unfolding tcp_too_long_server_msg_plus_one_without_end_def by simp
qed

text \<open>One octet less: the message is within the limit, and refused for its type.\<close>

lemma plays_tcp_at_limit:
  assumes "tcp_lab resolves w"
  shows "fst (tcp_too_long_msg_minus_one w) = Ret ()"
proof -
  let ?a = "replicate 60033 (CHR ''a'')"
  let ?e = "''only messages of types BYE, ERR, MSG and REPLY are expected to be received from the server.''"
  have "take 5 (?a @ crlf) = replicate 5 (CHR ''a'')" by simp
  also have "\<dots> = ''aaaaa''" by (simp add: numeral_eq_Suc)
  finally have "getServerMsgType (?a @ crlf) = M_UNKNOWN"
    by (simp add: getServerMsgType_def to_upper_table crlf_def)
  then have "tcp_processSocketEvent 0 (take (s_MAX_MSG_SIZE + 1) (?a @ crlf)) (Client tcp_args\<lparr>emitted := []\<rparr>)
      = sendErrMsgAndTerminate ?e (with_buffer (?a @ crlf) (Client tcp_args\<lparr>emitted := []\<rparr>))"
    using unknown_event [of "Client tcp_args\<lparr>emitted := []\<rparr>" ?a] new_client(1) by (simp add: max_msg_size crlf_def)
  then have "\<exists>s'. chat_handle (EvStream (?a @ crlf)) (Client tcp_args) = (s', [SendStream (''ERR FROM unknown IS '' @ ?e @ crlf),
      WriteOut (''ERROR: '' @ ?e @ [newline]), Exit 1])"
    using refused_stream [OF new_client(2), of "?a @ crlf" ?e] by (simp add: new_client(3) crlf_def)
  moreover have "plain_line ?e" "length ?e \<le> 900" "any_line_is (''ERROR: '' @ ?e) (lit (''ERROR: '' @ ?e @ [newline]))"
    "list_all (\<lambda>c. 0 < ord c \<and> ord c < 128) crlf" "?a @ crlf \<noteq> []"
    by (simp_all add: plain_line_def any_line_is_def lit_def newline_def carriage_return_def ord_def crlf_def)
  ultimately show ?thesis
    using plays_refusal [OF assms, of crlf 60033 ?e] unfolding tcp_too_long_msg_minus_one_def append.simps by blast
qed

end
