(* ===== verification/Testo_Tcp_Verdicts.thy ===== *)
theory Testo_Tcp_Verdicts
  imports Evaluation Tcp_Limits
begin

text \<open>
  The verdicts of the TCP test cases of \<open>testo.py\<close> on the client: the exchanges of \<open>Tcp_Loop\<close>, the size
  limits of \<open>Tcp_Limits\<close>, and the evaluation of the others.
\<close>

text \<open>The handshake, the exchanges and the size limits.\<close>

lemma tcp_exchange_verdicts:
  assumes "resolves ''localhost''"
  shows "list_all (\<lambda>f. alone (ipk25chat resolves) f = Ret ()) [tcp_auth_ok_again, tcp_auth, tcp_msg, tcp_svr_msg, tcp_sigint,
    tcp_server_bye, tcp_rename_multiple, tcp_send_receive_multiple, tcp_multiple_messages_single_segment,
    tcp_single_message_multiple_segments, tcp_receive_two_messages_within_3_segments, tcp_too_long_msg_minus_one,
    tcp_too_long_server_msg, tcp_too_long_server_msg_plus_one, tcp_too_long_server_msg_plus_one_without_end]"
proof -
  note lab = fresh_labs(2) [of resolves, OF assms]
  obtain h where "tcp_auth_and_reply (fresh resolves) = (Ret (), h)" by (rule tcp_handshake [OF lab])
  then show ?thesis
    by (simp add: alone_fresh tcp_auth_ok_again_def tcp_plays [OF lab] plays_tcp_too_long [OF lab] plays_tcp_at_limit [OF lab])
qed

text \<open>The others.\<close>

lemma tcp_input_verdicts:
  assumes "resolves ''localhost''"
  shows "alone (ipk25chat resolves) tcp_rename = Ret ()"
    "alone (ipk25chat resolves) tcp_help_command = Ret ()"
    "alone (ipk25chat resolves) tcp_bye = Ret ()"
  unfolding tcp_rename_def tcp_help_command_def tcp_bye_def seq.simps
  by (rule tcp_opened [of resolves, OF assms]; code_simp)+

lemma tcp_segment_verdicts:
  assumes "resolves ''localhost''"
  shows "alone (ipk25chat resolves) tcp_single_message_multiple_segments2 = Ret ()"
    "alone (ipk25chat resolves) tcp_server_err2 = Ret ()"
  unfolding tcp_single_message_multiple_segments2_def tcp_server_err2_def seq.simps
  by (rule tcp_opened [of resolves, OF assms]; code_simp)+

lemma tcp_join_verdicts:
  assumes "resolves ''localhost''"
  shows "alone (ipk25chat resolves) tcp_join_ok = Ret ()"
    "alone (ipk25chat resolves) tcp_join_nok = Ret ()"
    "alone (ipk25chat resolves) tcp_multiple_auth = Ret ()"
  unfolding tcp_join_ok_def tcp_join_nok_def tcp_multiple_auth_def seq.simps
  by (rule tcp_opened [of resolves, OF assms]; code_simp)+

lemma tcp_error_verdicts:
  assumes "resolves ''localhost''"
  shows "alone (ipk25chat resolves) tcp_invalid_msg = Ret ()"
  unfolding tcp_invalid_msg_def seq.simps
  by (rule tcp_opened [of resolves, OF assms]; code_simp)+

lemma tcp_early_verdicts:
  assumes "resolves ''localhost''"
  shows "alone (ipk25chat resolves) tcp_sigint_and_bye = Ret ()"
    "alone (ipk25chat resolves) tcp_bye_in_auth = Ret ()"
    "alone (ipk25chat resolves) tcp_hello = Ret ()"
    "alone (ipk25chat resolves) tcp_not_auth = Ret ()"
    "alone (ipk25chat resolves) tcp_invalid_command = Ret ()"
  unfolding tcp_sigint_and_bye_def tcp_bye_in_auth_def tcp_hello_def tcp_not_auth_def tcp_invalid_command_def seq.simps
  by (rule tcp_started [of resolves, OF assms]; code_simp)+

lemma tcp_type_verdicts:
  assumes "resolves ''localhost''"
  shows "alone (ipk25chat resolves) tcp_invalid_message_type = Ret ()"
    "alone (ipk25chat resolves) tcp_unexpected_message_type = Ret ()"
  unfolding tcp_invalid_message_type_def tcp_unexpected_message_type_def seq.simps
  by (rule tcp_started [of resolves, OF assms]; code_simp)+

lemma tcp_auth_verdicts:
  assumes "resolves ''localhost''"
  shows "alone (ipk25chat resolves) tcp_auth_ok = Ret ()"
    "alone (ipk25chat resolves) tcp_auth_nok = Ret ()"
    "alone (ipk25chat resolves) tcp_auth_nok_ok = Ret ()"
    "alone (ipk25chat resolves) tcp_server_err1 = Ret ()"
  unfolding tcp_auth_ok_def tcp_auth_nok_def tcp_auth_nok_ok_def tcp_server_err1_def seq.simps
  by (rule tcp_asked [of resolves, OF assms]; code_simp)+

lemma tcp_refused_verdicts:
  assumes "resolves ''localhost''"
  shows "alone (ipk25chat resolves) tcp_auth_err = Ret ()"
    "alone (ipk25chat resolves) tcp_auth_reply_timeout = Ret ()"
    "alone (ipk25chat resolves) tcp_join_reply_timeout = Ret ()"
  unfolding tcp_auth_err_def tcp_auth_reply_timeout_def tcp_join_reply_timeout_def seq.simps
  by (rule tcp_asked [of resolves, OF assms]; code_simp)+

lemma tcp_delay_verdicts:
  assumes "resolves ''localhost''"
  shows "alone (ipk25chat resolves) tcp_auth_reply_delay = Ret ()"
    "alone (ipk25chat resolves) tcp_join_reply_delay = Ret ()"
  unfolding tcp_auth_reply_delay_def tcp_join_reply_delay_def seq.simps
  by (rule tcp_asked [of resolves, OF assms]; code_simp)+

lemma tcp_delay_verdicts2:
  assumes "resolves ''localhost''"
  shows "alone (ipk25chat resolves) tcp_all_good_after_auth_reply_delay = Ret ()"
    "alone (ipk25chat resolves) tcp_all_good_after_join_reply_delay = Ret ()"
  unfolding tcp_all_good_after_auth_reply_delay_def tcp_all_good_after_join_reply_delay_def seq.simps
  by (rule tcp_asked [of resolves, OF assms]; code_simp)+

lemma tcp_joining_verdicts:
  assumes "resolves ''localhost''"
  shows "alone (ipk25chat resolves) tcp_processing_server_messages_while_joining = Ret ()"
    "alone (ipk25chat resolves) tcp_grammar_is_case_insensitive = Ret ()"
  unfolding tcp_processing_server_messages_while_joining_def tcp_grammar_is_case_insensitive_def seq.simps
  by (rule tcp_asked [of resolves, OF assms]; code_simp)+

lemma tcp_port_verdicts:
  assumes "resolves ''localhost''"
  shows "alone (ipk25chat resolves) tcp_auth_port = Ret ()"
  unfolding tcp_auth_port_def seq.simps
  by (rule tcp_started_at [of resolves, OF assms]; code_simp)+

section \<open>All of them\<close>

lemma testo_tcp_outcomes:
  assumes "resolves ''localhost''"
  shows "outcomes (ipk25chat resolves) testo_tcp_cases = replicate 45 (Ret ())"
proof -
  note verdicts = tcp_input_verdicts [of resolves, OF assms] tcp_segment_verdicts [of resolves, OF assms]
    tcp_join_verdicts [of resolves, OF assms] tcp_error_verdicts [of resolves, OF assms]
    tcp_early_verdicts [of resolves, OF assms] tcp_type_verdicts [of resolves, OF assms]
    tcp_auth_verdicts [of resolves, OF assms] tcp_refused_verdicts [of resolves, OF assms]
    tcp_delay_verdicts [of resolves, OF assms] tcp_delay_verdicts2 [of resolves, OF assms]
    tcp_joining_verdicts [of resolves, OF assms] tcp_port_verdicts [of resolves, OF assms]
    tcp_exchange_verdicts [of resolves, OF assms]
  show ?thesis using tcp_exchange_verdicts [of resolves, OF assms]
    by (simp add: outcomes_def testo_tcp_cases_def verdicts numeral_eq_Suc)
qed

end
