(* ===== verification/Hobza_Verdicts.thy ===== *)
theory Hobza_Verdicts
  imports Evaluation
begin

text \<open>
  The verdicts of the test cases of \<open>hobza.py\<close> on the client, by evaluation.
\<close>

text \<open>The handshakes.\<close>

lemma hobza_exchange_verdicts:
  assumes "resolves ''localhost''"
  shows "alone (ipk25chat resolves) hobza_udp_auth_ok = Ret ()" "alone (ipk25chat resolves) hobza_tcp_auth_ok_again = Ret ()"
proof -
  note labs = fresh_labs [of resolves, OF assms]
  show "alone (ipk25chat resolves) hobza_udp_auth_ok = Ret ()"
    using hobza_handshake [OF labs(1)] by (elim exE) (simp add: alone_fresh hobza_udp_auth_ok_def)
  obtain h where "hobza_tcp_auth_and_reply (fresh resolves) = (Ret (), tcp_scene (fresh resolves) (tcp_rest tcp_joined [] h (clock (fresh resolves) + 600)))"
    by (rule tcp_handshakes [OF labs(2)])
  then show "alone (ipk25chat resolves) hobza_tcp_auth_ok_again = Ret ()" by (simp add: alone_fresh hobza_tcp_auth_ok_again_def)
qed

text \<open>The others.\<close>

lemma hobza_udp_open_verdicts:
  assumes "resolves ''localhost''"
  shows "alone (ipk25chat resolves) hobza_udp_msg = Ret ()"
    "alone (ipk25chat resolves) hobza_udp_svr_msg = Ret ()"
    "alone (ipk25chat resolves) hobza_udp_bye1 = Ret ()"
    "alone (ipk25chat resolves) hobza_udp_bye2 = Ret ()"
  unfolding hobza_udp_msg_def hobza_udp_svr_msg_def hobza_udp_bye1_def hobza_udp_bye2_def seq.simps
  by (rule udp_opened [of resolves, OF assms]; code_simp)+

lemma hobza_udp_join_verdicts:
  assumes "resolves ''localhost''"
  shows "alone (ipk25chat resolves) hobza_udp_join_ok = Ret ()"
    "alone (ipk25chat resolves) hobza_udp_join_nok = Ret ()"
    "alone (ipk25chat resolves) hobza_udp_multiple_auth = Ret ()"
  unfolding hobza_udp_join_ok_def hobza_udp_join_nok_def hobza_udp_multiple_auth_def seq.simps
  by (rule udp_opened [of resolves, OF assms]; code_simp)+

lemma hobza_udp_error_verdicts:
  assumes "resolves ''localhost''"
  shows "alone (ipk25chat resolves) hobza_udp_server_err2 = Ret ()"
    "alone (ipk25chat resolves) hobza_udp_invalid_msg = Ret ()"
  unfolding hobza_udp_server_err2_def hobza_udp_invalid_msg_def seq.simps
  by (rule udp_opened [of resolves, OF assms]; code_simp)+

lemma hobza_udp_auth_verdicts:
  assumes "resolves ''localhost''"
  shows "alone (ipk25chat resolves) hobza_udp_auth = Ret ()"
    "alone (ipk25chat resolves) hobza_udp_auth_nok = Ret ()"
    "alone (ipk25chat resolves) hobza_udp_auth_nok_ok = Ret ()"
  unfolding hobza_udp_auth_def hobza_udp_auth_nok_def hobza_udp_auth_nok_ok_def seq.simps
  by (rule udp_asked [of resolves, OF assms]; code_simp)+

lemma hobza_udp_refused_verdicts:
  assumes "resolves ''localhost''"
  shows "alone (ipk25chat resolves) hobza_udp_server_err1 = Ret ()"
    "alone (ipk25chat resolves) hobza_udp_auth_err = Ret ()"
  unfolding hobza_udp_server_err1_def hobza_udp_auth_err_def seq.simps
  by (rule udp_asked [of resolves, OF assms]; code_simp)+

lemma hobza_udp_early_verdicts:
  assumes "resolves ''localhost''"
  shows "alone (ipk25chat resolves) hobza_udp_not_auth = Ret ()"
  unfolding hobza_udp_not_auth_def seq.simps
  by (rule udp_started [of resolves, OF assms]; code_simp)+

lemma hobza_tcp_open_verdicts:
  assumes "resolves ''localhost''"
  shows "alone (ipk25chat resolves) hobza_tcp_msg = Ret ()"
    "alone (ipk25chat resolves) hobza_tcp_svr_msg = Ret ()"
    "alone (ipk25chat resolves) hobza_tcp_bye = Ret ()"
    "alone (ipk25chat resolves) hobza_tcp_server_err2 = Ret ()"
  unfolding hobza_tcp_msg_def hobza_tcp_svr_msg_def hobza_tcp_bye_def hobza_tcp_server_err2_def seq.simps
  by (rule tcp_opened [of resolves, OF assms]; code_simp)+

lemma hobza_tcp_join_verdicts:
  assumes "resolves ''localhost''"
  shows "alone (ipk25chat resolves) hobza_tcp_join_ok = Ret ()"
    "alone (ipk25chat resolves) hobza_tcp_join_nok = Ret ()"
    "alone (ipk25chat resolves) hobza_tcp_multiple_auth = Ret ()"
  unfolding hobza_tcp_join_ok_def hobza_tcp_join_nok_def hobza_tcp_multiple_auth_def seq.simps
  by (rule tcp_opened [of resolves, OF assms]; code_simp)+

lemma hobza_tcp_error_verdicts:
  assumes "resolves ''localhost''"
  shows "alone (ipk25chat resolves) hobza_tcp_invalid_msg = Ret ()"
  unfolding hobza_tcp_invalid_msg_def seq.simps
  by (rule tcp_opened [of resolves, OF assms]; code_simp)+

lemma hobza_tcp_early_verdicts:
  assumes "resolves ''localhost''"
  shows "alone (ipk25chat resolves) hobza_tcp_hello = Ret ()"
    "alone (ipk25chat resolves) hobza_tcp_not_auth = Ret ()"
    "alone (ipk25chat resolves) hobza_tcp_invalid_command = Ret ()"
  unfolding hobza_tcp_hello_def hobza_tcp_not_auth_def hobza_tcp_invalid_command_def seq.simps
  by (rule tcp_started [of resolves, OF assms]; code_simp)+

lemma hobza_tcp_auth_verdicts:
  assumes "resolves ''localhost''"
  shows "alone (ipk25chat resolves) hobza_tcp_auth = Ret ()"
    "alone (ipk25chat resolves) hobza_tcp_auth_ok = Ret ()"
    "alone (ipk25chat resolves) hobza_tcp_auth_nok = Ret ()"
  unfolding hobza_tcp_auth_def hobza_tcp_auth_ok_def hobza_tcp_auth_nok_def seq.simps
  by (rule tcp_asked [of resolves, OF assms]; code_simp)+

lemma hobza_tcp_auth_verdicts2:
  assumes "resolves ''localhost''"
  shows "alone (ipk25chat resolves) hobza_tcp_auth_nok_ok = Ret ()"
    "alone (ipk25chat resolves) hobza_tcp_server_err1 = Ret ()"
    "alone (ipk25chat resolves) hobza_tcp_auth_err = Ret ()"
  unfolding hobza_tcp_auth_nok_ok_def hobza_tcp_server_err1_def hobza_tcp_auth_err_def seq.simps
  by (rule tcp_asked [of resolves, OF assms]; code_simp)+

lemma hobza_udp_unserved_verdicts:
  assumes "resolves ''localhost''"
  shows "alone (ipk25chat resolves) hobza_udp_hello = Ret ()"
    "alone (ipk25chat resolves) hobza_udp_invalid_command = Ret ()"
  unfolding hobza_udp_hello_def hobza_udp_invalid_command_def seq.simps
  by (rule udp_unserved [of resolves, OF assms]; code_simp)+

lemma hobza_udp_port_verdicts:
  assumes "resolves ''localhost''"
  shows "alone (ipk25chat resolves) hobza_udp_auth_port = Ret ()"
  unfolding hobza_udp_auth_port_def seq.simps
  by (rule udp_started_at [of resolves, OF assms]; code_simp)+

lemma hobza_udp_moved_verdicts:
  assumes "resolves ''localhost''"
  shows "alone (ipk25chat resolves) hobza_udp_auth_port_change = Ret ()"
  unfolding hobza_udp_auth_port_change_def seq.simps
  by (rule udp_moved [of resolves, OF assms]; code_simp)+

lemma hobza_tcp_port_verdicts:
  assumes "resolves ''localhost''"
  shows "alone (ipk25chat resolves) hobza_tcp_auth_port = Ret ()"
  unfolding hobza_tcp_auth_port_def seq.simps
  by (rule tcp_started_at [of resolves, OF assms]; code_simp)+

section \<open>All of them\<close>

lemma hobza_udp_outcomes:
  assumes "resolves ''localhost''"
  shows "outcomes (ipk25chat resolves) hobza_udp_cases = replicate 20 (Ret ())"
proof -
  note verdicts = hobza_udp_open_verdicts [of resolves, OF assms] hobza_udp_join_verdicts [of resolves, OF assms]
    hobza_udp_error_verdicts [of resolves, OF assms] hobza_udp_auth_verdicts [of resolves, OF assms]
    hobza_udp_refused_verdicts [of resolves, OF assms] hobza_udp_early_verdicts [of resolves, OF
    assms] hobza_udp_unserved_verdicts [of resolves, OF assms] hobza_udp_port_verdicts [of resolves,
    OF assms] hobza_udp_moved_verdicts [of resolves, OF assms] hobza_exchange_verdicts [of resolves,
    OF assms]
  show ?thesis using hobza_exchange_verdicts [of resolves, OF assms]
    by (simp add: outcomes_def hobza_udp_cases_def verdicts numeral_eq_Suc)
qed

lemma hobza_tcp_outcomes:
  assumes "resolves ''localhost''"
  shows "outcomes (ipk25chat resolves) hobza_tcp_cases = replicate 19 (Ret ())"
proof -
  note verdicts = hobza_tcp_open_verdicts [of resolves, OF assms] hobza_tcp_join_verdicts [of resolves, OF assms]
    hobza_tcp_error_verdicts [of resolves, OF assms] hobza_tcp_early_verdicts [of resolves, OF
    assms] hobza_tcp_auth_verdicts [of resolves, OF assms] hobza_tcp_auth_verdicts2 [of resolves, OF
    assms] hobza_tcp_port_verdicts [of resolves, OF assms] hobza_exchange_verdicts [of resolves, OF
    assms]
  show ?thesis using hobza_exchange_verdicts [of resolves, OF assms]
    by (simp add: outcomes_def hobza_tcp_cases_def verdicts numeral_eq_Suc)
qed

end
