(* ===== verification/Suite_Runs.thy ===== *)
theory Suite_Runs
  imports Testo_Udp_Verdicts Testo_Tcp_Verdicts Hobza_Verdicts
begin

text \<open>
  The two suites run against the client: every registered test case of \<open>testo.py\<close> and \<open>hobza.py\<close>
  passes on the model of the C++ program. The verdict of each test case on its own comes from the
  theories of verdicts, that a run consists of them from \<open>Independence\<close>.
\<close>

definition all_passed :: "nat \<Rightarrow> pystr" where
  "all_passed n = [10, 0x2705] @ lit '' '' @ str_of_int (int n) @ lit ''/'' @ str_of_int (int n) @ lit '' test cases passed''"

lemma summary_all_passed: "summary (replicate n True) u = print_coloured ''green'' (all_passed n) u"
proof -
  have "list_all id (replicate n True)" by (simp add: list_all_iff)
  moreover have "count_list (replicate n True) True = n" by (induction n) auto
  ultimately show ?thesis by (simp add: summary_def all_passed_def)
qed

lemma run_all_passed:
  assumes "if Hang \<in> set (replicate n (Ret ())) then fst r = Hang
    else \<exists>u. r = summary (map (\<lambda>x. x = Ret ()) (replicate n (Ret ()))) u"
  shows "fst r = Ret () \<and> last (console (snd r)) = (all_passed n, ''green'')"
proof -
  obtain u where "r = summary (replicate n True) u" using assms by (auto split: if_splits)
  then show ?thesis by (simp add: summary_all_passed print_coloured_def modify_def)
qed

lemma client_outcomes:
  assumes "resolves ''localhost''"
  shows "outcomes (ipk25chat resolves) ((if udp then testo_udp_cases else []) @ (if tcp then testo_tcp_cases else []))
      = replicate ((if udp then 31 else 0) + (if tcp then 45 else 0)) (Ret ())"
    "outcomes (ipk25chat resolves) ((if udp then hobza_udp_cases else []) @ (if tcp then hobza_tcp_cases else []))
      = replicate ((if udp then 20 else 0) + (if tcp then 19 else 0)) (Ret ())"
proof -
  have append: "outcomes prog (fs @ gs) = outcomes prog fs @ outcomes prog gs" for prog :: "client program" and fs gs
    by (simp add: outcomes_def)
  note each = testo_udp_outcomes [of resolves] testo_tcp_outcomes [of resolves]
    hobza_udp_outcomes [of resolves] hobza_tcp_outcomes [of resolves]
  show "outcomes (ipk25chat resolves) ((if udp then testo_udp_cases else []) @ (if tcp then testo_tcp_cases else []))
      = replicate ((if udp then 31 else 0) + (if tcp then 45 else 0)) (Ret ())"
    "outcomes (ipk25chat resolves) ((if udp then hobza_udp_cases else []) @ (if tcp then hobza_tcp_cases else []))
      = replicate ((if udp then 20 else 0) + (if tcp then 19 else 0)) (Ret ())"
    by (cases udp; cases tcp; simp only: append each assms replicate_add if_True if_False outcomes_simps
        append_Nil append_Nil2 replicate_0)+
qed

text \<open>
  C2. The client passes its test suites. On a terminal, with no socket bound, and with a resolver that knows
  \<open>localhost\<close>, a run of \<open>testo.py\<close> (31 UDP and 45 TCP test cases) and a run of \<open>hobza.py\<close> (20 and 19) on the
  model of the C++ client return, whichever protocols are chosen, and end with the green line that says that
  all of the chosen test cases passed.
\<close>

theorem client_passes_suites:
  assumes "columns w = Some cols" "udp_sockets w = []" "tcp_listening w = []"
    and "executable w path = ipk25chat resolves" "resolves ''localhost''"
  shows "(let r = run_tests (load dump testo_functions) path udp tcp None w
      in fst r = Ret () \<and> last (console (snd r)) = (all_passed ((if udp then 31 else 0) + (if tcp then 45 else 0)), ''green''))
    \<and> (let r = run_tests (load hobza_dump hobza_functions) path udp tcp None w
      in fst r = Ret () \<and> last (console (snd r)) = (all_passed ((if udp then 20 else 0) + (if tcp then 19 else 0)), ''green''))"
proof -
  note os = client_outcomes [of resolves, OF assms(5)]
  show ?thesis
    unfolding Let_def testo_functions_def hobza_functions_def
    using testo_alone.run_alone [OF assms(1-3) refl, of path udp tcp, unfolded assms(4) os(1) map_replicate]
      hobza_alone.run_alone [OF assms(1-3) refl, of path udp tcp, unfolded assms(4) os(2) map_replicate]
    by (intro conjI run_all_passed [THEN conjunct1] run_all_passed [THEN conjunct2]; simp only: map_replicate)
qed

theorem client_passes_suites_witness:
  "let r = run_tests (load dump testo_functions) (lit ''./ipk25chat-client'') True True None
       (initial_world (ipk25chat (\<lambda>host. host = ''localhost'')) (Some 80))
   in fst r = Ret () \<and> last (console (snd r)) = ([10, 0x2705] @ lit '' 76/76 test cases passed'', ''green'')"
proof -
  have "all_passed 76 = [10, 0x2705] @ lit '' 76/76 test cases passed''" by code_simp
  then show ?thesis
    using client_passes_suites [of "initial_world (ipk25chat (\<lambda>host. host = ''localhost'')) (Some 80)" 80
        "lit ''./ipk25chat-client''" "\<lambda>host. host = ''localhost''" True True]
    by (simp add: initial_world_def Let_def)
qed

end
