(* ===== verification/Rejection.thy ===== *)
theory Rejection
  imports Adequacy Independence
begin

text \<open>
  What the suites reject, for every client. A client that never authenticates, that is, never sends the
  datagram of ``/auth a b c'' and withholds some octet of the corresponding line from its TCP stream, may do
  whatever else it likes and print whatever it likes: it can pass only the few test cases that do not
  ask for the authentication. The proof shows that with such a client no method of the tester can obtain
  the message, and that a test case that asks for it cannot return.
\<close>

section \<open>Code that cannot return\<close>

definition fails :: "('c world \<Rightarrow> bool) \<Rightarrow> ('c, 'a) T \<Rightarrow> bool" where
  "fails P m \<longleftrightarrow> (\<forall>w x. P w \<longrightarrow> fst (m w) \<noteq> Ret x)"

definition gives :: "('c world \<Rightarrow> bool) \<Rightarrow> ('c, 'a) T \<Rightarrow> ('a \<Rightarrow> bool) \<Rightarrow> bool" where
  "gives P m V \<longleftrightarrow> (\<forall>w x. P w \<longrightarrow> fst (m w) = Ret x \<longrightarrow> V x \<and> P (snd (m w)))"

lemma fails_bind:
  assumes "gives P m V" "\<And>x. V x \<Longrightarrow> fails P (f x)"
  shows "fails P (bind m f)"
  using assms by (fastforce simp: fails_def gives_def bind_def split: prod.splits outcome.splits)

lemma fails_first: "fails P m \<Longrightarrow> fails P (bind m f)"
  by (auto simp: fails_def bind_def split: prod.splits outcome.splits)

lemma fails_false: "\<not> b \<Longrightarrow> fails P (assert_that b m)"
  by (simp add: fails_def throw_def)

lemma gives_holds: "holds False P m P \<Longrightarrow> gives P m (\<lambda>_. True)"
  by (simp add: gives_def holds_def)

lemma gives_lift: "gives P (lift r) (\<lambda>x. r = Inr x)"
  by (cases r) (simp_all add: gives_def throw_def ret_def)

section \<open>Clients that never authenticate\<close>

definition withholds :: "char \<Rightarrow> action \<Rightarrow> bool" where
  "withholds x a \<longleftrightarrow> (case a of SendTo _ d \<Rightarrow> \<not> expected_auth d | SendStream b \<Rightarrow> x \<notin> set b | _ \<Rightarrow> True)"

definition never_authenticates :: "char \<Rightarrow> 'c program \<Rightarrow> bool" where
  "never_authenticates x prog \<longleftrightarrow> x \<in> set (''AUTH a AS c USING b'' @ crlf)
     \<and> (\<forall>args l. list_all (withholds x) (snd (p_boot prog args l)))
     \<and> (\<forall>ev c. list_all (withholds x) (snd (p_handle prog ev c)))"

text \<open>The worlds such a client can bring about.\<close>

definition unheard :: "char \<Rightarrow> 'c program \<Rightarrow> 'c world \<Rightarrow> bool" where
  "unheard x prog w \<longleftrightarrow> executable w = (\<lambda>_. prog)
     \<and> (\<forall>p q s d. (p, q) \<in> set (udp_sockets w) \<longrightarrow> (s, d) \<in> set q \<longrightarrow> \<not> expected_auth d)
     \<and> (\<forall>c. connection_socket w = Some c \<longrightarrow> x \<notin> set (c_unread c))"

lemma unheard_update [simp]:
  "unheard x prog (w\<lparr>server_socket := a\<rparr>) = unheard x prog w"
  "unheard x prog (w\<lparr>client_address := b\<rparr>) = unheard x prog w"
  "unheard x prog (w\<lparr>send_confirm := c\<rparr>) = unheard x prog w"
  "unheard x prog (w\<lparr>history := d\<rparr>) = unheard x prog w"
  "unheard x prog (w\<lparr>return_code := e\<rparr>) = unheard x prog w"
  "unheard x prog (w\<lparr>stdout_queue := h\<rparr>) = unheard x prog w"
  "unheard x prog (w\<lparr>stderr_queue := i\<rparr>) = unheard x prog w"
  "unheard x prog (w\<lparr>process := j\<rparr>) = unheard x prog w"
  "unheard x prog (w\<lparr>clock := k\<rparr>) = unheard x prog w"
  "unheard x prog (w\<lparr>tcp_listening := l\<rparr>) = unheard x prog w"
  by (simp_all add: unheard_def)

lemma unheard_action:
  assumes "unheard x prog w" "withholds x a"
  shows "unheard x prog (apply_action a w)"
  using assms
  by (cases a) (auto simp: unheard_def withholds_def enqueue_def with_proc_def accept_connection_def
      split: option.splits prod.splits if_splits)

lemma unheard_invariant:
  assumes "never_authenticates x prog"
  shows "child_invariant (unheard x prog) (withholds x)"
proof
  show "list_all (withholds x) (snd (p_handle (executable w (executable_path w)) ev c))"
    if "unheard x prog w" for w ev c
    using that assms by (simp add: unheard_def never_authenticates_def)
qed (simp_all add: unheard_action)

lemma unheard_conn:
  assumes "unheard x prog w" "connection_socket w = Some c" "set (c_unread c') \<subseteq> set (c_unread c)"
  shows "unheard x prog (w\<lparr>connection_socket := Some c'\<rparr>)"
  using assms by (auto simp: unheard_def)

lemma unheard_close: "unheard x prog w \<Longrightarrow> unheard x prog (close_sock s w)"
  by (auto simp: close_sock_def unheard_def split: sock.splits)

lemma unheard_torn_down: "unheard x prog w \<Longrightarrow> unheard x prog (torn_down w)"
proof -
  have gone: "unheard x prog w \<Longrightarrow> unheard x prog (w\<lparr>server_socket := a, connection_socket := None\<rparr>)"
    for w :: "'a world" and a by (simp add: unheard_def)
  assume w: "unheard x prog w"
  have "unheard x prog (terminate_process p w)" for p
    using w unheard_action [OF w, of "Exit (-15)"]
    by (simp add: terminate_process_def withholds_def del: apply_action.simps split: option.splits)
  with w show ?thesis
    by (auto simp: torn_down_def Let_def intro!: gone unheard_close split: option.splits)
qed

lemma unheard_sendall:
  assumes "child_invariant (unheard x prog) good" "unheard x prog w"
  shows "unheard x prog (snd (tcp_sendall b w))"
  using assms
  by (auto simp: tcp_sendall_def intro: child_invariant.inv_deliver unheard_conn split: option.splits)

section \<open>What such a client lets the tester receive\<close>

lemma unheard_tcp_recv:
  assumes inv: "child_invariant (unheard x prog) good"
  shows "unheard x prog w \<Longrightarrow> unheard x prog (snd (tcp_recv n w)) \<and> (\<forall>d. fst (tcp_recv n w) = Ret d \<longrightarrow> x \<notin> set d)"
proof (induction n arbitrary: w)
  case 0
  then show ?case
    by (auto simp: tcp_recv.simps [of 0] unheard_def dest: in_set_takeD in_set_dropD split: option.splits)
next
  case (Suc n)
  have "unheard x prog (wake t w)" for t by (rule child_invariant.inv_wake [OF inv Suc.prems])
  with Suc show ?case
    by (auto simp: tcp_recv.simps [of "Suc n"] unheard_def [of x prog w] dest: in_set_takeD
        intro!: unheard_conn [OF Suc.prems] split: option.splits)
      (auto dest: in_set_dropD)
qed

lemma unheard_recvfrom:
  assumes inv: "child_invariant (unheard x prog) good"
  shows "unheard x prog w \<Longrightarrow> unheard x prog (snd (udp_recvfrom p deadline w))
    \<and> (\<forall>m a. fst (udp_recvfrom p deadline w) = Ret (m, a) \<longrightarrow> \<not> expected_auth m)"
proof (induction p deadline w rule: udp_recvfrom.induct)
  case (1 p deadline w)
  show ?case
  proof (cases "udp_queue p w")
    case Nil
    with "1" child_invariant.inv_wake [OF inv "1.prems"] show ?thesis
      by (auto simp: udp_recvfrom.simps [of p deadline w] split: option.splits)
  next
    case (Cons sd q)
    obtain src d where sd: "sd = (src, d)" by fastforce
    have mem: "(p, sd # q) \<in> set (udp_sockets w)"
      using Cons by (auto simp: udp_queue_def split: option.splits dest: map_of_SomeD)
    with "1.prems" have all: "\<not> expected_auth d'" if "(s', d') \<in> set (sd # q)" for s' d'
      using that unfolding unheard_def by blast
    moreover have "expected_auth d" if "expected_auth (take 1024 d)"
      using that append_take_drop_id [of 1024 d] by (metis append_Cons append_assoc auth_form_def)
    moreover have "unheard x prog (set_udp_queue p q w)"
      using "1.prems" all by (fastforce simp: unheard_def set_udp_queue_def split: if_splits)
    ultimately show ?thesis using Cons sd by (auto simp: udp_recvfrom.simps [of p deadline w])
  qed
qed

text \<open>Octets below 128 of a decoded text come from the same octets of its encoding.\<close>

lemma decode_withheld: "decode b = Inr s \<Longrightarrow> ord x < 0x80 \<Longrightarrow> x \<notin> set b \<Longrightarrow> ord x \<notin> set s"
proof -
  assume *: "decode b = Inr s" "ord x < 0x80" "x \<notin> set b"
  have "utf8_char (ord x) = [x]" using *(2) by (simp add: utf8_char_def)
  with * show "ord x \<notin> set s" using decode_canonical [OF *(1)] by force
qed

lemma unheard_send:
  assumes "child_invariant (unheard x prog) good" "unheard x prog w"
  shows "unheard x prog (snd (send_message v w))"
proof -
  have "unheard x prog (snd (bind (lift r) tcp_sendall w))" for r
    using unheard_sendall [OF assms] assms(2) by (cases r) (simp_all add: throw_def)
  with assms child_invariant.inv_udp_sendto [OF assms] show ?thesis
    by (auto simp: send_message_def split: option.splits pyval.splits sock.splits)
qed

lemma unheard_confirm:
  assumes "child_invariant (unheard x prog) good" "unheard x prog w"
  shows "unheard x prog (snd (confirm_message v w))"
  using unheard_send [OF assms] assms(2)
  by (cases v) (simp_all add: confirm_message_def message_id_of_def throw_def)

definition without_auth :: "char \<Rightarrow> pyval \<Rightarrow> bool" where
  "without_auth x v \<longleftrightarrow> (case v of VNone \<Rightarrow> True | VStr s \<Rightarrow> ord x \<notin> set s | VBytes m \<Rightarrow> \<not> expected_auth m)"

lemma unheard_datagram:
  assumes inv: "child_invariant (unheard x prog) good" and w: "unheard x prog w"
  shows "unheard x prog (snd (receive_datagram confirms p t w))
    \<and> (\<forall>v. fst (receive_datagram confirms p t w) = Ret v \<longrightarrow> without_auth x v)"
proof -
  obtain r w1 where r: "udp_recvfrom p (clock w + t) w = (r, w1)" by fastforce
  from unheard_recvfrom [OF inv w, of p "clock w + t"] r
  have w1: "unheard x prog w1" "\<And>m a. r = Ret (m, a) \<Longrightarrow> \<not> expected_auth m" by auto
  let ?k = "\<lambda>m. bind (lift (index m 0)) (\<lambda>first. seq (if ord first \<noteq> 0 \<and> confirms
      then [confirm_message (VBytes m)] else []) (ret (VBytes m)))"
  have "unheard x prog (snd (?k m (w1\<lparr>client_address := a\<rparr>)))
      \<and> (\<forall>v. fst (?k m (w1\<lparr>client_address := a\<rparr>)) = Ret v \<longrightarrow> v = VBytes m)" for m a
    using unheard_confirm [OF inv, of "w1\<lparr>client_address := a\<rparr>" "VBytes m"] w1(1)
    by (cases "index m 0") (auto simp: throw_def ret_def bind_def split: prod.splits outcome.splits)
  with r w1 show ?thesis
    by (fastforce simp: receive_datagram_def without_auth_def split: outcome.splits pyexc.splits)
qed

lemma unheard_receive:
  assumes inv: "child_invariant (unheard x prog) good" and w: "unheard x prog w" and x: "ord x < 0x80"
  shows "unheard x prog (snd (receive_with confirms t w))
    \<and> (\<forall>v. fst (receive_with confirms t w) = Ret v \<longrightarrow> without_auth x v)"
proof -
  obtain r w1 where r: "tcp_recv recv_rounds w = (r, w1)" by fastforce
  from unheard_tcp_recv [OF inv w, of recv_rounds] r
  have "unheard x prog w1" "\<And>d. r = Ret d \<Longrightarrow> x \<notin> set d" by auto
  then have "unheard x prog (snd (bind (tcp_recv recv_rounds) (\<lambda>d. bind (lift (decode d)) (\<lambda>t. ret (VStr t))) w))
    \<and> (\<forall>v. fst (bind (tcp_recv recv_rounds) (\<lambda>d. bind (lift (decode d)) (\<lambda>t. ret (VStr t))) w) = Ret v \<longrightarrow> without_auth x v)"
    using r decode_withheld [OF _ x]
    by (auto simp: bind_def [of "tcp_recv recv_rounds"] lift_def ret_def throw_def without_auth_def
        split: outcome.splits sum.splits)
  with unheard_datagram [OF inv w] w show ?thesis
    by (auto simp: receive_with_def without_auth_def [of x VNone] split: option.splits sock.splits)
qed

section \<open>The methods of the tester keep such worlds\<close>

lemma unheard_start: "holds False (unheard x prog) (start_server protocol port) (unheard x prog)"
proof -
  have "holds False (unheard x prog) (modify fresh_socket) (unheard x prog)"
    by (rule holds_modify) (auto simp: fresh_socket_def intro: unheard_close split: option.splits sock.splits)
  moreover have "holds False (unheard x prog) (tcp_listen port) (unheard x prog)"
    "holds False (unheard x prog) (udp_bind port) (unheard x prog)"
    by (auto simp: holds_def tcp_listen_def udp_bind_def unheard_def)
  moreover have "holds False (unheard x prog) (modify (\<lambda>w. w\<lparr>server_socket := s\<rparr>)) (unheard x prog)" for s
    by (rule holds_modify) simp
  ultimately show ?thesis
    by (auto simp: start_server_def intro!: holds_bind [where R = "unheard x prog"] holds_ret)
qed

lemma unheard_setup:
  assumes "never_authenticates x prog" "unheard x prog w"
  shows "unheard x prog (snd (setup_tester args w))"
proof -
  note inv = unheard_invariant [OF assms(1)]
  have "unheard x prog (popen args u)" if "unheard x prog u" for u
    using that assms(1)
    by (simp add: popen_def case_prod_unfold child_invariant.inv_actions [OF inv] never_authenticates_def unheard_def [of x prog u])
  then have "unheard x prog (launched args w)"
    using assms(2) by (simp add: launched_def unheard_torn_down)
  then show ?thesis by (simp add: setup_eq child_invariant.inv_advance [OF inv])
qed

lemma unheard_own_socket:
  assumes "holds False (unheard x prog) body (unheard x prog)"
  shows "holds False (unheard x prog) (with_udp_socket port body) (unheard x prog)"
proof -
  have "holds False (unheard x prog) (udp_bind port) (unheard x prog)"
    by (auto simp: holds_def udp_bind_def unheard_def)
  moreover have "holds False (unheard x prog) (\<lambda>w. case body w of (r, w') \<Rightarrow> (r, close_sock s w')) (unheard x prog)" for s
    using assms by (auto simp: holds_def case_prod_unfold intro: unheard_close)
  ultimately show ?thesis
    unfolding with_udp_socket_def by (rule holds_bind)
qed

lemma unheard_execute:
  assumes inv: "child_invariant (unheard x prog) good"
  shows "holds False (unheard x prog) (execute line) (unheard x prog)"
proof -
  have "holds False (unheard x prog) (stdin_write t) (unheard x prog)" for t
    by (auto simp: holds_def stdin_write_def intro!: child_invariant.inv_poll_stdin [OF inv] split: option.splits sum.splits)
  moreover have "holds False (unheard x prog) (sleep ms) (unheard x prog)" for ms
    by (simp add: holds_def child_invariant.inv_sleep [OF inv])
  moreover have "holds False (unheard x prog) (modify (\<lambda>w. w\<lparr>history := h w\<rparr>)) (unheard x prog)" for h
    by (rule holds_modify) simp
  ultimately show ?thesis
    unfolding execute_def seq.simps by (intro holds_bind [where R = "unheard x prog"])
qed

lemma withheld_ascii:
  assumes "never_authenticates x prog"
  shows "ord x < 0x80"
proof -
  have "list_all (\<lambda>c. ord c < 0x80) (''AUTH a AS c USING b'' @ crlf)" by code_simp
  with assms show ?thesis by (auto simp: never_authenticates_def list_all_iff)
qed

theorem unheard_harness:
  assumes "never_authenticates x prog"
  shows "tcp_harness False (\<lambda>_ :: unit. unheard x prog) (\<lambda>_. unheard x prog)"
proof
  note inv = unheard_invariant [OF assms]
  note ascii = withheld_ascii [OF assms]
  show "holds False (unheard x prog) (setup_tester args) (unheard x prog)" for args
    by (simp add: holds_def unheard_setup [OF assms])
  show "holds False (unheard x prog) (execute line) (unheard x prog)" for line by (rule unheard_execute [OF inv])
  show "holds False (unheard x prog) send_eof (unheard x prog)"
    by (auto simp: holds_def send_eof_def stdin_close_def intro!: child_invariant.inv_deliver [OF inv] split: option.splits)
  show "holds False (unheard x prog) send_sigint (unheard x prog)"
    by (auto simp: holds_def send_sigint_def intro!: child_invariant.inv_deliver [OF inv] split: option.splits)
  show "holds False (unheard x prog) (sleep ms) (unheard x prog)" for ms
    by (simp add: holds_def child_invariant.inv_sleep [OF inv])
  show "holds False (unheard x prog) (send_message v) (unheard x prog)" for v
    by (simp add: holds_def unheard_send [OF inv])
  show "holds False (unheard x prog) (receive_with confirms t) (unheard x prog)" for confirms t
    by (simp add: holds_def unheard_receive [OF inv _ ascii])
  show "holds False (unheard x prog) (recvfrom_within p t) (unheard x prog)" for p t
    by (simp add: holds_def recvfrom_within_def unheard_recvfrom [OF inv])
  show "holds False (unheard x prog) (modify (udp_sendto p d a)) (unheard x prog)" for p d a
    by (simp add: holds_def modify_def child_invariant.inv_udp_sendto [OF inv])
qed (simp_all add: unheard_start unheard_own_socket, simp_all add: holds_def get_stdout_def get_stderr_def
    hobza_get_stderr_def setClientAddress_def modify_def Let_def)

section \<open>Asking for the authentication\<close>

lemma fails_after: "holds False P m P \<Longrightarrow> (\<And>x. fails P (f x)) \<Longrightarrow> fails P (bind m f)"
  by (rule fails_bind [OF gives_holds])

lemma methods_keep:
  assumes "never_authenticates x prog"
  shows "holds False (unheard x prog) (start_server protocol port) (unheard x prog)"
    "holds False (unheard x prog) (setup_tester args) (unheard x prog)"
    "holds False (unheard x prog) (execute line) (unheard x prog)"
    "holds False (unheard x prog) (modify (udp_sendto p d a)) (unheard x prog)"
  by (rule unheard_start, rule tcp_harness.axioms(1) [OF unheard_harness [OF assms], THEN udp_harness.op_setup],
      rule tcp_harness.axioms(1) [OF unheard_harness [OF assms], THEN udp_harness.op_execute],
      rule tcp_harness.axioms(1) [OF unheard_harness [OF assms], THEN udp_harness.op_sendto])

lemma gives_receive:
  assumes "never_authenticates x prog"
  shows "gives (unheard x prog) (receive_message t) (without_auth x)"
    "gives (unheard x prog) (hobza_receive_message t) (without_auth x)"
    "gives (unheard x prog) (recvfrom_within p t) (\<lambda>(m, a). \<not> expected_auth m)"
proof -
  note inv = unheard_invariant [OF assms]
  note receive = unheard_receive [OF inv _ withheld_ascii [OF assms]]
  show "gives (unheard x prog) (receive_message t) (without_auth x)"
    "gives (unheard x prog) (hobza_receive_message t) (without_auth x)"
    using receive by (auto simp: gives_def receive_message_def hobza_receive_message_def)
  show "gives (unheard x prog) (recvfrom_within p t) (\<lambda>(m, a). \<not> expected_auth m)"
    using unheard_recvfrom [OF inv] by (auto simp: gives_def recvfrom_within_def)
qed

lemma translate_other_branch:
  assumes "translate_body bye_branch d = Inr t" "\<And>p. bye_branch d p \<noteq> Inr t"
  shows "translate_body bye_branch' d = Inr t"
proof (cases "read_byte d 0")
  case (Inl e)
  with assms(1) show ?thesis by (simp add: translate_body_def)
next
  case (Inr mp)
  obtain m p where mp: "mp = (m, p)" by fastforce
  let ?bye = "m \<in> set (map fst MESSAGE_TYPES) \<and> m \<notin> {0x00, 0x01, 0x02, 0x03, 0x04, 0xFE}"
  have "translate_body bye_branch d = bye_branch d (snd (read_bytes d p 2))" if ?bye
    using that Inr mp by (simp add: translate_body_def case_prod_unfold Let_def)
  moreover have "translate_body bye_branch d = translate_body bye_branch' d" if "\<not> ?bye"
  proof -
    have cond: "(if m \<notin> set (map fst MESSAGE_TYPES) then y else if m = 0x00 then y0 else if m = 0x01 then y1 else if m = 0x02 then y2
        else if m = 0x03 then y3 else if m = 0x04 then y4 else if m = 0xFE then y5 else z)
      = (if m \<notin> set (map fst MESSAGE_TYPES) then y else if m = 0x00 then y0 else if m = 0x01 then y1 else if m = 0x02 then y2
        else if m = 0x03 then y3 else if m = 0x04 then y4 else if m = 0xFE then y5 else z')"
      for y y0 y1 y2 y3 y4 y5 z z' :: "pystr res" using that by auto
    show ?thesis unfolding translate_body_def Inr mp rbind_Inr prod.case Let_def case_prod_unfold fst_conv snd_conv by (rule cond)
  qed
  ultimately show ?thesis using assms by metis
qed

lemma hobza_auth_text:
  assumes "hobza_translateMessage m = Inr (lit (''AUTH IS a AS c USING b'' @ crlf))"
  shows "translateMessage m = Inr (lit (''AUTH IS a AS c USING b'' @ crlf))"
proof -
  have "lit ''BYE'' @ lit crlf \<noteq> lit (''AUTH IS a AS c USING b'' @ crlf)" by code_simp
  with translate_other_branch [OF assms [unfolded hobza_translateMessage_def]] show ?thesis
    unfolding translateMessage_def by simp
qed

lemma translated_without_auth:
  assumes "without_auth x v"
  shows "translate v \<noteq> Inr (lit (''AUTH IS a AS c USING b'' @ crlf))"
    "hobza_translate v \<noteq> Inr (lit (''AUTH IS a AS c USING b'' @ crlf))"
proof -
  have "lit ''Unknown message type'' \<noteq> lit (''AUTH IS a AS c USING b'' @ crlf)" by code_simp
  with assms not_expected_text hobza_auth_text
  show "translate v \<noteq> Inr (lit (''AUTH IS a AS c USING b'' @ crlf))"
    "hobza_translate v \<noteq> Inr (lit (''AUTH IS a AS c USING b'' @ crlf))"
    by (cases v; auto simp: without_auth_def translate_def hobza_translate_def translate_with_def rbind_eq_Inr)+
qed

lemma auth_line_unheard:
  assumes "never_authenticates x prog" "without_auth x v"
  shows "v \<noteq> VStr (lit (''AUTH a AS c USING b'' @ crlf))"
proof
  assume "v = VStr (lit (''AUTH a AS c USING b'' @ crlf))"
  with assms(2) have "without_auth x (VStr (lit (''AUTH a AS c USING b'' @ crlf)))" by simp
  then have "ord x \<notin> ord ` set (''AUTH a AS c USING b'' @ crlf)"
    unfolding without_auth_def lit_def pyval.case set_map .
  with assms(1) show False unfolding never_authenticates_def by blast
qed

lemma fails_translated:
  assumes "gives P r V" "\<And>v. V v \<Longrightarrow> tr v \<noteq> Inr t"
  shows "fails P (bind r (\<lambda>m. bind (lift (tr m)) (\<lambda>tm. bind (assert_that (tm = t) e) (k m tm))))"
    "fails P (bind r (\<lambda>m. bind (lift (tr m)) (\<lambda>tm. assert_that (tm = t) e)))"
  using assms(2) by (auto intro!: fails_bind [OF assms(1)] fails_bind [OF gives_lift] fails_first [OF fails_false] fails_false)

lemma fails_compared:
  assumes "gives P r V" "\<And>v. V v \<Longrightarrow> v \<noteq> t"
  shows "fails P (bind r (\<lambda>m. bind (assert_that (m = t) e) (k m)))" "fails P (bind r (\<lambda>m. assert_that (m = t) e))"
  using assms(2) by (auto intro!: fails_bind [OF assms(1)] fails_first [OF fails_false] fails_false)

lemma asks:
  assumes "never_authenticates x prog"
  shows "fails (unheard x prog) (bind (receive_message t) (\<lambda>m. bind (lift (translate m))
      (\<lambda>tm. bind (assert_that (tm = lit (''AUTH IS a AS c USING b'' @ crlf)) e) (k m tm))))"
    "fails (unheard x prog) (bind (receive_message t) (\<lambda>m. bind (lift (translate m))
      (\<lambda>tm. assert_that (tm = lit (''AUTH IS a AS c USING b'' @ crlf)) e)))"
    "fails (unheard x prog) (bind (hobza_receive_message t) (\<lambda>m. bind (lift (hobza_translate m))
      (\<lambda>tm. bind (assert_that (tm = lit (''AUTH IS a AS c USING b'' @ crlf)) e) (k m tm))))"
    "fails (unheard x prog) (bind (hobza_receive_message t) (\<lambda>m. bind (lift (hobza_translate m))
      (\<lambda>tm. assert_that (tm = lit (''AUTH IS a AS c USING b'' @ crlf)) e)))"
    "fails (unheard x prog) (bind (receive_message t)
      (\<lambda>m. bind (assert_that (m = VStr (lit (''AUTH a AS c USING b'' @ crlf))) e) (l m)))"
    "fails (unheard x prog) (bind (receive_message t) (\<lambda>m. assert_that (m = VStr (lit (''AUTH a AS c USING b'' @ crlf))) e))"
    "fails (unheard x prog) (bind (hobza_receive_message t)
      (\<lambda>m. bind (assert_that (m = VStr (lit (''AUTH a AS c USING b'' @ crlf))) e) (l m)))"
    "fails (unheard x prog) (bind (hobza_receive_message t) (\<lambda>m. assert_that (m = VStr (lit (''AUTH a AS c USING b'' @ crlf))) e))"
  by (rule fails_translated [OF gives_receive(1) [OF assms]] fails_translated [OF gives_receive(2) [OF assms]]
      fails_compared [OF gives_receive(1) [OF assms]] fails_compared [OF gives_receive(2) [OF assms]],
      erule translated_without_auth auth_line_unheard [OF assms])+

text \<open>The test case with a socket of its own.\<close>

lemma fails_own_socket:
  assumes "fails (unheard x prog) body"
  shows "fails (unheard x prog) (with_udp_socket port body)"
proof -
  have "holds False (unheard x prog) (udp_bind port) (unheard x prog)"
    by (auto simp: holds_def udp_bind_def unheard_def)
  then show ?thesis
    unfolding with_udp_socket_def
    by (rule fails_after) (use assms in \<open>simp add: fails_def case_prod_unfold\<close>)
qed

lemma asks_own_socket:
  assumes "never_authenticates x prog" "tr = translateMessage \<or> tr = hobza_translateMessage"
  shows "fails (unheard x prog) (bind (recvfrom_within p t) (\<lambda>(m, a). bind (modify (udp_sendto p (c m) a))
      (\<lambda>_. bind (lift (tr m)) (\<lambda>tm. bind (assert_that (tm = lit (''AUTH IS a AS c USING b'' @ crlf)) e) (k m a tm)))))"
proof (rule fails_bind [OF gives_receive(3) [OF assms(1)]], clarify)
  fix m a
  assume "\<not> expected_auth m"
  then have "tr m \<noteq> Inr (lit (''AUTH IS a AS c USING b'' @ crlf))"
    using assms(2) not_expected_text hobza_auth_text by blast
  then show "fails (unheard x prog) (bind (modify (udp_sendto p (c m) a)) (\<lambda>_. bind (lift (tr m))
      (\<lambda>tm. bind (assert_that (tm = lit (''AUTH IS a AS c USING b'' @ crlf)) e) (k m a tm))))"
    by (intro fails_after [OF methods_keep(4) [OF assms(1)]] fails_bind [OF gives_lift] fails_first [OF fails_false]) metis
qed

lemma helpers_ask:
  assumes "never_authenticates x prog"
  shows "fails (unheard x prog) auth_and_reply" "fails (unheard x prog) tcp_auth_and_reply"
    "fails (unheard x prog) hobza_auth_and_reply" "fails (unheard x prog) hobza_tcp_auth_and_reply"
  unfolding auth_and_reply_def tcp_auth_and_reply_def hobza_auth_and_reply_def hobza_tcp_auth_and_reply_def seq.simps
  by (rule asks [OF assms] fails_after methods_keep [OF assms])+

section \<open>The test cases\<close>

lemmas udp_rejected_defs =
  udp_help_command_def udp_auth_def udp_auth_port_def udp_auth_nok_def udp_rename_multiple_def
  udp_auth_nok_ok_def udp_auth_port_change_def udp_auth_ok_def udp_msg_def udp_svr_msg_def udp_ping_def
  udp_bye1_def udp_bye2_def udp_server_bye_def udp_send_receive_multiple_def
  udp_retransmit_missing_confirm1_def udp_ignore_duplicate_server_msg_def udp_server_err1_def
  udp_server_err2_def udp_join_ok_def udp_join_nok_def udp_multiple_auth_def udp_invalid_msg_def
  udp_auth_err_def udp_reports_error_when_missing_confirmation_def udp_reply_5_sec_error_auth_def
  udp_reply_5_sec_error_join_def

lemma udp_rejects:
  assumes "never_authenticates x prog"
  shows "list_all (fails (unheard x prog)) [
    udp_help_command, udp_auth, udp_auth_port, udp_auth_nok, udp_rename_multiple, udp_auth_nok_ok,
    udp_auth_port_change, udp_auth_ok, udp_msg, udp_svr_msg, udp_ping, udp_bye1, udp_bye2, udp_server_bye,
    udp_send_receive_multiple, udp_retransmit_missing_confirm1, udp_ignore_duplicate_server_msg,
    udp_server_err1, udp_server_err2, udp_join_ok, udp_join_nok, udp_multiple_auth, udp_invalid_msg,
    udp_auth_err, udp_reports_error_when_missing_confirmation, udp_reply_5_sec_error_auth,
    udp_reply_5_sec_error_join]"
  unfolding list.pred_inject udp_rejected_defs seq.simps
  by (intro conjI list.pred_inject(1); (rule asks [OF assms] helpers_ask [OF assms] fails_first [OF helpers_ask(1) [OF assms]]
    fails_first [OF helpers_ask(2) [OF assms]] fails_first [OF helpers_ask(3) [OF assms]]
    fails_first [OF helpers_ask(4) [OF assms]] fails_own_socket asks_own_socket [OF assms disjI1 [OF refl]]
    asks_own_socket [OF assms disjI2 [OF refl]] fails_after methods_keep [OF assms])+)

lemmas tcp_rejected_defs =
  tcp_sigint_def tcp_server_bye_def tcp_rename_def tcp_rename_multiple_def tcp_help_command_def
  tcp_send_receive_multiple_def tcp_multiple_messages_single_segment_def
  tcp_single_message_multiple_segments2_def tcp_single_message_multiple_segments_def
  tcp_receive_two_messages_within_3_segments_def tcp_auth_def tcp_auth_ok_def tcp_auth_nok_def
  tcp_auth_port_def tcp_auth_nok_ok_def tcp_auth_ok_again_def tcp_msg_def tcp_svr_msg_def tcp_bye_def
  tcp_server_err2_def tcp_join_ok_def tcp_join_nok_def tcp_multiple_auth_def tcp_invalid_msg_def
  tcp_auth_err_def tcp_auth_reply_timeout_def tcp_join_reply_timeout_def tcp_auth_reply_delay_def
  tcp_join_reply_delay_def tcp_processing_server_messages_while_joining_def
  tcp_all_good_after_auth_reply_delay_def tcp_all_good_after_join_reply_delay_def
  tcp_grammar_is_case_insensitive_def

lemma tcp_rejects:
  assumes "never_authenticates x prog"
  shows "list_all (fails (unheard x prog)) [
    tcp_sigint, tcp_server_bye, tcp_rename, tcp_rename_multiple, tcp_help_command,
    tcp_send_receive_multiple, tcp_multiple_messages_single_segment, tcp_single_message_multiple_segments2,
    tcp_single_message_multiple_segments, tcp_receive_two_messages_within_3_segments, tcp_auth, tcp_auth_ok,
    tcp_auth_nok, tcp_auth_port, tcp_auth_nok_ok, tcp_auth_ok_again, tcp_msg, tcp_svr_msg, tcp_bye,
    tcp_server_err2, tcp_join_ok, tcp_join_nok, tcp_multiple_auth, tcp_invalid_msg, tcp_auth_err,
    tcp_auth_reply_timeout, tcp_join_reply_timeout, tcp_auth_reply_delay, tcp_join_reply_delay,
    tcp_processing_server_messages_while_joining, tcp_all_good_after_auth_reply_delay,
    tcp_all_good_after_join_reply_delay, tcp_grammar_is_case_insensitive]"
  unfolding list.pred_inject tcp_rejected_defs seq.simps
  by (intro conjI list.pred_inject(1); (rule asks [OF assms] helpers_ask [OF assms] fails_first [OF helpers_ask(1) [OF assms]]
    fails_first [OF helpers_ask(2) [OF assms]] fails_first [OF helpers_ask(3) [OF assms]]
    fails_first [OF helpers_ask(4) [OF assms]] fails_own_socket asks_own_socket [OF assms disjI1 [OF refl]]
    asks_own_socket [OF assms disjI2 [OF refl]] fails_after methods_keep [OF assms])+)

lemmas hobza_udp_rejected_defs =
  hobza_udp_auth_def hobza_udp_auth_port_def hobza_udp_auth_nok_def hobza_udp_auth_nok_ok_def
  hobza_udp_auth_port_change_def hobza_udp_auth_ok_def hobza_udp_msg_def hobza_udp_svr_msg_def
  hobza_udp_bye1_def hobza_udp_bye2_def hobza_udp_server_err1_def hobza_udp_server_err2_def
  hobza_udp_join_ok_def hobza_udp_join_nok_def hobza_udp_multiple_auth_def hobza_udp_invalid_msg_def
  hobza_udp_auth_err_def

lemma hobza_udp_rejects:
  assumes "never_authenticates x prog"
  shows "list_all (fails (unheard x prog)) [
    hobza_udp_auth, hobza_udp_auth_port, hobza_udp_auth_nok, hobza_udp_auth_nok_ok,
    hobza_udp_auth_port_change, hobza_udp_auth_ok, hobza_udp_msg, hobza_udp_svr_msg, hobza_udp_bye1,
    hobza_udp_bye2, hobza_udp_server_err1, hobza_udp_server_err2, hobza_udp_join_ok, hobza_udp_join_nok,
    hobza_udp_multiple_auth, hobza_udp_invalid_msg, hobza_udp_auth_err]"
  unfolding list.pred_inject hobza_udp_rejected_defs seq.simps
  by (intro conjI list.pred_inject(1); (rule asks [OF assms] helpers_ask [OF assms] fails_first [OF helpers_ask(1) [OF assms]]
    fails_first [OF helpers_ask(2) [OF assms]] fails_first [OF helpers_ask(3) [OF assms]]
    fails_first [OF helpers_ask(4) [OF assms]] fails_own_socket asks_own_socket [OF assms disjI1 [OF refl]]
    asks_own_socket [OF assms disjI2 [OF refl]] fails_after methods_keep [OF assms])+)

lemmas hobza_tcp_rejected_defs =
  hobza_tcp_auth_def hobza_tcp_auth_ok_def hobza_tcp_auth_nok_def hobza_tcp_auth_port_def
  hobza_tcp_auth_nok_ok_def hobza_tcp_auth_ok_again_def hobza_tcp_msg_def hobza_tcp_svr_msg_def
  hobza_tcp_bye_def hobza_tcp_server_err2_def hobza_tcp_join_ok_def hobza_tcp_join_nok_def
  hobza_tcp_multiple_auth_def hobza_tcp_invalid_msg_def hobza_tcp_auth_err_def

lemma hobza_tcp_rejects:
  assumes "never_authenticates x prog"
  shows "list_all (fails (unheard x prog)) [
    hobza_tcp_auth, hobza_tcp_auth_ok, hobza_tcp_auth_nok, hobza_tcp_auth_port, hobza_tcp_auth_nok_ok,
    hobza_tcp_auth_ok_again, hobza_tcp_msg, hobza_tcp_svr_msg, hobza_tcp_bye, hobza_tcp_server_err2,
    hobza_tcp_join_ok, hobza_tcp_join_nok, hobza_tcp_multiple_auth, hobza_tcp_invalid_msg,
    hobza_tcp_auth_err]"
  unfolding list.pred_inject hobza_tcp_rejected_defs seq.simps
  by (intro conjI list.pred_inject(1); (rule asks [OF assms] helpers_ask [OF assms] fails_first [OF helpers_ask(1) [OF assms]]
    fails_first [OF helpers_ask(2) [OF assms]] fails_first [OF helpers_ask(3) [OF assms]]
    fails_first [OF helpers_ask(4) [OF assms]] fails_own_socket asks_own_socket [OF assms disjI1 [OF refl]]
    asks_own_socket [OF assms disjI2 [OF refl]] fails_after methods_keep [OF assms])+)

section \<open>Verdicts\<close>

text \<open>The test cases that never ask for the authentication, or ask for it only in part.\<close>

definition lenient :: "pystr list" where
  "lenient = map lit [''udp_hello'', ''udp_not_auth'', ''udp_invalid_command'', ''udp_retransmit_missing_confirm2'',
     ''tcp_hello'', ''tcp_not_auth'', ''tcp_invalid_command'', ''tcp_sigint_and_bye'', ''tcp_bye_in_auth'',
     ''tcp_server_err1'', ''tcp_invalid_message_type'', ''tcp_unexpected_message_type'', ''tcp_too_long_msg_minus_one'',
     ''tcp_too_long_server_msg'', ''tcp_too_long_server_msg_plus_one'', ''tcp_too_long_server_msg_plus_one_without_end'']"

lemma lenient_or_fails:
  assumes "never_authenticates x prog"
  shows "list_all (\<lambda>(n, f). n \<in> set lenient \<or> fails (unheard x prog) f)
    (testo_udp_cases @ testo_tcp_cases @ hobza_udp_cases @ hobza_tcp_cases)"
  using udp_rejects [OF assms] tcp_rejects [OF assms] hobza_udp_rejects [OF assms] hobza_tcp_rejects [OF assms]
  by (simp add: testo_udp_cases_def testo_tcp_cases_def hobza_udp_cases_def hobza_tcp_cases_def lenient_def)

text \<open>
  C6. The suites reject clients that do not speak the protocol. Take any client that never sends the datagram of
  ``/auth a b c'' and keeps some octet of the corresponding line out of its TCP stream, whatever else it
  sends and prints and whenever it does. In every world without bound sockets, if a test case of either suite
  returns for it, the test case is one of sixteen that are known by name: 60 of the 76 test cases of
  \<open>testo.py\<close> and 32 of the 39 of \<open>hobza.py\<close> can not be passed without authenticating.
\<close>

theorem suites_require_authentication:
  assumes "(n, f) \<in> set (testo_udp_cases @ testo_tcp_cases @ hobza_udp_cases @ hobza_tcp_cases)"
    and "never_authenticates x (executable w path)" "udp_sockets w = []" "tcp_listening w = []"
    and "fst (f (ExecutableTester path w)) = Ret ()"
  shows "n \<in> set lenient"
proof -
  let ?w0 = "ExecutableTester [] (initial_world (executable w path) None)"
  have "unheard x (executable w path) ?w0"
    by (simp add: unheard_def ExecutableTester_def initial_world_def)
  moreover have "fst (f ?w0) = Ret ()"
    using case_alone [OF all_uniform [OF assms(1)] assms(3,4)] assms(5) by (simp add: alone_def)
  ultimately have "\<not> fails (unheard x (executable w path)) f" unfolding fails_def by blast
  with lenient_or_fails [OF assms(2)] assms(1) show ?thesis by (auto simp: list_all_iff)
qed

text \<open>A client that answers every event with an error message on its output, and nothing else.\<close>

definition complainer :: "unit program" where
  "complainer = \<lparr>p_boot = (\<lambda>_ _. ((), [])), p_handle = (\<lambda>_ _. ((), [WriteOut (''ERROR: '' @ [newline])]))\<rparr>"

theorem suites_require_authentication_witness:
  "fst (udp_hello (ExecutableTester [] (initial_world complainer None))) = Ret () \<and> lit ''udp_hello'' \<in> set lenient"
proof -
  have passes: "fst (udp_hello (ExecutableTester [] (initial_world complainer None))) = Ret ()" by code_simp
  have "lit ''udp_hello'' \<in> set lenient"
  proof (rule suites_require_authentication [where f = udp_hello and w = "initial_world complainer None" and path = "[]"])
    show "(lit ''udp_hello'', udp_hello) \<in> set (testo_udp_cases @ testo_tcp_cases @ hobza_udp_cases @ hobza_tcp_cases)"
      by (simp add: testo_udp_cases_def)
    show "never_authenticates (CHR ''A'') (executable (initial_world complainer None) [])"
      by (simp add: never_authenticates_def complainer_def initial_world_def withholds_def)
  qed (simp_all add: passes, simp_all add: initial_world_def)
  with passes show ?thesis by blast
qed

end
