(* ===== verification/Client_Boot.thy ===== *)
theory Client_Boot
  imports Chat_Client
begin

text \<open>
  The start and the end of the C++ client with a kernel that may refuse: the constructors
  \<open>Client::Client\<close> and \<open>Tcp_client::Tcp_client\<close> call by call, \<open>epoll_wait\<close> in \<open>Client::run\<close>, the destructor,
  and the handlers of \<open>main\<close>. The kernel is a parameter, a function of the calls that were made before; so is
  the memory allocator. \<open>Chat_Client\<close> is the special case of a kernel that grants everything.
\<close>

section \<open>Exceptions\<close>

text \<open>What reaches the handlers of \<open>main\<close>: their four classes.\<close>

datatype cpp_exception = Bad_alloc | Program_exception bytes | Std_exception bytes | Foreign_exception

definition error_line :: "bytes \<Rightarrow> action" where
  "error_line t = WriteOut (''ERROR: '' @ t @ [newline])"

definition main_handlers :: "cpp_exception \<Rightarrow> action list" where
  "main_handlers e = (case e of
     Bad_alloc \<Rightarrow> [error_line (''operator 'new' has failed: '' @ ''std::bad_alloc''), Exit 1]
   | Program_exception t \<Rightarrow> if t = [] then [Exit 0] else [error_line t, Exit 1]
   | Std_exception t \<Rightarrow> [error_line t, Exit 1]
   | Foreign_exception \<Rightarrow> [error_line ''Unknown exception occurred.'', Exit 1])"

section \<open>The kernel\<close>

datatype syscall =
    Socket bool            \<comment> \<open>\<open>SOCK_STREAM\<close> or \<open>SOCK_DGRAM\<close>\<close>
  | Epoll_create1
  | Timerfd_create
  | Epoll_add int          \<comment> \<open>\<open>epoll_ctl\<close> with \<open>EPOLL_CTL_ADD\<close>\<close>
  | Connect_to int int     \<comment> \<open>descriptor and address\<close>
  | Close int

type_synonym kernel = "syscall list \<Rightarrow> syscall \<Rightarrow> int"

text \<open>What the object asks of the allocator: itself, and the buffer for messages of the server.\<close>

datatype allocation = Object | Buffer nat

record resources =
  m_client_socket :: int
  m_epoll_fd :: int
  m_timer_fd :: int
  calls :: "syscall list"
  open_fds :: "int list"

type_synonym 'a boot = "resources \<Rightarrow> (cpp_exception + 'a) \<times> resources"

definition bret :: "'a \<Rightarrow> 'a boot" where
  "bret x r = (Inr x, r)"

definition bthrow :: "cpp_exception \<Rightarrow> 'a boot" where
  "bthrow e r = (Inl e, r)"

definition bbind :: "'a boot \<Rightarrow> ('a \<Rightarrow> 'b boot) \<Rightarrow> 'b boot" where
  "bbind m f r = (case m r of (Inl e, r') \<Rightarrow> (Inl e, r') | (Inr x, r') \<Rightarrow> f x r')"

definition bset :: "(resources \<Rightarrow> resources) \<Rightarrow> unit boot" where
  "bset f r = (Inr (), f r)"

definition fd_made :: "syscall \<Rightarrow> int \<Rightarrow> int list" where
  "fd_made c n = (case c of
     Socket _ \<Rightarrow> if n < 0 then [] else [n]
   | Epoll_create1 \<Rightarrow> if n < 0 then [] else [n]
   | Timerfd_create \<Rightarrow> if n < 0 then [] else [n]
   | _ \<Rightarrow> [])"

definition fd_closed :: "syscall \<Rightarrow> int list \<Rightarrow> int list" where
  "fd_closed c fds = (case c of Close fd \<Rightarrow> remove1 fd fds | _ \<Rightarrow> fds)"

definition sys :: "kernel \<Rightarrow> syscall \<Rightarrow> int boot" where
  "sys k c r = (let n = k (calls r) c in
     (Inr n, r\<lparr>calls := calls r @ [c], open_fds := fd_closed c (open_fds r) @ fd_made c n\<rparr>))"

section \<open>Constructors and destructor\<close>

definition createClientSocket :: "kernel \<Rightarrow> cargs \<Rightarrow> unit boot" where
  "createClientSocket k a =
     bbind (if m_is_tcp a then sys k (Socket True) else sys k (Socket False)) (\<lambda>fd.
     bbind (bset (\<lambda>r. r\<lparr>m_client_socket := fd\<rparr>)) (\<lambda>_.
     if fd < 0 then bthrow (Program_exception ''couldn't create a client socket: socket() has failed.'')
     else bret ()))"

definition createEpollFd :: "kernel \<Rightarrow> unit boot" where
  "createEpollFd k =
     bbind (sys k Epoll_create1) (\<lambda>fd.
     bbind (bset (\<lambda>r. r\<lparr>m_epoll_fd := fd\<rparr>)) (\<lambda>_.
     if fd < 0 then bthrow (Program_exception ''couldn't create an epoll file descriptor: epoll_crate1() has failed.'')
     else bret ()))"

definition createTimerFd :: "kernel \<Rightarrow> unit boot" where
  "createTimerFd k =
     bbind (sys k Timerfd_create) (\<lambda>fd.
     bbind (bset (\<lambda>r. r\<lparr>m_timer_fd := fd\<rparr>)) (\<lambda>_.
     if fd = -1 then bthrow (Program_exception ''couldn't create timer file descriptor: timerfd_create() has failed.'')
     else bret ()))"

text \<open>Three calls joined by \<open>||\<close>: the first that fails is the last.\<close>

definition addEntriesToEpollInstance :: "kernel \<Rightarrow> unit boot" where
  "addEntriesToEpollInstance k r0 =
     (let failure = bthrow (Program_exception ''couldn't add an entry to epoll instance: epoll_ctl() has failed.'') in
      bbind (sys k (Epoll_add (m_client_socket r0))) (\<lambda>n1. if n1 \<noteq> 0 then failure
      else bbind (sys k (Epoll_add 0)) (\<lambda>n2. if n2 \<noteq> 0 then failure
      else bbind (sys k (Epoll_add (m_timer_fd r0))) (\<lambda>n3. if n3 \<noteq> 0 then failure
      else bret ()))) r0)"

definition Client_constructor :: "kernel \<Rightarrow> (allocation \<Rightarrow> bool) \<Rightarrow> cargs \<Rightarrow> unit boot" where
  "Client_constructor k alloc a =
     (if \<not> alloc (Buffer ((if m_is_tcp a then s_MAX_MSG_SIZE else udp_MAX_MSG_SIZE) + 1)) then bthrow Bad_alloc
      else bbind (createClientSocket k a) (\<lambda>_.
           bbind (createEpollFd k) (\<lambda>_.
           bbind (createTimerFd k) (\<lambda>_. addEntriesToEpollInstance k))))"

definition Client_destructor :: "kernel \<Rightarrow> unit boot" where
  "Client_destructor k r0 =
     bbind (sys k (Close (m_client_socket r0))) (\<lambda>_.
     bbind (sys k (Close (m_epoll_fd r0))) (\<lambda>_. bret ())) r0"

text \<open>When the body of the derived constructor throws, the complete base object is destroyed.\<close>

definition Tcp_client_constructor :: "kernel \<Rightarrow> (allocation \<Rightarrow> bool) \<Rightarrow> cargs \<Rightarrow> unit boot" where
  "Tcp_client_constructor k alloc a =
     bbind (Client_constructor k alloc a) (\<lambda>_ r.
     bbind (sys k (Connect_to (m_client_socket r) (uint (m_server_addr a)))) (\<lambda>n.
     if n < 0 then bbind (Client_destructor k) (\<lambda>_. bthrow (Program_exception ''couldn't connect to the server.''))
     else bret ()) r)"

definition Client_create :: "kernel \<Rightarrow> (allocation \<Rightarrow> bool) \<Rightarrow> cargs \<Rightarrow> unit boot" where
  "Client_create k alloc a =
     (if \<not> alloc Object then bthrow Bad_alloc
      else if m_is_tcp a then Tcp_client_constructor k alloc a
      else Client_constructor k alloc a)"

section \<open>The event loop and \<open>main\<close>\<close>

text \<open>What \<open>epoll_wait\<close> returns: \<open>EINTR\<close>, another error, or an event.\<close>

datatype wait = Interrupted | Wait_failed | Ready event

text \<open>The value 2 says that the client still waits after these returns.\<close>

fun run_waits :: "wait list \<Rightarrow> nat C" where
  "run_waits [] = cret 2"
| "run_waits (Interrupted # ws) = run_waits ws"
| "run_waits (Wait_failed # ws) = cthrow ''epoll_wait() has failed.''"
| "run_waits (Ready ev # ws) = cbind (run_event ev) (\<lambda>result.
     if result = 0 \<or> result = 1 then cret result else run_waits ws)"

definition no_resources :: resources where
  "no_resources = \<lparr>m_client_socket = 0, m_epoll_fd = 0, m_timer_fd = 0, calls = [], open_fds = []\<rparr>"

text \<open>
  The whole of \<open>main\<close>. The object is destroyed when \<open>run\<close> returns or throws. The texts of the exceptions
  of \<open>Args\<close> are never empty, so that the handlers for \<open>Exception\<close> and \<open>std::exception\<close> do the same.
\<close>

definition client_main ::
  "kernel \<Rightarrow> (allocation \<Rightarrow> bool) \<Rightarrow> (bytes \<Rightarrow> bool) \<Rightarrow> bytes list \<Rightarrow> wait list \<Rightarrow> resources \<times> action list" where
  "client_main k alloc resolves argv waits = (case Args resolves argv of
     Crashed \<Rightarrow> (no_resources, [Exit (-11)])
   | Thrown e \<Rightarrow> (no_resources, main_handlers (Std_exception e))
   | Built a \<Rightarrow>
       if m_is_help_used a then (no_resources, [WriteOut printHelp, Exit 0])
       else (case Client_create k alloc a no_resources of
          (Inl e, r) \<Rightarrow> (r, main_handlers e)
        | (Inr _, r) \<Rightarrow> (case run_waits waits (Client a) of
            (Value n, s) \<Rightarrow>
              if n = 0 \<or> n = 1 then (snd (Client_destructor k r), emitted s @ [Exit (int n)])
              else (r, emitted s)
          | (Throw e, s) \<Rightarrow> (snd (Client_destructor k r), emitted s @ main_handlers (Program_exception e)))))"

section \<open>Specification\<close>

text \<open>The calls of a successful start in order, when a call has failed, and what is reported of it.\<close>

definition start_calls :: "cargs \<Rightarrow> int \<Rightarrow> int \<Rightarrow> syscall list" where
  "start_calls a sock timer =
     [Socket (m_is_tcp a), Epoll_create1, Timerfd_create, Epoll_add sock, Epoll_add 0, Epoll_add timer]
     @ (if m_is_tcp a then [Connect_to sock (uint (m_server_addr a))] else [])"

fun failed :: "syscall \<Rightarrow> int \<Rightarrow> bool" where
  "failed (Socket _) n = (n < 0)"
| "failed Epoll_create1 n = (n < 0)"
| "failed Timerfd_create n = (n = -1)"
| "failed (Epoll_add _) n = (n \<noteq> 0)"
| "failed (Connect_to _ _) n = (n < 0)"
| "failed (Close _) n = False"

fun complaint :: "syscall \<Rightarrow> bytes" where
  "complaint (Socket _) = ''couldn't create a client socket: socket() has failed.''"
| "complaint Epoll_create1 = ''couldn't create an epoll file descriptor: epoll_crate1() has failed.''"
| "complaint Timerfd_create = ''couldn't create timer file descriptor: timerfd_create() has failed.''"
| "complaint (Epoll_add _) = ''couldn't add an entry to epoll instance: epoll_ctl() has failed.''"
| "complaint (Connect_to _ _) = ''couldn't connect to the server.''"
| "complaint (Close _) = []"

text \<open>The calls up to the first that fails, that one being the last.\<close>

fun until_failure :: "kernel \<Rightarrow> syscall list \<Rightarrow> syscall list \<Rightarrow> syscall list option" where
  "until_failure k made [] = None"
| "until_failure k made (c # cs) =
     (if failed c (k made c) then Some (made @ [c]) else until_failure k (made @ [c]) cs)"

lemmas boot_monad = bbind_def bret_def bthrow_def bset_def sys_def Let_def

lemmas constructors = Client_create_def Tcp_client_constructor_def Client_constructor_def createClientSocket_def
  createEpollFd_def createTimerFd_def addEntriesToEpollInstance_def Client_destructor_def

text \<open>The constructors make the calls of the specification one by one.\<close>

lemma Client_create_calls:
  fixes k :: kernel
  defines "sock a \<equiv> k [] (Socket (m_is_tcp a))"
    and "epoll a \<equiv> k [Socket (m_is_tcp a)] Epoll_create1"
    and "timer a \<equiv> k [Socket (m_is_tcp a), Epoll_create1] Timerfd_create"
  assumes "\<And>x. alloc x"
  shows "case until_failure k [] (start_calls a (sock a) (timer a)) of
      None \<Rightarrow> \<exists>r. Client_create k alloc a no_resources = (Inr (), r) \<and> calls r = start_calls a (sock a) (timer a)
        \<and> m_client_socket r = sock a \<and> m_epoll_fd r = epoll a \<and> m_timer_fd r = timer a
        \<and> open_fds r = [sock a, epoll a] @ (if timer a < 0 then [] else [timer a])
    | Some made \<Rightarrow> \<exists>r. Client_create k alloc a no_resources = (Inl (Program_exception (complaint (last made))), r)
        \<and> calls r = made @ (if \<exists>fd addr. last made = Connect_to fd addr then [Close (sock a), Close (epoll a)] else [])"
  using assms(4)
  by (cases "m_is_tcp a") (simp_all add: constructors boot_monad start_calls_def no_resources_def fd_made_def fd_closed_def sock_def epoll_def timer_def)

lemma main_complains: "main_handlers (Program_exception (complaint c)) =
    (case c of Close _ \<Rightarrow> [Exit 0] | _ \<Rightarrow> [error_line (complaint c), Exit 1])"
  by (cases c) (simp_all add: main_handlers_def)

lemma Args_thrown_text: "Args resolves argv = Thrown e \<Longrightarrow> e \<noteq> []"
proof -
  have "parse_argv resolves argv addr a = Thrown e \<Longrightarrow> e \<noteq> []" for addr a
    by (induction resolves argv addr a rule: parse_argv.induct)
       (auto simp: processServerAddress_def int_value_def Let_def split: if_splits option.splits built.splits list.splits)
  then show "Args resolves argv = Thrown e \<Longrightarrow> e \<noteq> []" by (simp add: Args_def)
qed

lemma interrupts_ignored: "run_waits ws = run_waits (filter (\<lambda>w. w \<noteq> Interrupted) ws)"
proof (induction ws)
  case (Cons w ws)
  then show ?case by (cases w) (simp_all only: run_waits.simps filter.simps wait.distinct simp_thms if_True if_False)
qed simp

text \<open>Once the object exists: the event loop, the destructor when it ends, and the exit.\<close>

lemma main_runs:
  assumes "Args resolves argv = Built a" "\<not> m_is_help_used a" "Client_create k alloc a no_resources = (Inr (), r)"
    and "run_waits ws (Client a) = (res, s)"
  shows "snd (client_main k alloc resolves argv ws) = emitted s @ exit_actions res"
    "calls (fst (client_main k alloc resolves argv ws)) =
       calls r @ (if exit_actions res = [] then [] else [Close (m_client_socket r), Close (m_epoll_fd r)])"
  using assms
  by (auto simp: client_main_def exit_actions_def main_handlers_def error_line_def Client_destructor_def boot_monad split: cres.split)

lemma main_fails:
  assumes "Args resolves argv = Built a" "\<not> m_is_help_used a" "Client_create k alloc a no_resources = (Inl e, r)"
  shows "client_main k alloc resolves argv ws = (r, main_handlers e)"
  using assms by (simp add: client_main_def)

lemma until_failure_failed:
  "until_failure k made cs = Some made' \<Longrightarrow> last made' \<in> set cs \<and> failed (last made') (k (butlast made') (last made'))"
  by (induction k made cs rule: until_failure.induct) (auto split: if_splits)

lemma main_by_calls:
  fixes k :: kernel
  assumes "Args resolves argv = Built a" "\<not> m_is_help_used a" "\<forall>x. alloc x"
    and "sock = k [] (Socket (m_is_tcp a))" "epoll = k [Socket (m_is_tcp a)] Epoll_create1"
    and "timer = k [Socket (m_is_tcp a), Epoll_create1] Timerfd_create"
    and "run_waits ws (Client a) = (res, s)"
    and "client_main k alloc resolves argv ws = (r, actions)"
  shows "case until_failure k [] (start_calls a sock timer) of
      None \<Rightarrow> actions = emitted s @ exit_actions res
        \<and> calls r = start_calls a sock timer @ (if exit_actions res = [] then [] else [Close sock, Close epoll])
    | Some made \<Rightarrow> actions = [error_line (complaint (last made)), Exit 1]
        \<and> calls r = made @ (if last made = Connect_to sock (uint (m_server_addr a)) then [Close sock, Close epoll] else [])"
proof (cases "until_failure k [] (start_calls a sock timer)")
  case None
  with Client_create_calls [of alloc k a] assms(3-6) obtain r0 where r0: "Client_create k alloc a no_resources = (Inr (), r0)"
      "calls r0 = start_calls a sock timer" "m_client_socket r0 = sock" "m_epoll_fd r0 = epoll"
    by auto
  from main_runs [OF assms(1,2) r0(1), of ws res s] assms(7,8) r0 None show ?thesis by simp
next
  case (Some made)
  with Client_create_calls [of alloc k a] assms(3-6) obtain r0 where
    r0: "Client_create k alloc a no_resources = (Inl (Program_exception (complaint (last made))), r0)"
      "calls r0 = made @ (if \<exists>fd addr. last made = Connect_to fd addr then [Close sock, Close epoll] else [])"
    by auto
  from until_failure_failed [OF Some] have "last made \<in> set (start_calls a sock timer)" by simp
  then have "(\<exists>fd addr. last made = Connect_to fd addr) \<longleftrightarrow> last made = Connect_to sock (uint (m_server_addr a))"
      "\<And>fd. last made \<noteq> Close fd"
    by (auto simp: start_calls_def split: if_splits)
  with main_fails [OF assms(1,2) r0(1), of ws] main_complains [of "last made"] r0(2) assms(8) Some show ?thesis
    by (cases "last made") fastforce+
qed

text \<open>Without memory for the object or its buffer nothing is asked of the kernel.\<close>

lemma client_out_of_memory:
  assumes "Args resolves argv = Built a" "\<not> m_is_help_used a"
    and "\<not> alloc Object \<or> \<not> alloc (Buffer ((if m_is_tcp a then s_MAX_MSG_SIZE else udp_MAX_MSG_SIZE) + 1))"
  shows "client_main k alloc resolves argv ws = (no_resources, main_handlers Bad_alloc)"
  using assms by (auto simp: client_main_def Client_create_def Tcp_client_constructor_def Client_constructor_def bbind_def bthrow_def)

text \<open>With a kernel that refuses nothing but connections, the start is that of \<open>chat_boot\<close>.\<close>

definition granting :: "(int \<Rightarrow> bool) \<Rightarrow> kernel \<Rightarrow> bool" where
  "granting listening k \<longleftrightarrow> (\<forall>made c. failed c (k made c) = (case c of Connect_to _ addr \<Rightarrow> \<not> listening addr | _ \<Rightarrow> False))"

lemma chat_boot_granted:
  assumes "granting listening k" "\<forall>x. alloc x"
  shows "filter (\<lambda>act. \<forall>addr. act \<noteq> Connect addr) (snd (chat_boot resolves argv listening))
    = snd (client_main k alloc resolves argv [])"
proof (cases "Args resolves argv")
  case (Built a)
  show ?thesis
  proof (cases "m_is_help_used a")
    case False
    obtain r acts where m: "client_main k alloc resolves argv [] = (r, acts)" by fastforce
    have no: "\<not> failed c (k made c)" if "\<And>fd addr. c \<noteq> Connect_to fd addr" for made c
      using assms(1) that by (cases c) (force simp: granting_def)+
    have co: "failed (Connect_to fd addr) (k made (Connect_to fd addr)) \<longleftrightarrow> \<not> listening addr" for made fd addr
      using assms(1) by (simp add: granting_def)
    from main_by_calls [OF Built False assms(2) refl refl refl _ m, of "Value 2" "Client a"] m Built False show ?thesis
      by (simp add: start_calls_def no co cret_def chat_boot_def exit_actions_def error_line_def Client_def del: failed.simps split: if_splits)
  qed (simp add: Built chat_boot_def client_main_def)
next
  case (Thrown e)
  with Args_thrown_text show ?thesis
    by (simp add: chat_boot_def client_main_def exit_actions_def main_handlers_def error_line_def)
qed (simp add: chat_boot_def client_main_def)

section \<open>Property\<close>

text \<open>
  C24. The start of the client with any kernel. For accepted arguments \<open>main\<close> makes the calls of the specification in
  their order until one fails. Then it makes no other call, except that the socket and the epoll instance are closed when it was
  \<open>connect\<close>, prints exactly the one error that belongs to that call and exits with 1. If all succeed it runs the event loop on what \<open>epoll_wait\<close>
  returns, where interrupted waits have no effect, and closes both descriptors when the loop has ended.
\<close>

theorem client_starts_or_reports:
  fixes k :: kernel
  assumes "Args resolves argv = Built a" "\<not> m_is_help_used a" "\<forall>x. alloc x"
    and "sock = k [] (Socket (m_is_tcp a))" "epoll = k [Socket (m_is_tcp a)] Epoll_create1"
    and "timer = k [Socket (m_is_tcp a), Epoll_create1] Timerfd_create"
    and "run_waits (filter (\<lambda>w. w \<noteq> Interrupted) ws) (Client a) = (res, s)"
    and "client_main k alloc resolves argv ws = (r, actions)"
  shows "case until_failure k [] (start_calls a sock timer) of
      None \<Rightarrow> actions = emitted s @ exit_actions res
        \<and> calls r = start_calls a sock timer @ (if exit_actions res = [] then [] else [Close sock, Close epoll])
    | Some made \<Rightarrow> actions = [error_line (complaint (last made)), Exit 1]
        \<and> calls r = made @ (if last made = Connect_to sock (uint (m_server_addr a)) then [Close sock, Close epoll] else [])"
  using main_by_calls [OF assms(1-6) _ assms(8), of res s] interrupts_ignored [of ws] assms(7) by simp

text \<open>A kernel that gives the descriptors 3, 4 and 5 and refuses the connection.\<close>

definition refusing_kernel :: kernel where
  "refusing_kernel made c = (case c of
     Socket _ \<Rightarrow> 3 | Epoll_create1 \<Rightarrow> 4 | Timerfd_create \<Rightarrow> 5 | Connect_to _ _ \<Rightarrow> -1 | _ \<Rightarrow> 0)"

theorem client_starts_or_reports_witness:
  "\<exists>r. client_main refusing_kernel (\<lambda>_. True) (\<lambda>_. True) [''-t'', ''tcp'', ''-s'', ''localhost''] []
      = (r, [error_line ''couldn't connect to the server.'', Exit 1])
    \<and> calls r = [Socket True, Epoll_create1, Timerfd_create, Epoll_add 3, Epoll_add 0, Epoll_add 5,
        Connect_to 3 4567, Close 3, Close 4]"
proof -
  define a where "a = default_args\<lparr>m_is_tcp := True, m_server_addr := 4567\<rparr>"
  obtain r acts where m: "client_main refusing_kernel (\<lambda>_. True) (\<lambda>_. True) [''-t'', ''tcp'', ''-s'', ''localhost''] [] = (r, acts)"
    by fastforce
  have "Args (\<lambda>_. True) [''-t'', ''tcp'', ''-s'', ''localhost''] = Built a"
    by (simp add: Args_def a_def default_args_def processServerAddress_def)
  from client_starts_or_reports [OF this _ _ refl refl refl _ m, of "Value 2" "Client a"] m show ?thesis
    by (simp add: a_def default_args_def refusing_kernel_def start_calls_def cret_def)
qed

end
