(* ===== verification/Pseudo_Udp_Server.thy ===== *)
theory Pseudo_Udp_Server
  imports Udp_Laws Client_Args
begin

text \<open>
  The interactive UDP server \<open>udp-serv.cpp\<close>, with which the client is tested by hand. It reads
  characters from its standard input: \<open>s\<close> and a letter sends the message of that letter, every
  other character waits for a datagram of the client and prints it. One definition per function; an
  iteration of its loop is a step on its state. What C++ leaves undefined (an address that was never
  filled in, a message that was never built, a read behind the buffer) is a result of its own. At
  the end the server and the model of the client are put together.
\<close>

section \<open>Reading and building\<close>

definition UDP_MAX_MSG_SIZE :: nat where
  "UDP_MAX_MSG_SIZE = 60007"

definition MAX_BUFFER_SIZE :: nat where
  "MAX_BUFFER_SIZE = UDP_MAX_MSG_SIZE + 1"

text \<open>\<open>getchar\<close>; at the end of the input it gives \<open>EOF\<close>.\<close>

fun getchar :: "bytes \<Rightarrow> char option \<times> bytes" where
  "getchar [] = (None, [])"
| "getchar (c # cs) = (Some c, cs)"

text \<open>\<open>getMsgId\<close>: digits, accumulated in 16 bits; the character behind them is put back.\<close>

fun read_decimal :: "16 word \<Rightarrow> bytes \<Rightarrow> 16 word \<times> bytes" where
  "read_decimal result [] = (result, [])"
| "read_decimal result (c # cs) =
     (if is_digit c then read_decimal (result * 10 + word_of_int (ord c) - 48) cs else (result, c # cs))"

definition server_getMsgId :: "bytes \<Rightarrow> 16 word \<times> bytes" where
  "server_getMsgId inp = read_decimal 0 inp"

definition buildConfirmMsg :: "16 word \<Rightarrow> bytes" where
  "buildConfirmMsg ref_msg_id = [CHR 0x00] @ id_octets ref_msg_id"

definition buildPingMsg :: "16 word \<Rightarrow> bytes" where
  "buildPingMsg n = [CHR 0xFD] @ id_octets n"

definition buildTooLongMsg :: bytes where
  "buildTooLongMsg = replicate (UDP_MAX_MSG_SIZE + 1) CHR ''a''"

definition server_buildByeMsg :: "16 word \<Rightarrow> bytes" where
  "server_buildByeMsg n = [CHR 0xFF] @ id_octets n @ ''server_display_name'' @ [CHR 0x00]"

definition server_buildErrMsg :: "16 word \<Rightarrow> bytes" where
  "server_buildErrMsg n =
     [CHR 0xFE] @ id_octets n @ ''server_display_name'' @ [CHR 0x00] @ ''server err msg content.'' @ [CHR 0x00]"

definition server_buildMsgMsg :: "16 word \<Rightarrow> bytes" where
  "server_buildMsgMsg n =
     [CHR 0x04] @ id_octets n @ ''server_display_name'' @ [CHR 0x00] @ ''server msg msg content.'' @ [CHR 0x00]"

text \<open>\<open>buildReplyMsg\<close> reads the result and the reference itself; a missing blank fails an assertion.\<close>

definition server_buildReplyMsg :: "16 word \<Rightarrow> bytes \<Rightarrow> (bytes \<times> bytes) option" where
  "server_buildReplyMsg n inp = (case getchar inp of (c1, in1) \<Rightarrow>
     if c1 \<noteq> Some CHR '' '' then None
     else (case getchar in1 of (c2, in2) \<Rightarrow> (case getchar in2 of (c3, in3) \<Rightarrow>
       if c3 \<noteq> Some CHR '' '' then None
       else (case server_getMsgId in3 of (ref, in4) \<Rightarrow>
         Some ([CHR 0x01] @ id_octets n @ [if c2 = Some CHR ''0'' then CHR 0x00 else CHR 0x01] @ id_octets ref
               @ ''reply msg content.'' @ [CHR 0x00], in4)))))"

section \<open>Printing\<close>

text \<open>
  A message is an array in which a NUL follows the message itself: \<open>octet\<close> reads an element,
  \<open>c_string\<close> what \<open>printVariableLengthData\<close> prints from a position on.
\<close>

definition octet :: "bytes \<Rightarrow> nat \<Rightarrow> char" where
  "octet m i = (if i < length m then m ! i else CHR 0x00)"

definition c_string :: "bytes \<Rightarrow> nat \<Rightarrow> bytes" where
  "c_string m i = takeWhile (\<lambda>c. c \<noteq> CHR 0x00) (drop i m)"

definition server_getMessageId :: "bytes \<Rightarrow> nat \<Rightarrow> bytes" where
  "server_getMessageId m i = dec (unat (octets_id (octet m (i + 1)) (octet m (i + 2))))"

definition printMsg :: "bytes \<Rightarrow> bool \<Rightarrow> bytes" where
  "printMsg m is_client_msg = (if is_client_msg then ''C: '' else ''S: '') @
     (let t = ord (octet m 0); n = server_getMessageId m 0;
          a = c_string m 3; b = c_string m (3 + length a + 1); c = c_string m (3 + length a + 1 + length b + 1)
      in if t = 0x00 then ''CONFIRM: '' @ n @ [newline]
         else if t = 0x01 then ''REPLY: '' @ n @ (if octet m 3 \<noteq> CHR 0x00 then '' OK '' else '' NOK '')
           @ server_getMessageId m 3 @ '' IS '' @ c_string m 6 @ [newline]
         else if t = 0x02 then ''AUTH: '' @ n @ '' '' @ a @ '' AS '' @ b @ '' USING '' @ c @ [newline]
         else if t = 0xFE then ''ERR: '' @ n @ '' FROM '' @ a @ '' IS '' @ b @ [newline]
         else if t = 0xFF then ''BYE: '' @ n @ '' FROM '' @ a @ [newline]
         else if t = 0xFD then ''PING: '' @ n @ [newline]
         else if t = 0x04 then ''MSG: '' @ n @ '' FROM '' @ a @ '' IS '' @ b @ [newline]
         else if t = 0x03 then ''JOIN: '' @ n @ '' to '' @ a @ '' AS '' @ b @ [newline]
         else [])"

section \<open>The loop\<close>

record udp_server =
  stdin_left :: bytes
  msg_from_server :: bytes
  cliaddr :: "int option"                \<comment> \<open>\<open>None\<close>: not yet filled in by \<open>recvfrom\<close>\<close>
  arrived :: "(int \<times> bytes) list"
  sent_out :: "(int \<times> bytes) list"
  stdout_text :: bytes

datatype iteration = Iterates udp_server | Blocks | Aborts | Undefined

definition start_server_program :: "bytes \<Rightarrow> udp_server" where
  "start_server_program inp = \<lparr>stdin_left = inp, msg_from_server = [], cliaddr = None, arrived = [], sent_out = [],
     stdout_text = ''Socket successfully created..'' @ [newline] @ ''Socket successfully binded..'' @ [newline]\<rparr>"

text \<open>A datagram that fills the buffer leaves no terminator behind it for the functions that print.\<close>

definition server_receive :: "udp_server \<Rightarrow> iteration" where
  "server_receive s = (case arrived s of
     [] \<Rightarrow> Blocks
   | (addr, d) # ds \<Rightarrow>
       if MAX_BUFFER_SIZE \<le> length d then Undefined
       else Iterates (s\<lparr>arrived := ds, cliaddr := Some addr, stdout_text := stdout_text s
              @ ''Waiting for client's message...'' @ [newline] @ printMsg d True\<rparr>))"

text \<open>The message of a letter; an unknown letter leaves the last message in place.\<close>

definition build_message :: "char option \<Rightarrow> udp_server \<Rightarrow> udp_server option" where
  "build_message letter s =
     (let (n, rest) = server_getMsgId (stdin_left s);
          built = (\<lambda>m. Some (s\<lparr>stdin_left := rest, msg_from_server := m\<rparr>))
      in if letter = Some CHR ''c'' then built (buildConfirmMsg n)
         else if letter = Some CHR ''b'' then built (server_buildByeMsg n)
         else if letter = Some CHR ''r'' then map_option (\<lambda>(m, i). s\<lparr>stdin_left := i, msg_from_server := m\<rparr>) (server_buildReplyMsg n rest)
         else if letter = Some CHR ''e'' then built (server_buildErrMsg n)
         else if letter = Some CHR ''t'' then Some (s\<lparr>msg_from_server := buildTooLongMsg\<rparr>)
         else if letter = Some CHR ''m'' then built (server_buildMsgMsg n)
         else if letter = Some CHR ''p'' then built (buildPingMsg n)
         else Some s)"

definition server_send :: "udp_server \<Rightarrow> iteration" where
  "server_send s = (case getchar (stdin_left s) of (letter, inp) \<Rightarrow>
     (case build_message letter (s\<lparr>stdin_left := inp\<rparr>) of
        None \<Rightarrow> Aborts
      | Some s' \<Rightarrow> (case cliaddr s' of
            None \<Rightarrow> Undefined
          | Some addr \<Rightarrow>
              if msg_from_server s' = [] then Undefined
              else Iterates (s'\<lparr>sent_out := sent_out s' @ [(addr, msg_from_server s')],
                     stdout_text := stdout_text s' @ printMsg (msg_from_server s') False\<rparr>))))"

definition server_iteration :: "udp_server \<Rightarrow> iteration" where
  "server_iteration s = (case getchar (stdin_left s) of (c, inp) \<Rightarrow>
     if c \<noteq> Some CHR ''s'' then server_receive (s\<lparr>stdin_left := inp\<rparr>)
     else server_send (s\<lparr>stdin_left := inp\<rparr>))"

section \<open>The commands\<close>

text \<open>Digits are read as their number modulo 65536.\<close>

lemma read_decimal_digits:
  assumes "list_all is_digit ds" "rest = [] \<or> \<not> is_digit (hd rest)"
  shows "read_decimal (word_of_int k) (ds @ rest) = (word_of_int (foldl (\<lambda>n c. 10 * n + (ord c - 48)) k ds), rest)"
  using assms(1)
proof (induction ds arbitrary: k)
  case Nil
  then show ?case using assms(2) by (cases rest) auto
next
  case (Cons c ds)
  have "word_of_int k * 10 + word_of_int (ord c) - 48 = (word_of_int (10 * k + (ord c - 48)) :: 16 word)"
    by (simp add: algebra_simps)
  moreover have "is_digit c" using Cons.prems by simp
  ultimately have "read_decimal (word_of_int k) ((c # ds) @ rest) = read_decimal (word_of_int (10 * k + (ord c - 48))) (ds @ rest)"
    by (simp only: append_Cons read_decimal.simps if_True)
  also have "\<dots> = (word_of_int (foldl (\<lambda>n c. 10 * n + (ord c - 48)) (10 * k + (ord c - 48)) ds), rest)"
    by (rule Cons.IH) (use Cons.prems in simp)
  finally show ?case by simp
qed

lemma getMsgId_dec:
  assumes "rest = [] \<or> \<not> is_digit (hd rest)"
  shows "server_getMsgId (dec k @ rest) = (of_nat k, rest)"
  using read_decimal_digits [OF _ assms, of "dec k" 0] dec_digits [of k] decimal_dec [of k]
  by (simp add: server_getMsgId_def decimal_def)

lemma buildReplyMsg_dec:
  assumes "rest = [] \<or> \<not> is_digit (hd rest)"
  shows "server_buildReplyMsg n ('' '' @ [c] @ '' '' @ dec k @ rest) =
    Some ([CHR 0x01] @ id_octets n @ [if c = CHR ''0'' then CHR 0x00 else CHR 0x01] @ id_octets (of_nat k)
      @ ''reply msg content.'' @ [CHR 0x00], rest)"
  by (simp add: server_buildReplyMsg_def getMsgId_dec [OF assms])

text \<open>The datagrams are those of the harness's encoders.\<close>

lemma server_encodes:
  "bye (uint n) (lit ''server_display_name'') = Inr (server_buildByeMsg n)"
  "err (uint n) (lit ''server_display_name'') (lit ''server err msg content.'') = Inr (server_buildErrMsg n)"
  "msg (uint n) (lit ''server_display_name'') (lit ''server msg msg content.'') = Inr (server_buildMsgMsg n)"
  "ping (uint n) = Inr (buildPingMsg n)" "confirm (id_octets n) = buildConfirmMsg n"
proof -
  have id: "to_bytes2 (uint n) = Inr (id_octets n)" for n :: "16 word"
    using uint_lt2p [of n] by (simp add: to_bytes2_def id_octets_def)
  have texts: "encode (lit ''server_display_name'') = Inr ''server_display_name''"
    "encode (lit ''server err msg content.'') = Inr ''server err msg content.''"
    "encode (lit ''server msg msg content.'') = Inr ''server msg msg content.''"
    by code_simp+
  show "bye (uint n) (lit ''server_display_name'') = Inr (server_buildByeMsg n)"
    "err (uint n) (lit ''server_display_name'') (lit ''server err msg content.'') = Inr (server_buildErrMsg n)"
    "msg (uint n) (lit ''server_display_name'') (lit ''server msg msg content.'') = Inr (server_buildMsgMsg n)"
    "ping (uint n) = Inr (buildPingMsg n)" "confirm (id_octets n) = buildConfirmMsg n"
    by (simp_all add: bye_def err_def msg_def ping_def confirm_def zstring_def id texts server_buildByeMsg_def
        server_buildErrMsg_def server_buildMsgMsg_def buildPingMsg_def buildConfirmMsg_def)
qed

definition answered :: "udp_server \<Rightarrow> int \<Rightarrow> bytes \<Rightarrow> bytes \<Rightarrow> iteration" where
  "answered s addr d rest = Iterates (s\<lparr>stdin_left := rest, msg_from_server := d, sent_out := sent_out s @ [(addr, d)],
     stdout_text := stdout_text s @ printMsg d False\<rparr>)"

lemma server_command:
  assumes "cliaddr s = Some addr" "build_message (Some c) (s\<lparr>stdin_left := inp\<rparr>) = Some (s\<lparr>stdin_left := rest, msg_from_server := d\<rparr>)"
    and "d \<noteq> []"
  shows "server_iteration (s\<lparr>stdin_left := ''s'' @ [c] @ inp\<rparr>) = answered s addr d rest"
  using assms by (simp add: server_iteration_def server_send_def answered_def)

text \<open>
  C31. The commands of the pseudo-server. Once a client is known, \<open>s\<close>, a letter and a decimal number of any length send
  exactly the datagram that the harness's encoder builds for that message type with the number modulo 65536 as
  identifier, and leave what follows the number unread; for a reply, a blank, the result, a blank and the reference follow.
\<close>

theorem pseudo_udp_commands:
  assumes "cliaddr s = Some addr" "rest = [] \<or> \<not> is_digit (hd rest)" "n = (of_nat k :: 16 word)"
  shows "server_iteration (s\<lparr>stdin_left := ''sc'' @ dec k @ rest\<rparr>) = answered s addr (confirm (id_octets n)) rest
    \<and> (\<exists>d. ping (uint n) = Inr d \<and> server_iteration (s\<lparr>stdin_left := ''sp'' @ dec k @ rest\<rparr>) = answered s addr d rest)
    \<and> (\<exists>d. bye (uint n) (lit ''server_display_name'') = Inr d
          \<and> server_iteration (s\<lparr>stdin_left := ''sb'' @ dec k @ rest\<rparr>) = answered s addr d rest)
    \<and> (\<exists>d. err (uint n) (lit ''server_display_name'') (lit ''server err msg content.'') = Inr d
          \<and> server_iteration (s\<lparr>stdin_left := ''se'' @ dec k @ rest\<rparr>) = answered s addr d rest)
    \<and> (\<exists>d. msg (uint n) (lit ''server_display_name'') (lit ''server msg msg content.'') = Inr d
          \<and> server_iteration (s\<lparr>stdin_left := ''sm'' @ dec k @ rest\<rparr>) = answered s addr d rest)
    \<and> (\<exists>d. reply (uint n) (if r = CHR ''0'' then 0 else 1) (id_octets (of_nat ref)) (lit ''reply msg content.'') = Inr d
          \<and> server_iteration (s\<lparr>stdin_left := ''sr'' @ dec k @ '' '' @ [r] @ '' '' @ dec ref @ rest\<rparr>) = answered s addr d rest)"
proof -
  note id = getMsgId_dec [OF assms(2), of k, folded assms(3)]
  let ?reply = "[CHR 0x01] @ id_octets n @ [if r = CHR ''0'' then CHR 0x00 else CHR 0x01] @ id_octets (of_nat ref)
      @ ''reply msg content.'' @ [CHR 0x00]"
  have "to_bytes2 (uint n) = Inr (id_octets n)" using uint_lt2p [of n] by (simp add: to_bytes2_def id_octets_def)
  moreover have "encode (lit ''reply msg content.'') = Inr ''reply msg content.''" by code_simp
  ultimately have reply: "reply (uint n) (if r = CHR ''0'' then 0 else 1) (id_octets (of_nat ref)) (lit ''reply msg content.'')
      = Inr ?reply"
    by (simp add: reply_def zstring_def bytes1_def chr8_def char_of_eq_iff)
  have "server_getMsgId (dec k @ '' '' @ [r] @ '' '' @ dec ref @ rest) = (n, '' '' @ [r] @ '' '' @ dec ref @ rest)"
    using getMsgId_dec [of "'' '' @ [r] @ '' '' @ dec ref @ rest" k] assms(3) by (simp add: is_digit_def ord_def)
  then have "server_iteration (s\<lparr>stdin_left := ''s'' @ [CHR ''r''] @ dec k @ '' '' @ [r] @ '' '' @ dec ref @ rest\<rparr>) = answered s addr ?reply rest"
    by (intro server_command [OF assms(1)])
       (simp_all add: build_message_def buildReplyMsg_dec [OF assms(2), of n r ref, simplified])
  moreover have "server_iteration (s\<lparr>stdin_left := ''s'' @ [c] @ dec k @ rest\<rparr>) = answered s addr d rest"
    if "c = CHR ''c'' \<and> d = buildConfirmMsg n \<or> c = CHR ''p'' \<and> d = buildPingMsg n \<or> c = CHR ''b'' \<and> d = server_buildByeMsg n
      \<or> c = CHR ''e'' \<and> d = server_buildErrMsg n \<or> c = CHR ''m'' \<and> d = server_buildMsgMsg n" for c d
    using that id
    by (intro server_command [OF assms(1)])
       (auto simp: build_message_def buildConfirmMsg_def buildPingMsg_def server_buildByeMsg_def server_buildErrMsg_def server_buildMsgMsg_def)
  ultimately show ?thesis using reply server_encodes [of n] by simp
qed

theorem pseudo_udp_commands_witness:
  "server_iteration ((start_server_program [])\<lparr>cliaddr := Some 50000, stdin_left := ''sc'' @ dec 65537 @ ''a''\<rparr>)
   = answered ((start_server_program [])\<lparr>cliaddr := Some 50000\<rparr>) 50000 (confirm (id_octets 1)) ''a''"
proof -
  have "''a'' = [] \<or> \<not> is_digit (hd ''a'')" by (simp add: is_digit_def ord_def)
  moreover have "(1 :: 16 word) = of_nat 65537" by simp
  ultimately show ?thesis
    using pseudo_udp_commands [of "(start_server_program [])\<lparr>cliaddr := Some 50000\<rparr>" 50000 "''a''" 1 65537] by simp
qed

section \<open>The server and the client\<close>

text \<open>
  One of the two programs moves at a time: the server runs an iteration of its loop, or something happens to
  the client. A datagram is handled by the client when it is sent; those of the client queue up at the
  server. A move that would block, abort or be undefined is not possible.
\<close>

record bench =
  b_server :: udp_server
  b_client :: client
  b_exit :: "int option"
  b_out :: bytes

datatype move = Server | User bytes | Timeout | Interrupt

fun client_effect :: "action \<Rightarrow> bench \<Rightarrow> bench" where
  "client_effect (WriteOut t) b = b\<lparr>b_out := b_out b @ t\<rparr>"
| "client_effect (SendTo p d) b =
     b\<lparr>b_server := (b_server b)\<lparr>arrived := arrived (b_server b) @ [(client_port, d)]\<rparr>\<rparr>"
| "client_effect (Exit n) b = b\<lparr>b_exit := Some n\<rparr>"
| "client_effect _ b = b"

definition client_event :: "event \<Rightarrow> bench \<Rightarrow> bench" where
  "client_event ev b =
     (if b_exit b \<noteq> None then b
      else case chat_handle ev (b_client b) of (c, acts) \<Rightarrow> fold client_effect acts (b\<lparr>b_client := c\<rparr>))"

fun bench_move :: "move \<Rightarrow> bench \<Rightarrow> bench option" where
  "bench_move Server b = (case server_iteration (b_server b) of
     Iterates s' \<Rightarrow>
       Some (fold (\<lambda>(addr, d). client_event (EvDgram 8080 d)) (drop (length (sent_out (b_server b))) (sent_out s'))
         (b\<lparr>b_server := s'\<rparr>))
   | _ \<Rightarrow> None)"
| "bench_move (User line) b = Some (client_event (EvStdin (line @ [newline])) b)"
| "bench_move Timeout b = Some (client_event EvTimer b)"
| "bench_move Interrupt b = Some (client_event EvSigint b)"

fun bench_run :: "move list \<Rightarrow> bench \<Rightarrow> bench option" where
  "bench_run [] b = Some b"
| "bench_run (m # ms) b = Option.bind (bench_move m b) (bench_run ms)"

definition bench_start :: "bytes \<Rightarrow> bench" where
  "bench_start script = \<lparr>b_server = start_server_program script,
     b_client = Client (default_args\<lparr>m_server_port := 8080, m_server_addr := 8080\<rparr>), b_exit = None, b_out = []\<rparr>"

end
