(* ===== verification/Pseudo_Udp_Dialogues.thy ===== *)
theory Pseudo_Udp_Dialogues
  imports Pseudo_Udp_Server Evaluation
begin

text \<open>
  Dialogues of \<open>udp-test-cases\<close>, the notes on testing the client by hand: what the client does, in
  words, and what to type into the pseudo-server. Both programs are run against each other, and the client ends with
  the status that the notes give, or that the last message of the dialogue calls for.
\<close>

text \<open>Without an exchange: \<open>BYE\<close> and \<open>ERR\<close> from the server, with none, one or three retransmissions, and one too many.\<close>

definition short_dialogues :: "(move list \<times> bytes \<times> int) list" where
  "short_dialogues = [
     ([Interrupt, Server, Server], ''asc1'', 0),
     ([Interrupt, Server, Server, Server], ''asb0a'', 0),
     ([User ''/auth a b c'', Server, Server, Server], ''asb0a'', 0),
     ([User ''/auth a b c'', Server, Server, Server], ''ase0a'', 1),
     ([Interrupt, Server, Server, Server], ''ase0a'', 1),
     ([User ''/auth a b c'', Server, Timeout, Server, Server, Server], ''aasb0a'', 0),
     ([User ''/auth a b c'', Server, Timeout, Server, Timeout, Server, Timeout, Server, Server, Server],
     ''aaaase0a'', 1),
     ([User ''/auth a b c'', Server, Timeout, Server, Timeout, Server, Timeout, Server, Timeout],
     ''aaaaase0a'', 1)]"

text \<open>With replies, refused authentication, messages in both directions and their retransmission.\<close>

definition long_dialogues :: "(move list \<times> bytes \<times> int) list" where
  "long_dialogues = [
     ([User ''/auth a b c'', Server, Server, Server, Server, Interrupt, Server, Server],
     ''asc0sr0 0 0aasc2aa'', 0),
     ([User ''/auth a b c'', Server, Server, Server, Server, User ''/auth a b c'', Server, Server, Server,
     Server, Interrupt, Server, Server], ''asc0sr0 0 0aasc1sr1 1 1aasc3'', 0),
     ([User ''/auth a b c'', Server, Server, Server, Server, User ''hello'', Server, Server, Interrupt, Server,
     Server], ''asc0sr0 1 0aasc1asc3aa'', 0),
     ([User ''/auth a b c'', Server, Server, Server, Server, User ''hello'', Server, Timeout, Server, Server,
     Interrupt, Server, Server], ''asc0sr0 1 0aaasc1asc3aa'', 0),
     ([User ''/auth a b c'', Server, Server, Server, Server, Server, Server, Interrupt, Server, Server],
     ''asc0sr0 1 0asm1aasc2'', 0),
     ([User ''/auth a b c'', Server, Server, Server, Server, Server, Server, Server, Server],
     ''asc0sr0 1 0asm1ase2aa'', 1)]"

text \<open>With three requests to join, a refusal, and a message that arrives while a reply is awaited.\<close>

definition join_dialogues :: "(move list \<times> bytes \<times> int) list" where
  "join_dialogues = [
     ([User ''/auth a b c'', Server, Server, Server, Server, User ''/join x'', Server, Server, Server, Server,
     User ''/join x'', Server, Server, Server, Server, User ''/join x'', Server, Server, Server, Server,
     Server, Server, Server, Server], ''asc0sr0 1 0aasc1sr1 0 1aasc2sr2 1 2aasm3sc3asr4 0 3ase5a'', 1)]"

definition plays :: "move list \<times> bytes \<times> int \<Rightarrow> bool" where
  "plays dialogue = (case dialogue of (moves, script, status) \<Rightarrow>
     (case bench_run moves (bench_start script) of None \<Rightarrow> False | Some b \<Rightarrow> b_exit b = Some status))"

lemma short_dialogues_play: "list_all plays short_dialogues"
  by code_simp

lemma long_dialogues_play: "list_all plays long_dialogues"
  by code_simp

lemma join_dialogues_play: "list_all plays join_dialogues"
  by code_simp


end
