(* ===== verification/Pseudo_Tcp_Server.thy ===== *)
theory Pseudo_Tcp_Server
  imports Tcp_Delivery
begin

text \<open>
  The interactive TCP server \<open>tcp-serv.c\<close>: a menu that sends a typed line to the client, prints what the
  client sent, or ends. One iteration of its loop is a step on its state; what C leaves undefined (a choice
  that was never read, a write or a read behind the buffer) is a result of its own.
\<close>

section \<open>Input\<close>

definition BUFF_MAX :: nat where
  "BUFF_MAX = 89000"

text \<open>\<open>scanf("%d", &choice)\<close>: white space and a sign are consumed; without digits nothing is stored.\<close>

definition white :: "char \<Rightarrow> bool" where
  "white c \<longleftrightarrow> c = CHR '' '' \<or> 9 \<le> ord c \<and> ord c \<le> 13"

definition scanf_d :: "bytes \<Rightarrow> int option \<times> bytes" where
  "scanf_d inp =
     (let s1 = dropWhile white inp;
          (neg, s2) = (case s1 of
             c # cs \<Rightarrow> if c = CHR ''-'' then (True, cs) else if c = CHR ''+'' then (False, cs) else (False, s1)
           | [] \<Rightarrow> (False, s1));
          ds = takeWhile is_digit s2
      in if ds = [] then (None, s2)
         else (Some (if neg then - decimal ds else decimal ds), drop (length ds) s2))"

text \<open>The characters up to the end of the line; at the end of the input the loop never ends.\<close>

definition typed_line :: "bytes \<Rightarrow> (bytes \<times> bytes) option" where
  "typed_line inp = (if newline \<in> set inp
     then let line = takeWhile (\<lambda>c. c \<noteq> newline) inp in Some (line, drop (length line + 1) inp)
     else None)"

text \<open>The part of a buffer that \<open>strlen\<close> and \<open>%s\<close> see.\<close>

definition until_nul :: "bytes \<Rightarrow> bytes" where
  "until_nul b = takeWhile (\<lambda>c. c \<noteq> CHR 0x00) b"

section \<open>The loop\<close>

record tcp_server =
  t_stdin :: bytes
  t_choice :: "int option"       \<comment> \<open>\<open>None\<close>: not initialised\<close>
  t_unread :: bytes              \<comment> \<open>octets of the client that were not yet read\<close>
  t_closed :: bool               \<comment> \<open>the client has closed the connection\<close>
  t_written :: "bytes list"      \<comment> \<open>one element per \<open>write\<close>\<close>
  t_stdout :: bytes

datatype turn = Turn tcp_server | Ends tcp_server | Waits | Wrong

definition menu :: bytes where
  "menu = [newline] @ ''Choose an option:'' @ [newline] @ ''1. Send a message to the client'' @ [newline]
     @ ''2. Receive a message from the client'' @ [newline] @ ''3. Exit'' @ [newline] @ ''Enter your choice: ''"

definition tcp_server_send :: "tcp_server \<Rightarrow> turn" where
  "tcp_server_send s = (case typed_line (t_stdin s) of
     None \<Rightarrow> Wrong
   | Some (line, rest) \<Rightarrow>
       if BUFF_MAX < length line + 2 \<or> BUFF_MAX = length line + 2 \<and> CHR 0x00 \<notin> set line then Wrong
       else (let m = until_nul (line @ crlf) in
         Turn (s\<lparr>t_stdin := rest, t_written := t_written s @ [m],
           t_stdout := t_stdout s @ ''Enter the message to send: '' @ ''Message sent to client: '' @ m\<rparr>)))"

definition tcp_server_receive :: "tcp_server \<Rightarrow> turn" where
  "tcp_server_receive s =
     (if t_unread s = [] \<and> \<not> t_closed s then Waits
      else let buff = take BUFF_MAX (t_unread s) in
        if length buff = BUFF_MAX \<and> CHR 0x00 \<notin> set buff then Wrong
        else Turn (s\<lparr>t_unread := drop BUFF_MAX (t_unread s),
               t_stdout := t_stdout s @ ''Message from client: '' @ until_nul buff\<rparr>))"

definition tcp_server_turn :: "tcp_server \<Rightarrow> turn" where
  "tcp_server_turn s0 = (case scanf_d (t_stdin s0) of (v, inp) \<Rightarrow>
     (let choice = (case v of None \<Rightarrow> t_choice s0 | Some n \<Rightarrow> Some n);
          s = s0\<lparr>t_stdin := drop 1 inp, t_choice := choice, t_stdout := t_stdout s0 @ menu\<rparr>
      in case choice of
           None \<Rightarrow> Wrong
         | Some n \<Rightarrow>
             if n < - (2 ^ 31) \<or> 2 ^ 31 \<le> n then Wrong
             else if n = 1 then tcp_server_send s
             else if n = 2 then tcp_server_receive s
             else if n = 3 then Ends (s\<lparr>t_stdout := t_stdout s @ ''Server Exit...'' @ [newline], t_written := t_written s @ [''exit'']\<rparr>)
             else Turn (s\<lparr>t_stdout := t_stdout s @ ''Invalid choice! Please try again.'' @ [newline]\<rparr>)))"

fun tcp_server_turns :: "nat \<Rightarrow> tcp_server \<Rightarrow> turn" where
  "tcp_server_turns 0 s = Turn s"
| "tcp_server_turns (Suc n) s = (case tcp_server_turn s of Turn s' \<Rightarrow> tcp_server_turns n s' | t \<Rightarrow> t)"

definition tcp_server_start :: "bytes \<Rightarrow> tcp_server" where
  "tcp_server_start inp = \<lparr>t_stdin = inp, t_choice = None, t_unread = [], t_closed = False, t_written = [],
     t_stdout = ''Socket successfully created..'' @ [newline] @ ''Socket successfully binded..'' @ [newline]
       @ ''Server listening..'' @ [newline] @ ''Server accepted the client...'' @ [newline]\<rparr>"

section \<open>Sending\<close>

text \<open>What the tester types to send lines.\<close>

definition commands :: "bytes list \<Rightarrow> bytes" where
  "commands ls = concat (map (\<lambda>l. ''1'' @ [newline] @ l @ [newline]) ls)"

lemma scanf_choice: "scanf_d (''1'' @ [newline] @ t) = (Some 1, newline # t)"
  by (simp add: scanf_d_def white_def is_digit_def decimal_def newline_def ord_def)

lemma typed_line_exact: "newline \<notin> set l \<Longrightarrow> typed_line (l @ [newline] @ t) = Some (l, t)"
proof -
  assume "newline \<notin> set l"
  then have "takeWhile (\<lambda>c. c \<noteq> newline) (l @ [newline] @ t) = l" by (subst takeWhile_append2) auto
  then show ?thesis by (simp add: typed_line_def Let_def)
qed

lemma send_turn:
  assumes "t_stdin s = ''1'' @ [newline] @ l @ [newline] @ rest" "newline \<notin> set l" "length l + 2 < BUFF_MAX"
  shows "\<exists>s'. tcp_server_turn s = Turn s' \<and> t_stdin s' = rest \<and> t_written s' = t_written s @ [until_nul (l @ crlf)]"
  using assms scanf_choice [of "l @ [newline] @ rest"] typed_line_exact [OF assms(2), of rest]
  by (simp add: tcp_server_turn_def tcp_server_send_def Let_def)

lemma until_nul_line: "CHR 0x00 \<notin> set l \<Longrightarrow> until_nul (l @ crlf) = l @ crlf"
  by (auto simp: until_nul_def takeWhile_eq_all_conv crlf_def)

lemma send_lines:
  assumes "t_stdin s = commands ls @ rest"
    and "list_all (\<lambda>l. newline \<notin> set l \<and> CHR 0x00 \<notin> set l \<and> length l + 2 < BUFF_MAX) ls"
  shows "\<exists>s'. tcp_server_turns (length ls) s = Turn s' \<and> t_stdin s' = rest
    \<and> t_written s' = t_written s @ map (\<lambda>l. l @ crlf) ls"
  using assms
proof (induction ls arbitrary: s)
  case (Cons l ls)
  obtain s1 where s1: "tcp_server_turn s = Turn s1" "t_stdin s1 = commands ls @ rest"
      "t_written s1 = t_written s @ [until_nul (l @ crlf)]"
    using send_turn [of s l "commands ls @ rest"] Cons.prems by (auto simp: commands_def)
  with Cons.IH [OF s1(2)] Cons.prems(2) show ?case by (auto simp: until_nul_line)
qed (simp add: commands_def)

section \<open>Properties\<close>

text \<open>
  C32. The pseudo-server and the client together: the tester types well-formed \<open>MSG\<close> lines into the menu of the server, choosing 1
  before each. The server sends each line with its \<open>CR LF\<close> and is ready for the next choice; the open client that
  receives what was written, message by message, prints every message once, in order, and does nothing else.
\<close>

theorem pseudo_tcp_conversation:
  assumes "list_all msg_ok ms" "list_all (\<lambda>m. newline \<notin> set (line_of m)) ms"
    and "t_stdin srv = commands (map line_of ms) @ rest" "t_written srv = []"
    and "receiving s" "m_msg_from_server s = []"
  shows "\<exists>srv'. tcp_server_turns (length ms) srv = Turn srv' \<and> t_stdin srv' = rest
    \<and> feed (t_written srv') s = (Value 2, s\<lparr>emitted := emitted s @ map printed_line ms\<rparr>)"
proof -
  have "CHR 0x00 \<notin> set (line_of m)" "length (line_of m) + 2 < BUFF_MAX" if "msg_ok m" for m
    using msg_no_nul [OF that] msg_fits [OF that] by (simp_all add: BUFF_MAX_def s_MAX_MSG_SIZE_def
      s_DISPLAY_NAME_MAX_LENGTH_def s_MSG_CONTENT_MAX_LENGTH_def)
  then have "list_all (\<lambda>l. newline \<notin> set l \<and> CHR 0x00 \<notin> set l \<and> length l + 2 < BUFF_MAX) (map line_of ms)"
    using assms(1,2) by (auto simp: list_all_iff)
  from send_lines [OF assms(3) this] obtain srv' where srv': "tcp_server_turns (length ms) srv = Turn srv'" "t_stdin srv' = rest"
      "t_written srv' = map (\<lambda>m. line_of m @ crlf) ms" using assms(4) by (auto simp: o_def)
  moreover have "feed (t_written srv') s = (Value 2, s\<lparr>emitted := emitted s @ map printed_line ms\<rparr>)"
    unfolding srv'(3) by (rule feed_msgs [OF assms(5,6,1)]) (auto simp: crlf_def)
  ultimately show ?thesis by blast
qed

theorem pseudo_tcp_conversation_witness:
  "\<exists>srv'. tcp_server_turns 2 (tcp_server_start (commands (map line_of two_msgs) @ ''3'')) = Turn srv' \<and> t_stdin srv' = ''3''
    \<and> feed (t_written srv') open_client = (Value 2, open_client\<lparr>emitted := map printed_line two_msgs\<rparr>)"
proof -
  have "list_all msg_ok two_msgs"
    by (simp add: two_msgs_def msg_ok_def icase_def to_upper_table name_ok_def content_ok_def
        text_of_def printableChar_def printableCharSpaceLf_def) (simp add: ord_def)
  moreover have "list_all (\<lambda>m. newline \<notin> set (line_of m)) two_msgs"
    by (simp add: two_msgs_def line_of_def newline_def)
  moreover have "receiving open_client" "m_msg_from_server open_client = []" "emitted open_client = []" "length two_msgs = 2"
    by (simp_all add: open_client_def receiving_def Client_def default_args_def two_msgs_def)
  ultimately show ?thesis
    using pseudo_tcp_conversation [of two_msgs "tcp_server_start (commands (map line_of two_msgs) @ ''3'')" "''3''" open_client]
    by (simp add: tcp_server_start_def)
qed

text \<open>
  A line with a NUL in it is cut there, and its end is lost: the server measures what it sends with \<open>strlen\<close>, and the
  client gets neither the rest of the line nor the \<open>CR LF\<close> that ends the message.
\<close>

theorem pseudo_tcp_cuts_at_nul:
  assumes "t_stdin s = commands [a @ [CHR 0x00] @ b] @ rest" "CHR 0x00 \<notin> set a" "newline \<notin> set (a @ b)"
    and "length a + length b + 3 < BUFF_MAX"
  shows "\<exists>s'. tcp_server_turn s = Turn s' \<and> t_stdin s' = rest \<and> t_written s' = t_written s @ [a]"
proof -
  have "until_nul ((a @ [CHR 0x00] @ b) @ crlf) = a" using assms(2) unfolding until_nul_def append_assoc by (subst takeWhile_append2) auto
  with send_turn [of s "a @ [CHR 0x00] @ b" rest] assms show ?thesis by (auto simp: commands_def newline_def)
qed

end
