(* ===== verification/Spec2Isabelle.thy ===== *)
theory Spec2Isabelle
  imports Codec Adequacy Stream_Script Tcp_Invariant Udp_Invariant Udp_Laws Client_Args Pty_Reader Suite_Runs Rejection
    Client_Boot Pseudo_Udp_Dialogues Pseudo_Tcp_Server
begin

text \<open>
  \<^bold>\<open>The program.\<close> The repository holds an IPK25-CHAT client in C++ (\<open>src/src\<close>,
  \<open>src/include\<close>) and the Python harness that tests it: \<open>testo.py\<close> with its helpers
  \<open>UDPMessages.py\<close> and \<open>UDPTranslator.py\<close> (\<open>src/malashchuk-hobza-tests\<close>), and the
  older \<open>hobza.py\<close> with its own copies (\<open>src/hobza-tests\<close>), and the interactive script
  \<open>test-tcp-stream.py\<close>; and two interactive servers in C++ and C (\<open>src/pseudo-servers\<close>). This library models the Python harness completely for Linux, and its readers for macOS, with the
  client as a parameter, the record \<open>program\<close>, so that what is proved of the harness holds for every
  client; it models the C++ client as one such program, and the two interactive servers.

  \<^bold>\<open>How the parts interact.\<close> A test case drives an \<open>ExecutableTester\<close>: it starts a UDP or TCP
  server on the loopback interface, runs the client as a child process, writes lines to its
  standard input, exchanges messages with it, and reads what two reader threads collected from
  its output. The encoders of \<open>UDPMessages.py\<close> build the datagrams the server sends,
  \<open>translateMessage\<close> renders received ones as text. The decorator \<open>testcase\<close> registers a test
  case by its name and turns it into a function that gives a verdict and cleans up;
  \<open>run_tests\<close> runs the registered ones and counts; the main program reads the command line.

  \<^bold>\<open>Theories.\<close>
  \<^item> \<open>Prelude\<close>: octets, code points, exceptions, the error monad.
  \<^item> \<open>Py_Text\<close>: what the sources use of Python's text and integers (UTF-8, \<open>to_bytes\<close>,
    \<open>split\<close>, \<open>join\<close>, \<open>lower\<close>, \<open>strip\<close>, \<open>count\<close>).
  \<^item> \<open>UDP_Messages\<close>, \<open>UDP_Translator\<close>: the two helper files, one definition per function; the
    locale \<open>wire_field\<close> is the contract between a writer and a reader of a field.
  \<^item> \<open>Codec\<close>: the encoders and the decoder together.
  \<^item> \<open>World\<close>: the state: the attributes of \<open>ExecutableTester\<close>, the child process, sockets,
    clock, console; the monad of harness code (return, raise, or block for ever).
  \<^item> \<open>Os\<close>: reader threads, delivery of events to the child and of its actions, time, socket
    calls; the locales \<open>child_invariant\<close> and \<open>child_frame\<close> say what running the child keeps.
  \<^item> \<open>Executable_Tester\<close>: the class, one definition per method. \<open>Tester_Laws\<close>: its laws.
  \<^item> \<open>Test_Runner\<close>: decorator, registry, \<open>run_tests\<close>, command line.
    \<open>Test_Runner_Idioms\<close>: expressions the test cases share.
  \<^item> \<open>Testo_Udp_Cases\<close>, \<open>Testo_Tcp_Cases\<close>, \<open>Hobza_Cases\<close>: all test cases, one definition
    each, under the name of the function (prefix \<open>hobza_\<close> for the older file; \<open>_again\<close> for the
    second definition of a repeated name).
  \<^item> \<open>Harness_Logic\<close>: triples for harness code and the contract \<open>udp_harness\<close>/\<open>tcp_harness\<close> of
    the tester's methods. \<open>Tester_Frames\<close>: its instances. \<open>Case_Discipline\<close>: every test case
    meets the contract.
  \<^item> \<open>Runner_Laws\<close>: decorator, counting, command line (locale \<open>reporter\<close>). \<open>Suite_Laws\<close>: both
    suites (locale \<open>suite\<close>). \<open>Adequacy\<close>, \<open>Rejection\<close>: what a pass says about the client,
    in one test case and in all of them.
  \<^item> \<open>Independence\<close>: no test case can tell what ran before it; a run is the sequence of the verdicts that the
    test cases have on their own (locale \<open>uniform_suite\<close>, which extends \<open>suite\<close>).
  \<^item> \<open>Pty_Reader\<close>: the threads that read the client's output on macOS, as a machine of interleaved steps.

  \<^bold>\<open>Theories of the client.\<close> A method is a function on the object that returns or throws; what it
  prints, sends or asks of the kernel is appended to \<open>emitted\<close>.
  \<^item> \<open>Client_Base\<close>: \<open>args.cpp\<close>, the enumerations, the attributes, the monad of methods, the base class
    \<open>client.cpp\<close>; the virtual methods are the record \<open>client_class\<close>.
  \<^item> \<open>Tcp_Client\<close>, \<open>Udp_Client\<close>: \<open>tcp-client.cpp\<close> and \<open>udp-client.cpp\<close>, one definition per method.
  \<^item> \<open>Chat_Client\<close>: \<open>Client::create\<close>, the event loop, \<open>main\<close>; the program \<open>ipk25chat\<close>.
  \<^item> \<open>Client_Boot\<close>: constructors, destructor, waiting and the handlers of \<open>main\<close> with a kernel and an allocator
    that may refuse; \<open>Chat_Client\<close> is the case in which they do not.
  \<^item> \<open>Client_Args\<close>: the command line. \<open>Client_Text\<close>: lengths, character classes, regular
    expressions. \<open>Client_Commands\<close>: the grammar of user input.
  \<^item> \<open>Tcp_Stream\<close>, \<open>Tcp_Delivery\<close>: reassembly of the stream and the messages in it. \<open>Stream_Script\<close>:
    the interactive script and its conversation with the client.
  \<^item> \<open>Client_Invariants\<close>: reachable states of the event loop, and the contracts \<open>client_preserved\<close> and
    \<open>client_invariant\<close>; \<open>Tcp_Invariant\<close> and \<open>Udp_Invariant\<close> interpret them on the two classes.
  \<^item> \<open>Udp_Laws\<close>: retransmission, delivery, replies, agreement with the harness's codec.
  \<^item> \<open>Stage\<close>: the harness and a client on one stage, and the contract \<open>staging\<close> under which each operation
    of the harness is a step; \<open>Udp_Stage\<close> and \<open>Tcp_Stage\<close> interpret it on the worlds of the two protocols.
    \<open>Closed_Loop\<close>, \<open>Tcp_Loop\<close>: the handshake and exchanges of the harness with the client over UDP and TCP;
    \<open>Tcp_Limits\<close>: the test cases with messages of 60000 octets.
  \<^item> \<open>Evaluation\<close>: equations that make evaluation in the logic fast, and the beginnings the test cases share;
    \<open>Testo_Udp_Verdicts\<close>, \<open>Testo_Tcp_Verdicts\<close>, \<open>Hobza_Verdicts\<close>: the verdict of each test case on the client;
    \<open>Suite_Runs\<close>: full runs of the two suites on the client.
  \<^item> \<open>Pseudo_Udp_Server\<close>, \<open>Pseudo_Tcp_Server\<close>: the interactive servers, an iteration of their loops as a step on
    their state; \<open>Pseudo_Udp_Dialogues\<close>: the dialogues noted in \<open>udp-test-cases\<close>, with the client.

  \<^bold>\<open>What is shown of the harness.\<close> The encoders and the decoder are inverse where they should be, and exactly
  when they raise. Under UDP receiving ends by its deadline and the UDP suites end with a summary
  against every client; under TCP the timeout has no effect and a silent client blocks the run. A
  decorated test case passes exactly when its body returns, and leaves no process, server or
  bound port behind. The outcome of a test case depends on the client program alone, so a full run gives each
  test case the verdict it has on its own. What \<open>receive_message\<close> returns has the type its callers expect. The runner counts what the test cases returned; the command line is parsed
  back from its settings. A pass of \<open>udp_auth\<close> can only be earned by the right datagram, and a client that never
  authenticates, whatever else it does, passes none of the test cases but sixteen that are listed by name.
  The theorems also settle some defects: unregistered test cases that cannot fail, a test case
  shadowed by its namesake, an exit status that ignores failures, a green summary for an empty run, and on
  macOS a standard error that is never read and a reader that stops at a divided character.

  \<^bold>\<open>What is shown of the client.\<close> User input is understood exactly by its grammar. The TCP client acts
  on the octets of the stream, not on its segments, prints every message in order, and in its reachable
  states has at most one request outstanding and a bounded buffer. The UDP client sends the
  datagrams the harness's encoders make, prints each message once and confirms every copy, sends an
  unconfirmed message again a bounded number of times, and stays silent but for confirmations once
  it closes. With the client as its executable, both suites
  end with all test cases passed: 76 of \<open>testo.py\<close> and 39 of \<open>hobza.py\<close>, for every resolver that knows
  \<open>localhost\<close> and every starting world without bound sockets. Defects that the theorems settle: the length check of display names is a shift,
  the size limit of UDP messages is too small, a reply is not recognised after the identifier wraps
  around, a late reply cancels a retransmission, and a missing \<open>-s\<close> crashes. With any kernel the client makes the
  calls of its start in order and reports the first that fails.

  \<^bold>\<open>What is shown of the interactive servers.\<close> The commands of the UDP server send what the harness's encoders make,
  with identifiers modulo 65536; its documented dialogues go as written with the client. Lines typed into the TCP server reach
  the client and are printed in order; a line with a NUL is cut there.

  \<^bold>\<open>Conventions and bounds.\<close> Time is in milliseconds, and a message handed to the kernel is
  handled by the child at once; there is one child at a time. Waiting is a total function because
  each wake-up moves the clock. A blocking \<open>recv\<close> on the TCP connection has no deadline in the
  code: the model follows the child through \<open>recv_rounds\<close> = 10000 wake-ups, which is more than
  ten seconds of a busy child and more than any test case waits, and then says that it blocks.

  The client's identifiers, ports, timeouts and counts are words of their width; its regular
  expressions are matched exactly (their classes exclude what follows, so the longest run is the
  only choice). The loops of the client are total: each takes octets out of a buffer.

  On macOS a piece that \<open>os.read\<close> returns may have any size up to 1024; the theorems hold for all of them.
  The verdicts of the test cases are computed in the logic, by rewriting, in the world at time 0 with
  nothing printed; that they hold in all worlds is a theorem of \<open>Independence\<close>.

  \<^bold>\<open>Not modelled.\<close> In the harness: on macOS the test cases themselves (their world is that of Linux) and what a
  reader thread does after \<open>teardown\<close>; the echo of
  \<open>-d\<close> (its flag is parsed). In the client: calls of \<open>send\<close>, \<open>recv\<close>, \<open>timerfd_settime\<close> and \<open>epoll_ctl\<close> that
  fail once the event loop runs, allocation failures after the start, the stack
  that \<open>std::regex\<close> needs for very long texts; name resolution is a parameter. In the interactive servers: socket calls that
  fail. The two Python files share the code of the tester and the runner; where they are the same there is one
  definition, and where they differ the older one has the prefix \<open>hobza_\<close>.
\<close>

end
